(* ===== verification/FV_Prelude.thy ===== *)
theory FV_Prelude
  imports Complex_Main "HOL-Library.AList" "HOL-Library.Word" "HOL-Library.Multiset"
    "HOL-Library.Sublist" "HOL-Library.List_Lexorder" "HOL-Library.Char_ord"
begin

text \<open>
  The shared layer of the development: the integer and time types of Go as the program
  uses them, association lists for Go maps, the generic list lemmas the components need,
  and the collections of rewrite rules that carry the component proofs.

  \<^item> \<open>time\<close> is an instant in nanoseconds since Go's zero \<open>time.Time\<close>, so \<open>0\<close> is the value
    for which \<open>IsZero\<close> holds; \<open>UTC()\<close> changes only the displayed location and is the identity;
  \<^item> \<open>duration\<close> is a \<open>time.Duration\<close>, a signed 64-bit count of nanoseconds; \<open>s64\<close> is the
    wrap-around of a signed 64-bit operation and is written where the code computes one;
  \<^item> unsigned 64-bit counters are \<open>64 word\<close>;
  \<^item> a Go map is an association list with distinct keys (\<open>wf_map\<close>), read with \<open>map_of\<close>
    and written with \<open>AList.update\<close> and \<open>AList.delete\<close>. The order of the list stands for
    one iteration order of the map.
\<close>

named_theorems handler_defs \<open>unfolding rules of the operations of a component\<close>
named_theorems frame \<open>what an operation leaves unchanged\<close>
named_theorems inv_intros \<open>what an operation keeps of an invariant\<close>

type_synonym time = int
type_synonym duration = int
type_synonym u64 = "64 word"
type_synonym 'v gomap = "(string \<times> 'v) list"

section \<open>Signed 64-bit integers, instants and durations\<close>

definition max_int64 :: int where
  "max_int64 = 9223372036854775807"

definition min_int64 :: int where
  "min_int64 = - 9223372036854775808"

definition s64 :: "int \<Rightarrow> int" where
  "s64 x = (x + 9223372036854775808) mod 18446744073709551616 - 9223372036854775808"

definition is_int64 :: "int \<Rightarrow> bool" where
  "is_int64 x \<longleftrightarrow> min_int64 \<le> x \<and> x \<le> max_int64"

lemma s64_id [simp]: "is_int64 x \<Longrightarrow> s64 x = x"
  by (simp add: is_int64_def s64_def min_int64_def max_int64_def)

lemma is_int64_s64 [simp]: "is_int64 (s64 x)"
proof -
  have "0 \<le> (x + 9223372036854775808) mod 18446744073709551616"
    and "(x + 9223372036854775808) mod 18446744073709551616 < 18446744073709551616"
    by simp_all
  then show ?thesis
    by (simp add: is_int64_def s64_def min_int64_def max_int64_def)
qed

text \<open>Go's \<open>/\<close> truncates towards zero.\<close>

definition go_quot :: "int \<Rightarrow> int \<Rightarrow> int" where
  "go_quot x y = (let q = \<bar>x\<bar> div \<bar>y\<bar> in if (x < 0) = (y < 0) then q else - q)"

lemma go_quot_nonneg: "0 \<le> a \<Longrightarrow> 0 < b \<Longrightarrow> go_quot a b = a div b"
  by (simp add: go_quot_def)

text \<open>\<open>time.Time.Sub\<close> saturates at the ends of the duration range.\<close>

definition time_sub :: "time \<Rightarrow> time \<Rightarrow> duration" where
  "time_sub a b = max min_int64 (min max_int64 (a - b))"

definition time_is_zero :: "time \<Rightarrow> bool" where
  "time_is_zero t \<longleftrightarrow> t = 0"

definition nanosecond :: duration where "nanosecond = 1"
definition millisecond :: duration where "millisecond = 1000000"
definition second :: duration where "second = 1000000000"
definition minute :: duration where "minute = 60 * second"
definition hour :: duration where "hour = 60 * minute"

lemmas duration_units = second_def minute_def hour_def millisecond_def nanosecond_def

section \<open>Maps as association lists\<close>

abbreviation map_keys :: "'v gomap \<Rightarrow> string list" where
  "map_keys m \<equiv> map fst m"

definition wf_map :: "'v gomap \<Rightarrow> bool" where
  "wf_map m \<longleftrightarrow> distinct (map_keys m)"

lemma wf_map_Nil [simp]: "wf_map []"
  by (simp add: wf_map_def)

lemma wf_map_update [simp, intro]: "wf_map m \<Longrightarrow> wf_map (AList.update k v m)"
  by (simp add: wf_map_def distinct_update)

lemma wf_map_delete [simp, intro]: "wf_map m \<Longrightarrow> wf_map (AList.delete k m)"
  by (simp add: wf_map_def distinct_delete)

lemma wf_map_filter [simp, intro]: "wf_map m \<Longrightarrow> wf_map (filter P m)"
  by (simp add: wf_map_def distinct_map_filter)

lemma wf_map_map_val [simp]: "wf_map (map (\<lambda>(k, v). (k, f k v)) m) = wf_map m"
  by (simp add: wf_map_def comp_def case_prod_beta)

lemma map_of_eq_mem: "wf_map m \<Longrightarrow> map_of m k = Some v \<longleftrightarrow> (k, v) \<in> set m"
  by (simp add: wf_map_def)

lemma map_of_map_val: "map_of (map (\<lambda>(k, v). (k, f k v)) m) k = map_option (f k) (map_of m k)"
  by (induction m) auto

lemma map_of_filter_wf:
  "wf_map m \<Longrightarrow> map_of (filter (\<lambda>(k, v). P k v) m) k
     = (case map_of m k of None \<Rightarrow> None | Some v \<Rightarrow> if P k v then Some v else None)"
proof (induction m)
  case (Cons a m)
  obtain k' v' where [simp]: "a = (k', v')" by (cases a)
  from Cons.prems have "k' \<notin> fst ` set m" and wf: "wf_map m"
    by (simp_all add: wf_map_def)
  then have "map_of m k' = None" by (simp add: map_of_eq_None_iff)
  then show ?case using Cons.IH [OF wf] by (auto split: option.splits)
qed simp

lemma map_of_None_notin: "map_of m k = None \<longleftrightarrow> k \<notin> set (map_keys m)"
  by (simp add: map_of_eq_None_iff)

lemma update_fresh: "k \<notin> set (map_keys m) \<Longrightarrow> AList.update k v m = m @ [(k, v)]"
  by (induction m) auto

lemma update_length:
  "length (AList.update k v m) = (if k \<in> set (map_keys m) then length m else Suc (length m))"
  by (induction m) auto

lemma delete_length_less: "k \<in> set (map_keys m) \<Longrightarrow> length (AList.delete k m) < length m"
proof (induction m)
  case (Cons a m)
  have "length (AList.delete k m) \<le> length m" by (rule length_delete_le)
  with Cons show ?case by (cases a) auto
qed simp

lemma set_keys_update: "set (map_keys (AList.update k v m)) = insert k (set (map_keys m))"
  by (induction m) auto

lemma set_keys_delete: "set (map_keys (AList.delete k m)) = set (map_keys m) - {k}"
  by (induction m) auto

lemma set_update_subset: "set (AList.update k v m) \<subseteq> insert (k, v) (set m)"
  by (induction m) auto

lemma set_delete_subset: "set (AList.delete k m) \<subseteq> set m"
  by (induction m) auto

section \<open>Bounded suffixes\<close>

text \<open>The last \<open>n\<close> elements of a list, the shape of every bounded history in the program.\<close>

definition take_last :: "nat \<Rightarrow> 'a list \<Rightarrow> 'a list" where
  "take_last n xs = drop (length xs - n) xs"

lemma length_take_last [simp]: "length (take_last n xs) = min n (length xs)"
  by (simp add: take_last_def)

lemma take_last_id: "length xs \<le> n \<Longrightarrow> take_last n xs = xs"
  by (simp add: take_last_def)

lemma take_last_suffix: "suffix (take_last n xs) xs"
  by (simp add: take_last_def suffix_drop)

lemma take_last_append_take_last:
  "take_last n (take_last n xs @ ys) = take_last n (xs @ ys)"
proof (cases "length xs \<le> n")
  case True
  then show ?thesis by (simp add: take_last_id)
next
  case False
  then have "drop (length xs - n) xs @ ys = drop (length xs - n) (xs @ ys)"
    by simp
  then show ?thesis using False by (simp add: take_last_def add.commute)
qed

section \<open>Sorting\<close>

text \<open>Sorting by a key that is unique does not depend on the order of the input.\<close>

lemma sort_key_unique:
  fixes k :: "'a \<Rightarrow> 'b::linorder"
  assumes "mset xs = mset ys" "distinct (map k xs)"
  shows "sort_key k xs = sort_key k ys"
proof -
  have "set xs = set ys" using assms(1) by (rule mset_eq_setD)
  moreover have "distinct (map k ys)" using assms by (metis mset_eq_imp_distinct_iff mset_map)
  ultimately have "map k (sort_key k xs) = map k (sort_key k ys)"
    using assms(2) by (intro sorted_distinct_set_unique) (simp_all add: distinct_map)
  moreover have "inj_on k (set (sort_key k xs) \<union> set (sort_key k ys))"
    using assms(2) \<open>set xs = set ys\<close> by (simp add: distinct_map)
  ultimately show ?thesis by (simp only: inj_on_map_eq_map)
qed

end
