(* ===== verification/Go_Strings.thy ===== *)
theory Go_Strings
  imports FV_Prelude
begin

text \<open>
  Go strings as the program uses them. A string is a byte sequence (\<open>string\<close>, a list of
  8-bit characters), \<open>len\<close> counts bytes, and iterating a string decodes UTF-8 with the
  rules of \<open>unicode/utf8\<close>: an invalid byte is the rune U+FFFD with width one.
  \<open>utf8_segments\<close> is that iteration, each rune paired with the bytes it was read from.

  The functions of \<open>strings\<close> are defined over it. The Unicode character database that
  \<open>unicode\<close> compiles in is a parameter (\<open>unicode_db\<close>): the general category C, the simple
  case maps, simple folding and printability. Facts that need ASCII rows of those tables
  assume \<open>ascii_db\<close>, which states them; \<open>ascii_only_db\<close> satisfies it.
\<close>

type_synonym rune = nat

record unicode_db =
  uc_other :: "rune \<Rightarrow> bool"      \<comment> \<open>\<open>unicode.Is(unicode.Categories["C"], r)\<close>\<close>
  uc_lower :: "rune \<Rightarrow> rune"      \<comment> \<open>\<open>unicode.ToLower\<close>\<close>
  uc_upper :: "rune \<Rightarrow> rune"      \<comment> \<open>\<open>unicode.ToUpper\<close>\<close>
  uc_fold :: "rune \<Rightarrow> rune"       \<comment> \<open>representative of the \<open>unicode.SimpleFold\<close> orbit\<close>
  uc_print :: "rune \<Rightarrow> bool"      \<comment> \<open>\<open>strconv.IsPrint\<close>\<close>

definition RuneError :: rune where
  "RuneError = 0xFFFD"

abbreviation byte :: "char \<Rightarrow> nat" where
  "byte c \<equiv> of_char c"

section \<open>UTF-8\<close>

definition utf8_lo :: "nat \<Rightarrow> nat" where
  "utf8_lo b0 = (if b0 = 0xE0 then 0xA0 else if b0 = 0xF0 then 0x90 else 0x80)"

definition utf8_hi :: "nat \<Rightarrow> nat" where
  "utf8_hi b0 = (if b0 = 0xED then 0x9F else if b0 = 0xF4 then 0x8F else 0xBF)"

definition utf8_cont :: "nat \<Rightarrow> bool" where
  "utf8_cont b \<longleftrightarrow> 0x80 \<le> b \<and> b \<le> 0xBF"

text \<open>\<open>utf8.DecodeRuneInString\<close>: the rune and its width in bytes.\<close>

definition decode_rune :: "string \<Rightarrow> rune \<times> nat" where
  "decode_rune s =
     (case s of
        [] \<Rightarrow> (RuneError, 0)
      | c0 # s1 \<Rightarrow>
        let b0 = byte c0 in
        if b0 < 0x80 then (b0, 1)
        else if b0 < 0xC2 \<or> 0xF4 < b0 then (RuneError, 1)
        else (case s1 of
                [] \<Rightarrow> (RuneError, 1)
              | c1 # s2 \<Rightarrow>
                let b1 = byte c1 in
                if b1 < utf8_lo b0 \<or> utf8_hi b0 < b1 then (RuneError, 1)
                else if b0 < 0xE0 then ((b0 - 0xC0) * 0x40 + (b1 - 0x80), 2)
                else (case s2 of
                        [] \<Rightarrow> (RuneError, 1)
                      | c2 # s3 \<Rightarrow>
                        let b2 = byte c2 in
                        if \<not> utf8_cont b2 then (RuneError, 1)
                        else if b0 < 0xF0 then
                          ((b0 - 0xE0) * 0x1000 + (b1 - 0x80) * 0x40 + (b2 - 0x80), 3)
                        else (case s3 of
                                [] \<Rightarrow> (RuneError, 1)
                              | c3 # _ \<Rightarrow>
                                let b3 = byte c3 in
                                if \<not> utf8_cont b3 then (RuneError, 1)
                                else ((b0 - 0xF0) * 0x40000 + (b1 - 0x80) * 0x1000
                                       + (b2 - 0x80) * 0x40 + (b3 - 0x80), 4)))))"

lemma decode_rune_ascii: "byte c < 128 \<Longrightarrow> decode_rune (c # s) = (byte c, 1)"
  by (simp add: decode_rune_def)

lemma decode_rune_width: "s \<noteq> [] \<Longrightarrow> 1 \<le> snd (decode_rune s) \<and> snd (decode_rune s) \<le> 4"
  by (simp add: decode_rune_def Let_def split: list.splits)

lemma decode_rune_width_le: "snd (decode_rune s) \<le> length s"
  by (simp add: decode_rune_def Let_def split: list.splits)

function utf8_segments :: "string \<Rightarrow> (rune \<times> string) list" where
  "utf8_segments s =
     (if s = [] then []
      else let (r, w) = decode_rune s in (r, take w s) # utf8_segments (drop w s))"
  by pat_completeness auto
termination
proof (relation "measure length")
  fix s :: string and x r w
  assume "s \<noteq> []" and "x = decode_rune s" and "(r, w) = x"
  then have "1 \<le> w" using decode_rune_width [of s] by (metis snd_conv)
  with \<open>s \<noteq> []\<close> show "(drop w s, s) \<in> measure length" by (cases s) auto
qed simp

declare utf8_segments.simps [simp del]

lemma utf8_segments_Nil [simp]: "utf8_segments [] = []"
  by (simp add: utf8_segments.simps)

lemma utf8_segments_ascii [simp]:
  "byte c < 128 \<Longrightarrow> utf8_segments (c # s) = (byte c, [c]) # utf8_segments s"
  by (subst utf8_segments.simps) (simp add: decode_rune_ascii)

lemma utf8_segments_step:
  "s \<noteq> [] \<Longrightarrow> utf8_segments s
     = (fst (decode_rune s), take (snd (decode_rune s)) s) # utf8_segments (drop (snd (decode_rune s)) s)"
  by (subst utf8_segments.simps) (simp add: case_prod_beta)

lemma utf8_induct [case_names Nil Step]:
  assumes "P []"
    and "\<And>s. s \<noteq> [] \<Longrightarrow> P (drop (snd (decode_rune s)) s) \<Longrightarrow> P s"
  shows "P s"
proof (induction s rule: utf8_segments.induct)
  case (1 s)
  show ?case
  proof (cases "s = []")
    case False
    with 1 have "P (drop (snd (decode_rune s)) s)"
      by (metis prod.collapse)
    with False show ?thesis by (rule assms(2))
  qed (simp add: assms(1))
qed

lemma concat_utf8_segments [simp]: "concat (map snd (utf8_segments s)) = s"
  by (induction s rule: utf8_induct) (simp_all add: utf8_segments_step)

lemma utf8_segments_nonempty: "(r, bs) \<in> set (utf8_segments s) \<Longrightarrow> bs \<noteq> []"
proof (induction s rule: utf8_induct)
  case (Step s)
  with decode_rune_width [OF Step.hyps] show ?case
    by (auto simp: utf8_segments_step)
qed simp

definition runes :: "string \<Rightarrow> rune list" where
  "runes s = map fst (utf8_segments s)"

lemma length_runes_le: "length (runes s) \<le> length s"
  unfolding runes_def
proof (induction s rule: utf8_induct)
  case (Step s)
  have "1 \<le> snd (decode_rune s)" "snd (decode_rune s) \<le> length s"
    using decode_rune_width [OF Step.hyps] decode_rune_width_le [of s] by auto
  with Step show ?case by (simp add: utf8_segments_step)
qed simp

text \<open>\<open>utf8.AppendRune\<close>, as \<open>strings.Builder.WriteRune\<close> writes a rune.\<close>

definition encode_rune :: "rune \<Rightarrow> string" where
  "encode_rune r0 =
     (let r = (if 0x10FFFF < r0 \<or> (0xD800 \<le> r0 \<and> r0 \<le> 0xDFFF) then RuneError else r0) in
      if r < 0x80 then [char_of r]
      else if r < 0x800 then [char_of (0xC0 + r div 0x40), char_of (0x80 + r mod 0x40)]
      else if r < 0x10000 then
        [char_of (0xE0 + r div 0x1000), char_of (0x80 + (r div 0x40) mod 0x40),
         char_of (0x80 + r mod 0x40)]
      else
        [char_of (0xF0 + r div 0x40000), char_of (0x80 + (r div 0x1000) mod 0x40),
         char_of (0x80 + (r div 0x40) mod 0x40), char_of (0x80 + r mod 0x40)])"

definition encode_runes :: "rune list \<Rightarrow> string" where
  "encode_runes rs = concat (map encode_rune rs)"

definition valid_rune :: "rune \<Rightarrow> bool" where
  "valid_rune r \<longleftrightarrow> r \<le> 0x10FFFF \<and> \<not> (0xD800 \<le> r \<and> r \<le> 0xDFFF)"

definition valid_utf8 :: "string \<Rightarrow> bool" where
  "valid_utf8 s \<longleftrightarrow> (\<forall>(r, bs) \<in> set (utf8_segments s). r = RuneError \<longrightarrow> length bs = 3)"

lemma byte_char_of [simp]: "n < 256 \<Longrightarrow> byte (char_of n) = n"
  by simp

lemma encode_rune_ascii: "r < 128 \<Longrightarrow> encode_rune r = [char_of r]"
  by (simp add: encode_rune_def)

lemma encode_rune_byte [simp]: "byte c < 128 \<Longrightarrow> encode_rune (byte c) = [c]"
  by (simp add: encode_rune_ascii)

lemma decode_rune3:
  assumes "a < 16" "b < 64" "c < 64" "a = 0 \<Longrightarrow> 32 \<le> b" "a = 13 \<Longrightarrow> b < 32"
  shows "decode_rune (char_of (0xE0 + a) # char_of (0x80 + b) # char_of (0x80 + c) # s)
    = (a * 0x1000 + b * 0x40 + c, 3)"
proof -
  have "\<not> 128 + b < utf8_lo (224 + a)" "\<not> utf8_hi (224 + a) < 128 + b"
    using assms by (auto simp: utf8_lo_def utf8_hi_def)
  moreover have "utf8_cont (128 + c)" using assms by (simp add: utf8_cont_def)
  ultimately show ?thesis using assms by (simp add: decode_rune_def Let_def)
qed

lemma decode_rune4:
  assumes "a < 5" "b < 64" "c < 64" "d < 64" "a = 0 \<Longrightarrow> 16 \<le> b" "a = 4 \<Longrightarrow> b < 16"
  shows "decode_rune (char_of (0xF0 + a) # char_of (0x80 + b) # char_of (0x80 + c)
      # char_of (0x80 + d) # s) = (a * 0x40000 + b * 0x1000 + c * 0x40 + d, 4)"
proof -
  have "\<not> 128 + b < utf8_lo (240 + a)" "\<not> utf8_hi (240 + a) < 128 + b"
    using assms by (auto simp: utf8_lo_def utf8_hi_def)
  moreover have "utf8_cont (128 + c)" "utf8_cont (128 + d)"
    using assms by (simp_all add: utf8_cont_def)
  ultimately show ?thesis using assms by (simp add: decode_rune_def Let_def)
qed

lemma base64_digits:
  fixes r :: nat
  obtains a b c where "r = a * 4096 + b * 64 + c" "b < 64" "c < 64"
    and "a = r div 4096" "b = r div 64 mod 64" "c = r mod 64"
proof
  have "r = 64 * (r div 64) + r mod 64" by simp
  moreover have "r div 64 = 64 * (r div 64 div 64) + r div 64 mod 64" by simp
  moreover have "r div 64 div 64 = r div 4096" by (simp flip: div_mult2_eq)
  ultimately show "r = r div 4096 * 4096 + r div 64 mod 64 * 64 + r mod 64" by linarith
qed simp_all

lemma decode_encode_rune3:
  assumes "0x800 \<le> r" "r < 0x10000" "\<not> (0xD800 \<le> r \<and> r \<le> 0xDFFF)"
  shows "decode_rune (encode_rune r @ s) = (r, length (encode_rune r))"
proof -
  obtain a b c where r: "r = a * 4096 + b * 64 + c" "b < 64" "c < 64"
    and abc: "a = r div 4096" "b = r div 64 mod 64" "c = r mod 64"
    by (rule base64_digits)
  have enc: "encode_rune r = [char_of (0xE0 + a), char_of (0x80 + b), char_of (0x80 + c)]"
    using assms by (auto simp: encode_rune_def Let_def abc)
  have "a < 16" "a = 0 \<Longrightarrow> 32 \<le> b" "a = 13 \<Longrightarrow> b < 32"
    using assms r by linarith+
  then show ?thesis unfolding enc using r decode_rune3 [of a b c s] by simp
qed

lemma decode_encode_rune4:
  assumes "0x10000 \<le> r" "r \<le> 0x10FFFF"
  shows "decode_rune (encode_rune r @ s) = (r, length (encode_rune r))"
proof -
  obtain h c d where r: "r = h * 4096 + c * 64 + d" "c < 64" "d < 64"
    and hcd: "h = r div 4096" "c = r div 64 mod 64" "d = r mod 64"
    by (rule base64_digits)
  define a where "a = h div 64"
  define b where "b = h mod 64"
  have h: "h = a * 64 + b" "b < 64" by (simp_all add: a_def b_def)
  have "r div 0x40000 = a" by (simp add: a_def hcd flip: div_mult2_eq)
  then have enc: "encode_rune r
      = [char_of (0xF0 + a), char_of (0x80 + b), char_of (0x80 + c), char_of (0x80 + d)]"
    using assms by (simp add: encode_rune_def hcd b_def)
  have "a < 5" "a = 0 \<Longrightarrow> 16 \<le> b" "a = 4 \<Longrightarrow> b < 16"
    using assms r h by linarith+
  then show ?thesis unfolding enc using r h decode_rune4 [of a b c d s] by simp
qed

lemma decode_encode_rune:
  assumes "valid_rune r"
  shows "decode_rune (encode_rune r @ s) = (r, length (encode_rune r))"
proof -
  consider "r < 0x80" | "0x80 \<le> r" "r < 0x800" | "0x800 \<le> r" "r < 0x10000" | "0x10000 \<le> r"
    by linarith
  then show ?thesis
  proof cases
    case 1
    then show ?thesis by (simp add: encode_rune_def decode_rune_def)
  next
    case 2
    have "r mod 64 < 64" by simp
    moreover have "r div 64 < 32" "2 \<le> r div 64" using 2 by auto
    ultimately show ?thesis using 2
      by (simp add: encode_rune_def decode_rune_def utf8_lo_def utf8_hi_def Let_def)
  next
    case 3
    with assms show ?thesis by (simp add: decode_encode_rune3 valid_rune_def)
  next
    case 4
    with assms show ?thesis by (simp add: decode_encode_rune4 valid_rune_def)
  qed
qed

lemma encode_rune_nonempty [simp]: "encode_rune r \<noteq> []"
  by (simp add: encode_rune_def Let_def)

lemma utf8_segments_encode_rune:
  "valid_rune r \<Longrightarrow> utf8_segments (encode_rune r @ s) = (r, encode_rune r) # utf8_segments s"
  by (simp add: utf8_segments_step decode_encode_rune)

lemma runes_encode_runes: "\<forall>r \<in> set rs. valid_rune r \<Longrightarrow> runes (encode_runes rs) = rs"
proof -
  assume "\<forall>r \<in> set rs. valid_rune r"
  then have "utf8_segments (encode_runes rs) = map (\<lambda>r. (r, encode_rune r)) rs"
    by (induction rs) (simp_all add: encode_runes_def utf8_segments_encode_rune)
  then show ?thesis by (simp add: runes_def comp_def)
qed

lemma decode_rune_valid: "valid_rune (fst (decode_rune s))"
  by (auto simp: decode_rune_def valid_rune_def RuneError_def utf8_lo_def utf8_hi_def
      utf8_cont_def Let_def split: list.splits if_splits)

text \<open>A byte outside ASCII never starts an ASCII rune.\<close>

lemma decode_rune_not_ascii: "\<not> byte c < 128 \<Longrightarrow> \<not> fst (decode_rune (c # s)) < 128"
  by (auto simp: decode_rune_def RuneError_def utf8_lo_def Let_def split: list.split)

lemma runes_valid: "r \<in> set (runes s) \<Longrightarrow> valid_rune r"
  unfolding runes_def
  by (induction s rule: utf8_induct) (auto simp: utf8_segments_step decode_rune_valid)

section \<open>The \<open>strings\<close> package\<close>

text \<open>\<open>unicode.IsSpace\<close>.\<close>

definition is_space :: "rune \<Rightarrow> bool" where
  "is_space r \<longleftrightarrow> (9 \<le> r \<and> r \<le> 13) \<or> r = 0x20 \<or> r = 0x85 \<or> r = 0xA0 \<or> r = 0x1680
     \<or> (0x2000 \<le> r \<and> r \<le> 0x200A) \<or> r = 0x2028 \<or> r = 0x2029 \<or> r = 0x202F \<or> r = 0x205F
     \<or> r = 0x3000"

text \<open>\<open>unicode.IsControl\<close>: the category Cc.\<close>

definition is_control :: "rune \<Rightarrow> bool" where
  "is_control r \<longleftrightarrow> r \<le> 0x1F \<or> (0x7F \<le> r \<and> r \<le> 0x9F)"

abbreviation seg_space :: "rune \<times> string \<Rightarrow> bool" where
  "seg_space p \<equiv> is_space (fst p)"

definition TrimSpace :: "string \<Rightarrow> string" where
  "TrimSpace s = concat (map snd
     (rev (dropWhile seg_space (rev (dropWhile seg_space (utf8_segments s))))))"

fun fields_aux :: "string \<Rightarrow> (rune \<times> string) list \<Rightarrow> string list" where
  "fields_aux acc [] = (if acc = [] then [] else [acc])"
| "fields_aux acc ((r, bs) # ps) =
     (if is_space r then (if acc = [] then fields_aux [] ps else acc # fields_aux [] ps)
      else fields_aux (acc @ bs) ps)"

definition Fields :: "string \<Rightarrow> string list" where
  "Fields s = fields_aux [] (utf8_segments s)"

fun Join :: "string list \<Rightarrow> string \<Rightarrow> string" where
  "Join [] sep = []"
| "Join [x] sep = x"
| "Join (x # y # xs) sep = x @ sep @ Join (y # xs) sep"

definition HasPrefix :: "string \<Rightarrow> string \<Rightarrow> bool" where
  "HasPrefix s p \<longleftrightarrow> take (length p) s = p"

definition HasSuffix :: "string \<Rightarrow> string \<Rightarrow> bool" where
  "HasSuffix s p \<longleftrightarrow> length p \<le> length s \<and> drop (length s - length p) s = p"

definition TrimPrefix :: "string \<Rightarrow> string \<Rightarrow> string" where
  "TrimPrefix s p = (if HasPrefix s p then drop (length p) s else s)"

definition TrimSuffix :: "string \<Rightarrow> string \<Rightarrow> string" where
  "TrimSuffix s p = (if HasSuffix s p then take (length s - length p) s else s)"

text \<open>\<open>strings.TrimRight\<close> with an ASCII cutset.\<close>

definition TrimRight :: "string \<Rightarrow> string \<Rightarrow> string" where
  "TrimRight s cutset = rev (dropWhile (\<lambda>c. c \<in> set cutset) (rev s))"

fun Contains :: "string \<Rightarrow> string \<Rightarrow> bool" where
  "Contains [] p = (p = [])"
| "Contains (c # s) p = (HasPrefix (c # s) p \<or> Contains s p)"

text \<open>\<open>strings.Split\<close> at a single byte.\<close>

fun Split1 :: "string \<Rightarrow> char \<Rightarrow> string list" where
  "Split1 [] c = [[]]"
| "Split1 (x # xs) c =
     (if x = c then [] # Split1 xs c
      else case Split1 xs c of [] \<Rightarrow> [[x]] | y # ys \<Rightarrow> (x # y) # ys)"

definition ToLower :: "unicode_db \<Rightarrow> string \<Rightarrow> string" where
  "ToLower db s = encode_runes (map (uc_lower db) (runes s))"

definition ToUpper :: "unicode_db \<Rightarrow> string \<Rightarrow> string" where
  "ToUpper db s = encode_runes (map (uc_upper db) (runes s))"

definition EqualFold :: "unicode_db \<Rightarrow> string \<Rightarrow> string \<Rightarrow> bool" where
  "EqualFold db s t \<longleftrightarrow> map (uc_fold db) (runes s) = map (uc_fold db) (runes t)"

section \<open>Quoting and escaping\<close>

definition hex_digit :: "string \<Rightarrow> nat \<Rightarrow> char" where
  "hex_digit alphabet n = alphabet ! (n mod 16)"

fun hex_pad :: "string \<Rightarrow> nat \<Rightarrow> nat \<Rightarrow> string" where
  "hex_pad alphabet 0 n = []"
| "hex_pad alphabet (Suc w) n = hex_pad alphabet w (n div 16) @ [hex_digit alphabet n]"

definition hex_lower :: string where "hex_lower = ''0123456789abcdef''"
definition hex_upper :: string where "hex_upper = ''0123456789ABCDEF''"

definition backslash :: char where "backslash = CHR 0x5C"

text \<open>One rune of \<open>strconv.Quote\<close> (the verb \<open>%q\<close>).\<close>

definition quote_segment :: "unicode_db \<Rightarrow> rune \<times> string \<Rightarrow> string" where
  "quote_segment db p =
     (case p of (r, bs) \<Rightarrow>
        if r = RuneError \<and> length bs = 1 then backslash # CHR ''x'' # hex_pad hex_lower 2 (byte (hd bs))
        else if r = 0x22 \<or> r = 0x5C then [backslash, char_of r]
        else if uc_print db r then bs
        else if r = 7 then [backslash, CHR ''a''] else if r = 8 then [backslash, CHR ''b'']
        else if r = 12 then [backslash, CHR ''f''] else if r = 10 then [backslash, CHR ''n'']
        else if r = 13 then [backslash, CHR ''r''] else if r = 9 then [backslash, CHR ''t'']
        else if r = 11 then [backslash, CHR ''v'']
        else if r < 0x20 \<or> r = 0x7F then backslash # CHR ''x'' # hex_pad hex_lower 2 r
        else if r < 0x10000 then backslash # CHR ''u'' # hex_pad hex_lower 4 r
        else backslash # CHR ''U'' # hex_pad hex_lower 8 r)"

definition Quote :: "unicode_db \<Rightarrow> string \<Rightarrow> string" where
  "Quote db s = CHR 0x22 # concat (map (quote_segment db) (utf8_segments s)) @ [CHR 0x22]"

text \<open>The decimal of a natural number, the verb \<open>%d\<close>.\<close>

fun decimal :: "nat \<Rightarrow> string" where
  "decimal n = (if n < 10 then [char_of (48 + n)] else decimal (n div 10) @ [char_of (48 + n mod 10)])"

declare decimal.simps [simp del]

definition decimal_int :: "int \<Rightarrow> string" where
  "decimal_int z = (if z < 0 then CHR ''-'' # decimal (nat (- z)) else decimal (nat z))"

section \<open>A database for ASCII\<close>

definition ascii_lower :: "rune \<Rightarrow> rune" where
  "ascii_lower r = (if 65 \<le> r \<and> r \<le> 90 then r + 32 else r)"

definition ascii_upper :: "rune \<Rightarrow> rune" where
  "ascii_upper r = (if 97 \<le> r \<and> r \<le> 122 then r - 32 else r)"

text \<open>What the ASCII rows of the Unicode tables say.\<close>

definition ascii_db :: "unicode_db \<Rightarrow> bool" where
  "ascii_db db \<longleftrightarrow> (\<forall>r < 128. uc_lower db r = ascii_lower r \<and> uc_upper db r = ascii_upper r
     \<and> (uc_other db r \<longleftrightarrow> r \<le> 0x1F \<or> r = 0x7F) \<and> (uc_print db r \<longleftrightarrow> 0x20 \<le> r \<and> r < 0x7F)
     \<and> (\<forall>q < 128. uc_fold db q = uc_fold db r \<longleftrightarrow> ascii_lower q = ascii_lower r))"

definition ascii_only_db :: unicode_db where
  "ascii_only_db = \<lparr>uc_other = is_control, uc_lower = ascii_lower, uc_upper = ascii_upper,
     uc_fold = ascii_lower, uc_print = (\<lambda>r. 0x20 \<le> r \<and> r < 0x7F)\<rparr>"

lemma ascii_only_db_ascii [simp]: "ascii_db ascii_only_db"
  by (auto simp: ascii_db_def ascii_only_db_def is_control_def)

section \<open>ASCII strings\<close>

definition ascii :: "string \<Rightarrow> bool" where
  "ascii s \<longleftrightarrow> (\<forall>c \<in> set s. byte c < 128)"

definition lower_char :: "char \<Rightarrow> char" where
  "lower_char c = char_of (ascii_lower (byte c))"

abbreviation space_char :: "char \<Rightarrow> bool" where
  "space_char c \<equiv> is_space (byte c)"

lemma ascii_simps [simp]:
  "ascii []" "ascii (c # s) \<longleftrightarrow> byte c < 128 \<and> ascii s" "ascii (s @ t) \<longleftrightarrow> ascii s \<and> ascii t"
  by (auto simp: ascii_def)

lemma utf8_segments_all_ascii: "ascii s \<Longrightarrow> utf8_segments s = map (\<lambda>c. (byte c, [c])) s"
  by (induction s) simp_all

lemma runes_ascii: "ascii s \<Longrightarrow> runes s = map byte s"
  by (simp add: runes_def utf8_segments_all_ascii comp_def)

lemma ascii_lower_less [simp]: "r < 128 \<Longrightarrow> ascii_lower r < 128"
  by (simp add: ascii_lower_def)

lemma byte_lower_char [simp]: "byte c < 128 \<Longrightarrow> byte (lower_char c) = ascii_lower (byte c)"
  by (simp add: lower_char_def ascii_lower_def)

lemma ascii_lower_map [simp]: "ascii s \<Longrightarrow> ascii (map lower_char s)"
  by (induction s) simp_all

lemma lower_char_id: "\<not> (65 \<le> byte c \<and> byte c \<le> 90) \<Longrightarrow> lower_char c = c"
  by (auto simp: lower_char_def ascii_lower_def)

lemma ToLower_ascii: "ascii_db db \<Longrightarrow> ascii s \<Longrightarrow> ToLower db s = map lower_char s"
  unfolding ToLower_def
proof (induction s)
  case (Cons c s)
  then have "uc_lower db (byte c) = ascii_lower (byte c)" by (simp add: ascii_db_def)
  with Cons show ?case by (simp add: runes_ascii encode_runes_def encode_rune_ascii lower_char_def)
qed (simp add: runes_def encode_runes_def)

lemma is_space_ascii_lower [simp]: "is_space (ascii_lower r) = is_space r"
  by (auto simp: is_space_def ascii_lower_def)

fun char_fields :: "string \<Rightarrow> string \<Rightarrow> string list" where
  "char_fields acc [] = (if acc = [] then [] else [acc])"
| "char_fields acc (c # s) =
     (if space_char c then (if acc = [] then char_fields [] s else acc # char_fields [] s)
      else char_fields (acc @ [c]) s)"

lemma Fields_ascii: "ascii s \<Longrightarrow> Fields s = char_fields [] s"
proof -
  have "ascii s \<Longrightarrow> fields_aux acc (utf8_segments s) = char_fields acc s" for acc
    by (induction s arbitrary: acc) simp_all
  then show "ascii s \<Longrightarrow> Fields s = char_fields [] s" by (simp add: Fields_def)
qed

lemma char_fields_lower:
  "ascii s \<Longrightarrow> char_fields (map lower_char acc) (map lower_char s) = map (map lower_char) (char_fields acc s)"
proof (induction s arbitrary: acc)
  case (Cons c s)
  then show ?case using Cons.IH [of "acc @ [c]"] Cons.IH [of "[]"] by simp
qed simp

lemma Fields_ToLower:
  assumes "ascii_db db" "ascii s"
  shows "Fields (ToLower db s) = map (map lower_char) (Fields s)"
  using assms char_fields_lower [of s "[]"] by (simp add: ToLower_ascii Fields_ascii)

end
