(* ===== verification/Go_Errors.thy ===== *)
theory Go_Errors
  imports Go_Strings
begin

text \<open>
  Go error values as the program builds and inspects them. An error is a tree: a sentinel
  variable of one of the packages, a plain text, a message wrapping further errors
  (\<open>fmt.Errorf\<close> with \<open>%w\<close>, \<open>errors.Join\<close>), a \<open>monitor.Failure\<close>, or an error of code outside
  the repository (\<open>net\<close>, \<open>os\<close>, \<open>x/crypto/ssh\<close>) seen only through the tests the program
  applies to it. \<open>err_is\<close> is \<open>errors.Is\<close> and \<open>failure_of\<close> is \<open>errors.As\<close> into
  \<open>*monitor.Failure\<close>, both a depth-first walk of the tree in the order of the standard library.
\<close>

datatype failure_kind =
    FailureUnreachable | FailureCredential | FailureHostKey | FailureTransient
  | FailureOther string  \<comment> \<open>any other string of the type, the empty string included\<close>

text \<open>The sentinel errors, each a package variable compared by identity.\<close>

datatype sentinel =
    DeadlineExceeded | Canceled                                  \<comment> \<open>context\<close>
  | NotExist                                                     \<comment> \<open>os.ErrNotExist\<close>
  | ErrAuthFailed | ErrConnectionRefused | ErrHostKeyMismatch    \<comment> \<open>fvcore\<close>
  | ErrUnlockOutcomeUnknown | ErrIndeterminate | ErrStatusProbe | ErrUnlockSucceeded
  | ErrAlreadyRunning                                            \<comment> \<open>monitor\<close>
  | ErrDeviceChanged | ErrNoMutation                             \<comment> \<open>config\<close>
  | ErrProviderReadOnly | ErrProviderUnavailable | ErrUnsafeCredentialStorage \<comment> \<open>credentials\<close>
  | ErrLockUnavailable                                           \<comment> \<open>securefs\<close>

text \<open>
  An error of a package outside the repository: its text, whether it is
  \<open>ECONNREFUSED\<close>, the answer of \<open>Timeout\<close> if it is a \<open>net.Error\<close>, and the pinned
  fingerprints of a \<open>knownhosts.KeyError\<close> if it is one.
\<close>

record foreign_error =
  fe_text :: string
  fe_refused :: bool
  fe_net :: "bool option"
  fe_key_error :: "string list option"

datatype goerr =
    Sentinel sentinel
  | ErrText string
  | Wrapped string "goerr list"
  | Failure failure_kind "goerr option"
  | Foreign foreign_error

fun sentinel_text :: "sentinel \<Rightarrow> string" where
  "sentinel_text DeadlineExceeded = ''context deadline exceeded''"
| "sentinel_text Canceled = ''context canceled''"
| "sentinel_text NotExist = ''file does not exist''"
| "sentinel_text ErrAuthFailed = ''authentication failed''"
| "sentinel_text ErrConnectionRefused = ''connection refused''"
| "sentinel_text ErrHostKeyMismatch = ''host key verification failed''"
| "sentinel_text ErrUnlockOutcomeUnknown = ''unlock outcome was not acknowledged''"
| "sentinel_text ErrIndeterminate = ''device state indeterminate without authenticating''"
| "sentinel_text ErrStatusProbe = ''status probe: not answering''"
| "sentinel_text ErrUnlockSucceeded = ''unlock succeeded''"
| "sentinel_text ErrAlreadyRunning = ''monitor is already running''"
| "sentinel_text ErrDeviceChanged = ''device changed since it was added''"
| "sentinel_text ErrNoMutation = ''configuration mutation is already satisfied''"
| "sentinel_text ErrProviderReadOnly = ''credential provider is read-only''"
| "sentinel_text ErrProviderUnavailable = ''credential provider is unavailable''"
| "sentinel_text ErrUnsafeCredentialStorage = ''unsafe credential storage is not enabled''"
| "sentinel_text ErrLockUnavailable = ''lock is already held''"

fun failure_kind_text :: "failure_kind \<Rightarrow> string" where
  "failure_kind_text FailureUnreachable = ''unreachable''"
| "failure_kind_text FailureCredential = ''credential''"
| "failure_kind_text FailureHostKey = ''host-key''"
| "failure_kind_text FailureTransient = ''transient''"
| "failure_kind_text (FailureOther s) = s"

text \<open>The method \<open>Error()\<close>.\<close>

fun err_msg :: "goerr \<Rightarrow> string" where
  "err_msg (Sentinel s) = sentinel_text s"
| "err_msg (ErrText t) = t"
| "err_msg (Wrapped t es) = t"
| "err_msg (Failure k None) = ''monitor operation failed: '' @ failure_kind_text k"
| "err_msg (Failure k (Some e)) = err_msg e"
| "err_msg (Foreign f) = fe_text f"

text \<open>\<open>errors.Is(err, target)\<close> for a sentinel target.\<close>

fun err_is :: "goerr \<Rightarrow> sentinel \<Rightarrow> bool" where
  "err_is (Sentinel s) t = (s = t)"
| "err_is (ErrText _) t = False"
| "err_is (Wrapped _ es) t = list_ex (\<lambda>e. err_is e t) es"
| "err_is (Failure _ None) t = False"
| "err_is (Failure _ (Some e)) t = err_is e t"
| "err_is (Foreign _) t = False"

text \<open>\<open>errors.As(err, &failure)\<close>: the first \<open>*monitor.Failure\<close> of the walk.\<close>

fun failure_of :: "goerr \<Rightarrow> failure_kind option"
  and failure_of_list :: "goerr list \<Rightarrow> failure_kind option" where
  "failure_of (Failure k _) = Some k"
| "failure_of (Wrapped _ es) = failure_of_list es"
| "failure_of (Sentinel _) = None"
| "failure_of (ErrText _) = None"
| "failure_of (Foreign _) = None"
| "failure_of_list [] = None"
| "failure_of_list (e # es) =
     (case failure_of e of Some k \<Rightarrow> Some k | None \<Rightarrow> failure_of_list es)"

text \<open>
  \<open>errors.As\<close> into \<open>net.Error\<close> followed by \<open>Timeout()\<close>, into \<open>*knownhosts.KeyError\<close>, and \<open>errors.Is\<close>
  with the refusal code of the platform. \<open>context.DeadlineExceeded\<close> is itself a \<open>net.Error\<close>.
\<close>

fun net_error_of :: "goerr \<Rightarrow> bool option"
  and net_error_of_list :: "goerr list \<Rightarrow> bool option" where
  "net_error_of (Sentinel s) = (if s = DeadlineExceeded then Some True else None)"
| "net_error_of (ErrText _) = None"
| "net_error_of (Wrapped _ es) = net_error_of_list es"
| "net_error_of (Failure _ None) = None"
| "net_error_of (Failure _ (Some e)) = net_error_of e"
| "net_error_of (Foreign f) = fe_net f"
| "net_error_of_list [] = None"
| "net_error_of_list (e # es) =
     (case net_error_of e of Some b \<Rightarrow> Some b | None \<Rightarrow> net_error_of_list es)"

fun key_error_of :: "goerr \<Rightarrow> string list option"
  and key_error_of_list :: "goerr list \<Rightarrow> string list option" where
  "key_error_of (Sentinel _) = None"
| "key_error_of (ErrText _) = None"
| "key_error_of (Wrapped _ es) = key_error_of_list es"
| "key_error_of (Failure _ None) = None"
| "key_error_of (Failure _ (Some e)) = key_error_of e"
| "key_error_of (Foreign f) = fe_key_error f"
| "key_error_of_list [] = None"
| "key_error_of_list (e # es) =
     (case key_error_of e of Some b \<Rightarrow> Some b | None \<Rightarrow> key_error_of_list es)"

fun err_refused :: "goerr \<Rightarrow> bool" where
  "err_refused (Sentinel _) = False"
| "err_refused (ErrText _) = False"
| "err_refused (Wrapped _ es) = list_ex err_refused es"
| "err_refused (Failure _ None) = False"
| "err_refused (Failure _ (Some e)) = err_refused e"
| "err_refused (Foreign f) = fe_refused f"

text \<open>\<open>fmt.Errorf("<prefix>: %w", err)\<close>.\<close>

definition errorf :: "string \<Rightarrow> goerr \<Rightarrow> goerr" where
  "errorf pre e = Wrapped (pre @ '': '' @ err_msg e) [e]"

text \<open>\<open>errors.Join\<close> of the errors that are not nil.\<close>

definition err_join :: "goerr list \<Rightarrow> goerr option" where
  "err_join es = (if es = [] then None else Some (Wrapped (Join (map err_msg es) [CHR 0x0A]) es))"

lemma err_is_errorf [simp]: "err_is (errorf p e) t = err_is e t"
  by (simp add: errorf_def)

lemma failure_of_errorf [simp]: "failure_of (errorf p e) = failure_of e"
  by (simp add: errorf_def split: option.splits)

lemma err_msg_errorf [simp]: "err_msg (errorf p e) = p @ '': '' @ err_msg e"
  by (simp add: errorf_def)

end
