(* ===== verification/Go_Paths.thy ===== *)
theory Go_Paths
  imports Go_Errors
begin

text \<open>
  The functions of \<open>path/filepath\<close> the program uses, in their Unix form: \<open>Clean\<close>, \<open>IsAbs\<close>,
  \<open>Join\<close> of two elements, and \<open>Rel\<close> for absolute arguments. They are lexical; the file system
  enters only through \<open>Abs\<close> (the working directory) and \<open>EvalSymlinks\<close>, which are arguments
  of the functions that use them.
\<close>

abbreviation slash :: char where
  "slash \<equiv> CHR ''/''"

definition IsAbs :: "string \<Rightarrow> bool" where
  "IsAbs p = HasPrefix p ''/''"

text \<open>\<open>Clean\<close>: \<open>stack\<close> holds the elements written so far, last one first.\<close>

fun clean_parts :: "bool \<Rightarrow> string list \<Rightarrow> string list \<Rightarrow> string list" where
  "clean_parts rooted stack [] = rev stack"
| "clean_parts rooted stack (p # ps) =
     (if p = [] \<or> p = ''.'' then clean_parts rooted stack ps
      else if p = ''..'' then
        (case stack of
           upper # rest \<Rightarrow>
             if upper \<noteq> ''..'' then clean_parts rooted rest ps
             else clean_parts rooted (p # stack) ps
         | [] \<Rightarrow> if rooted then clean_parts rooted [] ps else clean_parts rooted [p] ps)
      else clean_parts rooted (p # stack) ps)"

definition Clean :: "string \<Rightarrow> string" where
  "Clean path =
     (let rooted = IsAbs path;
          parts = clean_parts rooted [] (Split1 path slash) in
      if rooted then slash # Join parts ''/''
      else if parts = [] then ''.'' else Join parts ''/'')"

definition Join2 :: "string \<Rightarrow> string \<Rightarrow> string" where
  "Join2 a b =
     (if a = [] \<and> b = [] then []
      else if a = [] then Clean b else if b = [] then Clean a else Clean (a @ [slash] @ b))"

text \<open>The elements of a path.\<close>

definition path_elems :: "string \<Rightarrow> string list" where
  "path_elems p = filter (\<lambda>e. e \<noteq> []) (Split1 p slash)"

fun strip_common :: "string list \<Rightarrow> string list \<Rightarrow> string list \<times> string list" where
  "strip_common (a # as) (b # bs) = (if a = b then strip_common as bs else (a # as, b # bs))"
| "strip_common as bs = (as, bs)"

text \<open>\<open>Rel\<close> for absolute paths.\<close>

definition Rel_abs :: "string \<Rightarrow> string \<Rightarrow> string" where
  "Rel_abs base targ =
     (let (bs, ts) = strip_common (path_elems (Clean base)) (path_elems (Clean targ)) in
      if bs = [] \<and> ts = [] then ''.''
      else Join (replicate (length bs) ''..'' @ ts) ''/'')"

section \<open>Elements\<close>

definition plain_elem :: "string \<Rightarrow> bool" where
  "plain_elem e \<longleftrightarrow> e \<noteq> [] \<and> e \<noteq> ''.'' \<and> slash \<notin> set e"

lemma Split1_Nil_iff [simp]: "Split1 s c \<noteq> []"
  by (induction s c rule: Split1.induct) (auto split: list.split)

lemma Split1_no_sep: "e \<in> set (Split1 s c) \<Longrightarrow> c \<notin> set e"
proof (induction s c arbitrary: e rule: Split1.induct)
  case (2 x xs c)
  then show ?case by (cases "Split1 xs c") (auto split: if_splits)
qed simp

lemma Split1_single: "c \<notin> set s \<Longrightarrow> Split1 s c = [s]"
  by (induction s) auto

lemma Split1_append: "c \<notin> set a \<Longrightarrow> Split1 (a @ c # b) c = a # Split1 b c"
  by (induction a) auto

lemma Split1_Join:
  "\<forall>e \<in> set ps. c \<notin> set e \<Longrightarrow> ps \<noteq> [] \<Longrightarrow> Split1 (Join ps [c]) c = ps"
  by (induction ps rule: induct_list012) (simp_all add: Split1_single Split1_append)

lemma clean_parts_elems:
  "e \<in> set (clean_parts rooted stack ps) \<Longrightarrow> e \<in> set stack \<or> e \<in> set ps"
  by (induction rooted stack ps rule: clean_parts.induct) (auto split: if_splits list.splits)

text \<open>A cleaned list: no empty or dot elements, and parent elements only in front (none if rooted).\<close>

definition clean_list :: "bool \<Rightarrow> string list \<Rightarrow> bool" where
  "clean_list rooted ps \<longleftrightarrow> (\<exists>k qs. ps = replicate k ''..'' @ qs \<and> (rooted \<longrightarrow> k = 0)
     \<and> (\<forall>q \<in> set qs. plain_elem q \<and> q \<noteq> ''..''))"

lemma clean_list_Nil [simp]: "clean_list rooted []"
  by (simp add: clean_list_def)

lemma clean_list_snoc:
  "clean_list rooted ps \<Longrightarrow> plain_elem q \<Longrightarrow> q \<noteq> ''..'' \<Longrightarrow> clean_list rooted (ps @ [q])"
  unfolding clean_list_def by (metis append.assoc rotate1.simps(2) set_ConsD set_rotate1)

lemma clean_list_butlast: "clean_list rooted (ps @ [q]) \<Longrightarrow> q \<noteq> ''..'' \<Longrightarrow> clean_list rooted ps"
proof -
  assume "clean_list rooted (ps @ [q])" and q: "q \<noteq> ''..''"
  then obtain k qs where k: "ps @ [q] = replicate k ''..'' @ qs" "rooted \<longrightarrow> k = 0"
    "\<forall>q \<in> set qs. plain_elem q \<and> q \<noteq> ''..''" by (auto simp: clean_list_def)
  have "qs \<noteq> []"
  proof
    assume "qs = []"
    with k(1) have "q \<in> set (replicate k ''..'')" by (metis append_Nil2 last_in_set snoc_eq_iff_butlast)
    with q show False by simp
  qed
  then have "ps = replicate k ''..'' @ butlast qs"
    using k(1) by (metis butlast_append butlast_snoc)
  with k show ?thesis unfolding clean_list_def by (metis in_set_butlastD)
qed

lemma clean_list_dotdot: "clean_list False ps \<Longrightarrow> ps = [] \<or> last ps = ''..'' \<Longrightarrow> clean_list False (ps @ [''..''])"
proof -
  assume c: "clean_list False ps" and l: "ps = [] \<or> last ps = ''..''"
  then obtain k qs where k: "ps = replicate k ''..'' @ qs" "\<forall>q \<in> set qs. plain_elem q \<and> q \<noteq> ''..''"
    by (auto simp: clean_list_def)
  have "qs = []"
  proof (rule ccontr)
    assume "qs \<noteq> []"
    then have "last ps \<in> set qs" "ps \<noteq> []" using k(1) by auto
    with l k(2) show False by blast
  qed
  with k(1) have "ps @ [''..''] = replicate (Suc k) ''..'' @ []" by (simp add: replicate_append_same)
  then show ?thesis unfolding clean_list_def by (metis empty_iff list.set(1))
qed

lemma clean_parts_clean:
  "clean_list rooted (rev stack) \<Longrightarrow> \<forall>p \<in> set ps. slash \<notin> set p \<Longrightarrow>
   clean_list rooted (clean_parts rooted stack ps)"
proof (induction rooted stack ps rule: clean_parts.induct)
  case (2 rooted stack p ps)
  show ?case
  proof (cases "p = [] \<or> p = ''.''")
    case False
    show ?thesis
    proof (cases "p = ''..''")
      case True
      show ?thesis
      proof (cases stack)
        case Nil
        then show ?thesis using 2 False True clean_list_dotdot [of "[]"] by (cases rooted) auto
      next
        case (Cons upper rest)
        show ?thesis
        proof (cases "upper = ''..''")
          case False
          then show ?thesis using 2 True Cons clean_list_butlast [of rooted "rev rest" upper] by auto
        next
          case upper: True
          have nr: "\<not> rooted"
          proof
            assume rooted
            with "2.prems"(1) Cons upper show False by (auto simp: clean_list_def)
          qed
          with "2.prems"(1) Cons upper have "clean_list rooted (rev (p # stack))"
            using clean_list_dotdot [of "rev stack"] True by simp
          then show ?thesis using 2 True Cons upper by simp
        qed
      qed
    next
      case nd: False
      then have "clean_list rooted (rev (p # stack))"
        using "2.prems" False clean_list_snoc [of rooted "rev stack" p] by (simp add: plain_elem_def)
      then show ?thesis using 2 False nd by simp
    qed
  qed (use 2 in simp)
qed simp

lemma plain_dotdot [simp]: "plain_elem ''..''"
  by (simp add: plain_elem_def)

lemma clean_list_mem: "clean_list rooted ps \<Longrightarrow> q \<in> set ps \<Longrightarrow> plain_elem q"
  by (auto simp: clean_list_def)

lemma clean_parts_empty: "clean_parts rooted stack ([] # ps) = clean_parts rooted stack ps"
  by simp

lemma clean_list_dotdot_front:
  assumes "clean_list rooted (as @ ''..'' # bs)"
  shows "\<not> rooted \<and> (\<forall>a \<in> set as. a = ''..'')"
proof -
  from assms obtain k qs where k: "as @ ''..'' # bs = replicate k ''..'' @ qs" "rooted \<longrightarrow> k = 0"
    "\<forall>q \<in> set qs. plain_elem q \<and> q \<noteq> ''..''" by (auto simp: clean_list_def)
  have "length as < k"
  proof (rule ccontr)
    assume "\<not> length as < k"
    moreover have "length as + Suc (length bs) = k + length qs"
      using arg_cong [OF k(1), of length] by simp
    ultimately have "qs ! (length as - k) \<in> set qs" by (intro nth_mem) simp
    moreover have "qs ! (length as - k) = ''..''"
      using \<open>\<not> length as < k\<close> arg_cong [OF k(1), of "\<lambda>l. l ! length as"] by (simp add: nth_append)
    ultimately show False using k(3) by auto
  qed
  have "a = ''..''" if "a \<in> set as" for a
  proof -
    from that obtain i where i: "i < length as" "as ! i = a" by (meson in_set_conv_nth)
    then have "(as @ ''..'' # bs) ! i = a" by (simp add: nth_append)
    with i(1) \<open>length as < k\<close> k(1) show ?thesis by (simp add: nth_append)
  qed
  with \<open>length as < k\<close> k(2) show ?thesis by auto
qed

lemma clean_parts_id: "clean_list rooted (rev stack @ ps) \<Longrightarrow> clean_parts rooted stack ps = rev stack @ ps"
proof (induction ps arbitrary: stack)
  case (Cons p ps)
  have "plain_elem p" using Cons.prems clean_list_mem by fastforce
  then have p: "p \<noteq> []" "p \<noteq> ''.''" by (auto simp: plain_elem_def)
  have IH: "clean_parts rooted (p # stack) ps = rev stack @ p # ps" using Cons by simp
  show ?case
  proof (cases "p = ''..''")
    case True
    from clean_list_dotdot_front [of rooted "rev stack" ps] Cons.prems True
    have "\<not> rooted" "\<forall>a \<in> set stack. a = ''..''" by auto
    then show ?thesis using p True IH by (cases stack) auto
  qed (use p IH in simp)
qed simp

lemma Join_head: "plain_elem p \<Longrightarrow> \<not> IsAbs (Join (p # ps) sep)"
  by (cases p; cases ps) (auto simp: plain_elem_def IsAbs_def HasPrefix_def)

lemma Clean_of_list:
  assumes "clean_list rooted ps" "path = (if rooted then slash # Join ps ''/'' else if ps = [] then ''.'' else Join ps ''/'')"
  shows "IsAbs path = rooted \<and> clean_parts rooted [] (Split1 path slash) = ps"
proof -
  have mem: "\<forall>e \<in> set ps. slash \<notin> set e" using assms(1) clean_list_mem plain_elem_def by blast
  have fix_ps: "clean_parts rooted [] ps = ps" using clean_parts_id [of rooted "[]" ps] assms(1) by simp
  show ?thesis
  proof (cases ps)
    case Nil
    with assms(2) show ?thesis by (simp add: IsAbs_def HasPrefix_def)
  next
    case (Cons p qs)
    then have "\<not> IsAbs (Join ps ''/'')" using assms(1) clean_list_mem Join_head by simp
    moreover have "Split1 (Join ps ''/'') slash = ps" using Split1_Join [OF mem] Cons by simp
    moreover have "Split1 (slash # Join ps ''/'') slash = [] # Split1 (Join ps ''/'') slash" by simp
    moreover have "IsAbs (slash # Join ps ''/'')" by (simp add: IsAbs_def HasPrefix_def)
    ultimately show ?thesis using assms(2) Cons fix_ps
      by (cases rooted) (simp_all only: clean_parts_empty if_True if_False list.simps simp_thms)
  qed
qed

lemma Clean_parts_of: "clean_list (IsAbs p) (clean_parts (IsAbs p) [] (Split1 p slash))"
  by (rule clean_parts_clean) (auto dest: Split1_no_sep)

lemma Clean_shape:
  "Clean p = (if IsAbs p then slash # Join (clean_parts (IsAbs p) [] (Split1 p slash)) ''/''
    else if clean_parts (IsAbs p) [] (Split1 p slash) = [] then ''.''
    else Join (clean_parts (IsAbs p) [] (Split1 p slash)) ''/'')"
  by (simp add: Clean_def Let_def)

lemma IsAbs_Clean [simp]: "IsAbs (Clean p) = IsAbs p"
  using Clean_of_list [OF Clean_parts_of Clean_shape] by blast

lemma clean_parts_Clean:
  "clean_parts (IsAbs p) [] (Split1 (Clean p) slash) = clean_parts (IsAbs p) [] (Split1 p slash)"
  using Clean_of_list [OF Clean_parts_of Clean_shape] by blast

lemma Clean_idem [simp]: "Clean (Clean p) = Clean p"
  by (subst Clean_shape) (simp only: IsAbs_Clean clean_parts_Clean Clean_shape [symmetric])

text \<open>The elements of a cleaned absolute path.\<close>

lemma path_elems_Clean:
  assumes "IsAbs p"
  shows "path_elems (Clean p) = clean_parts True [] (Split1 p slash)"
    "\<forall>e \<in> set (path_elems (Clean p)). plain_elem e \<and> e \<noteq> ''..''"
proof -
  let ?ps = "clean_parts True [] (Split1 p slash)"
  have c: "clean_list True ?ps" using Clean_parts_of [of p] assms by simp
  then have mem: "\<forall>e \<in> set ?ps. plain_elem e \<and> e \<noteq> ''..''" by (auto simp: clean_list_def)
  then have ne: "filter (\<lambda>e. e \<noteq> []) ?ps = ?ps" "\<forall>e \<in> set ?ps. slash \<notin> set e"
    by (auto simp: plain_elem_def)
  have "Clean p = slash # Join ?ps ''/''" using assms by (simp add: Clean_def)
  moreover have "Split1 (Join ?ps ''/'') slash = (if ?ps = [] then [[]] else ?ps)"
    using Split1_Join [OF ne(2)] by simp
  ultimately show "path_elems (Clean p) = ?ps" using ne(1) by (simp add: path_elems_def)
  with mem show "\<forall>e \<in> set (path_elems (Clean p)). plain_elem e \<and> e \<noteq> ''..''" by simp
qed

text \<open>Joining a plain element to an absolute directory appends it.\<close>

lemma clean_parts_snoc:
  "plain_elem e \<Longrightarrow> e \<noteq> ''..'' \<Longrightarrow> clean_parts rooted stack (ps @ [e]) = clean_parts rooted stack ps @ [e]"
  by (induction rooted stack ps rule: clean_parts.induct)
    (auto simp: plain_elem_def split: list.splits)

lemma Split1_snoc: "c \<notin> set e \<Longrightarrow> Split1 (s @ c # e) c = Split1 s c @ [e]"
  by (induction s) (auto simp: Split1_single split: list.splits)

lemma Join2_elem:
  assumes "IsAbs dir" "plain_elem e" "e \<noteq> ''..''"
  shows "path_elems (Join2 (Clean dir) e) = path_elems (Clean dir) @ [e]"
    "IsAbs (Join2 (Clean dir) e)"
proof -
  have nz: "Clean dir \<noteq> []" "e \<noteq> []" using assms by (auto simp: Clean_def plain_elem_def)
  then have j: "Join2 (Clean dir) e = Clean (Clean dir @ slash # e)" by (simp add: Join2_def)
  have a: "IsAbs (Clean dir @ slash # e)"
    using assms(1) nz IsAbs_Clean [of dir] by (cases "Clean dir") (auto simp: IsAbs_def HasPrefix_def)
  have "path_elems (Clean (Clean dir @ slash # e)) = clean_parts True [] (Split1 (Clean dir) slash @ [e])"
    using path_elems_Clean(1) [OF a] assms(2) Split1_snoc [of slash e "Clean dir"]
    by (simp add: plain_elem_def)
  also have "\<dots> = clean_parts True [] (Split1 (Clean dir) slash) @ [e]"
    using clean_parts_snoc assms(2,3) by blast
  also have "clean_parts True [] (Split1 (Clean dir) slash) = path_elems (Clean dir)"
    using path_elems_Clean(1) [of "Clean dir"] assms(1) by simp
  finally show "path_elems (Join2 (Clean dir) e) = path_elems (Clean dir) @ [e]" by (simp add: j)
  show "IsAbs (Join2 (Clean dir) e)" using a by (simp add: j)
qed

end
