(* ===== verification/Credentials.thy ===== *)
theory Credentials
  imports Go_Paths
begin

text \<open>
  The package \<open>internal/credentials\<close>: credential identifiers and environment names, the
  references of credential files, the assessment of a file's storage, the three providers and
  the registry.

  The operating system is the record \<open>cred_env\<close>: environment variables, the opened files and
  file systems, the platform, the build tag, and the keyring library. The functions of
  \<open>file_security_linux.go\<close> and \<open>file_security_other.go\<close> are one definition each, which looks at
  the platform.
\<close>

definition ProviderRuntime :: string where "ProviderRuntime = ''runtime''"
definition ProviderKeyring :: string where "ProviderKeyring = ''keyring''"
definition ProviderFile :: string where "ProviderFile = ''file''"
definition ProviderTPM2 :: string where "ProviderTPM2 = ''tpm2''"

lemmas provider_names = ProviderRuntime_def ProviderKeyring_def ProviderFile_def ProviderTPM2_def

datatype security_class = SecuritySecure | SecurityConditional | SecurityRuntimeOnly | SecurityUnavailable

record provider_report =
  rpName :: string
  rpBuilt :: bool
  rpAvailable :: bool
  rpPersistent :: bool
  rpSecureStorage :: bool
  rpSecurity :: security_class
  rpDetails :: string

record reference_assessment =
  raAvailable :: bool
  raSecure :: bool
  raDetails :: string

abbreviation unavailable :: "string \<Rightarrow> reference_assessment" where
  "unavailable details \<equiv> \<lparr>raAvailable = False, raSecure = False, raDetails = details\<rparr>"

section \<open>The operating system\<close>

record file_handle =
  fh_stat_err :: "goerr option"
  fh_regular :: bool
  fh_size :: nat
  fh_fstype :: "int option"      \<comment> \<open>\<open>Fstatfs(...).Type\<close>, \<open>None\<close> on an error\<close>
  fh_read :: "goerr + string"

record cred_env =
  ce_linux :: bool
  ce_goos :: string
  ce_keyring_tag :: bool
  ce_getenv :: "string \<Rightarrow> string"
  ce_cwd :: "goerr + string"
  ce_eval_symlinks :: "string \<Rightarrow> goerr + string"
  ce_open_stable :: "string \<Rightarrow> goerr + file_handle"
  ce_real_dir :: "string \<Rightarrow> bool"            \<comment> \<open>\<open>Lstat\<close> succeeds and says directory, not a link\<close>
  ce_fstype :: "string \<Rightarrow> int option"
  ce_readdir :: "string \<Rightarrow> goerr + (string \<times> bool) list" \<comment> \<open>entries; the flag marks a link\<close>
  ce_is_device :: "string \<Rightarrow> bool"
  ce_security_tool :: "goerr option"       \<comment> \<open>the error of \<open>os.Stat("/usr/bin/security")\<close>\<close>
  ce_kr_get :: "string \<Rightarrow> goerr + string"
  ce_kr_set :: "string \<Rightarrow> string \<Rightarrow> goerr option"
  ce_kr_delete :: "string \<Rightarrow> goerr option"

section \<open>Identifiers\<close>

definition ID :: "string \<Rightarrow> string" where
  "ID deviceName = ''fvu-'' @ deviceName"

definition env_rune :: "rune \<Rightarrow> string" where
  "env_rune r = (if (65 \<le> r \<and> r \<le> 90) \<or> (48 \<le> r \<and> r \<le> 57) \<or> r = 95 then encode_rune r else ''_'')"

definition EnvName :: "unicode_db \<Rightarrow> string \<Rightarrow> string" where
  "EnvName db name0 =
     (let name = TrimPrefix (ToLower db name0) ''fvu-'' in
      ''FV_UNLOCK_PASSWORD_'' @ concat (map env_rune (runes (ToUpper db name))))"

definition GetEnvironment :: "unicode_db \<Rightarrow> (string \<Rightarrow> string) \<Rightarrow> string \<Rightarrow> goerr + string" where
  "GetEnvironment db getenv name =
     (let env = EnvName db name; value = getenv env in
      if value \<noteq> [] then Inr value
      else Inl (ErrText (''credential not found in env var '' @ env)))"

section \<open>Build variants of the store\<close>

definition keyring_Get :: "unicode_db \<Rightarrow> cred_env \<Rightarrow> string \<Rightarrow> goerr + string" where
  "keyring_Get db env name =
     (if ce_keyring_tag env then
        (case ce_kr_get env name of Inl err \<Rightarrow> Inl (errorf ''keyring get'' err) | Inr pw \<Rightarrow> Inr pw)
      else GetEnvironment db (ce_getenv env) name)"

definition keyring_Set :: "cred_env \<Rightarrow> string \<Rightarrow> string \<Rightarrow> goerr option" where
  "keyring_Set env name value =
     (if ce_keyring_tag env then ce_kr_set env name value
      else Some (ErrText (''credential storage is not available in this build; '' @
             ''rebuild with -tags keyring to enable OS keychain storage'')))"

definition keyring_Delete :: "cred_env \<Rightarrow> string \<Rightarrow> goerr option" where
  "keyring_Delete env name =
     (if ce_keyring_tag env then map_option (errorf ''keyring delete'') (ce_kr_delete env name)
      else Some (ErrText ''credential storage is not available in this build''))"

definition CanStore :: "cred_env \<Rightarrow> bool" where
  "CanStore env = ce_keyring_tag env"

definition keyringProviderReport :: "cred_env \<Rightarrow> provider_report" where
  "keyringProviderReport env =
     (let down = (\<lambda>details. \<lparr>rpName = ProviderKeyring, rpBuilt = ce_keyring_tag env, rpAvailable = False,
            rpPersistent = True, rpSecureStorage = False, rpSecurity = SecurityUnavailable, rpDetails = details\<rparr>);
          up = (\<lambda>details. (down details)\<lparr>rpAvailable := True, rpSecureStorage := True, rpSecurity := SecuritySecure\<rparr>) in
      if \<not> ce_keyring_tag env then
        down ''not included in this build; use a release binary or build with -tags keyring''
      else if ce_goos env = ''darwin'' then
        (case ce_security_tool env of
           Some err \<Rightarrow> down (''macOS Keychain client is not available: '' @ err_msg err)
         | None \<Rightarrow> up ''macOS Keychain client detected; actual keychain access is verified when used'')
      else if ce_goos env = ''windows'' then
        up ''Windows Credential Manager is available for the current user''
      else if ce_goos env \<in> {''linux'', ''freebsd'', ''openbsd'', ''netbsd'', ''dragonfly''} then
        (if ce_getenv env ''DBUS_SESSION_BUS_ADDRESS'' = [] then
           down ''keyring support is built, but no Secret Service D-Bus session was detected''
         else up ''Secret Service D-Bus session detected; the collection must also be unlocked'')
      else down ''keyring support is built but unavailable on this operating system'')"

definition tpm2HardwareDetails :: "cred_env \<Rightarrow> string" where
  "tpm2HardwareDetails env =
     (if ce_linux env then
        (case List.find (ce_is_device env) [''/dev/tpmrm0'', ''/dev/tpm0''] of
           Some path \<Rightarrow> ''TPM device detected at '' @ path @
             '', but the TPM2 credential provider is not implemented in this build''
         | None \<Rightarrow> ''no accessible TPM device detected; the TPM2 credential provider is not implemented in this build'')
      else ''TPM hardware detection is not available on this platform; '' @
        ''the TPM2 credential provider is not implemented in this build'')"

definition tpm2ProviderReport :: "cred_env \<Rightarrow> provider_report" where
  "tpm2ProviderReport env = \<lparr>rpName = ProviderTPM2, rpBuilt = False, rpAvailable = False,
     rpPersistent = True, rpSecureStorage = False, rpSecurity = SecurityUnavailable,
     rpDetails = tpm2HardwareDetails env\<rparr>"

section \<open>References of credential files\<close>

definition maxCredentialFileSize :: nat where
  "maxCredentialFileSize = 4096"

definition systemdCredentialPrefix :: string where
  "systemdCredentialPrefix = ''systemd:''"

definition systemd_rune :: "rune \<Rightarrow> bool" where
  "systemd_rune r \<longleftrightarrow> (97 \<le> r \<and> r \<le> 122) \<or> (65 \<le> r \<and> r \<le> 90) \<or> (48 \<le> r \<and> r \<le> 57)
     \<or> r = 95 \<or> r = 45 \<or> r = 46"

definition validateSystemdCredentialName :: "unicode_db \<Rightarrow> string \<Rightarrow> goerr option" where
  "validateSystemdCredentialName db name =
     (if name = [] \<or> 128 < length name then
        Some (ErrText ''systemd credential name must contain 1 to 128 characters'')
      else if \<not> list_all systemd_rune (runes name) then
        Some (ErrText (''systemd credential name may contain only ASCII letters, numbers, dot, '' @
                ''underscore, and hyphen''))
      else if name = ''.'' \<or> name = ''..'' then
        Some (ErrText (''invalid systemd credential name '' @ Quote db name))
      else None)"

definition NormalizeFileReference :: "unicode_db \<Rightarrow> string \<Rightarrow> goerr + string" where
  "NormalizeFileReference db reference =
     (if HasPrefix reference systemdCredentialPrefix then
        let name = TrimPrefix reference systemdCredentialPrefix in
        (case validateSystemdCredentialName db name of
           Some err \<Rightarrow> Inl err
         | None \<Rightarrow> Inr (systemdCredentialPrefix @ name))
      else
        let clean = Clean reference in
        if \<not> IsAbs clean then
          Inl (ErrText ''credential file reference must be an absolute path or systemd:<credential-name>'')
        else Inr clean)"

definition resolveCredentialFileReference :: "unicode_db \<Rightarrow> cred_env \<Rightarrow> string \<Rightarrow> goerr + string" where
  "resolveCredentialFileReference db env reference =
     (case NormalizeFileReference db reference of
        Inl err \<Rightarrow> Inl err
      | Inr normalized \<Rightarrow>
        if \<not> HasPrefix normalized systemdCredentialPrefix then Inr normalized
        else
          let directory = ce_getenv env ''CREDENTIALS_DIRECTORY'' in
          if directory = [] then
            Inl (ErrText (''CREDENTIALS_DIRECTORY is not set for systemd credential reference '' @ Quote db reference))
          else if \<not> IsAbs (Clean directory) then
            Inl (ErrText ''CREDENTIALS_DIRECTORY must be an absolute path'')
          else Inr (Join2 (Clean directory) (TrimPrefix normalized systemdCredentialPrefix)))"

section \<open>Where a file is stored\<close>

definition Abs :: "cred_env \<Rightarrow> string \<Rightarrow> goerr + string" where
  "Abs env p =
     (if IsAbs p then Inr (Clean p)
      else case ce_cwd env of Inl err \<Rightarrow> Inl err | Inr wd \<Rightarrow> Inr (Join2 wd p))"

text \<open>The resolved form of a path.\<close>

definition resolved :: "cred_env \<Rightarrow> string \<Rightarrow> string option" where
  "resolved env p =
     (case Abs env p of
        Inl _ \<Rightarrow> None
      | Inr a \<Rightarrow> (case ce_eval_symlinks env a of Inl _ \<Rightarrow> None | Inr r \<Rightarrow> Some r))"

definition pathWithin :: "cred_env \<Rightarrow> string \<Rightarrow> string \<Rightarrow> bool" where
  "pathWithin env base path =
     (case (resolved env base, resolved env path) of
        (Some baseAbs, Some pathAbs) \<Rightarrow>
          let rel = Rel_abs baseAbs pathAbs in
          rel \<noteq> ''..'' \<and> rel \<noteq> ''.'' \<and> \<not> IsAbs rel \<and> \<not> HasPrefix rel ''../''
      | _ \<Rightarrow> False)"

definition tmpfsMagic :: int where "tmpfsMagic = 0x01021994"
definition ramfsMagic :: int where "ramfsMagic = 0x858458f6"

text \<open>The comparison through \<open>uint32\<close>.\<close>

definition memory_type :: "int option \<Rightarrow> bool" where
  "memory_type fstype =
     (case fstype of
        None \<Rightarrow> False
      | Some ty \<Rightarrow> ty mod 4294967296 = tmpfsMagic \<or> ty mod 4294967296 = ramfsMagic)"

definition platformMemoryBackedCredentialFile :: "cred_env \<Rightarrow> file_handle \<Rightarrow> (string) option" where
  "platformMemoryBackedCredentialFile env h =
     (if ce_linux env \<and> memory_type (fh_fstype h)
      then Some ''opened credential file is on a memory-backed filesystem'' else None)"

definition platformSecureCredentialFile :: "cred_env \<Rightarrow> string \<Rightarrow> file_handle \<Rightarrow> string option" where
  "platformSecureCredentialFile env path h =
     (if ce_linux env \<and> pathWithin env ''/run/secrets'' path
         \<and> platformMemoryBackedCredentialFile env h \<noteq> None
      then Some ''file is in a memory-backed /run/secrets mount'' else None)"

definition platformSecureCredentialDirectory :: "cred_env \<Rightarrow> string \<Rightarrow> string option" where
  "platformSecureCredentialDirectory env path =
     (let clean = Clean path in
      if ce_linux env \<and> IsAbs clean \<and> ce_real_dir env clean \<and> memory_type (ce_fstype env clean)
      then Some (clean @ '' is a memory-backed credential directory'') else None)"

definition openStableCredentialFile :: "cred_env \<Rightarrow> string \<Rightarrow> goerr + file_handle" where
  "openStableCredentialFile env path =
     (let clean = Clean path in
      if \<not> IsAbs clean then Inl (ErrText ''credential file path must be absolute'')
      else case ce_open_stable env clean of
        Inl err \<Rightarrow> Inl (errorf ''open credential file'' err)
      | Inr h \<Rightarrow>
        (case fh_stat_err h of
           Some err \<Rightarrow> Inl err
         | None \<Rightarrow>
           if \<not> fh_regular h then
             Inl (ErrText (''credential path is not a stable regular file: '' @ clean))
           else if maxCredentialFileSize < fh_size h then
             Inl (ErrText (''credential file exceeds '' @ decimal maxCredentialFileSize @ '' bytes''))
           else Inr h))"

definition assessCredentialHandle :: "cred_env \<Rightarrow> string \<Rightarrow> file_handle \<Rightarrow> reference_assessment" where
  "assessCredentialHandle env path h =
     (let clean = Clean path; directory = ce_getenv env ''CREDENTIALS_DIRECTORY'' in
      case fh_stat_err h of
        Some err \<Rightarrow> unavailable (err_msg err)
      | None \<Rightarrow>
        if \<not> fh_regular h then unavailable ''credential path is not a regular, non-symbolic-link file''
        else if maxCredentialFileSize < fh_size h then
          unavailable (''credential file exceeds '' @ decimal maxCredentialFileSize @ '' bytes'')
        else
          case (if directory \<noteq> [] \<and> pathWithin env directory clean then
                  (case (platformSecureCredentialDirectory env directory, platformMemoryBackedCredentialFile env h) of
                     (Some detail, Some fileDetail) \<Rightarrow>
                       Some (''file is inside the systemd service credential directory; '' @ detail @ ''; '' @ fileDetail)
                   | _ \<Rightarrow> None)
                else None) of
            Some detail \<Rightarrow> \<lparr>raAvailable = True, raSecure = True, raDetails = detail\<rparr>
          | None \<Rightarrow>
            (case platformSecureCredentialFile env clean h of
               Some detail \<Rightarrow> \<lparr>raAvailable = True, raSecure = True, raDetails = detail\<rparr>
             | None \<Rightarrow> \<lparr>raAvailable = True, raSecure = False,
                 raDetails = ''file is plaintext on storage that is not verified as a '' @
                   ''service-scoped memory-backed credential mount''\<rparr>))"

definition assessCredentialPath :: "cred_env \<Rightarrow> string \<Rightarrow> reference_assessment" where
  "assessCredentialPath env path =
     (case openStableCredentialFile env (Clean path) of
        Inl err \<Rightarrow> unavailable (err_msg err)
      | Inr h \<Rightarrow> assessCredentialHandle env (Clean path) h)"

definition assessCredentialFile :: "unicode_db \<Rightarrow> cred_env \<Rightarrow> string \<Rightarrow> reference_assessment" where
  "assessCredentialFile db env path =
     (case resolveCredentialFileReference db env path of
        Inl err \<Rightarrow> unavailable (err_msg err)
      | Inr p \<Rightarrow> assessCredentialPath env p)"

text \<open>The first of at most 256 entries of a directory that is a secure file.\<close>

definition secureCredentialFileIn :: "cred_env \<Rightarrow> string \<Rightarrow> string option" where
  "secureCredentialFileIn env directory =
     (case ce_readdir env directory of
        Inl _ \<Rightarrow> None
      | Inr entries \<Rightarrow>
        (let check = (\<lambda>(name, link).
               if link then None
               else let path = Join2 directory name in
                 case openStableCredentialFile env path of
                   Inl _ \<Rightarrow> None
                 | Inr h \<Rightarrow> platformSecureCredentialFile env path h);
             found = List.map_filter check (take 256 entries) in
         case found of [] \<Rightarrow> None | d # _ \<Rightarrow> Some d))"

definition detectedSecureFileDelivery :: "cred_env \<Rightarrow> bool \<times> string" where
  "detectedSecureFileDelivery env =
     (let directory = ce_getenv env ''CREDENTIALS_DIRECTORY'';
          other = ''; other file paths are assessed when used'';
          service = (if directory = [] then None
            else case platformSecureCredentialDirectory env directory of
              Some d \<Rightarrow> Some (''systemd service credential directory detected; '' @ d @ other)
            | None \<Rightarrow> (case secureCredentialFileIn env directory of
                Some d \<Rightarrow> Some (''systemd service credential detected; '' @ d @ other)
              | None \<Rightarrow> None)) in
      case service of
        Some d \<Rightarrow> (True, d)
      | None \<Rightarrow>
        (case platformSecureCredentialDirectory env ''/run/secrets'' of
           Some d \<Rightarrow> (True, d @ other)
         | None \<Rightarrow>
           (case secureCredentialFileIn env ''/run/secrets'' of
              Some d \<Rightarrow> (True, d @ other)
            | None \<Rightarrow> (False, ''external file delivery by absolute path or systemd:<name>; secure for verified '' @
                ''memory-backed service secret mounts, plaintext disk files require explicit opt-in''))))"

section \<open>Providers\<close>

datatype provider = RuntimeProvider | KeyringProvider | FileProvider bool

fun provider_Name :: "provider \<Rightarrow> string" where
  "provider_Name RuntimeProvider = ProviderRuntime"
| "provider_Name KeyringProvider = ProviderKeyring"
| "provider_Name (FileProvider _) = ProviderFile"

definition unavailable_err :: "string \<Rightarrow> goerr" where
  "unavailable_err details =
     Wrapped (sentinel_text ErrProviderUnavailable @ '': '' @ details) [Sentinel ErrProviderUnavailable]"

definition errorsCredentialEmpty :: "string \<Rightarrow> goerr" where
  "errorsCredentialEmpty path = ErrText (''credential file is empty: '' @ path)"

definition fileProvider_Get :: "unicode_db \<Rightarrow> cred_env \<Rightarrow> bool \<Rightarrow> string \<Rightarrow> goerr + string" where
  "fileProvider_Get db env allowUnsafe reference =
     (case resolveCredentialFileReference db env reference of
        Inl err \<Rightarrow> Inl (errorf ''credential file unavailable'' err)
      | Inr path \<Rightarrow>
        (case openStableCredentialFile env path of
           Inl err \<Rightarrow> Inl err
         | Inr h \<Rightarrow>
           let assessment = assessCredentialHandle env path h in
           if \<not> raAvailable assessment then
             Inl (ErrText (''credential file unavailable: '' @ raDetails assessment))
           else if \<not> raSecure assessment \<and> \<not> allowUnsafe then
             Inl (Wrapped (sentinel_text ErrUnsafeCredentialStorage @ '': '' @ raDetails assessment @
               ''; use --allow-unsafe-credential-storage for this invocation only if plaintext disk storage is intentional'')
               [Sentinel ErrUnsafeCredentialStorage])
           else
             (case fh_read h of
                Inl err \<Rightarrow> Inl (errorf ''read credential file'' err)
              | Inr content \<Rightarrow>
                let data = take (maxCredentialFileSize + 1) content in
                if maxCredentialFileSize < length data then
                  Inl (ErrText (''credential file exceeds '' @ decimal maxCredentialFileSize @ '' bytes''))
                else
                  let value = (if HasSuffix data [CHR 0x0D, CHR 0x0A] then TrimSuffix data [CHR 0x0D, CHR 0x0A]
                               else TrimSuffix data [CHR 0x0A]) in
                  if value = [] then Inl (errorsCredentialEmpty reference) else Inr value)))"

fun provider_Get :: "unicode_db \<Rightarrow> cred_env \<Rightarrow> provider \<Rightarrow> string \<Rightarrow> goerr + string" where
  "provider_Get db env RuntimeProvider reference = GetEnvironment db (ce_getenv env) reference"
| "provider_Get db env KeyringProvider reference =
     (if \<not> rpBuilt (keyringProviderReport env)
      then Inl (unavailable_err (rpDetails (keyringProviderReport env)))
      else keyring_Get db env reference)"
| "provider_Get db env (FileProvider allowUnsafe) reference = fileProvider_Get db env allowUnsafe reference"

fun provider_Store :: "cred_env \<Rightarrow> provider \<Rightarrow> string \<Rightarrow> string \<Rightarrow> goerr option" where
  "provider_Store env RuntimeProvider reference value = Some (Sentinel ErrProviderReadOnly)"
| "provider_Store env KeyringProvider reference value =
     (if \<not> rpAvailable (keyringProviderReport env)
      then Some (unavailable_err (rpDetails (keyringProviderReport env)))
      else keyring_Set env reference value)"
| "provider_Store env (FileProvider _) reference value = Some (Sentinel ErrProviderReadOnly)"

fun provider_Delete :: "cred_env \<Rightarrow> provider \<Rightarrow> string \<Rightarrow> goerr option" where
  "provider_Delete env RuntimeProvider reference = Some (Sentinel ErrProviderReadOnly)"
| "provider_Delete env KeyringProvider reference =
     (if \<not> rpBuilt (keyringProviderReport env)
      then Some (unavailable_err (rpDetails (keyringProviderReport env)))
      else keyring_Delete env reference)"
| "provider_Delete env (FileProvider _) reference = Some (Sentinel ErrProviderReadOnly)"

fun provider_Assess :: "unicode_db \<Rightarrow> cred_env \<Rightarrow> provider \<Rightarrow> string \<Rightarrow> reference_assessment" where
  "provider_Assess db env RuntimeProvider reference =
     (case GetEnvironment db (ce_getenv env) reference of
        Inl err \<Rightarrow> unavailable (err_msg err)
      | Inr _ \<Rightarrow> \<lparr>raAvailable = True, raSecure = True,
          raDetails = ''credential is present in the current process environment''\<rparr>)"
| "provider_Assess db env KeyringProvider reference =
     (let report = keyringProviderReport env in
      \<lparr>raAvailable = rpAvailable report, raSecure = rpSecureStorage report, raDetails = rpDetails report\<rparr>)"
| "provider_Assess db env (FileProvider _) reference = assessCredentialFile db env reference"

fun provider_Report :: "cred_env \<Rightarrow> provider \<Rightarrow> provider_report" where
  "provider_Report env RuntimeProvider = \<lparr>rpName = ProviderRuntime, rpBuilt = True, rpAvailable = True,
     rpPersistent = False, rpSecureStorage = False, rpSecurity = SecurityRuntimeOnly,
     rpDetails = ''environment, standard input, or hidden prompt; the program does not persist the credential''\<rparr>"
| "provider_Report env KeyringProvider = keyringProviderReport env"
| "provider_Report env (FileProvider _) =
     (case detectedSecureFileDelivery env of (secure, details) \<Rightarrow>
        \<lparr>rpName = ProviderFile, rpBuilt = True, rpAvailable = True, rpPersistent = True,
         rpSecureStorage = secure, rpSecurity = (if secure then SecuritySecure else SecurityConditional),
         rpDetails = details\<rparr>)"

section \<open>Registry\<close>

type_synonym registry = "provider gomap"

definition NewRegistry :: "bool \<Rightarrow> registry" where
  "NewRegistry allowUnsafe =
     fold (\<lambda>p m. AList.update (provider_Name p) p m)
       [RuntimeProvider, KeyringProvider, FileProvider allowUnsafe] []"

definition Registry_Provider :: "unicode_db \<Rightarrow> registry \<Rightarrow> string \<Rightarrow> goerr + provider" where
  "Registry_Provider db r name =
     (case map_of r name of
        None \<Rightarrow> Inl (ErrText (''unknown credential provider '' @ Quote db name))
      | Some p \<Rightarrow> Inr p)"

definition report_order :: "string \<Rightarrow> nat" where
  "report_order name =
     (case map_of [(ProviderKeyring, 0), (ProviderFile, 1), (ProviderRuntime, 2), (ProviderTPM2, 3)] name of
        None \<Rightarrow> 0 | Some n \<Rightarrow> n)"

definition Reports :: "cred_env \<Rightarrow> registry \<Rightarrow> provider_report list" where
  "Reports env r =
     sort_key (\<lambda>rep. report_order (rpName rep))
       (map (\<lambda>(_, p). provider_Report env p) r @ [tpm2ProviderReport env])"

definition HasSecureStorage :: "cred_env \<Rightarrow> registry \<Rightarrow> bool" where
  "HasSecureStorage env r =
     list_ex (\<lambda>rep. rpAvailable rep \<and> rpPersistent rep \<and> rpSecureStorage rep) (Reports env r)"

end
