(* ===== verification/Go_Net.thy ===== *)
theory Go_Net
  imports Go_Errors
begin

text \<open>
  The parsers of \<open>net\<close> and \<open>net/netip\<close> whose verdict the program depends on: hardware
  addresses (\<open>net.ParseMAC\<close>), IP addresses (\<open>netip.ParseAddr\<close>), host and port joining, and the
  decimal ports of \<open>strconv.Atoi\<close>. Addresses are accepted or not; only IPv4 addresses are
  also needed as numbers.
\<close>

definition hex_val :: "char \<Rightarrow> nat option" where
  "hex_val c =
     (let b = (of_char c :: nat) in
      if 48 \<le> b \<and> b \<le> 57 then Some (b - 48)
      else if 97 \<le> b \<and> b \<le> 102 then Some (b - 87)
      else if 65 \<le> b \<and> b \<le> 70 then Some (b - 55)
      else None)"

abbreviation is_hex :: "char \<Rightarrow> bool" where
  "is_hex c \<equiv> hex_val c \<noteq> None"

definition is_digit :: "char \<Rightarrow> bool" where
  "is_digit c \<longleftrightarrow> 48 \<le> (of_char c :: nat) \<and> (of_char c :: nat) \<le> 57"

definition digit_val :: "char \<Rightarrow> nat" where
  "digit_val c = of_char c - 48"

section \<open>Hardware addresses\<close>

text \<open>Groups of two hexadecimal digits separated by one character.\<close>

fun mac_pairs :: "char \<Rightarrow> string \<Rightarrow> bool" where
  "mac_pairs sep [a, b] = (is_hex a \<and> is_hex b)"
| "mac_pairs sep (a # b # c # s) = (is_hex a \<and> is_hex b \<and> c = sep \<and> mac_pairs sep s)"
| "mac_pairs sep _ = False"

fun mac_quads :: "string \<Rightarrow> bool" where
  "mac_quads [a, b, c, d] = (is_hex a \<and> is_hex b \<and> is_hex c \<and> is_hex d)"
| "mac_quads (a # b # c # d # e # s) =
     (is_hex a \<and> is_hex b \<and> is_hex c \<and> is_hex d \<and> e = CHR ''.'' \<and> mac_quads s)"
| "mac_quads _ = False"

definition ParseMAC_ok :: "string \<Rightarrow> bool" where
  "ParseMAC_ok s =
     (if length s < 14 then False
      else if s ! 2 = CHR '':'' \<or> s ! 2 = CHR ''-'' then
        (length s + 1) mod 3 = 0 \<and> (length s + 1) div 3 \<in> {6, 8, 20} \<and> mac_pairs (s ! 2) s
      else if s ! 4 = CHR ''.'' then
        (length s + 1) mod 5 = 0 \<and> 2 * ((length s + 1) div 5) \<in> {6, 8, 20} \<and> mac_quads s
      else False)"

section \<open>IP addresses\<close>

text \<open>\<open>parseIPv4Fields\<close>: the previous character, the number of complete octets, the value and the
  length of the current one.\<close>

fun ipv4_scan :: "bool \<Rightarrow> nat list \<Rightarrow> nat \<Rightarrow> nat \<Rightarrow> string \<Rightarrow> nat list option" where
  "ipv4_scan dot octets val digLen [] =
     (if length octets < 3 then None else Some (octets @ [val]))"
| "ipv4_scan dot octets val digLen (c # s) =
     (if is_digit c then
        (if digLen = 1 \<and> val = 0 then None
         else let v = val * 10 + digit_val c in
           if v > 255 then None else ipv4_scan False octets v (Suc digLen) s)
      else if c = CHR ''.'' then
        (if dot \<or> s = [] then None
         else if length octets = 3 then None
         else ipv4_scan True (octets @ [val]) 0 0 s)
      else None)"

definition parseIPv4 :: "string \<Rightarrow> nat list option" where
  "parseIPv4 s = (if s = [] then None else ipv4_scan True [] 0 0 s)"

text \<open>The hexadecimal digits in front of a string, at most four of them.\<close>

definition hex_run :: "string \<Rightarrow> string" where
  "hex_run s = takeWhile is_hex s"

text \<open>The loop of \<open>parseIPv6\<close>: \<open>n\<close> groups left, \<open>i\<close> bytes written, \<open>ell\<close> whether \<open>::\<close> was seen.\<close>

fun ipv6_groups :: "nat \<Rightarrow> nat \<Rightarrow> bool \<Rightarrow> string \<Rightarrow> bool" where
  "ipv6_groups 0 i ell s = (s = [] \<and> \<not> ell)"
| "ipv6_groups (Suc n) i ell s =
     (let h = hex_run s; off = length h; rest = drop off s in
      if off = 0 \<or> 4 < off then False
      else if rest \<noteq> [] \<and> hd rest = CHR ''.'' then
        (\<not> (\<not> ell \<and> i \<noteq> 12)) \<and> i + 4 \<le> 16 \<and> parseIPv4 s \<noteq> None
        \<and> (if i + 4 < 16 then ell else \<not> ell)
      else
        let i' = i + 2 in
        if rest = [] then (if i' < 16 then ell else \<not> ell)
        else if hd rest \<noteq> CHR '':'' \<or> length rest = 1 then False
        else
          let s1 = tl rest in
          if hd s1 = CHR '':'' then
            (if ell then False
             else let s2 = tl s1 in
               if s2 = [] then i' < 16 else ipv6_groups n i' True s2)
          else ipv6_groups n i' ell s1)"

definition parseIPv6_ok :: "string \<Rightarrow> bool" where
  "parseIPv6_ok full =
     (let s = takeWhile (\<lambda>c. c \<noteq> CHR ''%'') full;
          zoned = CHR ''%'' \<in> set full;
          zone = drop (length s + 1) full in
      if zoned \<and> zone = [] then False
      else if HasPrefix s ''::'' then
        (if length s = 2 then True else ipv6_groups 8 0 True (drop 2 s))
      else ipv6_groups 8 0 False s)"

text \<open>\<open>netip.ParseAddr\<close> looks for the first of \<open>.\<close>, \<open>:\<close> and \<open>%\<close>.\<close>

definition ParseAddr_ok :: "string \<Rightarrow> bool" where
  "ParseAddr_ok s =
     (case dropWhile (\<lambda>c. c \<noteq> CHR ''.'' \<and> c \<noteq> CHR '':'' \<and> c \<noteq> CHR ''%'') s of
        [] \<Rightarrow> False
      | c # _ \<Rightarrow> if c = CHR ''.'' then parseIPv4 s \<noteq> None
                 else if c = CHR '':'' then parseIPv6_ok s else False)"

section \<open>Ports\<close>

text \<open>\<open>net.JoinHostPort\<close> with a decimal port.\<close>

definition JoinHostPort :: "string \<Rightarrow> int \<Rightarrow> string" where
  "JoinHostPort host port =
     (if CHR '':'' \<in> set host then ''['' @ host @ '']:'' @ decimal_int port
      else host @ '':'' @ decimal_int port)"

end
