(* ===== verification/Config.thy ===== *)
theory Config
  imports Credentials Go_Net
begin

text \<open>
  The package \<open>internal/config\<close>: a configured device, its validation, the validation of a whole
  inventory, and the file store with its locked read-modify-write transaction. The lock, the
  private file and the JSON codec are the record \<open>config_env\<close>.
\<close>

record cdevice =
  cName :: string
  cHost :: string
  cUser :: string
  cPort :: int
  cCred :: string
  cCredentialSource :: string
  cCredentialRef :: string
  cSuccessMessage :: string
  cMACAddress :: string
  cAutoUnlock :: bool

definition maxConfigSize :: nat where
  "maxConfigSize = 1024 * 1024"

section \<open>Validation\<close>

definition validatePlain :: "unicode_db \<Rightarrow> string \<Rightarrow> string \<Rightarrow> nat \<Rightarrow> goerr option" where
  "validatePlain db field value maxLen =
     (if value = [] \<or> TrimSpace value \<noteq> value then
        Some (ErrText (field @ '' must be non-empty and have no surrounding whitespace''))
      else if maxLen < length value then
        Some (ErrText (field @ '' exceeds '' @ decimal maxLen @ '' bytes''))
      else if list_ex (uc_other db) (runes value) then
        Some (ErrText (field @ '' contains a control or formatting character''))
      else None)"

text \<open>The source of an entry that names none: a legacy entry.\<close>

definition effective_source :: "cdevice \<Rightarrow> string" where
  "effective_source d =
     (if cCredentialSource d \<noteq> [] then cCredentialSource d
      else if cCred d = [] then ProviderRuntime else ProviderKeyring)"

abbreviation first_err :: "goerr option \<Rightarrow> goerr option \<Rightarrow> goerr option" where
  "first_err a b \<equiv> (case a of Some err \<Rightarrow> Some err | None \<Rightarrow> b)"

definition ValidateDevice :: "unicode_db \<Rightarrow> cdevice \<Rightarrow> goerr option" where
  "ValidateDevice db d =
     first_err (validatePlain db ''name'' (cName d) 128)
     (first_err (validatePlain db ''host'' (cHost d) 253)
     (first_err (validatePlain db ''user'' (cUser d) 256)
     (if Contains (cHost d) '':'' \<and> \<not> ParseAddr_ok (cHost d) then
        Some (ErrText ''host must not include a port; use the port field'')
      else if cPort d < 0 \<or> 65535 < cPort d then
        Some (ErrText ''port must be zero (legacy default) or between 1 and 65535'')
      else if cCredentialSource d \<noteq> [] \<and> cCredentialSource d \<noteq> ProviderKeyring
           \<and> cCredentialSource d \<noteq> ProviderRuntime \<and> cCredentialSource d \<noteq> ProviderFile then
        Some (ErrText (''invalid credential source '' @ Quote db (cCredentialSource d)))
      else if cAutoUnlock d \<and> effective_source d = ProviderRuntime then
        Some (ErrText (''automatic unlock requires a persistent secure credential provider; '' @
                ''runtime/environment credentials are not accepted''))
      else
        first_err
          (if cCredentialSource d = ProviderFile then
             first_err (validatePlain db ''credential reference'' (cCredentialRef d) 4096)
               (case NormalizeFileReference db (cCredentialRef d) of Inl err \<Rightarrow> Some err | Inr _ \<Rightarrow> None)
           else if cCredentialRef d \<noteq> [] then
             Some (ErrText ''credential reference is only valid with the file credential source'')
           else None)
        (first_err
          (if cCred d \<noteq> [] then
             first_err (validatePlain db ''credential identifier'' (cCred d) 256)
               (if cCred d \<noteq> ID (cName d)
                then Some (ErrText ''credential identifier must match the device name'') else None)
           else None)
        (if 4096 < length (cSuccessMessage d) \<or> CHR 0x00 \<in> set (cSuccessMessage d) then
           Some (ErrText ''success message is invalid or too long'')
         else if cMACAddress d \<noteq> [] then
           first_err (validatePlain db ''MAC address'' (cMACAddress d) 64)
             (if \<not> ParseMAC_ok (cMACAddress d) then Some (ErrText ''invalid MAC address'') else None)
         else None)))))"

definition credential_id :: "cdevice \<Rightarrow> string" where
  "credential_id d = (if cCred d = [] then ID (cName d) else cCred d)"

text \<open>The loop of \<open>validateDevices\<close> at index \<open>i\<close>; \<open>all\<close> is the whole inventory.\<close>

fun validate_from ::
    "unicode_db \<Rightarrow> cdevice list \<Rightarrow> nat \<Rightarrow> nat gomap \<Rightarrow> nat gomap \<Rightarrow> cdevice list \<Rightarrow> goerr option" where
  "validate_from db all i names envNames [] = None"
| "validate_from db all i names envNames (d # ds) =
     (case ValidateDevice db d of
        Some err \<Rightarrow> Some (errorf (''invalid device at index '' @ decimal i) err)
      | None \<Rightarrow>
        (case map_of names (cName d) of
           Some prior \<Rightarrow> Some (ErrText (''duplicate device name '' @ Quote db (cName d) @ '' at indexes '' @
                           decimal prior @ '' and '' @ decimal i))
         | None \<Rightarrow>
           let envName = EnvName db (credential_id d) in
           (case map_of envNames envName of
              Some prior \<Rightarrow> Some (ErrText (''devices '' @ Quote db (cName (all ! prior)) @ '' and '' @
                  Quote db (cName d) @ '' share credential environment variable '' @ envName))
            | None \<Rightarrow>
              validate_from db all (Suc i) (AList.update (cName d) i names)
                (AList.update envName i envNames) ds)))"

definition validateDevices :: "unicode_db \<Rightarrow> cdevice list \<Rightarrow> goerr option" where
  "validateDevices db devs = validate_from db devs 0 [] [] devs"

section \<open>The store\<close>

datatype decode_tail = AtEOF | NotEOF

record config_env =
  cf_lock :: "goerr option"
  cf_read :: "goerr + string"
  cf_decode :: "string \<Rightarrow> goerr + (cdevice list \<times> decode_tail)"
  cf_encode :: "cdevice list \<Rightarrow> goerr + string"
  cf_write :: "string \<Rightarrow> goerr option"

definition Store_Load :: "unicode_db \<Rightarrow> config_env \<Rightarrow> goerr + cdevice list" where
  "Store_Load db env =
     (case cf_read env of
        Inl err \<Rightarrow> if err = Sentinel NotExist then Inr [] else Inl err
      | Inr content \<Rightarrow>
        (case cf_decode env content of
           Inl err \<Rightarrow> Inl err
         | Inr (devs, tail) \<Rightarrow>
           if tail = NotEOF then Inl (ErrText ''configuration contains trailing data'')
           else case validateDevices db devs of
             Some err \<Rightarrow> Inl err
           | None \<Rightarrow> Inr devs))"

text \<open>What a transaction did: whether the external state was prepared, the bytes handed to the
  file, and the error returned.\<close>

record config_outcome =
  coPrepared :: bool
  coWritten :: "string option"
  coErr :: "goerr option"

abbreviation refused :: "goerr \<Rightarrow> config_outcome" where
  "refused err \<equiv> \<lparr>coPrepared = False, coWritten = None, coErr = Some err\<rparr>"

definition save :: "unicode_db \<Rightarrow> config_env \<Rightarrow> cdevice list \<Rightarrow> string option \<times> goerr option" where
  "save db env devs =
     (case validateDevices db devs of
        Some err \<Rightarrow> (None, Some err)
      | None \<Rightarrow>
        (case cf_encode env devs of
           Inl err \<Rightarrow> (None, Some err)
         | Inr b \<Rightarrow>
           if maxConfigSize < length b then
             (None, Some (ErrText (''configuration exceeds '' @ decimal maxConfigSize @ '' bytes'')))
           else (Some b, cf_write env b)))"

definition Store_Save :: "unicode_db \<Rightarrow> config_env \<Rightarrow> cdevice list \<Rightarrow> config_outcome" where
  "Store_Save db env devs =
     (case cf_lock env of
        Some err \<Rightarrow> refused err
      | None \<Rightarrow> (case save db env devs of (w, err) \<Rightarrow> \<lparr>coPrepared = False, coWritten = w, coErr = err\<rparr>))"

text \<open>\<open>prepare\<close> is absent, or present with the error it returns.\<close>

definition mutate ::
    "unicode_db \<Rightarrow> config_env \<Rightarrow> (cdevice list \<Rightarrow> goerr + cdevice list) \<Rightarrow> goerr option option
      \<Rightarrow> config_outcome" where
  "mutate db env modify prepare =
     (case cf_lock env of
        Some err \<Rightarrow> refused err
      | None \<Rightarrow>
        (case Store_Load db env of
           Inl err \<Rightarrow> refused err
         | Inr devs \<Rightarrow>
           (case modify devs of
              Inl err \<Rightarrow>
                if err_is err ErrNoMutation
                then \<lparr>coPrepared = False, coWritten = None, coErr = None\<rparr> else refused err
            | Inr next_devs \<Rightarrow>
              (case validateDevices db next_devs of
                 Some err \<Rightarrow> refused err
               | None \<Rightarrow>
                 (case prepare of
                    Some (Some err) \<Rightarrow> \<lparr>coPrepared = True, coWritten = None, coErr = Some err\<rparr>
                  | _ \<Rightarrow>
                    (case save db env next_devs of
                       (w, Some err) \<Rightarrow> \<lparr>coPrepared = prepare \<noteq> None, coWritten = w,
                         coErr = Some (if prepare \<noteq> None
                           then errorf (''save configuration after preparing external state; '' @
                                  ''prepared state was retained for safety'') err
                           else err)\<rparr>
                     | (w, None) \<Rightarrow> \<lparr>coPrepared = prepare \<noteq> None, coWritten = w, coErr = None\<rparr>))))))"

definition add_device_fn :: "cdevice \<Rightarrow> cdevice list \<Rightarrow> goerr + cdevice list" where
  "add_device_fn d devs =
     (if list_ex (\<lambda>ex. cName ex = cName d) devs
      then Inl (ErrText (''device already exists: '' @ cName d)) else Inr (devs @ [d]))"

definition addPrepared :: "unicode_db \<Rightarrow> config_env \<Rightarrow> cdevice \<Rightarrow> goerr option option \<Rightarrow> config_outcome" where
  "addPrepared db env d prepare = mutate db env (add_device_fn d) prepare"

definition AddContext :: "unicode_db \<Rightarrow> config_env \<Rightarrow> cdevice \<Rightarrow> config_outcome" where
  "AddContext db env d = addPrepared db env d None"

fun replace_first :: "cdevice \<Rightarrow> cdevice list \<Rightarrow> cdevice list option" where
  "replace_first d [] = None"
| "replace_first d (x # xs) =
     (if cName x = cName d then Some (d # xs) else map_option (Cons x) (replace_first d xs))"

definition Update :: "unicode_db \<Rightarrow> config_env \<Rightarrow> cdevice \<Rightarrow> config_outcome" where
  "Update db env d =
     (case ValidateDevice db d of
        Some err \<Rightarrow> refused err
      | None \<Rightarrow>
        mutate db env (\<lambda>devs. case replace_first d devs of
            None \<Rightarrow> Inl (ErrText (''device not found: '' @ cName d)) | Some devs' \<Rightarrow> Inr devs') None)"

definition remove_fn :: "string \<Rightarrow> cdevice list \<Rightarrow> goerr + cdevice list" where
  "remove_fn name devs =
     (if list_ex (\<lambda>d. cName d = name) devs then Inr (filter (\<lambda>d. cName d \<noteq> name) devs)
      else Inl (ErrText (''device not found: '' @ name)))"

definition Remove :: "unicode_db \<Rightarrow> config_env \<Rightarrow> string \<Rightarrow> config_outcome" where
  "Remove db env name = mutate db env (remove_fn name) None"

fun remove_if_unchanged_fn :: "cdevice \<Rightarrow> cdevice list \<Rightarrow> goerr + cdevice list" where
  "remove_if_unchanged_fn expected [] = Inl (Sentinel ErrNoMutation)"
| "remove_if_unchanged_fn expected (d # ds) =
     (if cName d \<noteq> cName expected then
        (case remove_if_unchanged_fn expected ds of Inl err \<Rightarrow> Inl err | Inr rest \<Rightarrow> Inr (d # rest))
      else if d \<noteq> expected then
        Inl (Wrapped (sentinel_text ErrDeviceChanged @ '': '' @ cName expected) [Sentinel ErrDeviceChanged])
      else Inr ds)"

definition RemoveIfUnchangedContext :: "unicode_db \<Rightarrow> config_env \<Rightarrow> cdevice \<Rightarrow> config_outcome" where
  "RemoveIfUnchangedContext db env expected = mutate db env (remove_if_unchanged_fn expected) None"

text \<open>A sequence of checks passes when each does.\<close>

lemma first_err_None: "first_err a b = None \<longleftrightarrow> a = None \<and> b = None"
  by (cases a) simp_all

end
