(* ===== verification/Fvcore.thy ===== *)
theory Fvcore
  imports Go_Errors
begin

text \<open>
  The package \<open>pkg/fvcore\<close>: recognising the texts of the FileVault pre-boot SSH service, the
  callbacks that answer its password prompt, the classification of a handshake, and the
  operations on top of them (\<open>Unlock\<close>, \<open>UnlockMany\<close>, \<open>CheckStatus\<close>, \<open>VerifyUnlock\<close>).

  The SSH library and the network are the environment. A handshake is the outcome of the dial,
  the sequence of banners and keyboard-interactive challenges the library passed to the
  callbacks (any sequence whatsoever, so also the one of a hostile server), the moment the
  transition watcher fired, and the error with which the library returned.
\<close>

datatype device_status = StatusUnknown | StatusLocked | StatusUnlocked | StatusUnlockedRecently

fun status_string :: "device_status \<Rightarrow> string" where
  "status_string StatusLocked = ''locked''"
| "status_string StatusUnlocked = ''unlocked''"
| "status_string StatusUnlockedRecently = ''recently unlocked''"
| "status_string StatusUnknown = ''unknown''"

section \<open>Banner texts\<close>

definition successPhrase :: string where
  "successPhrase = ''system successfully unlocked''"

definition lockedPhrase :: string where
  "lockedPhrase = ''system is locked''"

definition lockedBannerText :: string where
  "lockedBannerText = ''this system is locked. to unlock it, use a local account name and password. '' @
     ''once successfully unlocked, you will be able to connect normally.''"

definition minCustomSuccessLen :: nat where
  "minCustomSuccessLen = 8"

definition transitionProbeFailures :: nat where
  "transitionProbeFailures = 2"

definition normalizeBanner :: "unicode_db \<Rightarrow> string \<Rightarrow> string" where
  "normalizeBanner db s = Join (Fields (ToLower db s)) '' ''"

definition isPasswordPrompt :: "unicode_db \<Rightarrow> string \<Rightarrow> bool" where
  "isPasswordPrompt db question = EqualFold db (TrimSpace question) ''Password:''"

definition successSeen :: "unicode_db \<Rightarrow> string \<Rightarrow> string \<Rightarrow> bool" where
  "successSeen db out successMsg =
     (let norm = normalizeBanner db out in
      if Contains norm successPhrase then True
      else
        let needle = normalizeBanner db successMsg in
        if length needle \<ge> minCustomSuccessLen \<and> \<not> Contains lockedBannerText needle
           \<and> \<not> isPasswordPrompt db needle
        then Contains norm needle else False)"

definition lockedSeen :: "unicode_db \<Rightarrow> string \<Rightarrow> bool" where
  "lockedSeen db out = Contains (normalizeBanner db out) lockedPhrase"

definition IsFileVaultLockedBanner :: "unicode_db \<Rightarrow> string \<Rightarrow> bool" where
  "IsFileVaultLockedBanner db out = Contains (normalizeBanner db out) lockedBannerText"

definition ParseOutput :: "unicode_db \<Rightarrow> string \<Rightarrow> device_status" where
  "ParseOutput db out =
     (let norm = normalizeBanner db out in
      if Contains norm successPhrase then StatusUnlocked
      else if Contains norm ''last login:'' then StatusUnlockedRecently
      else if Contains norm lockedPhrase \<or> Contains norm ''password:'' then StatusLocked
      else StatusUnknown)"

text \<open>\<open>logSafeInline\<close>: every rune of category C is escaped.\<close>

definition log_safe_rune :: "unicode_db \<Rightarrow> rune \<Rightarrow> string" where
  "log_safe_rune db r =
     (if uc_other db r then
        (if r \<le> 0xFFFF then backslash # CHR ''u'' # hex_pad hex_upper 4 r
         else backslash # CHR ''U'' # hex_pad hex_upper 8 r)
      else encode_rune r)"

definition logSafeInline :: "unicode_db \<Rightarrow> string \<Rightarrow> string" where
  "logSafeInline db s = concat (map (log_safe_rune db) (runes s))"

section \<open>The client and its trace\<close>

text \<open>\<open>HostKeyCallback\<close> is the callback of the caller, from host name and key to an error.\<close>

type_synonym 'key hostkey_callback = "string \<Rightarrow> 'key \<Rightarrow> goerr option"

record 'key ssh_client =
  DialTimeout :: duration
  HostKeyCallback :: "'key hostkey_callback option"
  InsecureIgnoreHostKey :: bool
  Signers :: nat       \<comment> \<open>how many keys are offered\<close>

definition dialTimeout :: "'key ssh_client \<Rightarrow> duration" where
  "dialTimeout r = (if DialTimeout r > 0 then DialTimeout r else 15 * second)"

definition hostKeyCallback :: "'key ssh_client \<Rightarrow> 'key hostkey_callback" where
  "hostKeyCallback r =
     (if InsecureIgnoreHostKey r then (\<lambda>_ _. None)
      else case HostKeyCallback r of
        Some cb \<Rightarrow> cb
      | None \<Rightarrow> (\<lambda>hostname _. Some (ErrText (''no host-key verification configured for '' @ hostname @
          ''; refusing to send the password (configure known_hosts or pass --insecure-host-key)''))))"

text \<open>
  The channel \<open>passwordAnsweredSignal\<close> is present in the trace of an unlock and absent in the
  trace of a probe; \<open>Some True\<close> means it has been closed.
\<close>

record auth_trace =
  banner :: string
  postAuth :: string
  passwordAnsweredSignal :: "bool option"
  passwordPrompted :: bool
  passwordAnswered :: bool
  successAfterAuth :: bool
  transportTransitionObserved :: bool

definition new_trace :: "bool option \<Rightarrow> auth_trace" where
  "new_trace signal = \<lparr>banner = [], postAuth = [], passwordAnsweredSignal = signal,
     passwordPrompted = False, passwordAnswered = False, successAfterAuth = False,
     transportTransitionObserved = False\<rparr>"

definition addText :: "string \<Rightarrow> auth_trace \<Rightarrow> auth_trace" where
  "addText s t = (if s = [] then t else t\<lparr>banner := banner t @ s @ [CHR 0x0A]\<rparr>)"

definition recordPasswordPrompt :: "bool \<Rightarrow> auth_trace \<Rightarrow> auth_trace \<times> goerr option" where
  "recordPasswordPrompt answer t =
     (if passwordPrompted t then (t, Some (ErrText ''unexpected repeated password challenge''))
      else (t\<lparr>passwordPrompted := True, passwordAnswered := answer,
              passwordAnsweredSignal :=
                (if answer then map_option (\<lambda>_. True) (passwordAnsweredSignal t)
                 else passwordAnsweredSignal t)\<rparr>, None))"

definition recordResponseText :: "unicode_db \<Rightarrow> string \<Rightarrow> string \<Rightarrow> auth_trace \<Rightarrow> auth_trace \<times> bool" where
  "recordResponseText db s successMsg t0 =
     (let t1 = addText s t0;
          t2 = (if passwordAnswered t1 then
                  let post = postAuth t1 @ s @ [CHR 0x0A] in
                  t1\<lparr>postAuth := post,
                     successAfterAuth := successAfterAuth t1 \<or> successSeen db post successMsg\<rparr>
                else t1) in
      (t2, successAfterAuth t2))"

definition markTransportTransition :: "auth_trace \<Rightarrow> auth_trace" where
  "markTransportTransition t = t\<lparr>transportTransitionObserved := True\<rparr>"

section \<open>The callbacks\<close>

datatype reply = Proceed | Answer "string list" | Abort goerr

text \<open>The keyboard-interactive callback of \<open>clientConfig\<close>.\<close>

definition kbd_callback ::
    "unicode_db \<Rightarrow> string \<Rightarrow> string \<Rightarrow> bool \<Rightarrow> string \<Rightarrow> string list \<Rightarrow> bool list
      \<Rightarrow> auth_trace \<Rightarrow> auth_trace \<times> reply" where
  "kbd_callback db password successMsg answerPassword instruction questions echos t0 =
     (if questions = [] then
        (case recordResponseText db instruction successMsg t0 of
           (t1, True) \<Rightarrow> (t1, Abort (Sentinel ErrUnlockSucceeded))
         | (t1, False) \<Rightarrow> (t1, Answer []))
      else
        let t1 = addText instruction t0 in
        if length questions \<noteq> 1 \<or> length echos \<noteq> 1 \<or> hd echos \<or> \<not> isPasswordPrompt db (hd questions) then
          (t1, Abort (ErrText (''unexpected keyboard-interactive challenge ('' @
                        decimal (length questions) @ '' questions)'')))
        else
          let t2 = addText (hd questions) t1 in
          (case recordPasswordPrompt answerPassword t2 of
             (t3, Some err) \<Rightarrow> (t3, Abort err)
           | (t3, None) \<Rightarrow>
               (t3, if \<not> answerPassword then Abort (Sentinel ErrStatusProbe) else Answer [password])))"

definition banner_callback :: "unicode_db \<Rightarrow> string \<Rightarrow> string \<Rightarrow> auth_trace \<Rightarrow> auth_trace \<times> reply" where
  "banner_callback db successMsg msg t0 =
     (case recordResponseText db msg successMsg t0 of
        (t1, True) \<Rightarrow> (t1, Abort (Sentinel ErrUnlockSucceeded))
      | (t1, False) \<Rightarrow> (t1, Proceed))"

text \<open>What can happen during a handshake, and the replies it gets.\<close>

datatype server_event =
    BannerMsg string
  | Challenge string "string list" "bool list"
  | TransitionDown

definition clientConfig ::
    "unicode_db \<Rightarrow> string \<Rightarrow> string \<Rightarrow> bool \<Rightarrow> server_event \<Rightarrow> auth_trace \<Rightarrow> auth_trace \<times> reply" where
  "clientConfig db password successMsg answerPassword ev t =
     (case ev of
        BannerMsg msg \<Rightarrow> banner_callback db successMsg msg t
      | Challenge instruction questions echos \<Rightarrow>
          kbd_callback db password successMsg answerPassword instruction questions echos t
      | TransitionDown \<Rightarrow> (markTransportTransition t, Proceed))"

fun run_callbacks ::
    "(server_event \<Rightarrow> auth_trace \<Rightarrow> auth_trace \<times> reply) \<Rightarrow> server_event list \<Rightarrow> auth_trace
      \<Rightarrow> auth_trace \<times> reply list" where
  "run_callbacks cfg [] t = (t, [])"
| "run_callbacks cfg (ev # evs) t =
     (case cfg ev t of (t1, r) \<Rightarrow>
        case run_callbacks cfg evs t1 of (t2, rs) \<Rightarrow> (t2, r # rs))"

section \<open>Errors of a handshake\<close>

definition isHostKeyError :: "goerr \<Rightarrow> bool" where
  "isHostKeyError err \<longleftrightarrow>
     err_is err ErrHostKeyMismatch \<or> key_error_of err \<noteq> None
     \<or> Contains (err_msg err) ''host key mismatch''"

definition dialError :: "goerr \<Rightarrow> goerr option" where
  "dialError err =
     (if err_is err DeadlineExceeded \<or> err_is err Canceled then Some err
      else if err_refused err then Some (Sentinel ErrConnectionRefused)
      else if net_error_of err = Some True then Some (Sentinel DeadlineExceeded)
      else None)"

text \<open>
  The environment of a handshake: the error of the dial, what reached the callbacks, the error
  of \<open>ssh.NewClientConn\<close>, and \<open>ctx.Err()\<close> after it.
\<close>

record handshake_env =
  hs_dial :: "goerr option"
  hs_events :: "server_event list"
  hs_conn :: "goerr option"
  hs_ctx :: "goerr option"

definition handshake_deadline :: "'key ssh_client \<Rightarrow> time \<Rightarrow> time option \<Rightarrow> time" where
  "handshake_deadline r now ctx_deadline =
     (let deadline = now + dialTimeout r in
      case ctx_deadline of
        Some dl \<Rightarrow> if dl < deadline then dl else deadline
      | None \<Rightarrow> deadline)"

definition handshake ::
    "handshake_env \<Rightarrow> (server_event \<Rightarrow> auth_trace \<Rightarrow> auth_trace \<times> reply) \<Rightarrow> auth_trace
      \<Rightarrow> auth_trace \<times> reply list \<times> goerr option" where
  "handshake env cfg t0 =
     (case hs_dial env of
        Some err \<Rightarrow> (t0, [], Some (case dialError err of Some de \<Rightarrow> de | None \<Rightarrow> err))
      | None \<Rightarrow>
        let (t1, replies) = run_callbacks cfg (hs_events env) t0 in
        (t1, replies,
         case hs_conn env of
           None \<Rightarrow> None
         | Some err \<Rightarrow> (case hs_ctx env of Some cerr \<Rightarrow> Some cerr | None \<Rightarrow> Some err)))"

definition hostKeyErr :: "string \<Rightarrow> goerr \<Rightarrow> goerr" where
  "hostKeyErr host err =
     Wrapped (sentinel_text ErrHostKeyMismatch @ '' for '' @ host @ '': '' @ err_msg err)
       [Sentinel ErrHostKeyMismatch, err]"

definition outcomeUnknown :: "goerr \<Rightarrow> goerr" where
  "outcomeUnknown de =
     Wrapped (sentinel_text ErrUnlockOutcomeUnknown @ '': '' @ err_msg de)
       [Sentinel ErrUnlockOutcomeUnknown, de]"

definition classifyHandshakeErr ::
    "string \<Rightarrow> string \<Rightarrow> bool \<Rightarrow> bool \<Rightarrow> bool \<Rightarrow> bool \<Rightarrow> goerr \<Rightarrow> device_status \<times> string \<times> goerr option" where
  "classifyHandshakeErr host out prompted answered success transition err =
     (if isHostKeyError err then (StatusUnknown, out, Some (hostKeyErr host err))
      else if success then (StatusUnlocked, out, None)
      else if answered \<and> transition then
        (StatusUnknown, out, Some (Wrapped (sentinel_text ErrUnlockOutcomeUnknown @
           '': SSH service became unavailable after password submission'')
           [Sentinel ErrUnlockOutcomeUnknown]))
      else case dialError err of
        Some de \<Rightarrow> if answered then (StatusUnknown, out, Some (outcomeUnknown de))
                   else (StatusUnknown, out, Some de)
      | None \<Rightarrow>
          if prompted then (StatusLocked, out, Some (Sentinel ErrAuthFailed))
          else (StatusUnknown, out, Some err))"

section \<open>Analysing and probing\<close>

definition AnalyzePrompt ::
    "unicode_db \<Rightarrow> handshake_env \<Rightarrow> string \<Rightarrow> string \<Rightarrow> string
      \<Rightarrow> (device_status \<times> string \<times> goerr option) \<times> reply list" where
  "AnalyzePrompt db env host password successMsg =
     (case handshake env (clientConfig db password successMsg True) (new_trace (Some False)) of
        (t, replies, Some err) \<Rightarrow>
          (classifyHandshakeErr host (banner t) (passwordPrompted t) (passwordAnswered t)
             (successAfterAuth t) (transportTransitionObserved t) err, replies)
      | (t, replies, None) \<Rightarrow>
          ((if successAfterAuth t then StatusUnlocked else StatusUnlockedRecently, banner t, None), replies))"

definition ProbeStatus ::
    "unicode_db \<Rightarrow> handshake_env \<Rightarrow> string \<Rightarrow> (device_status \<times> string \<times> goerr option) \<times> reply list" where
  "ProbeStatus db env host =
     (case handshake env (clientConfig db [] [] False) (new_trace None) of
        (t, replies, Some err) \<Rightarrow>
          (if isHostKeyError err then (StatusUnknown, banner t, Some (hostKeyErr host err))
           else if lockedSeen db (banner t) then (StatusLocked, banner t, None)
           else case dialError err of
             Some de \<Rightarrow> (StatusUnknown, banner t, Some de)
           | None \<Rightarrow>
               if passwordPrompted t then (StatusUnknown, banner t, Some (Sentinel ErrIndeterminate))
               else (StatusUnknown, banner t, Some err), replies)
      | (t, replies, None) \<Rightarrow> ((StatusUnlockedRecently, banner t, None), replies))"

text \<open>
  The loop of \<open>watchSSHServiceTransition\<close> over the probes of its ticks until the context ends;
  the result tells whether \<open>onDown\<close> was called.
\<close>

fun watch_loop :: "bool \<Rightarrow> nat \<Rightarrow> bool list \<Rightarrow> bool" where
  "watch_loop baseline failures [] = False"
| "watch_loop baseline failures (reachable # ticks) =
     (if reachable then watch_loop True 0 ticks
      else if \<not> baseline then watch_loop baseline failures ticks
      else if Suc failures \<ge> transitionProbeFailures then True
      else watch_loop baseline (Suc failures) ticks)"

text \<open>\<open>answered\<close> is whether the signal of the submitted password came before the context ended.\<close>

definition watchSSHServiceTransition :: "bool \<Rightarrow> bool \<Rightarrow> bool list \<Rightarrow> bool" where
  "watchSSHServiceTransition baselineReachable answered ticks =
     (answered \<and> watch_loop baselineReachable 0 ticks)"

section \<open>Operations\<close>

record fv_result =
  Host :: string
  Status :: device_status
  Output :: string
  Error :: "goerr option"
  Verified :: bool

definition effectiveContextError :: "goerr option \<Rightarrow> time option \<Rightarrow> time \<Rightarrow> goerr option" where
  "effectiveContextError ctx_err deadline now =
     (case ctx_err of
        Some err \<Rightarrow> Some err
      | None \<Rightarrow>
        (case deadline of
           Some dl \<Rightarrow> if \<not> now < dl then Some (Sentinel DeadlineExceeded) else None
         | None \<Rightarrow> None))"

text \<open>\<open>before\<close> and \<open>after\<close> are the two values of \<open>effectiveContextError\<close>; \<open>cred\<close> is the answer of the
  credential store, \<open>analyze\<close> the client. The second component tells whether the client was called.\<close>

definition Unlock ::
    "goerr option \<Rightarrow> (goerr + string) \<Rightarrow> (string \<Rightarrow> (device_status \<times> string \<times> goerr option) \<times> reply list)
      \<Rightarrow> goerr option \<Rightarrow> string \<Rightarrow> fv_result \<times> reply list" where
  "Unlock before cred analyze after host =
     (case before of
        Some err \<Rightarrow> (\<lparr>Host = host, Status = StatusUnknown, Output = [], Error = Some err, Verified = False\<rparr>, [])
      | None \<Rightarrow>
        (case cred of
           Inl err \<Rightarrow> (\<lparr>Host = host, Status = StatusUnknown, Output = [], Error = Some err, Verified = False\<rparr>, [])
         | Inr pass \<Rightarrow>
           let ((status, out, err), replies) = analyze pass in
           (if status = StatusUnknown \<and> err = None then
              (case after of
                 Some cerr \<Rightarrow> \<lparr>Host = host, Status = StatusUnknown, Output = out, Error = Some cerr, Verified = False\<rparr>
               | None \<Rightarrow> \<lparr>Host = host, Status = status, Output = out, Error = err, Verified = False\<rparr>)
            else \<lparr>Host = host, Status = status, Output = out, Error = err, Verified = False\<rparr>, replies)))"

text \<open>
  \<open>UnlockMany\<close>: \<open>unlock i\<close> is the result of unlocking the device of index \<open>i\<close>. With one worker the
  devices are processed in order; with more, the results arrive in the order \<open>arrival\<close>.
\<close>

definition UnlockMany :: "(nat \<Rightarrow> 'd \<Rightarrow> 'r) \<Rightarrow> 'r \<Rightarrow> 'd list \<Rightarrow> int \<Rightarrow> nat list \<Rightarrow> 'r list" where
  "UnlockMany unlock zero ds concurrency arrival =
     (let results = replicate (length ds) zero in
      if ds = [] then results
      else if concurrency \<le> 1 then fold (\<lambda>i rs. rs[i := unlock i (ds ! i)]) [0..<length ds] results
      else fold (\<lambda>i rs. rs[i := unlock i (ds ! i)]) arrival results)"

text \<open>
  \<open>CheckStatus\<close>: the deadline only bounds the probe, so the budget selects what the network
  does: \<open>net host user timeout\<close> is the environment of a handshake under that budget.
\<close>

type_synonym ssh_net = "string \<Rightarrow> string \<Rightarrow> duration \<Rightarrow> handshake_env"

definition CheckStatus ::
    "unicode_db \<Rightarrow> ssh_net \<Rightarrow> string \<Rightarrow> string \<Rightarrow> duration
      \<Rightarrow> (device_status \<times> string \<times> goerr option) \<times> reply list" where
  "CheckStatus db net host user timeout = ProbeStatus db (net host user timeout) host"

record verify_options =
  Grace :: duration
  Window :: duration
  Interval :: duration
  AttemptTimeout :: duration

definition DefaultVerifyOptions :: verify_options where
  "DefaultVerifyOptions = \<lparr>Grace = 10 * second, Window = 5 * minute, Interval = 10 * second,
     AttemptTimeout = 20 * second\<rparr>"

text \<open>
  The world of a verification: the status and error of the \<open>i\<close>-th probe and how long it took,
  and when the caller's context ends (\<open>None\<close>: never) with which error. \<open>ve_pick\<close> is the choice
  of \<open>select\<close> among the cases that are ready at the same instant.
\<close>

record verify_env =
  ve_probe :: "nat \<Rightarrow> device_status \<times> goerr option"
  ve_took :: "nat \<Rightarrow> nat"
  ve_cancel :: "(time \<times> goerr) option"
  ve_pick :: "nat \<Rightarrow> nat"

definition cancelled_at :: "verify_env \<Rightarrow> time \<Rightarrow> goerr option" where
  "cancelled_at env t =
     (case ve_cancel env of Some (c, err) \<Rightarrow> if c \<le> t then Some err else None | None \<Rightarrow> None)"

text \<open>
  The \<open>select\<close> that waits for \<open>d\<close> from \<open>t\<close>: the caller's cancellation, the end of the derived
  context (its own deadline or the caller's cancellation), or the timer. \<open>Inl\<close> returns.
\<close>

definition verify_cases ::
    "verify_env \<Rightarrow> time \<Rightarrow> time \<Rightarrow> duration \<Rightarrow> (time \<times> ((bool \<times> goerr option) + time)) list" where
  "verify_cases env deadline t d =
     (case ve_cancel env of
        Some (c, err) \<Rightarrow> [(max t c, Inl (False, Some err)), (max t (min c deadline), Inl (False, None))]
      | None \<Rightarrow> [(max t deadline, Inl (False, None))]) @ [(t + d, Inr (t + d))]"

definition verify_wait ::
    "verify_env \<Rightarrow> time \<Rightarrow> nat \<Rightarrow> time \<Rightarrow> duration \<Rightarrow> (bool \<times> goerr option) + time" where
  "verify_wait env deadline i t d =
     (let cs = verify_cases env deadline t d;
          first = min_list (map fst cs);
          ready = filter (\<lambda>p. fst p = first) cs in
      snd (ready ! (ve_pick env i mod length ready)))"

text \<open>One iteration of the loop of \<open>VerifyUnlock\<close> at time \<open>t\<close>: return, or go on at a later time.\<close>

definition verify_step ::
    "verify_env \<Rightarrow> verify_options \<Rightarrow> time \<Rightarrow> nat \<Rightarrow> time \<Rightarrow> (bool \<times> goerr option) + time" where
  "verify_step env opts deadline i t =
     (let (status, err) = ve_probe env i;
          t1 = t + int (ve_took env i) in
      if status = StatusUnlockedRecently then Inl (True, None)
      else if (case err of Some e \<Rightarrow> err_is e ErrHostKeyMismatch | None \<Rightarrow> False) then Inl (False, err)
      else if (case err of Some e \<Rightarrow> err_is e ErrIndeterminate | None \<Rightarrow> False) then Inl (False, err)
      else case cancelled_at env t1 of
        Some cerr \<Rightarrow> Inl (False, Some cerr)
      | None \<Rightarrow>
          if deadline \<le> t1 then Inl (False, None)
          else verify_wait env deadline i t1 (Interval opts))"

text \<open>The loop; \<open>None\<close> when the fuel is used up before it returns.\<close>

fun verify_loop ::
    "nat \<Rightarrow> verify_env \<Rightarrow> verify_options \<Rightarrow> time \<Rightarrow> nat \<Rightarrow> time \<Rightarrow> (bool \<times> goerr option) option" where
  "verify_loop 0 env opts deadline i t = None"
| "verify_loop (Suc fuel) env opts deadline i t =
     (case verify_step env opts deadline i t of
        Inl r \<Rightarrow> Some r
      | Inr t2 \<Rightarrow> verify_loop fuel env opts deadline (Suc i) t2)"

definition VerifyUnlock ::
    "nat \<Rightarrow> verify_env \<Rightarrow> verify_options \<Rightarrow> time \<Rightarrow> (bool \<times> goerr option) option" where
  "VerifyUnlock fuel env opts t0 =
     (if Window opts \<le> 0 then Some (False, None)
      else if AttemptTimeout opts \<le> 0 \<or> Interval opts < 0 \<or> Grace opts < 0 then
        Some (False, Some (ErrText ''invalid verification timing options''))
      else case cancelled_at env t0 of
        Some err \<Rightarrow> Some (False, Some err)
      | None \<Rightarrow>
        let deadline = t0 + Window opts in
        if Grace opts > 0 then
          (case verify_wait env deadline 0 t0 (Grace opts) of
             Inl r \<Rightarrow> Some r
           | Inr t1 \<Rightarrow> verify_loop fuel env opts deadline 0 t1)
        else verify_loop fuel env opts deadline 0 t0)"

end
