(* ===== verification/Cli.thy ===== *)
theory Cli
  imports Config Fvcore
begin

text \<open>
  The command line (\<open>cmd/fv-ssh-unlock\<close>: \<open>main.go\<close>, \<open>output.go\<close>, \<open>automation.go\<close>): safe terminal
  output, paths of the data directory, confirmation, device selection, binding a device to its
  credential provider, the retry state machine of \<open>unlock\<close>, the classification of \<open>status\<close>, and
  the comparison of inventories by \<open>config apply\<close>. What is printed on the terminal is not
  modelled; every decision that depends on a result is.
\<close>

section \<open>Safe output\<close>

fun replace_crlf :: "string \<Rightarrow> string" where
  "replace_crlf (c # d # s) =
     (if c = CHR 0x0D \<and> d = CHR 0x0A then CHR 0x0A # replace_crlf s else c # replace_crlf (d # s))"
| "replace_crlf s = s"

definition replace_byte :: "char \<Rightarrow> string \<Rightarrow> string \<Rightarrow> string" where
  "replace_byte c by_text s = concat (map (\<lambda>x. if x = c then by_text else [x]) s)"

definition terminal_rune :: "unicode_db \<Rightarrow> bool \<Rightarrow> rune \<Rightarrow> string" where
  "terminal_rune db multiline r =
     (if multiline \<and> (r = 10 \<or> r = 9) then encode_rune r
      else if uc_other db r then
        (if r \<le> 0xFFFF then backslash # CHR ''u'' # hex_pad hex_upper 4 r
         else backslash # CHR ''U'' # hex_pad hex_upper 8 r)
      else encode_rune r)"

definition terminalSafe :: "unicode_db \<Rightarrow> string \<Rightarrow> bool \<Rightarrow> string" where
  "terminalSafe db s0 multiline =
     (let s = (if multiline then replace_crlf s0 else s0) in
      concat (map (terminal_rune db multiline) (runes s)))"

definition terminalSafeInline :: "unicode_db \<Rightarrow> string \<Rightarrow> string" where
  "terminalSafeInline db s =
     (let s1 = replace_byte (CHR 0x0A) (backslash # ''u000A'') s;
          s2 = replace_byte (CHR 0x0D) (backslash # ''u000D'') s1 in
      terminalSafe db s2 False)"

definition terminalSafeError :: "unicode_db \<Rightarrow> goerr option \<Rightarrow> string" where
  "terminalSafeError db err = (case err of None \<Rightarrow> [] | Some e \<Rightarrow> terminalSafeInline db (err_msg e))"

definition terminalSafeMultiline :: "unicode_db \<Rightarrow> string \<Rightarrow> string" where
  "terminalSafeMultiline db s = terminalSafe db s True"

section \<open>Data directory and confirmation\<close>

definition appDataDir :: "string \<Rightarrow> (string \<Rightarrow> string) \<Rightarrow> (goerr + string) \<Rightarrow> goerr + string" where
  "appDataDir override getenv homedir =
     (if override \<noteq> [] then
        (if \<not> IsAbs override then Inl (ErrText ''--data-dir must be an absolute path'')
         else Inr (Clean override))
      else
        let fromEnv = TrimSpace (getenv ''FV_SSH_UNLOCK_DATA_DIR'') in
        if fromEnv \<noteq> [] then
          (if \<not> IsAbs fromEnv then Inl (ErrText ''FV_SSH_UNLOCK_DATA_DIR must be an absolute path'')
           else Inr (Clean fromEnv))
        else case homedir of
          Inl err \<Rightarrow> Inl (errorf ''find home directory'' err)
        | Inr home \<Rightarrow>
          if home = [] then Inl (ErrText ''find home directory: empty path'')
          else Inr (Join2 home ''.fv-ssh-unlock''))"

definition configPath :: "string \<Rightarrow> (string \<Rightarrow> string) \<Rightarrow> (goerr + string) \<Rightarrow> goerr + string" where
  "configPath override getenv homedir =
     (case appDataDir override getenv homedir of
        Inl err \<Rightarrow> Inl err
      | Inr dir \<Rightarrow> Inr (Join2 dir ''devices.json''))"

text \<open>One call of \<open>Read\<close> on a one-byte buffer: the byte if one was read, and the error (\<open>Some None\<close> is
  the end of the input). The list ends where the reader makes no progress.\<close>

type_synonym read1 = "char option \<times> goerr option option"

fun readYes_from :: "unicode_db \<Rightarrow> string \<Rightarrow> read1 list \<Rightarrow> goerr + bool" where
  "readYes_from db answer [] = Inl (ErrText ''multiple Read calls return no data or error'')"
| "readYes_from db answer ((byt, err) # rs) =
     (let yes = (\<lambda>s. EqualFold db (TrimSpace s) ''y'') in
      case byt of
        Some c \<Rightarrow>
          if c = CHR 0x0A then Inr (yes answer)
          else if length answer \<ge> 16 then Inl (ErrText ''confirmation response is too long'')
          else (case err of
                  Some None \<Rightarrow> Inr (yes (answer @ [c]))
                | Some (Some e) \<Rightarrow> Inl e
                | None \<Rightarrow> readYes_from db (answer @ [c]) rs)
      | None \<Rightarrow>
          (case err of
             Some None \<Rightarrow> Inr (yes answer)
           | Some (Some e) \<Rightarrow> Inl e
           | None \<Rightarrow> Inl (ErrText ''multiple Read calls return no data or error'')))"

definition readYes :: "unicode_db \<Rightarrow> read1 list \<Rightarrow> goerr + bool" where
  "readYes db rs = readYes_from db [] rs"

section \<open>Devices\<close>

definition by_name :: "cdevice list \<Rightarrow> cdevice gomap" where
  "by_name ds = fold (\<lambda>d m. AList.update (cName d) d m) ds []"

fun select_from :: "unicode_db \<Rightarrow> cdevice gomap \<Rightarrow> string list \<Rightarrow> string list \<Rightarrow> goerr + cdevice list" where
  "select_from db m seen [] = Inr []"
| "select_from db m seen (n # ns) =
     (if n \<in> set seen then Inl (ErrText (''device '' @ Quote db n @ '' was specified more than once''))
      else case map_of m n of
        None \<Rightarrow> Inl (ErrText (''device not found: '' @ n))
      | Some d \<Rightarrow>
        (case select_from db m (n # seen) ns of Inl err \<Rightarrow> Inl err | Inr ds \<Rightarrow> Inr (d # ds)))"

definition selectConfiguredDevices :: "unicode_db \<Rightarrow> cdevice list \<Rightarrow> string list \<Rightarrow> goerr + cdevice list" where
  "selectConfiguredDevices db devices names = select_from db (by_name devices) [] names"

definition deviceCredentialID :: "cdevice \<Rightarrow> string" where
  "deviceCredentialID d = (if cCred d \<noteq> [] then cCred d else ID (cName d))"

definition deviceEndpoint :: "cdevice \<Rightarrow> string" where
  "deviceEndpoint d = JoinHostPort (cHost d) (if cPort d = 0 then 22 else cPort d)"

definition credentialSourceLabel :: "unicode_db \<Rightarrow> cdevice \<Rightarrow> string" where
  "credentialSourceLabel db d =
     (if cCredentialSource d = ProviderKeyring then ''OS keyring''
      else if cCredentialSource d = ProviderRuntime then ''runtime (environment or hidden prompt)''
      else if cCredentialSource d = ProviderFile then
        ''external file ('' @ terminalSafeInline db (cCredentialRef d) @ '')''
      else if cCred d = [] then ''legacy runtime (environment or hidden prompt)''
      else ''legacy OS keyring'')"

record provider_store =
  psProvider :: provider
  psReference :: string

definition credentialStoreForDevice :: "unicode_db \<Rightarrow> cdevice \<Rightarrow> bool \<Rightarrow> goerr + provider_store" where
  "credentialStoreForDevice db d allowUnsafe =
     (let source = effective_source d;
          reference = (if source = ProviderFile then cCredentialRef d else deviceCredentialID d) in
      case Registry_Provider db (NewRegistry allowUnsafe) source of
        Inl err \<Rightarrow> Inl err
      | Inr p \<Rightarrow> Inr \<lparr>psProvider = p, psReference = reference\<rparr>)"

definition providerStore_Get :: "unicode_db \<Rightarrow> cred_env \<Rightarrow> provider_store \<Rightarrow> goerr + string" where
  "providerStore_Get db env s = provider_Get db env (psProvider s) (psReference s)"

definition staticStore_Get :: "string \<Rightarrow> goerr + string" where
  "staticStore_Get pw = (if pw = [] then Inl (ErrText ''no password available'') else Inr pw)"

text \<open>The reference whose keyring entry is deleted with the device, if any.\<close>

definition deleteStoredCredential :: "unicode_db \<Rightarrow> cred_env \<Rightarrow> cdevice \<Rightarrow> string option" where
  "deleteStoredCredential db env d =
     (if cCredentialSource d = [] \<and> cCred d = [] then None
      else
        let source = (if cCredentialSource d = [] then ProviderKeyring else cCredentialSource d) in
        if source = ProviderRuntime \<or> source = ProviderFile then None
        else case Registry_Provider db (NewRegistry False) source of
          Inl _ \<Rightarrow> None
        | Inr p \<Rightarrow> if rpBuilt (provider_Report env p) then Some (deviceCredentialID d) else None)"

section \<open>The retry state machine of \<open>unlock\<close>\<close>

definition defaultSuccessMessage :: string where
  "defaultSuccessMessage = ''System successfully unlocked.'' @ [CHR 0x0D, CHR 0x0A] @
     ''You may now use SSH to authenticate normally.'' @ [CHR 0x0D, CHR 0x0A, CHR 0x0D, CHR 0x0A]"

definition success_message :: "cdevice \<Rightarrow> string" where
  "success_message d = (if cSuccessMessage d = [] then defaultSuccessMessage else cSuccessMessage d)"

datatype unlock_outcome = OutcomeUnlocked | OutcomeIncorrectPassword | OutcomeExhausted

record retry_options =
  maxAttempts :: int
  retryDelay :: duration
  verifyWindow :: duration

text \<open>
  The world during attempt \<open>i\<close>: the result of the unlock, \<open>ctx.Err()\<close> after it, the answer of a
  verification with given options, and the error if the context ends during the wait.
\<close>

record retry_env =
  re_unlock :: "int \<Rightarrow> fv_result"
  re_ctx :: "int \<Rightarrow> goerr option"
  re_verify :: "int \<Rightarrow> verify_options \<Rightarrow> bool \<times> goerr option"
  re_wait :: "int \<Rightarrow> goerr option"

abbreviation opt_is :: "goerr option \<Rightarrow> sentinel \<Rightarrow> bool" where
  "opt_is err s \<equiv> (case err of None \<Rightarrow> False | Some e \<Rightarrow> err_is e s)"

definition accepted_verify :: "duration \<Rightarrow> verify_options" where
  "accepted_verify window = DefaultVerifyOptions\<lparr>Window := window\<rparr>"

definition unacknowledged_verify :: "duration \<Rightarrow> verify_options" where
  "unacknowledged_verify window =
     DefaultVerifyOptions\<lparr>Grace := 0, Window := window, Interval := 2 * second,
       AttemptTimeout := (if window < 5 * second then window else 5 * second)\<rparr>"

datatype retry_step = Stop "goerr + (unlock_outcome \<times> goerr option)" | Again

text \<open>One attempt.\<close>

definition retry_attempt :: "retry_env \<Rightarrow> retry_options \<Rightarrow> int \<Rightarrow> retry_step" where
  "retry_attempt env opts i =
     (let res = re_unlock env i in
      if Status res = StatusUnknown \<and> \<not> opt_is (Error res) ErrHostKeyMismatch \<and> re_ctx env i \<noteq> None
      then Stop (Inl (the (re_ctx env i)))
      else case Status res of
        StatusUnlocked \<Rightarrow>
          (if verifyWindow opts > 0 then
             let (ok, verr) = re_verify env i (accepted_verify (verifyWindow opts)) in
             if opt_is verr ErrHostKeyMismatch then Stop (Inl (the verr))
             else Stop (Inr (OutcomeUnlocked, None))
           else Stop (Inr (OutcomeUnlocked, None)))
      | StatusUnlockedRecently \<Rightarrow> Stop (Inr (OutcomeUnlocked, None))
      | StatusLocked \<Rightarrow> Stop (Inr (OutcomeIncorrectPassword, None))
      | StatusUnknown \<Rightarrow>
          if opt_is (Error res) ErrHostKeyMismatch then Stop (Inl (the (Error res)))
          else
            let retry = (if i < maxAttempts opts then
                  (case re_wait env i of Some err \<Rightarrow> Stop (Inl err) | None \<Rightarrow> Again)
                else Stop (Inr (OutcomeExhausted, Error res))) in
            if opt_is (Error res) ErrUnlockOutcomeUnknown \<and> verifyWindow opts > 0 then
              let (ok, verr) = re_verify env i (unacknowledged_verify (verifyWindow opts)) in
              if opt_is verr ErrHostKeyMismatch then Stop (Inl (the verr))
              else if ok then Stop (Inr (OutcomeUnlocked, None))
              else if opt_is verr ErrIndeterminate then retry
              else if opt_is verr Canceled then Stop (Inl (the verr))
              else retry
            else retry)"

lemma retry_again: "retry_attempt env opts i = Again \<Longrightarrow> i < maxAttempts opts"
  by (auto simp: retry_attempt_def Let_def split: device_status.splits if_splits option.splits prod.splits)

function unlock_retry_from ::
    "retry_env \<Rightarrow> retry_options \<Rightarrow> int \<Rightarrow> (goerr + (unlock_outcome \<times> goerr option)) \<times> int" where
  "unlock_retry_from env opts i =
     (case retry_attempt env opts i of
        Stop r \<Rightarrow> (r, i)
      | Again \<Rightarrow> unlock_retry_from env opts (i + 1))"
  by pat_completeness auto
termination
  by (relation "measure (\<lambda>(env, opts, i). nat (maxAttempts opts - i))") (auto dest: retry_again)

declare unlock_retry_from.simps [simp del]

text \<open>The result and the number of attempts made.\<close>

definition unlockDeviceWithRetry ::
    "retry_env \<Rightarrow> retry_options \<Rightarrow> (goerr + (unlock_outcome \<times> goerr option)) \<times> int" where
  "unlockDeviceWithRetry env opts = unlock_retry_from env opts 1"

section \<open>The \<open>status\<close> command\<close>

record status_report =
  srName :: string
  srEndpoint :: string
  srState :: string
  srEvidence :: string
  srError :: string

text \<open>The report of one device; the second component says whether it counts as failed, the third
  whether as indeterminate.\<close>

definition status_of_device ::
    "cdevice \<Rightarrow> device_status \<Rightarrow> goerr option \<Rightarrow> status_report \<times> bool \<times> bool" where
  "status_of_device d st perr =
     (let r = (\<lambda>state evidence err. \<lparr>srName = cName d, srEndpoint = deviceEndpoint d, srState = state,
                 srEvidence = evidence, srError = err\<rparr>);
          msg = (case perr of None \<Rightarrow> [] | Some e \<Rightarrow> err_msg e) in
      if st = StatusLocked then (r ''locked'' ''FileVault pre-boot banner detected'' [], False, False)
      else if st = StatusUnlockedRecently then
        (r ''booted'' ''normal macOS SSH accepted a public key'' [], False, False)
      else if opt_is perr ErrHostKeyMismatch then (r ''error'' [] msg, True, False)
      else if opt_is perr ErrIndeterminate then
        (r ''indeterminate'' ''SSH reachable; no proof of FileVault pre-boot or booted macOS'' [], False, True)
      else if perr \<noteq> None then (r ''error'' [] msg, True, False)
      else (r (status_string st) [] [], False, False))"

section \<open>Declarative inventories\<close>

definition maxDeclarativeConfigSize :: nat where
  "maxDeclarativeConfigSize = 1024 * 1024"

definition readDeclarativeConfig :: "(goerr + string) \<Rightarrow> goerr + string" where
  "readDeclarativeConfig content =
     (case content of
        Inl err \<Rightarrow> Inl err
      | Inr s \<Rightarrow>
        let data = take (maxDeclarativeConfigSize + 1) s in
        if maxDeclarativeConfigSize < length data then
          Inl (ErrText (''device inventory exceeds '' @ decimal maxDeclarativeConfigSize @ '' bytes''))
        else Inr data)"

record apply_report =
  arChanged :: bool
  arCheckMode :: bool
  arDeviceCount :: nat
  arAdded :: "string list"
  arUpdated :: "string list"
  arRemoved :: "string list"

definition compareDeviceInventories :: "cdevice list \<Rightarrow> cdevice list \<Rightarrow> apply_report" where
  "compareDeviceInventories current desired =
     (let currentByName = by_name current; desiredByName = by_name desired;
          added = sort (map cName (filter (\<lambda>d. map_of currentByName (cName d) = None) desired));
          updated = sort (map cName (filter (\<lambda>d. case map_of currentByName (cName d) of
                       None \<Rightarrow> False | Some old \<Rightarrow> old \<noteq> d) desired));
          removed = sort (map cName (filter (\<lambda>d. map_of desiredByName (cName d) = None) current)) in
      \<lparr>arChanged = length added + length updated + length removed > 0, arCheckMode = False,
       arDeviceCount = length desired, arAdded = added, arUpdated = updated, arRemoved = removed\<rparr>)"

text \<open>\<open>config apply\<close> after the document was read: the report, or the error; and the bytes written.\<close>

definition config_apply ::
    "unicode_db \<Rightarrow> config_env \<Rightarrow> bool \<Rightarrow> string \<Rightarrow> (goerr + apply_report) \<times> string option" where
  "config_apply db env check input =
     (case cf_decode env input of
        Inl err \<Rightarrow> (Inl (errorf ''decode device inventory'' err), None)
      | Inr (desired, tail) \<Rightarrow>
        if tail = NotEOF then (Inl (ErrText ''device inventory contains trailing data''), None)
        else case validateDevices db desired of
          Some err \<Rightarrow> (Inl (errorf ''validate device inventory'' err), None)
        | None \<Rightarrow>
          (case Store_Load db env of
             Inl err \<Rightarrow> (Inl err, None)
           | Inr current \<Rightarrow>
             let report = (compareDeviceInventories current desired)\<lparr>arCheckMode := check\<rparr> in
             if arChanged report \<and> \<not> check then
               (let out = Store_Save db env desired in
                case coErr out of
                  Some err \<Rightarrow> (Inl err, coWritten out)
                | None \<Rightarrow> (Inr report, coWritten out))
             else (Inr report, None)))"

text \<open>\<open>config auto-unlock\<close>.\<close>

definition auto_unlock_command ::
    "unicode_db \<Rightarrow> config_env \<Rightarrow> bool \<Rightarrow> bool \<Rightarrow> string \<Rightarrow> config_outcome" where
  "auto_unlock_command db env enable disable name =
     (if enable = disable then refused (ErrText ''specify exactly one of --enable or --disable'')
      else case Store_Load db env of
        Inl err \<Rightarrow> refused err
      | Inr devices \<Rightarrow>
        (case List.find (\<lambda>d. cName d = name) devices of
           None \<Rightarrow> refused (ErrText (''device not found: '' @ name))
         | Some d \<Rightarrow> Update db env (d\<lparr>cAutoUnlock := enable\<rparr>)))"

end
