(* ===== verification/Fvcore_Facts.thy ===== *)
theory Fvcore_Facts
  imports Fvcore
begin

text \<open>
  What the pre-boot client guarantees: which texts count as success, to which challenges the
  password is given and how often, what the outcome says about a submitted password, and that
  waiting and verification end.
\<close>

section \<open>Texts\<close>

lemma Contains_append: "Contains (a @ p @ b) p"
  by (induction a) (cases p; cases b; auto simp: HasPrefix_def)+

text \<open>
  The locked banner is never taken for a success, however it is wrapped and whatever
  success message the caller configured, and is always recognised as locked.
\<close>

theorem locked_banner_not_success:
  assumes "normalizeBanner db out = lockedBannerText"
  shows "\<not> successSeen db out successMsg \<and> ParseOutput db out = StatusLocked
    \<and> lockedSeen db out \<and> IsFileVaultLockedBanner db out"
proof -
  have "\<not> Contains lockedBannerText successPhrase" "Contains lockedBannerText lockedPhrase"
    "\<not> Contains lockedBannerText ''last login:''" "Contains lockedBannerText lockedBannerText"
    by code_simp+
  with assms show ?thesis
    by (simp add: successSeen_def ParseOutput_def lockedSeen_def IsFileVaultLockedBanner_def Let_def)
qed

text \<open>The banner as a server may wrap it.\<close>

definition wrapped_locked_banner :: string where
  "wrapped_locked_banner = ''this system is locked. to unlock it, use a local'' @ [CHR 0x0D, CHR 0x0A] @
     ''account name and password. once successfully'' @ [CHR 0x0A] @
     ''unlocked, you will be able to connect normally.''"

theorem locked_banner_not_success_witness:
  "\<not> successSeen ascii_only_db wrapped_locked_banner ''successfully unlocked''"
proof -
  have a: "ascii wrapped_locked_banner" by (simp add: wrapped_locked_banner_def)
  have "map lower_char wrapped_locked_banner = wrapped_locked_banner"
    by (rule map_idI, rule lower_char_id) (auto simp: wrapped_locked_banner_def)
  then have "Fields (ToLower ascii_only_db wrapped_locked_banner) = char_fields [] wrapped_locked_banner"
    using a by (simp add: ToLower_ascii Fields_ascii)
  then have "normalizeBanner ascii_only_db wrapped_locked_banner = lockedBannerText"
    by (simp add: normalizeBanner_def wrapped_locked_banner_def lockedBannerText_def is_space_def)
  from locked_banner_not_success [OF this] show ?thesis by blast
qed

text \<open>
  Line wrapping cannot change a classification: two ASCII texts with the same words,
  however separated, are normalized alike, so every recogniser gives the same answer on them.
\<close>

theorem rewrap_invariant:
  assumes "ascii_db db" "ascii out" "ascii out'" "Fields out = Fields out'"
  shows "normalizeBanner db out = normalizeBanner db out' \<and> ParseOutput db out = ParseOutput db out'
    \<and> lockedSeen db out = lockedSeen db out' \<and> successSeen db out msg = successSeen db out' msg
    \<and> IsFileVaultLockedBanner db out = IsFileVaultLockedBanner db out'"
proof -
  have "normalizeBanner db out = normalizeBanner db out'"
    using assms by (simp add: normalizeBanner_def Fields_ToLower)
  then show ?thesis
    by (simp add: ParseOutput_def lockedSeen_def successSeen_def IsFileVaultLockedBanner_def)
qed

theorem rewrap_invariant_witness:
  "ParseOutput ascii_only_db (''System is'' @ [CHR 0x0A] @ ''locked'') = ParseOutput ascii_only_db ''System is locked''"
proof -
  have "ascii (''System is'' @ [CHR 0x0A] @ ''locked'')" "ascii ''System is locked''" by simp_all
  moreover from this have "Fields (''System is'' @ [CHR 0x0A] @ ''locked'') = Fields ''System is locked''"
    by (simp add: Fields_ascii is_space_def)
  ultimately show ?thesis using rewrap_invariant [OF ascii_only_db_ascii] by blast
qed

section \<open>Who gets the password\<close>

definition submits :: "reply \<Rightarrow> bool" where
  "submits r = (case r of Answer (_ # _) \<Rightarrow> True | _ \<Rightarrow> False)"

definition submissions :: "reply list \<Rightarrow> nat" where
  "submissions rs = length (filter submits rs)"

lemma submits_simps [simp]:
  "submits Proceed = False" "submits (Abort e) = False" "submits (Answer []) = False"
  "submits (Answer (a # as)) = True"
  by (simp_all add: submits_def)

lemma submissions_simps [simp]:
  "submissions [] = 0" "submissions (r # rs) = (if submits r then 1 else 0) + submissions rs"
  by (simp_all add: submissions_def)

lemma addText_simps [simp]:
  "passwordPrompted (addText s t) = passwordPrompted t" "passwordAnswered (addText s t) = passwordAnswered t"
  "successAfterAuth (addText s t) = successAfterAuth t" "postAuth (addText s t) = postAuth t"
  "transportTransitionObserved (addText s t) = transportTransitionObserved t"
  by (simp_all add: addText_def)

lemma recordResponseText_trace:
  assumes "recordResponseText db s msg t = (t', b)"
  shows "passwordPrompted t' = passwordPrompted t" "passwordAnswered t' = passwordAnswered t"
    "b = successAfterAuth t'" "successAfterAuth t' \<Longrightarrow> successAfterAuth t \<or> passwordAnswered t"
  using assms by (auto simp: recordResponseText_def Let_def split: if_splits)

text \<open>One callback: what it may answer, and how the trace follows.\<close>

lemmas callback_defs = clientConfig_def kbd_callback_def banner_callback_def recordPasswordPrompt_def
  markTransportTransition_def Let_def

lemmas callback_splits = server_event.splits if_splits prod.splits bool.splits

lemma clientConfig_submits:
  assumes "clientConfig db password successMsg answer ev t = (t', r)" "submits r"
  shows "answer \<and> \<not> passwordPrompted t \<and> r = Answer [password] \<and>
      (\<exists>instruction question. ev = Challenge instruction [question] [False] \<and> isPasswordPrompt db question)"
  using assms by (auto simp: callback_defs length_Suc_conv split: callback_splits)

lemma clientConfig_trace:
  assumes "clientConfig db password successMsg answer ev t = (t', r)"
  shows "passwordPrompted t \<Longrightarrow> passwordPrompted t'" "submits r \<Longrightarrow> passwordPrompted t' \<and> passwordAnswered t'"
    "\<not> submits r \<Longrightarrow> passwordAnswered t \<longrightarrow> passwordPrompted t \<Longrightarrow> passwordAnswered t' = passwordAnswered t"
    "successAfterAuth t' \<Longrightarrow> successAfterAuth t \<or> passwordAnswered t"
  using assms
  by (auto simp: callback_defs split: callback_splits dest: recordResponseText_trace)

text \<open>A whole run of callbacks, for any sequence of events.\<close>

lemma run_callbacks_trace:
  assumes "run_callbacks (clientConfig db password successMsg answer) evs t = (t', rs)"
    "passwordAnswered t \<longrightarrow> passwordPrompted t" "successAfterAuth t \<longrightarrow> passwordAnswered t"
  shows "(passwordAnswered t' \<longrightarrow> passwordPrompted t') \<and> (successAfterAuth t' \<longrightarrow> passwordAnswered t')
    \<and> submissions rs = (if passwordAnswered t' \<and> \<not> passwordAnswered t then 1 else 0)
    \<and> (passwordAnswered t \<longrightarrow> passwordAnswered t')
    \<and> (passwordPrompted t \<longrightarrow> submissions rs = 0)"
  using assms
proof (induction evs arbitrary: t rs)
  case (Cons ev evs)
  obtain t1 r where s: "clientConfig db password successMsg answer ev t = (t1, r)" by (meson surj_pair)
  obtain rs' where rs: "run_callbacks (clientConfig db password successMsg answer) evs t1 = (t', rs')"
    "rs = r # rs'" using Cons.prems(1) s by (auto split: prod.splits)
  note tr = clientConfig_trace [OF s]
  show ?case
  proof (cases "submits r")
    case True
    from clientConfig_submits [OF s True] have "\<not> passwordPrompted t" by simp
    moreover have "successAfterAuth t1 \<longrightarrow> passwordAnswered t1" using tr(2) [OF True] by simp
    ultimately show ?thesis using Cons.IH [OF rs(1)] tr(2) [OF True] rs(2) True Cons.prems by auto
  next
    case False
    have a: "passwordAnswered t1 = passwordAnswered t" using tr(3) [OF False] Cons.prems by simp
    have "passwordAnswered t1 \<longrightarrow> passwordPrompted t1" "successAfterAuth t1 \<longrightarrow> passwordAnswered t1"
      using a tr(1,4) Cons.prems by auto
    from Cons.IH [OF rs(1) this] a tr(1) rs(2) False show ?thesis by auto
  qed
qed simp

lemma run_callbacks_replies:
  assumes "run_callbacks (clientConfig db password successMsg answer) evs t = (t', rs)"
    "r \<in> set rs" "submits r"
  shows "answer \<and> r = Answer [password] \<and> (\<exists>instruction question.
    Challenge instruction [question] [False] \<in> set evs \<and> isPasswordPrompt db question)"
  using assms
proof (induction evs arbitrary: t rs)
  case (Cons ev evs)
  obtain t1 r1 where s: "clientConfig db password successMsg answer ev t = (t1, r1)" by (meson surj_pair)
  obtain rs' where rs: "run_callbacks (clientConfig db password successMsg answer) evs t1 = (t', rs')"
    "rs = r1 # rs'" using Cons.prems(1) s by (auto split: prod.splits)
  show ?case
  proof (cases "r \<in> set rs'")
    case True
    from Cons.IH [OF rs(1) True Cons.prems(3)] show ?thesis by auto
  next
    case False
    with rs Cons.prems have "r1 = r" by simp
    from clientConfig_submits [OF s, unfolded this, OF Cons.prems(3)] show ?thesis by auto
  qed
qed simp

lemma new_trace_simps [simp]:
  "passwordPrompted (new_trace s) = False" "passwordAnswered (new_trace s) = False"
  "successAfterAuth (new_trace s) = False"
  by (simp_all add: new_trace_def)

lemma handshake_trace:
  assumes "handshake env (clientConfig db password successMsg answer) (new_trace sg) = (t, rs, err)"
  shows "(passwordAnswered t \<longrightarrow> passwordPrompted t) \<and> (successAfterAuth t \<longrightarrow> passwordAnswered t)
    \<and> submissions rs = (if passwordAnswered t then 1 else 0)"
proof (cases "hs_dial env")
  case None
  obtain t1 rs1 where "run_callbacks (clientConfig db password successMsg answer) (hs_events env) (new_trace sg)
      = (t1, rs1)" by (meson surj_pair)
  with run_callbacks_trace [OF this] None assms show ?thesis by (auto simp: handshake_def)
qed (use assms in \<open>auto simp: handshake_def\<close>)

text \<open>
  C6. A status probe never transmits anything secret: whatever banners and challenges the
  server sends, in whatever order and number, no reply of the probe contains an answer.
\<close>

theorem ProbeStatus_never_answers:
  assumes "ProbeStatus db env host = (res, replies)"
  shows "\<forall>r \<in> set replies. \<not> submits r"
proof
  fix r assume r: "r \<in> set replies"
  obtain t rs err where h: "handshake env (clientConfig db [] [] False) (new_trace None) = (t, rs, err)"
    by (metis surj_pair)
  with assms have "rs = replies" by (auto simp: ProbeStatus_def split: option.splits)
  with h r show "\<not> submits r"
    by (auto simp: handshake_def split: option.splits prod.splits dest: run_callbacks_replies)
qed

theorem ProbeStatus_never_answers_witness:
  "filter submits (snd (ProbeStatus ascii_only_db \<lparr>hs_dial = None,
     hs_events = [Challenge [] [''Password:''] [False]], hs_conn = Some (ErrText ''closed''), hs_ctx = None\<rparr>
     ''mac:22'')) = []"
  unfolding filter_empty_conv by (rule ProbeStatus_never_answers) (rule prod.collapse [symmetric])

lemma AnalyzePrompt_submits_once:
  assumes "AnalyzePrompt db env host password successMsg = (res, replies)"
  shows "submissions replies \<le> 1"
proof -
  obtain t rs err where h: "handshake env (clientConfig db password successMsg True) (new_trace (Some False))
      = (t, rs, err)" by (metis surj_pair)
  with assms have "rs = replies" by (auto simp: AnalyzePrompt_def split: option.splits)
  with handshake_trace [OF h] show ?thesis by auto
qed

text \<open>
  C4. An unlock gives the password to a trusted server at most once, unchanged, and only in
  reply to a challenge with exactly one question that is a non-echoed \<open>Password:\<close>, for every
  sequence of messages a hostile server may send.
\<close>

theorem AnalyzePrompt_password_discipline:
  assumes "AnalyzePrompt db env host password successMsg = (res, replies)"
  shows "submissions replies \<le> 1 \<and>
    (\<forall>r \<in> set replies. submits r \<longrightarrow> r = Answer [password] \<and> (\<exists>instruction question.
       Challenge instruction [question] [False] \<in> set (hs_events env) \<and> isPasswordPrompt db question))"
proof -
  obtain t rs err where h: "handshake env (clientConfig db password successMsg True) (new_trace (Some False))
      = (t, rs, err)" by (metis surj_pair)
  with assms have rs: "rs = replies" by (auto simp: AnalyzePrompt_def split: option.splits)
  have "submissions replies \<le> 1" using assms by (rule AnalyzePrompt_submits_once)
  moreover have "\<forall>r \<in> set replies. submits r \<longrightarrow> r = Answer [password] \<and> (\<exists>instruction question.
       Challenge instruction [question] [False] \<in> set (hs_events env) \<and> isPasswordPrompt db question)"
    using h rs by (auto simp: handshake_def split: option.splits prod.splits dest: run_callbacks_replies)
  ultimately show ?thesis by blast
qed

text \<open>A server that asks twice.\<close>

definition greedy_server :: handshake_env where
  "greedy_server = \<lparr>hs_dial = None, hs_events = [Challenge [] [''Password:''] [False],
     Challenge [] [''Password:''] [False]], hs_conn = Some (ErrText ''closed''), hs_ctx = None\<rparr>"

theorem AnalyzePrompt_password_discipline_witness:
  "submissions (snd (AnalyzePrompt ascii_only_db greedy_server ''mac:22'' ''secret'' [])) \<le> 1"
  using AnalyzePrompt_password_discipline [OF prod.collapse [symmetric]] by blast

lemma AnalyzePrompt_truth:
  assumes "AnalyzePrompt db env host password successMsg = ((status, out, err), replies)"
  shows "(status = StatusUnlocked \<longrightarrow> submissions replies = 1 \<and> err = None) \<and>
    (submissions replies = 1 \<longrightarrow>
       (status = StatusUnlocked \<or> status = StatusUnlockedRecently) \<and> err = None
       \<or> status = StatusLocked \<and> err = Some (Sentinel ErrAuthFailed)
       \<or> status = StatusUnknown \<and> (\<exists>x. err = Some x \<and>
            (err_is x ErrUnlockOutcomeUnknown \<or> err_is x ErrHostKeyMismatch)))"
proof -
  obtain t rs er where h: "handshake env (clientConfig db password successMsg True) (new_trace (Some False))
      = (t, rs, er)" by (metis surj_pair)
  note tr = handshake_trace [OF h]
  show ?thesis
  proof (cases er)
    case None
    with assms h tr show ?thesis by (auto simp: AnalyzePrompt_def split: if_splits)
  next
    case (Some x)
    with assms h have "rs = replies" and "classifyHandshakeErr host (banner t) (passwordPrompted t)
        (passwordAnswered t) (successAfterAuth t) (transportTransitionObserved t) x = (status, out, err)"
      by (auto simp: AnalyzePrompt_def)
    with tr show ?thesis
      by (auto simp: classifyHandshakeErr_def hostKeyErr_def outcomeUnknown_def
          split: if_splits option.splits)
  qed
qed

text \<open>
  C5. The outcome of an unlock tells the truth about the password. Success is reported
  only after the password was submitted; and once it was submitted, the outcome is one of:
  success, a completed login, a rejected password, an unacknowledged outcome, or a host-key
  failure, never a plain connection error that would invite a retry.
\<close>

theorem AnalyzePrompt_outcome:
  assumes "AnalyzePrompt db env host password successMsg = ((status, out, err), replies)"
  shows "(status = StatusUnlocked \<longrightarrow> submissions replies = 1 \<and> err = None) \<and>
    (submissions replies = 1 \<longrightarrow>
       (status = StatusUnlocked \<or> status = StatusUnlockedRecently) \<and> err = None
       \<or> status = StatusLocked \<and> err = Some (Sentinel ErrAuthFailed)
       \<or> status = StatusUnknown \<and> (\<exists>x. err = Some x \<and>
            (err_is x ErrUnlockOutcomeUnknown \<or> err_is x ErrHostKeyMismatch)))"
  by (rule AnalyzePrompt_truth [OF assms])

theorem AnalyzePrompt_outcome_witness:
  "\<exists>out replies. AnalyzePrompt ascii_only_db greedy_server ''mac:22'' ''secret'' []
     = ((StatusLocked, out, Some (Sentinel ErrAuthFailed)), replies) \<and> submissions replies = 1"
proof -
  obtain status out err replies where
    a: "AnalyzePrompt ascii_only_db greedy_server ''mac:22'' ''secret'' [] = ((status, out, err), replies)"
    by (metis surj_pair)
  have "isPasswordPrompt ascii_only_db ''Password:''"
    by (simp add: isPasswordPrompt_def EqualFold_def TrimSpace_def is_space_def runes_def)
  then have "submissions replies = 1 \<and> err = Some (Sentinel ErrAuthFailed)"
    using a by (auto simp: AnalyzePrompt_def greedy_server_def handshake_def clientConfig_def kbd_callback_def
        recordPasswordPrompt_def addText_def new_trace_def classifyHandshakeErr_def isHostKeyError_def
        dialError_def HasPrefix_def Let_def)
  with AnalyzePrompt_outcome [OF a] a show ?thesis by auto
qed

section \<open>Watching for the reboot\<close>

text \<open>Two unreachable probes in a row, after one that was reachable (or a reachable baseline).\<close>

definition went_down :: "bool \<Rightarrow> bool list \<Rightarrow> bool" where
  "went_down baseline ticks \<longleftrightarrow>
     (\<exists>pre post. ticks = pre @ [False, False] @ post \<and> (baseline \<or> True \<in> set pre))"

lemma went_down_Cons:
  "went_down b (x # ticks) \<longleftrightarrow> went_down (b \<or> x) ticks \<or> (b \<and> \<not> x \<and> (\<exists>post. ticks = False # post))"
proof
  assume "went_down b (x # ticks)"
  then obtain pre post where p: "x # ticks = pre @ [False, False] @ post" "b \<or> True \<in> set pre"
    by (auto simp: went_down_def)
  then show "went_down (b \<or> x) ticks \<or> (b \<and> \<not> x \<and> (\<exists>post. ticks = False # post))"
    by (cases pre) (auto simp: went_down_def)
next
  assume "went_down (b \<or> x) ticks \<or> (b \<and> \<not> x \<and> (\<exists>post. ticks = False # post))"
  then show "went_down b (x # ticks)"
  proof
    assume "went_down (b \<or> x) ticks"
    then obtain pre post where "ticks = pre @ [False, False] @ post" "(b \<or> x) \<or> True \<in> set pre"
      by (auto simp: went_down_def)
    then have "x # ticks = (x # pre) @ [False, False] @ post" "b \<or> True \<in> set (x # pre)" by auto
    then show ?thesis unfolding went_down_def by blast
  next
    assume "b \<and> \<not> x \<and> (\<exists>post. ticks = False # post)"
    then obtain post where "x # ticks = [] @ [False, False] @ post" "b" by auto
    then show ?thesis unfolding went_down_def by blast
  qed
qed

lemma watch_loop_went_down:
  "watch_loop b 0 ticks = went_down b ticks \<and>
   watch_loop True (Suc 0) ticks = (went_down True ticks \<or> (\<exists>post. ticks = False # post))"
proof (induction ticks arbitrary: b)
  case Nil
  then show ?case by (simp add: went_down_def)
next
  case (Cons x ticks)
  then show ?case by (cases x; cases b) (auto simp: went_down_Cons transitionProbeFailures_def)
qed

text \<open>
  The watcher declares the pre-boot service gone exactly when the password had been
  submitted and two consecutive fresh connections failed after the endpoint had been seen to
  accept one: a single dropped packet, or an endpoint that never accepted a second
  connection, does not trigger it.
\<close>

theorem watch_transition_iff:
  "watchSSHServiceTransition baseline answered ticks \<longleftrightarrow>
     answered \<and> (\<exists>pre post. ticks = pre @ [False, False] @ post \<and> (baseline \<or> True \<in> set pre))"
  by (simp add: watchSSHServiceTransition_def watch_loop_went_down went_down_def)

section \<open>Verification ends\<close>

lemma min_list_le: "x \<in> set xs \<Longrightarrow> min_list xs \<le> (x :: int)"
  by (cases xs) (simp_all add: min_list_Min del: min_list.simps)

lemma min_list_mem: "xs \<noteq> [] \<Longrightarrow> min_list xs \<in> set (xs :: int list)"
  by (simp add: min_list_Min)

lemma verify_wait_case:
  obtains u where "(u, verify_wait env deadline i t d) \<in> set (verify_cases env deadline t d)"
    "\<And>v c. (v, c) \<in> set (verify_cases env deadline t d) \<Longrightarrow> u \<le> v"
proof -
  let ?cs = "verify_cases env deadline t d"
  let ?first = "min_list (map fst ?cs)"
  let ?ready = "filter (\<lambda>p. fst p = ?first) ?cs"
  have "?cs \<noteq> []" by (simp add: verify_cases_def)
  then have "?first \<in> fst ` set ?cs" using min_list_mem [of "map fst ?cs"] by simp
  then obtain p where "p \<in> set ?ready" by auto
  then have "?ready \<noteq> []" by (metis empty_iff empty_set)
  define q where "q = ?ready ! (ve_pick env i mod length ?ready)"
  have "q \<in> set ?ready" unfolding q_def using \<open>?ready \<noteq> []\<close> by (intro nth_mem) simp
  then have "q \<in> set ?cs" "fst q = ?first" by simp_all
  moreover have "verify_wait env deadline i t d = snd q" by (simp add: verify_wait_def q_def Let_def)
  ultimately have "(?first, verify_wait env deadline i t d) \<in> set ?cs" by (metis prod.collapse)
  moreover have "?first \<le> v" if "(v, c) \<in> set ?cs" for v c
    using min_list_le [of v "map fst ?cs"] that by force
  ultimately show thesis using that by blast
qed

lemma verify_wait_wake:
  assumes "verify_wait env deadline i t d = Inr t2"
  shows "t2 = t + d \<and> t2 \<le> max t deadline"
proof -
  obtain u where u: "(u, verify_wait env deadline i t d) \<in> set (verify_cases env deadline t d)"
    "\<And>v c. (v, c) \<in> set (verify_cases env deadline t d) \<Longrightarrow> u \<le> v" using verify_wait_case by blast
  have t2: "u = t + d \<and> t2 = t + d" using u(1) assms
    by (auto simp: verify_cases_def split: option.splits)
  have "u \<le> max t deadline"
  proof (cases "ve_cancel env")
    case None
    then show ?thesis by (intro u(2) [of _ "Inl (False, None)"]) (simp add: verify_cases_def)
  next
    case (Some p)
    then have "u \<le> max t (min (fst p) deadline)"
      by (intro u(2) [of _ "Inl (False, None)"]) (simp add: verify_cases_def case_prod_beta)
    then show ?thesis by linarith
  qed
  with t2 show ?thesis by simp
qed

lemma verify_wait_ends:
  assumes "verify_wait env deadline i t d = Inl r"
  shows "r = (False, None) \<or> (\<exists>c x. ve_cancel env = Some (c, x) \<and> r = (False, Some x))"
proof -
  obtain u where "(u, verify_wait env deadline i t d) \<in> set (verify_cases env deadline t d)"
    using verify_wait_case by blast
  with assms show ?thesis by (auto simp: verify_cases_def split: option.splits)
qed

lemma verify_step_next:
  assumes "verify_step env opts deadline i t = Inr t2"
  shows "t2 = t + int (ve_took env i) + Interval opts \<and> t2 \<le> deadline"
proof -
  have "verify_wait env deadline i (t + int (ve_took env i)) (Interval opts) = Inr t2"
    "t + int (ve_took env i) < deadline"
    using assms by (auto simp: verify_step_def Let_def split: prod.splits if_splits option.splits)
  with verify_wait_wake [OF this(1)] show ?thesis by auto
qed

definition verify_verdict :: "verify_env \<Rightarrow> bool \<times> goerr option \<Rightarrow> bool" where
  "verify_verdict env r \<longleftrightarrow>
     (case r of
        (True, err) \<Rightarrow> err = None \<and> (\<exists>j. fst (ve_probe env j) = StatusUnlockedRecently)
      | (False, None) \<Rightarrow> True
      | (False, Some x) \<Rightarrow>
          (\<exists>j. snd (ve_probe env j) = Some x \<and> (err_is x ErrHostKeyMismatch \<or> err_is x ErrIndeterminate))
          \<or> (\<exists>c. ve_cancel env = Some (c, x)))"

lemma verify_verdict_simps [simp]:
  "verify_verdict env (False, None)"
  "verify_verdict env (True, None) \<longleftrightarrow> (\<exists>j. fst (ve_probe env j) = StatusUnlockedRecently)"
  by (simp_all add: verify_verdict_def)

lemma verify_verdict_cancelled: "cancelled_at env t = Some x \<Longrightarrow> verify_verdict env (False, Some x)"
  by (auto simp: verify_verdict_def cancelled_at_def split: option.splits if_splits)

lemma verify_verdict_wait: "verify_wait env deadline i t d = Inl r \<Longrightarrow> verify_verdict env r"
  using verify_wait_ends [of env deadline i t d r] by (auto simp: verify_verdict_def)

lemma verify_step_verdict:
  assumes "verify_step env opts deadline i t = Inl r"
  shows "verify_verdict env r"
proof -
  obtain status err where p: "ve_probe env i = (status, err)" by (meson surj_pair)
  have fatal: "verify_verdict env (False, Some x)"
    if "err = Some x" "err_is x ErrHostKeyMismatch \<or> err_is x ErrIndeterminate" for x
    unfolding verify_verdict_def using p that by (auto intro!: exI [of _ i])
  have "status = StatusUnlockedRecently \<Longrightarrow> verify_verdict env (True, None)"
    using p by (auto intro: exI [of _ i])
  with assms p fatal show ?thesis
    by (auto simp: verify_step_def Let_def intro: verify_verdict_cancelled verify_verdict_wait
        split: if_splits option.splits)
qed

lemma verify_loop_returns:
  assumes "0 < Interval opts" "int fuel * Interval opts > deadline - t" "t \<le> deadline" "0 < fuel"
  shows "\<exists>r. verify_loop fuel env opts deadline i t = Some r \<and> verify_verdict env r"
  using assms
proof (induction fuel arbitrary: i t)
  case (Suc fuel)
  show ?case
  proof (cases "verify_step env opts deadline i t")
    case (Inl r)
    then show ?thesis using verify_step_verdict by simp
  next
    case (Inr t2)
    note w = verify_step_next [OF Inr]
    have "int fuel * Interval opts > deadline - t2"
      using Suc.prems(2) w by (simp add: algebra_simps)
    moreover from this w have "0 < fuel" by (cases fuel) auto
    ultimately show ?thesis using Suc.IH [OF Suc.prems(1), of t2 "Suc i"] w Inr by simp
  qed
qed simp



section \<open>Many devices\<close>

lemma fold_update_nth:
  "i < length rs \<Longrightarrow> fold (\<lambda>i rs. rs[i := f i]) is rs ! i = (if i \<in> set is then f i else rs ! i)"
proof (induction "is" arbitrary: rs)
  case (Cons k ks)
  then show ?case using Cons.IH [of "rs[k := f k]"] by (cases "k = i") auto
qed simp

lemma fold_update_length [simp]: "length (fold (\<lambda>i rs. rs[i := f i]) is rs) = length rs"
  by (induction "is" arbitrary: rs) simp_all

text \<open>
  \<open>UnlockMany\<close> returns one result per device in the order of the devices, whatever the
  concurrency and whatever the order in which the workers finish.
\<close>

theorem UnlockMany_aligned:
  assumes "set arrival = {0..<length ds}"
  shows "UnlockMany unlock zero ds concurrency arrival = map (\<lambda>i. unlock i (ds ! i)) [0..<length ds]"
  using assms by (intro nth_equalityI) (auto simp: UnlockMany_def Let_def fold_update_nth)

theorem UnlockMany_aligned_witness:
  "UnlockMany (\<lambda>i d. (i, d)) (0, [])  [''a'', ''b'', ''c''] 2 [2, 0, 1] = [(0, ''a''), (1, ''b''), (2, ''c'')]"
proof -
  have "set [2, 0, 1] = {0..<length [''a'', ''b'', ''c'']}" by auto
  from UnlockMany_aligned [OF this, of "\<lambda>i d. (i, d)" "(0, [])" 2] show ?thesis
    by (simp add: upt_rec numeral_2_eq_2)
qed

end
