(* ===== verification/Monitor_Types.thy ===== *)
theory Monitor_Types
  imports Go_Errors
begin

text \<open>
  The data of the package \<open>internal/monitor\<close> (\<open>types.go\<close>): device states, devices,
  observations, unlock results, the durable record of a device, events, options, and the
  classification of operation errors. A Go string type with named constants is a datatype
  of those constants with one more constructor for every other string; the zero value of
  such a field is that constructor at the empty string.
\<close>

datatype dev_state =
    StateBooted | StateLocked | StateIndeterminate | StateUnreachable
  | StateUnlocking | StateBooting | StateCredentialFailed | StateError
  | StateOther string

fun state_text :: "dev_state \<Rightarrow> string" where
  "state_text StateBooted = ''booted''"
| "state_text StateLocked = ''locked''"
| "state_text StateIndeterminate = ''indeterminate''"
| "state_text StateUnreachable = ''unreachable''"
| "state_text StateUnlocking = ''unlocking''"
| "state_text StateBooting = ''booting''"
| "state_text StateCredentialFailed = ''credential-failed''"
| "state_text StateError = ''error''"
| "state_text (StateOther s) = s"

abbreviation no_state :: dev_state where
  "no_state \<equiv> StateOther []"

abbreviation no_kind :: failure_kind where
  "no_kind \<equiv> FailureOther []"

record device =
  dName :: string
  dHost :: string
  dUser :: string
  dPort :: int
  dCredentialRef :: string
  dAutoUnlock :: bool

record probe_result =
  prState :: dev_state
  prDetail :: string
  prEndpointDown :: bool

record unlock_result =
  urAccepted :: bool
  urDetail :: string

text \<open>\<open>NewFailure\<close> and \<open>FailureKindOf\<close>.\<close>

definition NewFailure :: "failure_kind \<Rightarrow> goerr option \<Rightarrow> goerr" where
  "NewFailure kind err =
     Failure kind (Some (case err of None \<Rightarrow> ErrText ''operation failed'' | Some e \<Rightarrow> e))"

definition FailureKindOf :: "goerr option \<Rightarrow> failure_kind" where
  "FailureKindOf err =
     (case err of
        None \<Rightarrow> FailureTransient
      | Some e \<Rightarrow>
        (case failure_of e of
           Some k \<Rightarrow> k
         | None \<Rightarrow> if err_is e DeadlineExceeded then FailureUnreachable else FailureTransient))"

lemma FailureKindOf_NewFailure [simp]: "FailureKindOf (Some (NewFailure k e)) = k"
  by (simp add: FailureKindOf_def NewFailure_def)

lemma FailureKindOf_None [simp]: "FailureKindOf None = FailureTransient"
  by (simp add: FailureKindOf_def)

text \<open>\<open>JitterFraction\<close>, a \<open>float64\<close>, is a rational number here.\<close>

record options =
  PollInterval :: duration
  BootPollInterval :: duration
  ProbeTimeout :: duration
  UnlockTimeout :: duration
  Concurrency :: int
  BackoffInitial :: duration
  BackoffMax :: duration
  JitterFraction :: rat
  DisableJitter :: bool
  UnlockCooldown :: duration
  EventHistory :: int

definition DefaultOptions :: options where
  "DefaultOptions = \<lparr>
     PollInterval = 30 * second,
     BootPollInterval = 5 * second,
     ProbeTimeout = 15 * second,
     UnlockTimeout = 45 * second,
     Concurrency = 4,
     BackoffInitial = 15 * second,
     BackoffMax = 15 * minute,
     JitterFraction = 1 / 10,
     DisableJitter = False,
     UnlockCooldown = 15 * minute,
     EventHistory = 200\<rparr>"

record device_record =
  State :: dev_state
  LastObservation :: dev_state
  Detail :: string
  LastError :: string
  LastCheckedAt :: time
  StateChangedAt :: time
  LastUnlockAttemptAt :: time
  NextUnlockEligibleAt :: time
  LockEpisode :: u64
  LockEpisodeOpen :: bool
  UnlockAttempted :: bool
  ConsecutiveFailures :: int
  UnlockConnectFailures :: int
  EndpointDown :: bool
  Latched :: bool
  LatchKind :: failure_kind
  LatchReason :: string
  NextCheckAt :: time

text \<open>The zero value of the struct.\<close>

definition zero_record :: device_record where
  "zero_record = \<lparr>State = no_state, LastObservation = no_state, Detail = [], LastError = [],
     LastCheckedAt = 0, StateChangedAt = 0, LastUnlockAttemptAt = 0, NextUnlockEligibleAt = 0,
     LockEpisode = 0, LockEpisodeOpen = False, UnlockAttempted = False,
     ConsecutiveFailures = 0, UnlockConnectFailures = 0, EndpointDown = False,
     Latched = False, LatchKind = no_kind, LatchReason = [], NextCheckAt = 0\<rparr>"

record persistent_state =
  Version :: int
  Devices :: "device_record gomap"

definition persistentStateVersion :: int where
  "persistentStateVersion = 1"

datatype event_type =
    EventProbe | EventObservationChanged | EventStateChanged | EventUnlockStarted
  | EventUnlockResult | EventLatchChanged | EventDeviceAdded

record event =
  evSequence :: u64
  evTime :: time
  evType :: event_type
  evDevice :: string
  evState :: dev_state
  evObservation :: dev_state
  evMessage :: string
  evLockEpisode :: u64
  evAutoUnlock :: bool
  evEndpointDown :: bool
  evLatched :: bool
  evFailureKind :: failure_kind

record device_snapshot =
  snapDevice :: device
  snapRecord :: device_record

record snapshot =
  GeneratedAt :: time
  snapDevices :: "device_snapshot list"
  snapEvents :: "event list"

end
