(* ===== verification/Monitor_Engine.thy ===== *)
theory Monitor_Engine
  imports Monitor_Types
begin

text \<open>
  The engine of \<open>internal/monitor/engine.go\<close> and the file store of \<open>store.go\<close>, operation by
  operation. Each critical section under \<open>Engine.mu\<close> is one function from engine state to
  engine state; \<open>Poll\<close> composes them as the code does.

  \<^item> \<open>e.now()\<close> reads the next value of the stream \<open>clock\<close>, so every call returns an arbitrary
    instant of its own;
  \<^item> \<open>store.Save\<close> is the outcome given by the environment: success, or an error together with
    whether the new document reached the file all the same (an atomic replacement can fail
    after its rename, when the directory is flushed). \<open>disk\<close> is the document the store holds;
  \<^item> the result of \<open>Prober.Probe\<close> and \<open>Unlocker.Unlock\<close> is an argument of the functions
    that consume it;
  \<^item> the mutexes are the atomicity of the functions; the per-device operation lock is modelled
    where interleaving is (\<open>Monitor_Protocol\<close>).
\<close>

record managed =
  mdevice :: device
  mrecord :: device_record
  observed :: bool

record chan =
  ch_cap :: nat
  ch_queue :: "event list"

record engine =
  has_unlocker :: bool
  opts :: options
  devices :: "managed gomap"
  events :: "event list"
  sequence :: u64
  subscribers :: "(u64 \<times> chan) list"
  nextSubID :: u64
  running :: bool
  stopping :: bool
  runners :: "string list"       \<comment> \<open>the schedules registered with \<open>runWG\<close>\<close>
  clock :: "nat \<Rightarrow> time"
  ticks :: nat
  disk :: persistent_state

datatype save_outcome = SaveOk | SaveFailed goerr bool

type_synonym saver = "persistent_state \<Rightarrow> save_outcome"

definition now_of :: "engine \<Rightarrow> time \<times> engine" where
  "now_of e = (clock e (ticks e), e\<lparr>ticks := Suc (ticks e)\<rparr>)"

section \<open>Validation\<close>

definition validateOptions :: "options \<Rightarrow> goerr option" where
  "validateOptions o1 =
     (if PollInterval o1 \<le> 0 \<or> BootPollInterval o1 \<le> 0 then
        Some (ErrText ''monitor poll intervals must be positive'')
      else if ProbeTimeout o1 \<le> 0 \<or> UnlockTimeout o1 \<le> 0 then
        Some (ErrText ''monitor operation timeouts must be positive'')
      else if Concurrency o1 \<le> 0 then
        Some (ErrText ''monitor concurrency must be positive'')
      else if BackoffInitial o1 \<le> 0 \<or> BackoffMax o1 < BackoffInitial o1 then
        Some (ErrText ''monitor backoff range is invalid'')
      else if JitterFraction o1 < 0 \<or> 1 / 2 < JitterFraction o1 then
        Some (ErrText ''monitor jitter fraction must be between 0 and 0.5'')
      else if UnlockCooldown o1 < 0 then
        Some (ErrText ''monitor unlock cooldown cannot be negative'')
      else if EventHistory o1 < 0 then
        Some (ErrText ''monitor event history cannot be negative'')
      else None)"

definition validateDevice :: "unicode_db \<Rightarrow> device \<Rightarrow> goerr option" where
  "validateDevice db d =
     (if TrimSpace (dName d) = [] \<or> TrimSpace (dName d) \<noteq> dName d then
        Some (ErrText ''monitor device name must be non-empty with no surrounding whitespace'')
      else if TrimSpace (dHost d) = [] \<or> TrimSpace (dUser d) = [] then
        Some (ErrText (''monitor device '' @ Quote db (dName d) @ '' requires host and user''))
      else if dPort d < 0 \<or> 65535 < dPort d then
        Some (ErrText (''monitor device '' @ Quote db (dName d) @ '' has invalid port''))
      else None)"

fun validRuntimeState :: "dev_state \<Rightarrow> bool" where
  "validRuntimeState (StateOther _) = False"
| "validRuntimeState _ = True"

fun validProbeState :: "dev_state \<Rightarrow> bool" where
  "validProbeState StateBooted = True"
| "validProbeState StateLocked = True"
| "validProbeState StateIndeterminate = True"
| "validProbeState StateUnreachable = True"
| "validProbeState _ = False"

definition stateForLatch :: "failure_kind \<Rightarrow> dev_state" where
  "stateForLatch kind = (if kind = FailureCredential then StateCredentialFailed else StateError)"

definition stateForObservation :: "dev_state \<Rightarrow> dev_state" where
  "stateForObservation observation =
     (if validProbeState observation then observation else StateIndeterminate)"

definition boundedText :: "string \<Rightarrow> string" where
  "boundedText value =
     (if length (runes value) \<le> 4096 then value else encode_runes (take 4096 (runes value)))"

definition stateEventMessage :: "device_record \<Rightarrow> string" where
  "stateEventMessage r = (if LastError r \<noteq> [] then LastError r else Detail r)"

section \<open>Persistence and events\<close>

definition snapshot_state :: "engine \<Rightarrow> persistent_state" where
  "snapshot_state e = \<lparr>Version = persistentStateVersion,
     Devices = map (\<lambda>(name, m). (name, (mrecord m)\<lparr>NextCheckAt := 0\<rparr>)) (devices e)\<rparr>"

definition persistLocked :: "saver \<Rightarrow> engine \<Rightarrow> engine \<times> goerr option" where
  "persistLocked sv e =
     (let state = snapshot_state e in
      case sv state of
        SaveOk \<Rightarrow> (e\<lparr>disk := state\<rparr>, None)
      | SaveFailed err landed \<Rightarrow> (if landed then e\<lparr>disk := state\<rparr> else e, Some err))"

text \<open>A send that drops the oldest queued event of a full channel.\<close>

definition chan_send :: "event \<Rightarrow> chan \<Rightarrow> chan" where
  "chan_send ev ch =
     (if length (ch_queue ch) < ch_cap ch then ch\<lparr>ch_queue := ch_queue ch @ [ev]\<rparr>
      else let q = drop 1 (ch_queue ch) in
        if length q < ch_cap ch then ch\<lparr>ch_queue := q @ [ev]\<rparr> else ch\<lparr>ch_queue := q\<rparr>)"

definition append_event :: "int \<Rightarrow> event list \<Rightarrow> event \<Rightarrow> event list" where
  "append_event history evs ev =
     (if history > 0 then
        let evs' = evs @ [ev]; excess = int (length evs') - history in
        if excess > 0 then drop (nat excess) evs' else evs'
      else evs)"

definition make_event :: "engine \<Rightarrow> time \<Rightarrow> event_type \<Rightarrow> string \<Rightarrow> managed \<Rightarrow> string \<Rightarrow> event" where
  "make_event e tm kind name m message = \<lparr>
     evSequence = sequence e, evTime = tm, evType = kind, evDevice = name,
     evState = State (mrecord m), evObservation = LastObservation (mrecord m),
     evMessage = boundedText message, evLockEpisode = LockEpisode (mrecord m),
     evAutoUnlock = dAutoUnlock (mdevice m), evEndpointDown = EndpointDown (mrecord m),
     evLatched = Latched (mrecord m), evFailureKind = LatchKind (mrecord m)\<rparr>"

definition emitLocked :: "event_type \<Rightarrow> string \<Rightarrow> string \<Rightarrow> engine \<Rightarrow> engine" where
  "emitLocked kind name message e0 =
     (case map_of (devices e0) name of
        None \<Rightarrow> e0
      | Some m \<Rightarrow>
        let e1 = e0\<lparr>sequence := sequence e0 + 1\<rparr>;
            (tm, e2) = now_of e1;
            ev = make_event e2 tm kind name m message in
        e2\<lparr>events := append_event (EventHistory (opts e2)) (events e2) ev,
           subscribers := map (\<lambda>(i, ch). (i, chan_send ev ch)) (subscribers e2)\<rparr>)"

definition emit_if :: "bool \<Rightarrow> event_type \<Rightarrow> string \<Rightarrow> string \<Rightarrow> engine \<Rightarrow> engine" where
  "emit_if b kind name message e = (if b then emitLocked kind name message e else e)"

definition put_record :: "string \<Rightarrow> managed \<Rightarrow> device_record \<Rightarrow> engine \<Rightarrow> engine" where
  "put_record name m r e = e\<lparr>devices := AList.update name (m\<lparr>mrecord := r\<rparr>) (devices e)\<rparr>"

definition latchLocked :: "failure_kind \<Rightarrow> goerr \<Rightarrow> device_record \<Rightarrow> device_record" where
  "latchLocked kind err r =
     r\<lparr>Latched := True, LatchKind := kind, LatchReason := boundedText (err_msg err)\<rparr>"

definition persistenceRelevantChanged :: "device_record \<Rightarrow> device_record \<Rightarrow> bool" where
  "persistenceRelevantChanged before after \<longleftrightarrow>
     State before \<noteq> State after \<or>
     LastObservation before \<noteq> LastObservation after \<or>
     StateChangedAt before \<noteq> StateChangedAt after \<or>
     LastUnlockAttemptAt before \<noteq> LastUnlockAttemptAt after \<or>
     NextUnlockEligibleAt before \<noteq> NextUnlockEligibleAt after \<or>
     LockEpisode before \<noteq> LockEpisode after \<or>
     LockEpisodeOpen before \<noteq> LockEpisodeOpen after \<or>
     UnlockAttempted before \<noteq> UnlockAttempted after \<or>
     UnlockConnectFailures before \<noteq> UnlockConnectFailures after \<or>
     EndpointDown before \<noteq> EndpointDown after \<or>
     Latched before \<noteq> Latched after \<or>
     LatchKind before \<noteq> LatchKind after \<or>
     LatchReason before \<noteq> LatchReason after"

section \<open>Backoff and scheduling\<close>

text \<open>The loop of \<open>exponentialBackoff\<close>, \<open>n\<close> iterations left.\<close>

fun backoff_loop :: "duration \<Rightarrow> nat \<Rightarrow> duration \<Rightarrow> duration" where
  "backoff_loop maximum 0 value = (if value > maximum then maximum else value)"
| "backoff_loop maximum (Suc n) value =
     (if value \<ge> go_quot maximum 2 then maximum else backoff_loop maximum n (s64 (value * 2)))"

definition exponentialBackoff :: "duration \<Rightarrow> duration \<Rightarrow> int \<Rightarrow> duration" where
  "exponentialBackoff initial maximum failures =
     (if failures \<le> 1 then initial else backoff_loop maximum (nat (failures - 1)) initial)"

text \<open>
  The conversion of a floating-point number to a 64-bit integer truncates; when the truncated
  value does not fit, the language leaves the result to the implementation: it is the parameter
  \<open>cv\<close> (the smallest integer on amd64, the nearest one on arm64).
\<close>

definition float64_to_int64 :: "(int \<Rightarrow> int) \<Rightarrow> rat \<Rightarrow> int" where
  "float64_to_int64 cv x =
     (let t = (if 0 \<le> x then \<lfloor>x\<rfloor> else \<lceil>x\<rceil>) in if is_int64 t then t else cv t)"

text \<open>\<open>jitter\<close>, with the eight random bytes as a number (\<open>None\<close> when reading them failed); the
  floating-point product is computed exactly, without the rounding to 53 bits.\<close>

definition jitter :: "(int \<Rightarrow> int) \<Rightarrow> u64 option \<Rightarrow> duration \<Rightarrow> rat \<Rightarrow> duration" where
  "jitter cv raw base fraction =
     (case raw of
        None \<Rightarrow> base
      | Some w \<Rightarrow>
        let u = rat_of_int (uint w) / 18446744073709551615;
            factor = 1 - fraction + 2 * fraction * u;
            x = rat_of_int base * factor in
        float64_to_int64 cv x)"

definition nextDelay :: "(int \<Rightarrow> int) \<Rightarrow> u64 option \<Rightarrow> engine \<Rightarrow> managed \<Rightarrow> duration" where
  "nextDelay cv raw e m =
     (let r = mrecord m; d = mdevice m;
          base =
            (if State r = StateBooting \<or> State r = StateUnlocking then BootPollInterval (opts e)
             else if State r = StateUnreachable \<and> EndpointDown r \<and> dAutoUnlock d then
               BootPollInterval (opts e)
             else if ConsecutiveFailures r > 0 then
               exponentialBackoff (BackoffInitial (opts e)) (BackoffMax (opts e)) (ConsecutiveFailures r)
             else PollInterval (opts e)) in
      if DisableJitter (opts e) \<or> JitterFraction (opts e) = 0 then base
      else jitter cv raw base (JitterFraction (opts e)))"

definition markPreSubmissionRetryLocked :: "options \<Rightarrow> time \<Rightarrow> device_record \<Rightarrow> device_record" where
  "markPreSubmissionRetryLocked o1 now r =
     (let r1 = r\<lparr>UnlockAttempted := False, UnlockConnectFailures := s64 (UnlockConnectFailures r + 1)\<rparr> in
      r1\<lparr>NextUnlockEligibleAt := now +
          exponentialBackoff (BackoffInitial o1) (BackoffMax o1) (UnlockConnectFailures r1)\<rparr>)"

section \<open>One observation\<close>

text \<open>
  The update of the record by a probe result, before the latch overrides the state: the error
  branch, the branch of an invalid state, and the branch of an observation.
\<close>

definition probe_error_record :: "device_record \<Rightarrow> probe_result \<Rightarrow> goerr \<Rightarrow> device_record \<Rightarrow> device_record" where
  "probe_error_record previous result err r0 =
     (let kind = FailureKindOf (Some err);
          r1 = (if EndpointDown previous \<and> \<not> prEndpointDown result
                then r0\<lparr>ConsecutiveFailures := 0\<rparr> else r0);
          r2 = r1\<lparr>ConsecutiveFailures := s64 (ConsecutiveFailures r1 + 1),
                  LastError := boundedText (err_msg err)\<rparr> in
      case kind of
        FailureUnreachable \<Rightarrow> r2\<lparr>State := StateUnreachable, LastObservation := StateUnreachable\<rparr>
      | FailureCredential \<Rightarrow> latchLocked kind err (r2\<lparr>State := StateCredentialFailed\<rparr>)
      | FailureHostKey \<Rightarrow> latchLocked kind err (r2\<lparr>State := StateError\<rparr>)
      | _ \<Rightarrow> r2\<lparr>State := StateError\<rparr>)"

definition invalid_state_err :: "unicode_db \<Rightarrow> dev_state \<Rightarrow> goerr" where
  "invalid_state_err db st = ErrText (''prober returned invalid state '' @ Quote db (state_text st))"

definition probe_invalid_record :: "goerr \<Rightarrow> device_record \<Rightarrow> device_record" where
  "probe_invalid_record err r =
     r\<lparr>State := StateError, ConsecutiveFailures := s64 (ConsecutiveFailures r + 1),
       LastError := err_msg err\<rparr>"

definition probe_observed_record :: "probe_result \<Rightarrow> device_record \<Rightarrow> device_record" where
  "probe_observed_record result r0 =
     (let r1 = r0\<lparr>LastObservation := prState result\<rparr>;
          r2 = (if prState result \<noteq> StateUnreachable then r1\<lparr>ConsecutiveFailures := 0\<rparr> else r1) in
      case prState result of
        StateBooted \<Rightarrow> r2\<lparr>State := StateBooted, LockEpisodeOpen := False,
           UnlockAttempted := False, UnlockConnectFailures := 0\<rparr>
      | StateLocked \<Rightarrow>
          (let r3 = (if \<not> LockEpisodeOpen r2
                     then r2\<lparr>LockEpisode := LockEpisode r2 + 1, LockEpisodeOpen := True,
                            UnlockAttempted := False\<rparr>
                     else r2) in
           r3\<lparr>State := StateLocked\<rparr>)
      | StateIndeterminate \<Rightarrow> r2\<lparr>State := StateIndeterminate\<rparr>
      | StateUnreachable \<Rightarrow> r2\<lparr>State := StateUnreachable,
           ConsecutiveFailures := s64 (ConsecutiveFailures r2 + 1)\<rparr>
      | _ \<Rightarrow> r2)"

definition probe_record ::
    "unicode_db \<Rightarrow> time \<Rightarrow> device_record \<Rightarrow> probe_result \<Rightarrow> goerr option \<Rightarrow> device_record" where
  "probe_record db now previous result probeErr =
     (let r0 = previous\<lparr>LastCheckedAt := now, Detail := boundedText (prDetail result),
                        LastError := [], EndpointDown := prEndpointDown result\<rparr>;
          r1 = (case probeErr of
                  Some err \<Rightarrow> probe_error_record previous result err r0
                | None \<Rightarrow>
                  if \<not> validProbeState (prState result) then
                    probe_invalid_record (invalid_state_err db (prState result)) r0
                  else probe_observed_record result r0);
          r2 = (if Latched r1 then r1\<lparr>State := stateForLatch (LatchKind r1)\<rparr> else r1) in
      if State r2 \<noteq> State previous then r2\<lparr>StateChangedAt := now\<rparr> else r2)"

definition observation_produced :: "probe_result \<Rightarrow> goerr option \<Rightarrow> bool" where
  "observation_produced result probeErr =
     (case probeErr of
        Some err \<Rightarrow> FailureKindOf (Some err) = FailureUnreachable
      | None \<Rightarrow> validProbeState (prState result))"

definition should_unlock ::
    "time \<Rightarrow> device \<Rightarrow> device_record \<Rightarrow> probe_result \<Rightarrow> goerr option \<Rightarrow> bool" where
  "should_unlock now d r result probeErr \<longleftrightarrow>
     probeErr = None \<and> prState result = StateLocked \<and> dAutoUnlock d \<and> \<not> Latched r \<and>
     \<not> UnlockAttempted r \<and> \<not> now < NextUnlockEligibleAt r"

definition applyProbe ::
    "unicode_db \<Rightarrow> saver \<Rightarrow> string \<Rightarrow> probe_result \<Rightarrow> goerr option \<Rightarrow> engine
      \<Rightarrow> engine \<times> bool \<times> goerr option" where
  "applyProbe db sv name result probeErr e0 =
     (case map_of (devices e0) name of
        None \<Rightarrow> (e0, False, None)
      | Some m \<Rightarrow>
        let (now, e1) = now_of e0;
            previous = mrecord m;
            r = probe_record db now previous result probeErr;
            e2 = put_record name m r e1;
            (e3, saveErr) =
              (if persistenceRelevantChanged previous r then persistLocked sv e2 else (e2, None)) in
        case saveErr of
          Some err \<Rightarrow> (e3, False, Some (errorf ''persist probe state'' err))
        | None \<Rightarrow>
          let produced = observation_produced result probeErr;
              e4 = emitLocked EventProbe name (Detail r) e3;
              e5 = (if produced
                    then e4\<lparr>devices := AList.update name (m\<lparr>mrecord := r, observed := True\<rparr>) (devices e4)\<rparr>
                    else e4);
              e6 = emit_if (produced \<and> (\<not> observed m \<or> LastObservation r \<noteq> LastObservation previous))
                     EventObservationChanged name (stateEventMessage r) e5;
              e7 = emit_if (State r \<noteq> State previous) EventStateChanged name (stateEventMessage r) e6;
              e8 = emit_if (Latched r \<noteq> Latched previous) EventLatchChanged name (LatchReason r) e7;
              invalidStateErr =
                (if probeErr = None \<and> \<not> validProbeState (prState result)
                 then Some (invalid_state_err db (prState result)) else None) in
          (e8, should_unlock now (mdevice m) r result probeErr, invalidStateErr))"

section \<open>One unlock attempt\<close>

definition markUnlockStarted :: "saver \<Rightarrow> string \<Rightarrow> engine \<Rightarrow> engine \<times> bool \<times> goerr option" where
  "markUnlockStarted sv name e0 =
     (case map_of (devices e0) name of
        None \<Rightarrow> (e0, False, None)
      | Some m \<Rightarrow>
        let (now, e1) = now_of e0; r0 = mrecord m in
        if State r0 \<noteq> StateLocked \<or> Latched r0 \<or> UnlockAttempted r0 \<or>
           \<not> dAutoUnlock (mdevice m) \<or> now < NextUnlockEligibleAt r0
        then (e1, False, None)
        else
          let r1 = r0\<lparr>UnlockAttempted := True, LastUnlockAttemptAt := now,
                      NextUnlockEligibleAt := now + UnlockCooldown (opts e1),
                      State := StateUnlocking, StateChangedAt := now\<rparr>;
              (e2, saveErr) = persistLocked sv (put_record name m r1 e1) in
          case saveErr of
            Some err \<Rightarrow>
              let r2 = r1\<lparr>State := StateError, StateChangedAt := now,
                          LastError := boundedText (''persist unlock attempt: '' @ err_msg err)\<rparr>;
                  e3 = put_record name m r2 e2 in
              (emitLocked EventStateChanged name (stateEventMessage r2) e3, False,
               Some (errorf ''persist unlock attempt'' err))
          | None \<Rightarrow>
              (emitLocked EventUnlockStarted name
                 ''automatic unlock authorized after definitive FileVault detection'' e2, True, None))"

definition unlock_contract_err :: goerr where
  "unlock_contract_err = ErrText ''unlocker returned neither acceptance nor an error''"

definition unlock_record ::
    "options \<Rightarrow> time \<Rightarrow> device_record \<Rightarrow> unlock_result \<Rightarrow> goerr option
      \<Rightarrow> device_record \<times> goerr option" where
  "unlock_record o1 now before result unlockErr =
     (let r0 = before\<lparr>Detail := boundedText (urDetail result),
                LastError := (case unlockErr of None \<Rightarrow> [] | Some err \<Rightarrow> boundedText (err_msg err))\<rparr>;
          kind = FailureKindOf unlockErr;
          (r1, contractErr) =
            (case unlockErr of
               Some err \<Rightarrow>
                 (if kind = FailureCredential then
                    (latchLocked kind err (r0\<lparr>State := StateCredentialFailed\<rparr>), None)
                  else if kind = FailureHostKey then
                    (latchLocked kind err (r0\<lparr>State := StateError\<rparr>), None)
                  else if urAccepted result then
                    (r0\<lparr>State := StateBooting, UnlockConnectFailures := 0\<rparr>, None)
                  else if kind = FailureUnreachable then
                    (markPreSubmissionRetryLocked o1 now
                       (r0\<lparr>State := StateUnreachable,
                           ConsecutiveFailures := s64 (ConsecutiveFailures r0 + 1)\<rparr>), None)
                  else
                    (markPreSubmissionRetryLocked o1 now
                       (r0\<lparr>State := StateError,
                           ConsecutiveFailures := s64 (ConsecutiveFailures r0 + 1)\<rparr>), None))
             | None \<Rightarrow>
                 (if urAccepted result then
                    (r0\<lparr>State := StateBooting, UnlockConnectFailures := 0\<rparr>, None)
                  else
                    (r0\<lparr>State := StateError, LastError := err_msg unlock_contract_err\<rparr>,
                     Some unlock_contract_err))) in
      (if State r1 \<noteq> State before then r1\<lparr>StateChangedAt := now\<rparr> else r1, contractErr))"

definition applyUnlockResult ::
    "saver \<Rightarrow> string \<Rightarrow> unlock_result \<Rightarrow> goerr option \<Rightarrow> engine \<Rightarrow> engine \<times> goerr option" where
  "applyUnlockResult sv name result unlockErr e0 =
     (case map_of (devices e0) name of
        None \<Rightarrow> (e0, None)
      | Some m \<Rightarrow>
        let (now, e1) = now_of e0;
            before = mrecord m;
            (r, contractErr) = unlock_record (opts e1) now before result unlockErr;
            (e2, saveErr) = persistLocked sv (put_record name m r e1) in
        case saveErr of
          Some err \<Rightarrow> (e2, Some (errorf ''persist unlock result'' err))
        | None \<Rightarrow>
          let message = (if LastError r = [] then Detail r else LastError r);
              e3 = emitLocked EventUnlockResult name message e2;
              e4 = emit_if (State r \<noteq> State before) EventStateChanged name (stateEventMessage r) e3;
              e5 = emit_if (Latched r) EventLatchChanged name (LatchReason r) e4 in
          (e5, contractErr))"

section \<open>Operator actions, construction and enrollment\<close>

definition device_not_found :: "string \<Rightarrow> goerr" where
  "device_not_found name = ErrText (''monitor device not found: '' @ name)"

definition cleared_record :: "device_record \<Rightarrow> device_record" where
  "cleared_record r0 =
     (let r1 = r0\<lparr>Latched := False, LatchKind := no_kind, LatchReason := [], LastError := []\<rparr> in
      if LockEpisodeOpen r1 then r1\<lparr>UnlockAttempted := False\<rparr> else r1)"

definition ClearLatch :: "saver \<Rightarrow> string \<Rightarrow> engine \<Rightarrow> engine \<times> goerr option" where
  "ClearLatch sv name e0 =
     (case map_of (devices e0) name of
        None \<Rightarrow> (e0, Some (device_not_found name))
      | Some m \<Rightarrow>
        let previous = mrecord m in
        if \<not> Latched previous \<and> (\<not> LockEpisodeOpen previous \<or> \<not> UnlockAttempted previous)
        then (e0, None)
        else
          let r1 = cleared_record previous;
              nextState = stateForObservation (LastObservation r1);
              (r2, e1) =
                (if State r1 \<noteq> nextState then
                   (let (now, e') = now_of e0 in (r1\<lparr>State := nextState, StateChangedAt := now\<rparr>, e'))
                 else (r1, e0));
              (e2, saveErr) = persistLocked sv (put_record name m r2 e1) in
          case saveErr of
            Some err \<Rightarrow> (put_record name m previous e2, Some (errorf ''persist cleared latch'' err))
          | None \<Rightarrow> (emitLocked EventLatchChanged name ''latch cleared by operator'' e2, None))"

definition startDeviceLocked :: "string \<Rightarrow> engine \<Rightarrow> engine" where
  "startDeviceLocked name e = e\<lparr>runners := runners e @ [name]\<rparr>"

definition duplicate_device :: "unicode_db \<Rightarrow> string \<Rightarrow> goerr" where
  "duplicate_device db name = ErrText (''duplicate monitor device '' @ Quote db name)"

definition no_unlocker_err :: "unicode_db \<Rightarrow> string \<Rightarrow> goerr" where
  "no_unlocker_err db name =
     ErrText (''device '' @ Quote db name @ '' enables automatic unlock but no unlocker is configured'')"

definition AddDevice :: "unicode_db \<Rightarrow> saver \<Rightarrow> device \<Rightarrow> engine \<Rightarrow> engine \<times> goerr option" where
  "AddDevice db sv d e0 =
     (case validateDevice db d of
        Some err \<Rightarrow> (e0, Some err)
      | None \<Rightarrow>
        if dAutoUnlock d \<and> \<not> has_unlocker e0 then (e0, Some (no_unlocker_err db (dName d)))
        else if map_of (devices e0) (dName d) \<noteq> None then
          (e0, Some (duplicate_device db (dName d)))
        else
          let (now, e1) = now_of e0;
              m = \<lparr>mdevice = d, mrecord = zero_record\<lparr>State := StateIndeterminate, StateChangedAt := now\<rparr>,
                   observed = False\<rparr>;
              (e2, saveErr) = persistLocked sv (e1\<lparr>devices := AList.update (dName d) m (devices e1)\<rparr>) in
          case saveErr of
            Some err \<Rightarrow>
              (e2\<lparr>devices := AList.delete (dName d) (devices e2)\<rparr>,
               Some (errorf ''persist added monitor device'' err))
          | None \<Rightarrow>
              let e3 = emitLocked EventDeviceAdded (dName d) [] e2 in
              (if running e3 then startDeviceLocked (dName d) e3 else e3, None))"

text \<open>\<open>New\<close>: \<open>loaded\<close> is the result of \<open>store.Load()\<close>; the engine starts over its clock.\<close>

fun new_devices :: "unicode_db \<Rightarrow> device_record gomap \<Rightarrow> device list \<Rightarrow> managed gomap \<Rightarrow> goerr + managed gomap" where
  "new_devices db persisted [] acc = Inr acc"
| "new_devices db persisted (d # ds) acc =
     (case validateDevice db d of
        Some err \<Rightarrow> Inl err
      | None \<Rightarrow>
        if map_of acc (dName d) \<noteq> None then Inl (duplicate_device db (dName d))
        else
          let r = (case map_of persisted (dName d) of
                     None \<Rightarrow> zero_record\<lparr>State := StateIndeterminate\<rparr> | Some r \<Rightarrow> r) in
          if \<not> validRuntimeState (State r) then
            Inl (ErrText (''device '' @ Quote db (dName d) @ '' has invalid persisted state ''
                          @ Quote db (state_text (State r))))
          else
            new_devices db persisted ds
              (AList.update (dName d)
                 \<lparr>mdevice = d, mrecord = r\<lparr>NextCheckAt := 0\<rparr>, observed = False\<rparr> acc))"

definition New ::
    "unicode_db \<Rightarrow> device list \<Rightarrow> bool \<Rightarrow> bool \<Rightarrow> (goerr + persistent_state) option \<Rightarrow> options
      \<Rightarrow> (nat \<Rightarrow> time) \<Rightarrow> goerr + engine" where
  "New db ds has_prober unlocker store o1 clk =
     (if \<not> has_prober then Inl (ErrText ''monitor prober is required'')
      else case store of
        None \<Rightarrow> Inl (ErrText ''monitor state store is required'')
      | Some loaded \<Rightarrow>
        (case validateOptions o1 of
           Some err \<Rightarrow> Inl err
         | None \<Rightarrow>
           (case loaded of
              Inl err \<Rightarrow> Inl (errorf ''load monitor state'' err)
            | Inr persisted \<Rightarrow>
              if Version persisted \<noteq> 0 \<and> Version persisted \<noteq> persistentStateVersion then
                Inl (ErrText (''unsupported monitor state version '' @ decimal_int (Version persisted)))
              else
                (case new_devices db (Devices persisted) ds [] of
                   Inl err \<Rightarrow> Inl err
                 | Inr devs \<Rightarrow>
                   (case (if unlocker then None else List.find dAutoUnlock ds) of
                      Some d \<Rightarrow> Inl (no_unlocker_err db (dName d))
                    | None \<Rightarrow>
                      Inr \<lparr>has_unlocker = unlocker, opts = o1, devices = devs, events = [],
                           sequence = 0, subscribers = [], nextSubID = 0, running = False,
                           stopping = False, runners = [], clock = clk, ticks = 0,
                           disk = persisted\<rparr>)))))"

section \<open>Polling\<close>

datatype call = CallProbe device | CallUnlock device

definition deviceSnapshot :: "engine \<Rightarrow> string \<Rightarrow> device_snapshot option" where
  "deviceSnapshot e name =
     map_option (\<lambda>m. \<lparr>snapDevice = mdevice m, snapRecord = mrecord m\<rparr>) (map_of (devices e) name)"

text \<open>
  What the environment answers during one poll: the semaphore, the probe, the unlocker, and
  the three writes of the store (\<open>None\<close> in \<open>acquire_err\<close> means the slot was obtained).
\<close>

record poll_env =
  acquire_err :: "goerr option"
  probe_out :: "probe_result \<times> goerr option"
  unlock_out :: "unlock_result \<times> goerr option"
  save_probe :: saver
  save_mark :: saver
  save_result :: saver

definition Poll ::
    "unicode_db \<Rightarrow> poll_env \<Rightarrow> string \<Rightarrow> engine
      \<Rightarrow> engine \<times> device_snapshot option \<times> goerr option \<times> call list" where
  "Poll db env name e0 =
     (case map_of (devices e0) name of
        None \<Rightarrow> (e0, None, Some (device_not_found name), [])
      | Some m \<Rightarrow>
        (case acquire_err env of
           Some err \<Rightarrow> (e0, deviceSnapshot e0 name, Some err, [])
         | None \<Rightarrow>
           let (probe, probeErr) = probe_out env;
               (e1, shouldUnlock, applyErr) = applyProbe db (save_probe env) name probe probeErr e0;
               calls1 = [CallProbe (mdevice m)] in
           case applyErr of
             Some err \<Rightarrow> (e1, deviceSnapshot e1 name, Some err, calls1)
           | None \<Rightarrow>
             if \<not> shouldUnlock then (e1, deviceSnapshot e1 name, probeErr, calls1)
             else
               let (e2, started, markErr) = markUnlockStarted (save_mark env) name e1 in
               case markErr of
                 Some err \<Rightarrow> (e2, deviceSnapshot e2 name, Some err, calls1)
               | None \<Rightarrow>
                 if \<not> started then (e2, deviceSnapshot e2 name, None, calls1)
                 else
                   let (result, unlockErr) = unlock_out env;
                       (e3, resErr) = applyUnlockResult (save_result env) name result unlockErr e2;
                       calls2 = calls1 @ [CallUnlock (mdevice m)] in
                   case resErr of
                     Some err \<Rightarrow> (e3, deviceSnapshot e3 name, Some err, calls2)
                   | None \<Rightarrow> (e3, deviceSnapshot e3 name, unlockErr, calls2)))"

definition deviceNames :: "engine \<Rightarrow> string list" where
  "deviceNames e = sort (map_keys (devices e))"

text \<open>
  \<open>RunOnce\<close> with its goroutines completing in the order of \<open>order\<close>, one whole poll after the
  other; the interleaved executions are those of \<open>Monitor_Protocol\<close>.
\<close>

fun poll_each ::
    "unicode_db \<Rightarrow> (string \<Rightarrow> poll_env) \<Rightarrow> string list \<Rightarrow> engine \<times> goerr gomap \<Rightarrow> engine \<times> goerr gomap" where
  "poll_each db env [] st = st"
| "poll_each db env (n # ns) (e, errs) =
     (case Poll db (env n) n e of
        (e', _, err, _) \<Rightarrow>
          poll_each db env ns (e', case err of None \<Rightarrow> errs | Some x \<Rightarrow> AList.update n x errs))"

definition RunOnce ::
    "unicode_db \<Rightarrow> (string \<Rightarrow> poll_env) \<Rightarrow> string list \<Rightarrow> engine \<Rightarrow> engine \<times> goerr gomap" where
  "RunOnce db env order e = poll_each db env order (e, [])"

section \<open>The run loop\<close>

text \<open>\<open>Run\<close> up to the wait for the context, the transition to stopping, and the end after
  \<open>wg.Wait\<close>; \<open>runDevice\<close> between two polls, and its exit.\<close>

definition Run_start :: "engine \<Rightarrow> engine \<times> goerr option" where
  "Run_start e =
     (if running e \<or> stopping e then (e, Some (Sentinel ErrAlreadyRunning))
      else (fold startDeviceLocked (map_keys (devices e)) (e\<lparr>running := True, runners := []\<rparr>), None))"

definition Run_stop :: "engine \<Rightarrow> engine" where
  "Run_stop e = e\<lparr>running := False, stopping := True\<rparr>"

definition Run_finish :: "engine \<Rightarrow> engine" where
  "Run_finish e = e\<lparr>stopping := False\<rparr>"

definition runDevice_schedule :: "(int \<Rightarrow> int) \<Rightarrow> u64 option \<Rightarrow> string \<Rightarrow> engine \<Rightarrow> engine \<times> duration" where
  "runDevice_schedule cv raw name e0 =
     (case map_of (devices e0) name of
        None \<Rightarrow> (e0, 0)
      | Some m \<Rightarrow>
        let delay = nextDelay cv raw e0 m;
            (now, e1) = now_of e0 in
        (put_record name m ((mrecord m)\<lparr>NextCheckAt := now + delay\<rparr>) e1, delay))"

definition runDevice_exit :: "string \<Rightarrow> engine \<Rightarrow> engine" where
  "runDevice_exit name e = e\<lparr>runners := remove1 name (runners e)\<rparr>"

section \<open>Views and subscriptions\<close>

definition Snapshot_engine :: "engine \<Rightarrow> snapshot \<times> engine" where
  "Snapshot_engine e0 =
     (let (now, e1) = now_of e0 in
      (\<lparr>GeneratedAt = now,
        snapDevices = sort_key (\<lambda>s. dName (snapDevice s))
          (map (\<lambda>(_, m). \<lparr>snapDevice = mdevice m, snapRecord = mrecord m\<rparr>) (devices e1)),
        snapEvents = events e1\<rparr>, e1))"

definition Subscribe :: "int \<Rightarrow> engine \<Rightarrow> engine \<times> u64" where
  "Subscribe buffer e =
     (let b = (if buffer < 1 then 1 else buffer);
          sid = nextSubID e + 1 in
      (e\<lparr>nextSubID := sid,
         subscribers := AList.update sid \<lparr>ch_cap = nat b, ch_queue = []\<rparr> (subscribers e)\<rparr>, sid))"

definition Unsubscribe :: "u64 \<Rightarrow> engine \<Rightarrow> engine" where
  "Unsubscribe sid e = e\<lparr>subscribers := AList.delete sid (subscribers e)\<rparr>"

section \<open>The file store\<close>

text \<open>
  \<open>read\<close> is the outcome of \<open>securefs.ReadPrivate\<close>, \<open>decode\<close> the first call of the JSON
  decoder with the state of the input after it, \<open>encode\<close> is \<open>json.MarshalIndent\<close>, and \<open>write\<close>
  the outcome of \<open>securefs.WritePrivate\<close>.
\<close>

datatype json_tail = TailEOF | TailValue | TailErr goerr

record decoded_state =
  decVersion :: int
  decDevices :: "device_record gomap option"
  decTail :: json_tail

definition maxStateSize :: nat where
  "maxStateSize = 4 * 1024 * 1024"

definition errorsNewPath :: goerr where
  "errorsNewPath = ErrText ''monitor state path is required''"

definition errorsTrailingData :: "goerr option \<Rightarrow> goerr" where
  "errorsTrailingData err =
     (case err of
        None \<Rightarrow> ErrText ''monitor state contains trailing data''
      | Some e \<Rightarrow> errorf ''monitor state contains trailing data'' e)"

definition FileStore_Load ::
    "string \<Rightarrow> (goerr + string) \<Rightarrow> (string \<Rightarrow> goerr + decoded_state) \<Rightarrow> goerr + persistent_state" where
  "FileStore_Load path read decode =
     (if path = [] then Inl errorsNewPath
      else case read of
        Inl err \<Rightarrow>
          if err = Sentinel NotExist
          then Inr \<lparr>Version = persistentStateVersion, Devices = []\<rparr> else Inl err
      | Inr content \<Rightarrow>
        (case decode content of
           Inl err \<Rightarrow> Inl err
         | Inr st \<Rightarrow>
           (case decTail st of
              TailValue \<Rightarrow> Inl (errorsTrailingData None)
            | TailErr err \<Rightarrow> Inl (errorsTrailingData (Some err))
            | TailEOF \<Rightarrow>
                Inr \<lparr>Version = decVersion st,
                     Devices = (case decDevices st of None \<Rightarrow> [] | Some ds \<Rightarrow> ds)\<rparr>)))"

definition FileStore_Save ::
    "string \<Rightarrow> (persistent_state \<Rightarrow> goerr + string) \<Rightarrow> (string \<Rightarrow> save_outcome) \<Rightarrow> saver" where
  "FileStore_Save path encode write state0 =
     (if path = [] then SaveFailed errorsNewPath False
      else
        let state = (if Version state0 = 0 then state0\<lparr>Version := persistentStateVersion\<rparr> else state0) in
        if Version state \<noteq> persistentStateVersion then
          SaveFailed (ErrText (''unsupported monitor state version '' @ decimal_int (Version state))) False
        else
          (case encode state of
             Inl err \<Rightarrow> SaveFailed err False
           | Inr content0 \<Rightarrow>
             let content = content0 @ [CHR 0x0A] in
             if maxStateSize < length content then
               SaveFailed (ErrText (''monitor state exceeds '' @ decimal maxStateSize @ '' bytes'')) False
             else write content))"

section \<open>Frame rules\<close>

lemma now_of_simps [simp]:
  "fst (now_of e) = clock e (ticks e)" "snd (now_of e) = e\<lparr>ticks := Suc (ticks e)\<rparr>"
  by (simp_all add: now_of_def)

lemma now_of_pair: "now_of e = (clock e (ticks e), e\<lparr>ticks := Suc (ticks e)\<rparr>)"
  by (simp add: now_of_def)

lemma emit_frame [simp]:
  "devices (emitLocked k n msg e) = devices e" "opts (emitLocked k n msg e) = opts e"
  "disk (emitLocked k n msg e) = disk e" "running (emitLocked k n msg e) = running e"
  "stopping (emitLocked k n msg e) = stopping e" "runners (emitLocked k n msg e) = runners e"
  "has_unlocker (emitLocked k n msg e) = has_unlocker e" "clock (emitLocked k n msg e) = clock e"
  "nextSubID (emitLocked k n msg e) = nextSubID e"
  by (simp_all add: emitLocked_def now_of_pair Let_def split: option.split)

lemma emit_if_frame [simp]:
  "devices (emit_if b k n msg e) = devices e" "opts (emit_if b k n msg e) = opts e"
  "disk (emit_if b k n msg e) = disk e" "running (emit_if b k n msg e) = running e"
  "stopping (emit_if b k n msg e) = stopping e" "runners (emit_if b k n msg e) = runners e"
  "has_unlocker (emit_if b k n msg e) = has_unlocker e" "clock (emit_if b k n msg e) = clock e"
  "nextSubID (emit_if b k n msg e) = nextSubID e"
  by (simp_all add: emit_if_def)

lemma persist_frame:
  assumes "persistLocked sv e = (e', err)"
  shows "devices e' = devices e" "opts e' = opts e" "running e' = running e"
    "stopping e' = stopping e" "runners e' = runners e" "has_unlocker e' = has_unlocker e"
    "clock e' = clock e" "ticks e' = ticks e" "events e' = events e" "sequence e' = sequence e"
    "subscribers e' = subscribers e" "nextSubID e' = nextSubID e"
  using assms by (auto simp: persistLocked_def Let_def split: save_outcome.splits if_splits)

lemma persist_disk:
  "persistLocked sv e = (e', err) \<Longrightarrow> disk e' = snapshot_state e \<or> (err \<noteq> None \<and> disk e' = disk e)"
  by (auto simp: persistLocked_def Let_def split: save_outcome.splits if_splits)

lemma persist_ok_disk: "persistLocked sv e = (e', None) \<Longrightarrow> disk e' = snapshot_state e"
  by (auto simp: persistLocked_def Let_def split: save_outcome.splits if_splits)

lemma put_record_frame [simp]:
  "opts (put_record n m r e) = opts e" "disk (put_record n m r e) = disk e"
  "running (put_record n m r e) = running e" "stopping (put_record n m r e) = stopping e"
  "runners (put_record n m r e) = runners e" "has_unlocker (put_record n m r e) = has_unlocker e"
  "clock (put_record n m r e) = clock e" "ticks (put_record n m r e) = ticks e"
  "events (put_record n m r e) = events e" "sequence (put_record n m r e) = sequence e"
  "subscribers (put_record n m r e) = subscribers e" "nextSubID (put_record n m r e) = nextSubID e"
  by (simp_all add: put_record_def)

lemma devices_put_record:
  "devices (put_record n m r e) = AList.update n (m\<lparr>mrecord := r\<rparr>) (devices e)"
  by (simp add: put_record_def)

lemma snapshot_lookup:
  "map_of (Devices (snapshot_state e)) n
    = map_option (\<lambda>m. (mrecord m)\<lparr>NextCheckAt := 0\<rparr>) (map_of (devices e) n)"
  by (simp add: snapshot_state_def map_of_map_val)

end
