(* ===== verification/Monitor_Marks.thy ===== *)
theory Monitor_Marks
  imports Monitor_Engine
begin

text \<open>
  The attempt marker. A device record is marked when its lock episode is open and the unlock
  of that episode has been attempted. The engine keeps one copy in memory and one on disk;
  the lemmas here say what each operation does to the two copies of every device, which is all
  the credential-release argument of \<open>Monitor_Protocol\<close> needs of the engine.
\<close>

definition marked :: "device_record \<Rightarrow> bool" where
  "marked r \<longleftrightarrow> UnlockAttempted r \<and> LockEpisodeOpen r"

definition mem_marked :: "engine \<Rightarrow> string \<Rightarrow> bool" where
  "mem_marked e n \<longleftrightarrow> (case map_of (devices e) n of None \<Rightarrow> False | Some m \<Rightarrow> marked (mrecord m))"

definition disk_marked :: "engine \<Rightarrow> string \<Rightarrow> bool" where
  "disk_marked e n \<longleftrightarrow> (case map_of (Devices (disk e)) n of None \<Rightarrow> False | Some r \<Rightarrow> marked r)"

definition both_marked :: "engine \<Rightarrow> string \<Rightarrow> bool" where
  "both_marked e n \<longleftrightarrow> mem_marked e n \<and> disk_marked e n"

section \<open>The marker through the building blocks\<close>

lemma marked_NextCheckAt [simp]: "marked (r\<lparr>NextCheckAt := t\<rparr>) = marked r"
  by (simp add: marked_def)

lemma both_marked_cong:
  "devices e' = devices e \<Longrightarrow> disk e' = disk e \<Longrightarrow> both_marked e' n = both_marked e n"
  by (simp add: both_marked_def mem_marked_def disk_marked_def)

lemma both_marked_frame [simp]:
  "both_marked (emitLocked k d msg e) n = both_marked e n"
  "both_marked (emit_if b k d msg e) n = both_marked e n"
  "both_marked (e\<lparr>ticks := t\<rparr>) n = both_marked e n"
  by (rule both_marked_cong; simp)+

lemma both_marked_put_other:
  "n \<noteq> d \<Longrightarrow> both_marked (put_record d m r e) n = both_marked e n"
  by (simp add: both_marked_def mem_marked_def disk_marked_def devices_put_record update_conv')

lemma both_marked_put_self:
  "marked r \<Longrightarrow> both_marked e d \<Longrightarrow> both_marked (put_record d m r e) d"
  by (simp add: both_marked_def mem_marked_def disk_marked_def devices_put_record update_conv')

lemma snapshot_marked: "disk e' = snapshot_state e \<Longrightarrow> disk_marked e' n = mem_marked e n"
  by (simp add: disk_marked_def mem_marked_def snapshot_lookup split: option.split)

lemma both_marked_persist:
  assumes "persistLocked sv e = (e', err)" and "both_marked e n"
  shows "both_marked e' n"
proof -
  have dev: "devices e' = devices e" by (rule persist_frame(1) [OF assms(1)])
  from persist_disk [OF assms(1)] have "disk_marked e' n"
    using assms(2) by (auto simp: snapshot_marked both_marked_def) (simp add: disk_marked_def)
  with assms(2) dev show ?thesis by (simp add: both_marked_def mem_marked_def)
qed

lemma both_marked_persist_ok:
  assumes "persistLocked sv e = (e', None)" and "mem_marked e n"
  shows "both_marked e' n"
  using assms persist_frame(1) [OF assms(1)] persist_ok_disk [OF assms(1)]
  by (auto simp: both_marked_def snapshot_marked) (simp add: mem_marked_def)

lemma both_marked_observe:
  assumes "map_of (devices e) d = Some m"
  shows "both_marked (e\<lparr>devices := AList.update d (m\<lparr>observed := b\<rparr>) (devices e)\<rparr>) n = both_marked e n"
  using assms by (auto simp: both_marked_def mem_marked_def disk_marked_def update_conv')

section \<open>Records\<close>

lemma latchLocked_marked [simp]: "marked (latchLocked k err r) = marked r"
  by (simp add: latchLocked_def marked_def)

definition booted_observation :: "probe_result \<Rightarrow> goerr option \<Rightarrow> bool" where
  "booted_observation result probeErr \<longleftrightarrow> probeErr = None \<and> prState result = StateBooted"

lemma probe_error_marked: "marked r0 \<Longrightarrow> marked (probe_error_record previous result err r0)"
  by (simp add: probe_error_record_def latchLocked_def marked_def Let_def split: failure_kind.split)

lemma probe_observed_marked:
  "marked r0 \<Longrightarrow> prState result \<noteq> StateBooted \<Longrightarrow> marked (probe_observed_record result r0)"
  by (simp add: probe_observed_record_def marked_def Let_def split: dev_state.split)

lemma probe_record_marked:
  assumes "marked previous" and "\<not> booted_observation result probeErr"
  shows "marked (probe_record db now previous result probeErr)"
proof -
  let ?r0 = "previous\<lparr>LastCheckedAt := now, Detail := boundedText (prDetail result),
               LastError := [], EndpointDown := prEndpointDown result\<rparr>"
  let ?r1 = "case probeErr of
                  Some err \<Rightarrow> probe_error_record previous result err ?r0
                | None \<Rightarrow> if \<not> validProbeState (prState result) then
                    probe_invalid_record (invalid_state_err db (prState result)) ?r0
                  else probe_observed_record result ?r0"
  have "marked ?r0" using assms(1) by (simp add: marked_def)
  then have "marked ?r1" using assms(2)
    by (auto simp: booted_observation_def probe_error_marked probe_observed_marked
        split: option.split) (simp add: probe_invalid_record_def marked_def)
  then show ?thesis by (simp add: probe_record_def Let_def marked_def)
qed

text \<open>A probe that authorizes an unlock leaves an open, unattempted, unlatched episode.\<close>

lemma should_unlock_record:
  assumes "should_unlock now d r result probeErr"
    and "r = probe_record db now previous result probeErr"
  shows "LockEpisodeOpen r \<and> \<not> UnlockAttempted r \<and> \<not> Latched r \<and> State r = StateLocked"
proof -
  from assms(1) have h: "probeErr = None" "prState result = StateLocked"
    "\<not> Latched r" "\<not> UnlockAttempted r"
    by (auto simp: should_unlock_def)
  with assms(2) show ?thesis
    by (auto simp: probe_record_def probe_observed_record_def Let_def split: if_splits)
qed

section \<open>Operations\<close>

text \<open>The record and the stored state after the write of \<open>applyProbe\<close>, before its events.\<close>

lemma applyProbe_shape:
  assumes op: "applyProbe db sv d result probeErr e = (e', should, err)"
    and m: "map_of (devices e) d = Some m"
  obtains e3 saveErr now where
    "now = clock e (ticks e)"
    and "(if persistenceRelevantChanged (mrecord m) (probe_record db now (mrecord m) result probeErr)
          then persistLocked sv (put_record d m (probe_record db now (mrecord m) result probeErr)
                 (e\<lparr>ticks := Suc (ticks e)\<rparr>))
          else (put_record d m (probe_record db now (mrecord m) result probeErr)
                 (e\<lparr>ticks := Suc (ticks e)\<rparr>), None)) = (e3, saveErr)"
    and "disk e' = disk e3" "opts e' = opts e3"
    and "devices e' = devices e3
         \<or> devices e' = AList.update d
             (m\<lparr>mrecord := probe_record db now (mrecord m) result probeErr, observed := True\<rparr>) (devices e3)"
    and "should \<Longrightarrow> saveErr = None \<and> err = None \<and>
           should_unlock now (mdevice m) (probe_record db now (mrecord m) result probeErr) result probeErr"
proof -
  define now where "now = clock e (ticks e)"
  define r where "r = probe_record db now (mrecord m) result probeErr"
  obtain e3 saveErr where p: "(if persistenceRelevantChanged (mrecord m) r
      then persistLocked sv (put_record d m r (e\<lparr>ticks := Suc (ticks e)\<rparr>))
      else (put_record d m r (e\<lparr>ticks := Suc (ticks e)\<rparr>), None)) = (e3, saveErr)"
    by (meson surj_pair)
  have valid: "should_unlock now (mdevice m) r result probeErr \<Longrightarrow> validProbeState (prState result)"
    by (simp add: should_unlock_def)
  show thesis
    by (rule that [of now e3 saveErr])
      (use op m p valid in \<open>auto simp: applyProbe_def now_of_pair Let_def now_def r_def
        split: option.splits if_splits\<close>)
qed

lemma applyProbe_marks:
  assumes op: "applyProbe db sv d result probeErr e = (e', should, err)"
    and bm: "both_marked e n" and nb: "n \<noteq> d \<or> \<not> booted_observation result probeErr"
  shows "both_marked e' n"
proof (cases "map_of (devices e) d")
  case None
  with op bm show ?thesis by (simp add: applyProbe_def)
next
  case (Some m)
  from applyProbe_shape [OF op Some] obtain e3 saveErr now where
    p: "(if persistenceRelevantChanged (mrecord m) (probe_record db now (mrecord m) result probeErr)
          then persistLocked sv (put_record d m (probe_record db now (mrecord m) result probeErr)
                 (e\<lparr>ticks := Suc (ticks e)\<rparr>))
          else (put_record d m (probe_record db now (mrecord m) result probeErr)
                 (e\<lparr>ticks := Suc (ticks e)\<rparr>), None)) = (e3, saveErr)"
    and dk: "disk e' = disk e3"
    and dv: "devices e' = devices e3
         \<or> devices e' = AList.update d
             (m\<lparr>mrecord := probe_record db now (mrecord m) result probeErr, observed := True\<rparr>) (devices e3)"
    by metis
  let ?r = "probe_record db now (mrecord m) result probeErr"
  let ?e2 = "put_record d m ?r (e\<lparr>ticks := Suc (ticks e)\<rparr>)"
  have e2: "both_marked ?e2 n"
  proof (cases "n = d")
    case True
    from bm True Some have "marked (mrecord m)" by (simp add: both_marked_def mem_marked_def)
    with True nb have "marked ?r" by (simp add: probe_record_marked)
    with True bm show ?thesis by (simp add: both_marked_put_self)
  qed (simp add: both_marked_put_other bm)
  have e3: "both_marked e3 n" and dev3: "devices e3 = devices ?e2"
    using p e2 both_marked_persist persist_frame(1) by (auto split: if_splits)
  have at_d: "map_of (devices e3) d = Some (m\<lparr>mrecord := ?r\<rparr>)"
    by (simp add: dev3 devices_put_record update_conv')
  from dv show ?thesis
  proof
    assume "devices e' = devices e3"
    then show ?thesis using dk e3 both_marked_cong by blast
  next
    assume "devices e' = AList.update d (m\<lparr>mrecord := ?r, observed := True\<rparr>) (devices e3)"
    then have "both_marked e' n = both_marked
        (e3\<lparr>devices := AList.update d (m\<lparr>mrecord := ?r\<rparr>\<lparr>observed := True\<rparr>) (devices e3)\<rparr>) n"
      using dk by (intro both_marked_cong) simp_all
    then show ?thesis using both_marked_observe [OF at_d] e3 by simp
  qed
qed

lemma applyProbe_should:
  assumes op: "applyProbe db sv d result probeErr e = (e', True, err)"
  shows "\<exists>m. map_of (devices e') d = Some m \<and> LockEpisodeOpen (mrecord m)
    \<and> \<not> UnlockAttempted (mrecord m)"
proof (cases "map_of (devices e) d")
  case None
  with op show ?thesis by (simp add: applyProbe_def)
next
  case (Some m)
  from applyProbe_shape [OF op Some] obtain e3 saveErr now where
    p: "(if persistenceRelevantChanged (mrecord m) (probe_record db now (mrecord m) result probeErr)
          then persistLocked sv (put_record d m (probe_record db now (mrecord m) result probeErr)
                 (e\<lparr>ticks := Suc (ticks e)\<rparr>))
          else (put_record d m (probe_record db now (mrecord m) result probeErr)
                 (e\<lparr>ticks := Suc (ticks e)\<rparr>), None)) = (e3, saveErr)"
    and dv: "devices e' = devices e3
         \<or> devices e' = AList.update d
             (m\<lparr>mrecord := probe_record db now (mrecord m) result probeErr, observed := True\<rparr>) (devices e3)"
    and su: "should_unlock now (mdevice m) (probe_record db now (mrecord m) result probeErr) result probeErr"
    by metis
  have "devices e3 = AList.update d (m\<lparr>mrecord := probe_record db now (mrecord m) result probeErr\<rparr>) (devices e)"
    using p persist_frame(1) by (auto simp: devices_put_record split: if_splits)
  with dv should_unlock_record [OF su refl] show ?thesis by (auto simp: update_conv')
qed

lemma markUnlockStarted_marks:
  assumes op: "markUnlockStarted sv d e = (e', started, err)"
    and bm: "both_marked e n" and nd: "n \<noteq> d"
  shows "both_marked e' n"
  using op bm both_marked_persist [of sv "put_record d _ _ (e\<lparr>ticks := Suc (ticks e)\<rparr>)" _ _ n]
  by (auto simp: markUnlockStarted_def now_of_pair Let_def both_marked_put_other nd
      split: option.splits if_splits prod.splits)

lemma markUnlockStarted_started:
  assumes op: "markUnlockStarted sv d e = (e', True, err)"
    and open_m: "\<And>m. map_of (devices e) d = Some m \<Longrightarrow> LockEpisodeOpen (mrecord m)"
  shows "both_marked e' d" "\<not> mem_marked e d"
proof -
  from op obtain m where m: "map_of (devices e) d = Some m"
    by (auto simp: markUnlockStarted_def split: option.splits)
  let ?r1 = "(mrecord m)\<lparr>UnlockAttempted := True, LastUnlockAttemptAt := clock e (ticks e),
      NextUnlockEligibleAt := clock e (ticks e) + UnlockCooldown (opts e),
      State := StateUnlocking, StateChangedAt := clock e (ticks e)\<rparr>"
  let ?e1 = "put_record d m ?r1 (e\<lparr>ticks := Suc (ticks e)\<rparr>)"
  from op m obtain e2 where p: "persistLocked sv ?e1 = (e2, None)"
    and e': "e' = emitLocked EventUnlockStarted d
      ''automatic unlock authorized after definitive FileVault detection'' e2"
    and nu: "\<not> UnlockAttempted (mrecord m)"
    by (auto simp: markUnlockStarted_def now_of_pair Let_def split: option.splits if_splits prod.splits)
  have "mem_marked ?e1 d"
    using open_m [OF m] by (simp add: mem_marked_def devices_put_record update_conv' marked_def)
  then show "both_marked e' d" using both_marked_persist_ok [OF p] by (simp add: e')
  show "\<not> mem_marked e d" using nu m by (simp add: mem_marked_def marked_def)
qed

text \<open>An outcome after which the engine allows another attempt of the same episode.\<close>

definition retryable :: "unlock_result \<Rightarrow> goerr option \<Rightarrow> bool" where
  "retryable result unlockErr \<longleftrightarrow>
     unlockErr \<noteq> None \<and> \<not> urAccepted result \<and>
     FailureKindOf unlockErr \<noteq> FailureCredential \<and> FailureKindOf unlockErr \<noteq> FailureHostKey"

lemma unlock_record_attempted:
  "UnlockAttempted (fst (unlock_record o1 now before result unlockErr))
    = (UnlockAttempted before \<and> \<not> retryable result unlockErr)"
  by (auto simp: unlock_record_def retryable_def latchLocked_def markPreSubmissionRetryLocked_def
      Let_def split: option.splits if_splits)

lemma unlock_record_open [simp]:
  "LockEpisodeOpen (fst (unlock_record o1 now before result unlockErr)) = LockEpisodeOpen before"
  by (auto simp: unlock_record_def latchLocked_def markPreSubmissionRetryLocked_def
      Let_def split: option.splits if_splits)

lemma applyUnlockResult_marks:
  assumes op: "applyUnlockResult sv d result unlockErr e = (e', err)"
    and bm: "both_marked e n" and nr: "n \<noteq> d \<or> \<not> retryable result unlockErr"
  shows "both_marked e' n"
proof (cases "map_of (devices e) d")
  case None
  with op bm show ?thesis by (simp add: applyUnlockResult_def)
next
  case (Some m)
  obtain r c where rc: "unlock_record (opts e) (clock e (ticks e)) (mrecord m) result unlockErr = (r, c)"
    by (meson surj_pair)
  let ?e1 = "put_record d m r (e\<lparr>ticks := Suc (ticks e)\<rparr>)"
  obtain e2 se where p: "persistLocked sv ?e1 = (e2, se)" by (meson surj_pair)
  have "both_marked ?e1 n"
  proof (cases "n = d")
    case True
    with bm Some have "marked (mrecord m)" by (simp add: both_marked_def mem_marked_def)
    with True nr rc have "marked r"
      unfolding marked_def by (metis fst_conv unlock_record_attempted unlock_record_open)
    with True bm show ?thesis by (simp add: both_marked_put_self)
  qed (simp add: both_marked_put_other bm)
  then have "both_marked e2 n" by (rule both_marked_persist [OF p])
  then show ?thesis using op Some rc p
    by (auto simp: applyUnlockResult_def now_of_pair Let_def split: option.splits)
qed

lemma ClearLatch_marks:
  assumes op: "ClearLatch sv d e = (e', err)" and bm: "both_marked e n" and nd: "n \<noteq> d"
  shows "both_marked e' n"
proof -
  have keep: "both_marked e2 n"
    if "persistLocked sv (put_record d m r e1) = (e2, se)" "both_marked e1 n" for e1 e2 m r se
    using that both_marked_persist nd by (metis both_marked_put_other)
  show ?thesis using op bm nd
    by (auto simp: ClearLatch_def now_of_pair Let_def both_marked_put_other
        split: option.splits if_splits prod.splits dest!: keep)
qed

lemma ClearLatch_failed_mem:
  assumes op: "ClearLatch sv d e = (e', Some err)" and mm: "mem_marked e d"
  shows "mem_marked e' d"
proof -
  from mm obtain m where m: "map_of (devices e) d = Some m" "marked (mrecord m)"
    by (auto simp: mem_marked_def split: option.splits)
  have "mem_marked (put_record d m (mrecord m) x) d" for x
    using m by (simp add: mem_marked_def devices_put_record update_conv')
  with op m(1) show ?thesis
    by (auto simp: ClearLatch_def now_of_pair Let_def split: if_splits prod.splits option.splits)
qed

lemma AddDevice_marks:
  assumes op: "AddDevice db sv dev e = (e', err)" and bm: "both_marked e n"
  shows "both_marked e' n"
proof (cases "map_of (devices e) (dName dev)")
  case None
  with bm have nd: "n \<noteq> dName dev" by (auto simp: both_marked_def mem_marked_def)
  have upd: "both_marked (x\<lparr>devices := AList.update (dName dev) m (devices x)\<rparr>) n = both_marked x n"
    and del: "both_marked (x\<lparr>devices := AList.delete (dName dev) (devices x)\<rparr>) n = both_marked x n"
    for x :: engine and m
    using nd by (simp_all add: both_marked_def mem_marked_def disk_marked_def update_conv' delete_conv')
  have run: "both_marked (startDeviceLocked k x) n = both_marked x n" for k x
    by (rule both_marked_cong) (simp_all add: startDeviceLocked_def)
  have keep: "both_marked e2 n"
    if "persistLocked sv (e\<lparr>ticks := t, devices := AList.update (dName dev) m (devices e)\<rparr>) = (e2, se)"
    for e2 t m se
    using both_marked_persist [OF that] bm upd [where x = "e\<lparr>ticks := t\<rparr>" and m = m] by simp
  show ?thesis using op None bm
    by (auto simp: AddDevice_def now_of_pair Let_def upd del run
        split: option.splits if_splits prod.splits dest: keep)
next
  case (Some m)
  with op bm show ?thesis by (auto simp: AddDevice_def split: option.splits if_splits)
qed

lemma runDevice_schedule_marks:
  assumes op: "runDevice_schedule cv raw d e = (e', delay)" and bm: "both_marked e n"
  shows "both_marked e' n"
proof (cases "map_of (devices e) d")
  case None
  with op bm show ?thesis by (simp add: runDevice_schedule_def)
next
  case (Some m)
  then have "n = d \<Longrightarrow> marked (mrecord m)"
    using bm by (simp add: both_marked_def mem_marked_def)
  then show ?thesis using op Some bm both_marked_put_other both_marked_put_self
    by (cases "n = d") (auto simp: runDevice_schedule_def now_of_pair Let_def)
qed

text \<open>What an operation on one device leaves of the others.\<close>

lemma persist_lookup: "persistLocked sv e = (e', err) \<Longrightarrow> map_of (devices e') n = map_of (devices e) n"
  by (simp add: persist_frame(1))

lemma applyProbe_other:
  assumes op: "applyProbe db sv d result probeErr e = (e', should, err)" and "n \<noteq> d"
  shows "map_of (devices e') n = map_of (devices e) n"
proof (cases "map_of (devices e) d")
  case None
  with op show ?thesis by (simp add: applyProbe_def)
next
  case (Some m)
  show ?thesis
    by (rule applyProbe_shape [OF op Some])
      (use \<open>n \<noteq> d\<close> in \<open>auto simp: devices_put_record update_conv' dest: persist_lookup [where n = n]
        split: if_splits\<close>)
qed

lemma markUnlockStarted_other:
  "markUnlockStarted sv d e = (e', started, err) \<Longrightarrow> n \<noteq> d \<Longrightarrow>
    map_of (devices e') n = map_of (devices e) n"
  by (auto simp: markUnlockStarted_def now_of_pair Let_def devices_put_record update_conv'
      dest: persist_lookup [where n = n] split: option.splits if_splits prod.splits)

lemma applyUnlockResult_other:
  "applyUnlockResult sv d result unlockErr e = (e', err) \<Longrightarrow> n \<noteq> d \<Longrightarrow>
    map_of (devices e') n = map_of (devices e) n"
  by (auto simp: applyUnlockResult_def now_of_pair Let_def devices_put_record update_conv'
      dest: persist_lookup [where n = n] split: option.splits if_splits prod.splits)

lemma ClearLatch_other:
  "ClearLatch sv d e = (e', err) \<Longrightarrow> n \<noteq> d \<Longrightarrow> map_of (devices e') n = map_of (devices e) n"
  by (auto simp: ClearLatch_def now_of_pair Let_def devices_put_record update_conv'
      dest: persist_lookup [where n = n] split: option.splits if_splits prod.splits)

lemma startDeviceLocked_devices [simp]: "devices (startDeviceLocked k e) = devices e"
  by (simp add: startDeviceLocked_def)

lemma AddDevice_other:
  assumes "AddDevice db sv dev e = (e', err)" and "map_of (devices e) n \<noteq> None \<or> n \<noteq> dName dev"
  shows "map_of (devices e') n = map_of (devices e) n"
proof (cases "n = dName dev")
  case True
  with assms show ?thesis by (auto simp: AddDevice_def split: option.splits if_splits)
next
  case False
  with assms show ?thesis
    by (auto simp: AddDevice_def now_of_pair Let_def update_conv' delete_conv'
        dest: persist_lookup [where n = n] split: option.splits if_splits prod.splits)
qed

lemma runDevice_schedule_open:
  assumes "runDevice_schedule cv raw d e = (e', delay)" and "map_of (devices e) n = Some m"
  shows "\<exists>m'. map_of (devices e') n = Some m' \<and> LockEpisodeOpen (mrecord m') = LockEpisodeOpen (mrecord m)"
  using assms
  by (auto simp: runDevice_schedule_def now_of_pair Let_def devices_put_record update_conv'
      split: option.splits if_splits)

section \<open>Restart\<close>

lemma new_devices_mono:
  "new_devices db persisted ds acc = Inr devs \<Longrightarrow> map_of acc n \<noteq> None \<Longrightarrow> map_of devs n = map_of acc n"
proof (induction ds arbitrary: acc)
  case (Cons d ds)
  then have "map_of acc (dName d) = None" and "n \<noteq> dName d"
    by (auto split: option.splits if_splits)
  with Cons show ?case
    by (auto simp: Let_def update_conv' split: option.splits if_splits)
qed simp

lemma new_devices_lookup:
  assumes "new_devices db persisted ds acc = Inr devs" and "d \<in> set ds"
  shows "\<exists>dev. dName dev = dName d \<and> map_of devs (dName d) = Some
    \<lparr>mdevice = dev,
     mrecord = (case map_of persisted (dName d) of
                  None \<Rightarrow> zero_record\<lparr>State := StateIndeterminate\<rparr> | Some r \<Rightarrow> r)\<lparr>NextCheckAt := 0\<rparr>,
     observed = False\<rparr>"
  using assms
proof (induction ds arbitrary: acc)
  case (Cons x ds)
  show ?case
  proof (cases "d \<in> set ds")
    case True
    with Cons show ?thesis
      by (auto simp: Let_def split: option.splits if_splits)
  next
    case False
    with Cons.prems have "d = x" by simp
    let ?m = "\<lparr>mdevice = x, mrecord = (case map_of persisted (dName x) of
        None \<Rightarrow> zero_record\<lparr>State := StateIndeterminate\<rparr> | Some r \<Rightarrow> r)\<lparr>NextCheckAt := 0\<rparr>, observed = False\<rparr>"
    from Cons.prems(1) have rest: "new_devices db persisted ds (AList.update (dName x) ?m acc) = Inr devs"
      by (auto simp: Let_def split: option.splits if_splits)
    have "map_of devs (dName x) = Some ?m"
      using new_devices_mono [OF rest, of "dName x"] by (simp add: update_conv')
    with \<open>d = x\<close> show ?thesis by blast
  qed
qed simp

lemma New_disk: "New db ds pb ul st o1 clk = Inr e \<Longrightarrow> \<exists>p. st = Some (Inr p) \<and> disk e = p
    \<and> new_devices db (Devices p) ds [] = Inr (devices e)"
  by (auto simp: New_def split: option.splits if_splits sum.splits)

lemma New_marks:
  assumes new: "New db ds pb ul (Some (Inr (disk e))) o1 clk = Inr e'"
    and dm: "disk_marked e n" and n: "n \<in> dName ` set ds"
  shows "both_marked e' n"
proof -
  from New_disk [OF new] have dk: "disk e' = disk e"
    and nd: "new_devices db (Devices (disk e)) ds [] = Inr (devices e')" by auto
  from n obtain d where d: "d \<in> set ds" "n = dName d" by auto
  from new_devices_lookup [OF nd d(1)] dm d(2) have "mem_marked e' n"
    by (auto simp: disk_marked_def mem_marked_def split: option.splits)
  moreover have "disk_marked e' n" using dm dk by (simp add: disk_marked_def)
  ultimately show ?thesis by (simp add: both_marked_def)
qed

end
