(* ===== verification/Monitor_Protocol.thy ===== *)
theory Monitor_Protocol
  imports Monitor_Marks
begin

text \<open>
  The concurrent executions of the engine. Polls of different devices, operator actions and
  enrollment interleave at the critical sections of \<open>Engine.mu\<close>; polls and latch clearing of
  one device exclude each other through its operation lock, so each device has one program
  counter. The process can crash at any moment and restart from the durable state.

  The unlocker is the interface \<open>Unlocker\<close>, seen through what its calls may do: how often the
  credential was submitted, the result and the error. The locale \<open>unlocker_contract\<close> states
  what \<open>types.go\<close> demands of an implementation; \<open>Daemon_Adapter\<close> interprets it with the
  adapter of the daemon.
\<close>

datatype phase = Idle | Probing | Authorized | Unlocking

type_synonym unlock_behaviour = "device \<Rightarrow> nat \<Rightarrow> unlock_result \<Rightarrow> goerr option \<Rightarrow> bool"

text \<open>
  \<open>subs\<close> counts the submissions of a device's credential since the last event that allows a new
  attempt: a booted observation, an operator who cleared the latch, or a restart without the
  device, which takes it out of the daemon's management (the next save drops its record, and
  adding it again makes a new device of it). A clearing that failed changes nothing here, unless
  the file it could not confirm had reached the disk. A restart takes any device list the daemon
  accepts. A crash during an unlock call may or may not have submitted.
\<close>

record sys =
  eng :: engine
  pc :: "string \<Rightarrow> phase"
  subs :: "string \<Rightarrow> nat"

inductive sys_step :: "unicode_db \<Rightarrow> unlock_behaviour \<Rightarrow> sys \<Rightarrow> sys \<Rightarrow> bool"
  for db :: unicode_db and U :: unlock_behaviour where
  poll_begin:
    "map_of (devices (eng s)) n \<noteq> None \<Longrightarrow> pc s n = Idle \<Longrightarrow>
     sys_step db U s (s\<lparr>pc := (pc s)(n := Probing)\<rparr>)"
| poll_cancelled:
    "pc s n = Probing \<Longrightarrow> sys_step db U s (s\<lparr>pc := (pc s)(n := Idle)\<rparr>)"
| poll_probe:
    "pc s n = Probing \<Longrightarrow>
     applyProbe db sv n result probeErr (eng s) = (e', should, err) \<Longrightarrow>
     sys_step db U s (s\<lparr>eng := e',
       pc := (pc s)(n := if should \<and> err = None then Authorized else Idle),
       subs := if booted_observation result probeErr then (subs s)(n := 0) else subs s\<rparr>)"
| poll_mark:
    "pc s n = Authorized \<Longrightarrow> markUnlockStarted sv n (eng s) = (e', started, err) \<Longrightarrow>
     sys_step db U s (s\<lparr>eng := e',
       pc := (pc s)(n := if started \<and> err = None then Unlocking else Idle)\<rparr>)"
| poll_unlock:
    "pc s n = Unlocking \<Longrightarrow> map_of (devices (eng s)) n = Some m \<Longrightarrow>
     U (mdevice m) k result unlockErr \<Longrightarrow>
     applyUnlockResult sv n result unlockErr (eng s) = (e', err) \<Longrightarrow>
     sys_step db U s (s\<lparr>eng := e', pc := (pc s)(n := Idle), subs := (subs s)(n := subs s n + k)\<rparr>)"
| clear_latch:
    "pc s n = Idle \<Longrightarrow> ClearLatch sv n (eng s) = (e', err) \<Longrightarrow>
     sys_step db U s (s\<lparr>eng := e',
       subs := if err = None \<or> \<not> disk_marked e' n then (subs s)(n := 0) else subs s\<rparr>)"
| add_device:
    "AddDevice db sv dev (eng s) = (e', err) \<Longrightarrow> sys_step db U s (s\<lparr>eng := e'\<rparr>)"
| schedule:
    "runDevice_schedule cv raw n (eng s) = (e', delay) \<Longrightarrow> sys_step db U s (s\<lparr>eng := e'\<rparr>)"
| restart:
    "New db ds True ul (Some (Inr (disk (eng s)))) o1 clk = Inr e' \<Longrightarrow>
     \<forall>n. lost n \<le> (1::nat) \<and> (pc s n \<noteq> Unlocking \<longrightarrow> lost n = 0) \<Longrightarrow>
     sys_step db U s \<lparr>eng = e', pc = (\<lambda>_. Idle),
       subs = (\<lambda>n. if n \<in> dName ` set ds then subs s n + lost n else 0)\<rparr>"

inductive sys_reachable :: "unicode_db \<Rightarrow> unlock_behaviour \<Rightarrow> sys \<Rightarrow> bool"
  for db :: unicode_db and U :: unlock_behaviour where
  start: "New db ds True ul (Some loaded) o1 clk = Inr e \<Longrightarrow>
    sys_reachable db U \<lparr>eng = e, pc = (\<lambda>_. Idle), subs = (\<lambda>_. 0)\<rparr>"
| step: "sys_reachable db U s \<Longrightarrow> sys_step db U s s' \<Longrightarrow> sys_reachable db U s'"

definition release_inv :: "sys \<Rightarrow> string \<Rightarrow> bool" where
  "release_inv s n \<longleftrightarrow> subs s n \<le> 1
     \<and> (subs s n = 1 \<longrightarrow> both_marked (eng s) n)
     \<and> (pc s n = Unlocking \<longrightarrow> both_marked (eng s) n \<and> subs s n = 0)
     \<and> (pc s n = Authorized \<longrightarrow> subs s n = 0
          \<and> (\<exists>m. map_of (devices (eng s)) n = Some m \<and> LockEpisodeOpen (mrecord m)))"

section \<open>What the engine relies on\<close>

locale unlocker_contract =
  fixes U :: unlock_behaviour
  assumes submits_once: "U d k result unlockErr \<Longrightarrow> k \<le> 1"
    and retry_means_unsubmitted: "U d k result unlockErr \<Longrightarrow> retryable result unlockErr \<Longrightarrow> k = 0"
begin

lemma poll_probe_inv:
  assumes inv: "\<And>n. release_inv s n" and pcn: "pc s n = Probing"
    and op: "applyProbe db sv n result probeErr (eng s) = (e', should, err)"
  shows "release_inv (s\<lparr>eng := e',
       pc := (pc s)(n := if should \<and> err = None then Authorized else Idle),
       subs := if booted_observation result probeErr then (subs s)(n := 0) else subs s\<rparr>) i"
proof (cases "i = n")
  case False
  with inv [of i] op show ?thesis
    by (auto simp: release_inv_def applyProbe_other intro: applyProbe_marks)
next
  case True
  have "\<exists>m. map_of (devices e') n = Some m \<and> LockEpisodeOpen (mrecord m) \<and> \<not> UnlockAttempted (mrecord m)"
    if should
    using op that applyProbe_should by auto
  then have should: "should \<Longrightarrow> \<not> both_marked e' n
      \<and> (\<exists>m. map_of (devices e') n = Some m \<and> LockEpisodeOpen (mrecord m))"
    by (auto simp: both_marked_def mem_marked_def marked_def)
  have keep: "\<not> booted_observation result probeErr \<Longrightarrow> subs s n = 1 \<Longrightarrow> both_marked e' n"
    using inv [of n] applyProbe_marks [OF op] by (simp add: release_inv_def)
  have "subs s n = 0 \<or> subs s n = 1" using inv [of n] by (auto simp: release_inv_def)
  with True should keep show ?thesis by (auto simp: release_inv_def)
qed

lemma poll_mark_inv:
  assumes inv: "\<And>n. release_inv s n" and pcn: "pc s n = Authorized"
    and op: "markUnlockStarted sv n (eng s) = (e', started, err)"
  shows "release_inv (s\<lparr>eng := e',
       pc := (pc s)(n := if started \<and> err = None then Unlocking else Idle)\<rparr>) i"
proof (cases "i = n")
  case False
  with inv [of i] op show ?thesis
    by (auto simp: release_inv_def markUnlockStarted_other intro: markUnlockStarted_marks)
next
  case True
  have open_m: "LockEpisodeOpen (mrecord m)" if "map_of (devices (eng s)) n = Some m" for m
    using inv [of n] pcn that by (auto simp: release_inv_def)
  have "both_marked e' n" if started
    using markUnlockStarted_started(1) [OF _ open_m] op that by auto
  with True inv [of n] pcn show ?thesis by (auto simp: release_inv_def)
qed

lemma poll_unlock_inv:
  assumes inv: "\<And>n. release_inv s n" and pcn: "pc s n = Unlocking"
    and u: "U d k result unlockErr"
    and op: "applyUnlockResult sv n result unlockErr (eng s) = (e', err)"
  shows "release_inv (s\<lparr>eng := e', pc := (pc s)(n := Idle), subs := (subs s)(n := subs s n + k)\<rparr>) i"
proof (cases "i = n")
  case False
  with inv [of i] op show ?thesis
    by (auto simp: release_inv_def applyUnlockResult_other intro: applyUnlockResult_marks)
next
  case True
  from inv [of n] pcn have "both_marked (eng s) n" "subs s n = 0" by (auto simp: release_inv_def)
  moreover have "k \<noteq> 0 \<Longrightarrow> \<not> retryable result unlockErr" using retry_means_unsubmitted [OF u] by blast
  ultimately show ?thesis using True applyUnlockResult_marks [OF op] submits_once [OF u]
    by (auto simp: release_inv_def)
qed

lemma restart_inv:
  assumes inv: "\<And>n. release_inv s n"
    and new: "New db ds True ul (Some (Inr (disk (eng s)))) o1 clk = Inr e'"
    and lost: "\<forall>n. lost n \<le> (1::nat) \<and> (pc s n \<noteq> Unlocking \<longrightarrow> lost n = 0)"
  shows "release_inv \<lparr>eng = e', pc = (\<lambda>_. Idle),
       subs = (\<lambda>n. if n \<in> dName ` set ds then subs s n + lost n else 0)\<rparr> i"
proof (cases "i \<in> dName ` set ds")
  case True
  then have restore: "both_marked (eng s) i \<Longrightarrow> both_marked e' i"
    using New_marks [OF new, of i] by (auto simp: both_marked_def)
  have "subs s i \<le> 1" "subs s i = 1 \<longrightarrow> both_marked (eng s) i"
    "pc s i = Unlocking \<longrightarrow> both_marked (eng s) i \<and> subs s i = 0"
    using inv [of i] by (simp_all add: release_inv_def)
  moreover have "lost i \<le> 1" "pc s i \<noteq> Unlocking \<longrightarrow> lost i = 0" using lost by auto
  ultimately show ?thesis using restore True
    by (cases "pc s i = Unlocking") (auto simp: release_inv_def)
qed (simp add: release_inv_def)

lemma clear_latch_inv:
  assumes inv: "\<And>n. release_inv s n" and pcn: "pc s n = Idle"
    and op: "ClearLatch sv n (eng s) = (e', err)"
  shows "release_inv (s\<lparr>eng := e',
       subs := if err = None \<or> \<not> disk_marked e' n then (subs s)(n := 0) else subs s\<rparr>) i"
proof (cases "i = n")
  case False
  with inv [of i] op show ?thesis
    by (auto simp: release_inv_def ClearLatch_other intro: ClearLatch_marks)
next
  case True
  have "both_marked e' n" if "both_marked (eng s) n" "err \<noteq> None" "disk_marked e' n"
    using that op ClearLatch_failed_mem by (auto simp: both_marked_def)
  with True inv [of n] pcn show ?thesis by (auto simp: release_inv_def)
qed

lemma step_release_inv:
  assumes "sys_step db U s s'" and inv: "\<And>n. release_inv s n"
  shows "release_inv s' i"
  using assms(1)
proof cases
  case (poll_begin n)
  with inv [of i] show ?thesis by (auto simp: release_inv_def)
next
  case (poll_cancelled n)
  with inv [of i] show ?thesis by (auto simp: release_inv_def)
next
  case (poll_probe n sv result probeErr e' should err)
  then show ?thesis using poll_probe_inv [OF inv] by simp
next
  case (poll_mark n sv e' started err)
  then show ?thesis using poll_mark_inv [OF inv] by simp
next
  case (poll_unlock n m k result unlockErr sv e' err)
  then show ?thesis using poll_unlock_inv [OF inv] by simp
next
  case (clear_latch n sv e' err)
  then show ?thesis using clear_latch_inv [OF inv] by simp
next
  case (add_device sv dev e' err)
  with inv [of i] show ?thesis
    by (auto simp: release_inv_def AddDevice_other intro: AddDevice_marks)
next
  case (schedule cv raw n e' delay)
  with inv [of i] show ?thesis
    by (auto simp: release_inv_def intro: runDevice_schedule_marks dest: runDevice_schedule_open)
next
  case (restart ds ul o1 clk e' lost)
  then show ?thesis using restart_inv [OF inv] by simp
qed

lemma reachable_release_inv: "sys_reachable db U s \<Longrightarrow> release_inv s n"
proof (induction arbitrary: n rule: sys_reachable.induct)
  case (start ds ul loaded o1 clk e)
  then show ?case by (simp add: release_inv_def)
next
  case (step s s')
  then show ?case using step_release_inv by blast
qed

lemma at_most_one_submission: "sys_reachable db U s \<Longrightarrow> subs s n \<le> 1"
  using reachable_release_inv by (simp add: release_inv_def)

lemma submission_is_marked:
  "sys_reachable db U s \<Longrightarrow> pc s n = Unlocking \<or> subs s n = 1 \<Longrightarrow> disk_marked (eng s) n"
  using reachable_release_inv [of db s n] by (auto simp: release_inv_def both_marked_def)

end

end
