(* ===== verification/Daemon_Adapter.thy ===== *)
theory Daemon_Adapter
  imports Cli Fvcore_Facts Monitor_Protocol
begin

text \<open>
  The part of \<open>cmd/fv-ssh-unlock/daemon.go\<close> between the monitor and the SSH client: the options
  of the daemon, the time budgets of its control API, the preflight of a device, and the adapter
  that implements the monitor's \<open>Prober\<close> and \<open>Unlocker\<close> with \<open>fvcore\<close>. The adapter is a
  \<open>record\<close>; the network, the credential storage and the clock are an environment. At the end the
  adapter is shown to meet the contract the engine relies on.
\<close>

section \<open>Budgets\<close>

definition defaultProbeTimeout :: duration where
  "defaultProbeTimeout = 15 * second"

definition defaultUnlockTimeout :: duration where
  "defaultUnlockTimeout = 45 * second"

definition controlOperationOverhead :: duration where
  "controlOperationOverhead = 10 * second"

fun duration_sum_from :: "duration \<Rightarrow> duration list \<Rightarrow> duration" where
  "duration_sum_from acc [] = acc"
| "duration_sum_from acc (v # vs) =
     (if v \<le> 0 then duration_sum_from acc vs
      else if s64 (max_int64 - acc) < v then max_int64
      else duration_sum_from (s64 (acc + v)) vs)"

definition durationSum :: "duration list \<Rightarrow> duration" where
  "durationSum values = duration_sum_from 0 values"

definition controlEnrollmentTimeout :: "duration \<Rightarrow> duration" where
  "controlEnrollmentTimeout probeTimeout =
     durationSum [if probeTimeout \<le> 0 then defaultProbeTimeout else probeTimeout, controlOperationOverhead]"

definition controlPollTimeout :: "duration \<Rightarrow> duration \<Rightarrow> duration" where
  "controlPollTimeout probeTimeout unlockTimeout =
     durationSum [if probeTimeout \<le> 0 then defaultProbeTimeout else probeTimeout,
       if unlockTimeout \<le> 0 then defaultUnlockTimeout else unlockTimeout, controlOperationOverhead]"

section \<open>Options\<close>

datatype slog_level = LevelDebug | LevelInfo | LevelWarn | LevelError

text \<open>The numbers of \<open>log/slog\<close> order the levels.\<close>

fun level_number :: "slog_level \<Rightarrow> int" where
  "level_number LevelDebug = -4"
| "level_number LevelInfo = 0"
| "level_number LevelWarn = 4"
| "level_number LevelError = 8"

lemma level_number_eq: "level_number a = level_number b \<longleftrightarrow> a = b"
  by (cases a; cases b) simp_all

instantiation slog_level :: linorder
begin

definition less_eq_slog_level :: "slog_level \<Rightarrow> slog_level \<Rightarrow> bool" where
  "less_eq_slog_level a b \<longleftrightarrow> level_number a \<le> level_number b"

definition less_slog_level :: "slog_level \<Rightarrow> slog_level \<Rightarrow> bool" where
  "less_slog_level a b \<longleftrightarrow> level_number a < level_number b"

instance
proof
  fix a b :: slog_level
  show "a \<le> b \<Longrightarrow> b \<le> a \<Longrightarrow> a = b"
    unfolding less_eq_slog_level_def by (simp add: level_number_eq [symmetric])
qed (auto simp: less_eq_slog_level_def less_slog_level_def)

end

definition parseDaemonLogLevel :: "unicode_db \<Rightarrow> string \<Rightarrow> slog_level \<times> goerr option" where
  "parseDaemonLogLevel db value =
     (let v = ToLower db (TrimSpace value) in
      if v = ''debug'' then (LevelDebug, None)
      else if v = ''info'' then (LevelInfo, None)
      else if v = ''warn'' \<or> v = ''warning'' then (LevelWarn, None)
      else if v = ''error'' then (LevelError, None)
      else (LevelInfo, Some (ErrText ''--log-level must be debug, info, warn, or error'')))"

text \<open>The flags as the command line gives them, and the options made of them.\<close>

record daemon_options =
  doSocket :: string
  doIdentityFiles :: "string list"
  doPollInterval :: duration
  doBootInterval :: duration
  doProbeTimeout :: duration
  doUnlockTimeout :: duration
  doConcurrency :: int
  doDiscoverInterval :: duration
  doDiscoverTimeout :: duration
  doDiscoverInterface :: string
  doScanCIDRs :: "string list"
  doScanInterval :: duration
  doScanTimeout :: duration
  doScanConcurrency :: int
  doLogFormat :: string
  doLogLevel :: slog_level
  doOnce :: bool

text \<open>The flags that are not copied as they are.\<close>

record daemon_flags =
  flLogLevel :: string
  flLogFormatChanged :: bool
  flJsonLog :: bool

definition maxScanConcurrency :: int where
  "maxScanConcurrency = 256"

definition defaultControlSocket :: "(string \<Rightarrow> string) \<Rightarrow> (goerr + string) \<Rightarrow> goerr + string" where
  "defaultControlSocket getenv dataDir =
     (let value = TrimSpace (getenv ''FV_SSH_UNLOCK_SOCKET'') in
      if value \<noteq> [] then
        (if \<not> IsAbs value then Inl (ErrText ''FV_SSH_UNLOCK_SOCKET must be an absolute path'')
         else Inr (Clean value))
      else case dataDir of
        Inl err \<Rightarrow> Inl err
      | Inr dir \<Rightarrow> Inr (Join2 dir ''control.sock''))"

text \<open>The checks on the numbers, once the log options and the socket are known.\<close>

definition daemon_limits :: "daemon_options \<Rightarrow> goerr option" where
  "daemon_limits o1 =
     (if \<not> IsAbs (doSocket o1) then Some (ErrText ''--socket must be an absolute path'')
      else if doPollInterval o1 \<le> 0 \<or> doBootInterval o1 \<le> 0 \<or> doProbeTimeout o1 \<le> 0 \<or> doUnlockTimeout o1 \<le> 0 then
        Some (ErrText ''monitor intervals and operation timeouts must be greater than zero'')
      else if doConcurrency o1 < 1 \<or> doConcurrency o1 > 256 then
        Some (ErrText ''--concurrency must be between 1 and 256'')
      else if doDiscoverInterval o1 < 0 \<or> (doDiscoverInterval o1 > 0 \<and> doDiscoverTimeout o1 \<le> 0) then
        Some (ErrText ''discovery intervals must not be negative and its timeout must be positive when enabled'')
      else if doScanInterval o1 \<le> 0 \<or> doScanTimeout o1 \<le> 0 then
        Some (ErrText ''scan interval and timeout must be greater than zero'')
      else if doScanConcurrency o1 < 1 \<or> doScanConcurrency o1 > maxScanConcurrency then
        Some (ErrText (''--scan-concurrency must be between 1 and '' @ decimal_int maxScanConcurrency))
      else None)"

text \<open>
  \<open>copied\<close> holds the flags that are copied into the options, the raw log format among them; its
  log level and socket are overwritten below.
\<close>

definition daemonOptionsFromFlags ::
    "unicode_db \<Rightarrow> (goerr + string) \<Rightarrow> daemon_flags \<Rightarrow> daemon_options \<Rightarrow> goerr + daemon_options" where
  "daemonOptionsFromFlags db defaultSocket fl copied =
     (if flJsonLog fl \<and> flLogFormatChanged fl \<and> \<not> EqualFold db (doLogFormat copied) ''json'' then
        Inl (ErrText ''--json-log cannot be combined with a non-JSON --log-format'')
      else
        let format = ToLower db (TrimSpace (if flJsonLog fl then ''json'' else doLogFormat copied)) in
        if format \<noteq> ''text'' \<and> format \<noteq> ''json'' then Inl (ErrText ''--log-format must be text or json'')
        else case parseDaemonLogLevel db (flLogLevel fl) of
          (_, Some err) \<Rightarrow> Inl err
        | (level, None) \<Rightarrow>
          (case (if doSocket copied = [] then defaultSocket else Inr (doSocket copied)) of
             Inl err \<Rightarrow> Inl err
           | Inr socket \<Rightarrow>
             let o1 = copied\<lparr>doLogFormat := format, doLogLevel := level, doSocket := socket\<rparr> in
             case daemon_limits o1 of Some err \<Rightarrow> Inl err | None \<Rightarrow> Inr o1))"

text \<open>The options of the engine that \<open>runDaemon\<close> starts.\<close>

definition monitorOpts :: "daemon_options \<Rightarrow> options" where
  "monitorOpts o1 = DefaultOptions\<lparr>PollInterval := doPollInterval o1, BootPollInterval := doBootInterval o1,
     ProbeTimeout := doProbeTimeout o1, UnlockTimeout := doUnlockTimeout o1, Concurrency := doConcurrency o1\<rparr>"

section \<open>The preflight of a device\<close>

definition assessDaemonDevice :: "unicode_db \<Rightarrow> cred_env \<Rightarrow> cdevice \<Rightarrow> goerr option" where
  "assessDaemonDevice db cenv d =
     (if \<not> cAutoUnlock d then None
      else if effective_source d = ProviderRuntime then
        Some (ErrText (''runtime/environment credentials are not accepted for unattended automatic unlock; '' @
          ''use a verified keyring or memory-backed service secret''))
      else case credentialStoreForDevice db d False of
        Inl err \<Rightarrow> Some err
      | Inr store \<Rightarrow>
        let a = provider_Assess db cenv (psProvider store) (psReference store) in
        if \<not> raAvailable a \<or> \<not> raSecure a then
          Some (ErrText (''secure credential is unavailable: '' @ raDetails a))
        else None)"

definition toMonitorDevice :: "cdevice \<Rightarrow> device" where
  "toMonitorDevice d =
     \<lparr>dName = cName d, dHost = cHost d, dUser = cUser d, dPort = cPort d,
      dCredentialRef = (if cCredentialSource d = ProviderFile then cCredentialRef d else deviceCredentialID d),
      dAutoUnlock = cAutoUnlock d\<rparr>"

definition toMonitorDevices :: "cdevice list \<Rightarrow> device list" where
  "toMonitorDevices ds = map toMonitorDevice ds"

section \<open>The adapter\<close>

text \<open>\<open>adReachability\<close> is whether the function \<open>reachability\<close> is set; its answers are in the environment.\<close>

record daemon_adapter =
  adDevices :: "cdevice gomap"
  adEndpointDown :: "bool gomap"
  adReachability :: bool
  adProbeTimeout :: duration
  adUnlockTimeout :: duration

definition newDaemonAdapter :: "bool \<Rightarrow> cdevice list \<Rightarrow> duration \<Rightarrow> duration \<Rightarrow> daemon_adapter" where
  "newDaemonAdapter realClient ds probeTimeout unlockTimeout =
     \<lparr>adDevices = by_name ds, adEndpointDown = [], adReachability = realClient,
      adProbeTimeout = (if probeTimeout \<le> 0 then defaultProbeTimeout else probeTimeout),
      adUnlockTimeout = (if unlockTimeout \<le> 0 then defaultUnlockTimeout else unlockTimeout)\<rparr>"

definition adapter_addDevice :: "cdevice \<Rightarrow> daemon_adapter \<Rightarrow> daemon_adapter" where
  "adapter_addDevice d a = a\<lparr>adDevices := AList.update (cName d) d (adDevices a)\<rparr>"

definition adapter_removeDevice :: "string \<Rightarrow> daemon_adapter \<Rightarrow> daemon_adapter" where
  "adapter_removeDevice name a =
     a\<lparr>adDevices := AList.delete name (adDevices a), adEndpointDown := AList.delete name (adEndpointDown a)\<rparr>"

definition configured :: "daemon_adapter \<Rightarrow> string \<Rightarrow> goerr + cdevice" where
  "configured a name =
     (case map_of (adDevices a) name of
        None \<Rightarrow> Inl (ErrText (''configured device not found: '' @ name))
      | Some d \<Rightarrow> Inr d)"

definition knownEndpointDown :: "daemon_adapter \<Rightarrow> string \<Rightarrow> bool" where
  "knownEndpointDown a name = (map_of (adEndpointDown a) name = Some True)"

definition setEndpointDown :: "string \<Rightarrow> bool \<Rightarrow> daemon_adapter \<Rightarrow> daemon_adapter" where
  "setEndpointDown name down a =
     (if down then a\<lparr>adEndpointDown := AList.update name True (adEndpointDown a)\<rparr>
      else a\<lparr>adEndpointDown := AList.delete name (adEndpointDown a)\<rparr>)"

text \<open>
  The environment of one call: the SSH network, the answers of \<open>reachability\<close> to the check of an
  endpoint known to be down and to the check after a failed probe, the credential storage, and
  the two context checks of \<open>fvcore.Unlock\<close>.
\<close>

record adapter_env =
  ae_net :: ssh_net
  ae_reach_known :: "string \<Rightarrow> goerr option"
  ae_reach_failed :: "string \<Rightarrow> goerr option"
  ae_cred :: cred_env
  ae_before :: "goerr option"
  ae_after :: "goerr option"

definition classifyEndpointDown :: "adapter_env \<Rightarrow> daemon_adapter \<Rightarrow> string \<Rightarrow> bool" where
  "classifyEndpointDown env a endpoint = (adReachability a \<and> ae_reach_failed env endpoint \<noteq> None)"

abbreviation probe_value :: "dev_state \<Rightarrow> string \<Rightarrow> bool \<Rightarrow> probe_result" where
  "probe_value st detail down \<equiv> \<lparr>prState = st, prDetail = detail, prEndpointDown = down\<rparr>"

text \<open>The switch of \<open>Probe\<close> on the outcome of \<open>CheckStatus\<close>.\<close>

definition probe_switch ::
    "adapter_env \<Rightarrow> string \<Rightarrow> string \<Rightarrow> device_status \<Rightarrow> goerr option \<Rightarrow> daemon_adapter
      \<Rightarrow> daemon_adapter \<times> probe_result \<times> goerr option" where
  "probe_switch env name endpoint st err a =
     (let up = setEndpointDown name False a in
      if st = StatusLocked then
        (up, probe_value StateLocked ''FileVault pre-boot banner detected'' False, None)
      else if st = StatusUnlockedRecently then
        (up, probe_value StateBooted ''normal macOS SSH accepted a public key'' False, None)
      else if opt_is err ErrIndeterminate then
        (up, probe_value StateIndeterminate ''SSH reachable; state cannot be proved without a public key'' False, None)
      else if opt_is err ErrHostKeyMismatch then
        (up, probe_value no_state [] False, Some (NewFailure FailureHostKey err))
      else if err \<noteq> None then
        (let endpointDown = classifyEndpointDown env a endpoint in
         (setEndpointDown name endpointDown a,
          probe_value StateUnreachable
            (if endpointDown then ''SSH TCP endpoint is down'' else ''SSH probe failed'') endpointDown,
          Some (NewFailure FailureUnreachable err)))
      else (up, probe_value StateIndeterminate ''no conclusive password-free evidence'' False, None))"

definition adapter_Probe ::
    "unicode_db \<Rightarrow> adapter_env \<Rightarrow> string \<Rightarrow> daemon_adapter
      \<Rightarrow> daemon_adapter \<times> probe_result \<times> goerr option \<times> reply list" where
  "adapter_Probe db env name a =
     (case configured a name of
        Inl err \<Rightarrow> (a, probe_value no_state [] False, Some (NewFailure FailureTransient (Some err)), [])
      | Inr d \<Rightarrow>
        let endpoint = deviceEndpoint d; known = knownEndpointDown a name \<and> adReachability a in
        case (if known then ae_reach_known env endpoint else None) of
          Some reachErr \<Rightarrow>
            (a, probe_value StateUnreachable ''SSH TCP endpoint is down'' True,
             Some (NewFailure FailureUnreachable (Some reachErr)), [])
        | None \<Rightarrow>
          let a1 = (if known then setEndpointDown name False a else a);
              ((st, _, err), replies) = CheckStatus db (ae_net env) endpoint (cUser d) (adProbeTimeout a1);
              (a2, result, perr) = probe_switch env name endpoint st err a1 in
          (a2, result, perr, replies))"

text \<open>The switch of \<open>Unlock\<close> on the result of \<open>fvcore.Unlock\<close>.\<close>

abbreviation unlock_value :: "bool \<Rightarrow> string \<Rightarrow> unlock_result" where
  "unlock_value acc detail \<equiv> \<lparr>urAccepted = acc, urDetail = detail\<rparr>"

definition rejected_err :: "goerr option \<Rightarrow> goerr" where
  "rejected_err err =
     (case err of
        None \<Rightarrow> ErrText ''FileVault rejected the configured credential''
      | Some e \<Rightarrow> errorf ''FileVault rejected the configured credential'' e)"

definition unlock_switch :: "fv_result \<Rightarrow> unlock_result \<times> goerr option" where
  "unlock_switch res =
     (if Status res = StatusUnlocked then (unlock_value True ''FileVault accepted the credential'', None)
      else if Status res = StatusUnlockedRecently then
        (unlock_value True ''normal macOS was already available'', None)
      else if opt_is (Error res) ErrUnlockOutcomeUnknown then
        (unlock_value True
           ''credential submitted; acknowledgement unavailable; verifying without resubmission'', Error res)
      else if Status res = StatusLocked \<or> opt_is (Error res) ErrAuthFailed then
        (unlock_value False [], Some (NewFailure FailureCredential (Some (rejected_err (Error res)))))
      else if opt_is (Error res) ErrHostKeyMismatch then
        (unlock_value False [], Some (NewFailure FailureHostKey (Error res)))
      else if Error res \<noteq> None then
        (unlock_value False [], Some (NewFailure FailureUnreachable (Error res)))
      else (unlock_value False [], Some (NewFailure FailureTransient
              (Some (ErrText ''unlock result was inconclusive before credential submission'')))))"

definition adapter_Unlock ::
    "unicode_db \<Rightarrow> adapter_env \<Rightarrow> daemon_adapter \<Rightarrow> string
      \<Rightarrow> unlock_result \<times> goerr option \<times> reply list" where
  "adapter_Unlock db env a name =
     (case configured a name of
        Inl err \<Rightarrow> (unlock_value False [], Some (NewFailure FailureTransient (Some err)), [])
      | Inr d \<Rightarrow>
        (case credentialStoreForDevice db d False of
           Inl err \<Rightarrow> (unlock_value False [], Some (NewFailure FailureCredential (Some err)), [])
         | Inr store \<Rightarrow>
           (case providerStore_Get db (ae_cred env) store of
              Inl err \<Rightarrow> (unlock_value False [], Some (NewFailure FailureCredential (Some err)), [])
            | Inr password \<Rightarrow>
              if password = [] then
                (unlock_value False [],
                 Some (NewFailure FailureCredential (Some (ErrText ''credential is empty''))), [])
              else
                let endpoint = deviceEndpoint d;
                    analyze = (\<lambda>pass. AnalyzePrompt db (ae_net env endpoint (cUser d) (adUnlockTimeout a))
                                 endpoint pass (success_message d));
                    (res, replies) = Unlock (ae_before env) (staticStore_Get password) analyze (ae_after env) endpoint;
                    (result, uerr) = unlock_switch res in
                (result, uerr, replies))))"

section \<open>Shutting down\<close>

text \<open>\<open>trackedHandler\<close>: the requests in flight are counted; \<open>ServeHTTP\<close> is its entry and its exit.\<close>

record tracked_handler =
  accepting :: bool
  active :: nat

definition newTrackedHandler :: tracked_handler where
  "newTrackedHandler = \<lparr>accepting = True, active = 0\<rparr>"

definition serve_begin :: "tracked_handler \<Rightarrow> tracked_handler \<times> bool" where
  "serve_begin h = (if \<not> accepting h then (h, False) else (h\<lparr>active := active h + 1\<rparr>, True))"

definition serve_end :: "tracked_handler \<Rightarrow> tracked_handler" where
  "serve_end h = h\<lparr>active := active h - 1\<rparr>"

definition StopAccepting :: "tracked_handler \<Rightarrow> tracked_handler" where
  "StopAccepting h = h\<lparr>accepting := False\<rparr>"

text \<open>\<open>Wait\<close> returns in the states where nothing is active.\<close>

definition wait_returns :: "tracked_handler \<Rightarrow> bool" where
  "wait_returns h \<longleftrightarrow> active h = 0"

section \<open>Log records\<close>

definition monitorStateLogMessage :: "dev_state \<Rightarrow> string" where
  "monitorStateLogMessage st =
     (case st of
        StateBooted \<Rightarrow> ''device verified booted''
      | StateLocked \<Rightarrow> ''FileVault pre-boot detected''
      | StateUnreachable \<Rightarrow> ''device became unreachable''
      | StateIndeterminate \<Rightarrow> ''device state is indeterminate''
      | StateUnlocking \<Rightarrow> ''device is unlocking''
      | StateBooting \<Rightarrow> ''device is booting''
      | StateCredentialFailed \<Rightarrow> ''device credential failed''
      | _ \<Rightarrow> ''device entered an error state'')"

fun observation_suffix :: "dev_state \<Rightarrow> string" where
  "observation_suffix StateBooted = ''booted''"
| "observation_suffix StateLocked = ''filevault_locked''"
| "observation_suffix StateUnreachable = ''unreachable''"
| "observation_suffix _ = ''indeterminate''"

text \<open>The default branch of the outer switch is for strings that are no event type.\<close>

definition monitorLogEventName :: "event \<Rightarrow> string" where
  "monitorLogEventName ev =
     (case evType ev of
        EventProbe \<Rightarrow> ''device.probe''
      | EventObservationChanged \<Rightarrow>
          (if evState ev = evObservation ev then ''device.'' else ''device.observation_'')
          @ observation_suffix (evObservation ev)
      | EventUnlockStarted \<Rightarrow> ''device.unlock_started''
      | EventUnlockResult \<Rightarrow> ''device.unlock_result''
      | EventLatchChanged \<Rightarrow> ''device.latch_changed''
      | EventDeviceAdded \<Rightarrow> ''device.added''
      | EventStateChanged \<Rightarrow>
          (case evState ev of
             StateBooted \<Rightarrow> ''device.booted''
           | StateLocked \<Rightarrow> ''device.filevault_locked''
           | StateUnreachable \<Rightarrow> ''device.unreachable''
           | StateIndeterminate \<Rightarrow> ''device.indeterminate''
           | StateUnlocking \<Rightarrow> ''device.unlocking''
           | StateBooting \<Rightarrow> ''device.booting''
           | StateCredentialFailed \<Rightarrow> ''device.credential_failed''
           | _ \<Rightarrow> ''device.error''))"

text \<open>
  The record \<open>logMonitorEvents\<close> writes for one event: its level, message and string attributes
  (the others are numbers, times and booleans).
\<close>

record log_record =
  lrLevel :: slog_level
  lrMessage :: string
  lrAttrs :: "(string \<times> string) list"

definition log_level_message :: "event \<Rightarrow> slog_level \<times> string" where
  "log_level_message ev =
     (case evType ev of
        EventProbe \<Rightarrow> (LevelDebug, ''device probe completed'')
      | EventObservationChanged \<Rightarrow>
          (LevelInfo, if evState ev = evObservation ev then monitorStateLogMessage (evObservation ev)
             else ''password-free observation changed while safety latch remains active'')
      | EventLatchChanged \<Rightarrow> (LevelWarn, ''device safety latch changed'')
      | EventUnlockResult \<Rightarrow>
          (if evState ev = StateCredentialFailed \<or> evState ev = StateError
           then (LevelWarn, ''automatic unlock completed with an error'')
           else (LevelInfo, ''automatic unlock result recorded''))
      | EventStateChanged \<Rightarrow>
          (if evState ev = evObservation ev then (LevelDebug, ''device state changed'')
           else (LevelInfo, monitorStateLogMessage (evState ev)))
      | EventUnlockStarted \<Rightarrow> (LevelInfo, ''automatic unlock started'')
      | EventDeviceAdded \<Rightarrow> (LevelInfo, ''managed device added''))"

definition logMonitorEvents :: "unicode_db \<Rightarrow> event \<Rightarrow> log_record" where
  "logMonitorEvents db ev =
     (let (level, message) = log_level_message ev; safe = terminalSafeInline db in
      \<lparr>lrLevel = level, lrMessage = message,
       lrAttrs = [(''event'', monitorLogEventName ev),
           (''device'', safe (evDevice ev)),
           (''state'', safe (state_text (evState ev))),
           (''observation'', safe (state_text (evObservation ev)))]
         @ (if evFailureKind ev \<noteq> no_kind then [(''failure_kind'', safe (failure_kind_text (evFailureKind ev)))] else [])
         @ (if evMessage ev \<noteq> [] then [(''detail'', safe (evMessage ev))] else [])\<rparr>)"

definition acquireDaemonLock :: "(goerr + 'lock) \<Rightarrow> goerr + 'lock" where
  "acquireDaemonLock lock =
     (case lock of
        Inl err \<Rightarrow> Inl (if err_is err ErrLockUnavailable
          then errorf ''another daemon is already using this data directory'' err
          else errorf ''open daemon lock'' err)
      | Inr l \<Rightarrow> Inr l)"

end
