(* ===== verification/Monitor_Invariant.thy ===== *)
theory Monitor_Invariant
  imports Monitor_Protocol
begin

text \<open>
  The invariant of the engine over every sequence of its critical sections: the device table
  is keyed by the names of valid devices, the event history is bounded and numbered without
  gaps, every subscriber's queue respects its capacity, and at most one schedule runs per
  device, none outside \<open>Run\<close>.
\<close>

inductive eng_step :: "unicode_db \<Rightarrow> engine \<Rightarrow> engine \<Rightarrow> bool" for db :: unicode_db where
  probe: "applyProbe db sv n result probeErr e = (e', should, err) \<Longrightarrow> eng_step db e e'"
| mark: "markUnlockStarted sv n e = (e', started, err) \<Longrightarrow> eng_step db e e'"
| result: "applyUnlockResult sv n result unlockErr e = (e', err) \<Longrightarrow> eng_step db e e'"
| clear: "ClearLatch sv n e = (e', err) \<Longrightarrow> eng_step db e e'"
| add: "AddDevice db sv d e = (e', err) \<Longrightarrow> eng_step db e e'"
| reschedule: "runDevice_schedule cv raw n e = (e', delay) \<Longrightarrow> eng_step db e e'"
| view: "Snapshot_engine e = (s, e') \<Longrightarrow> eng_step db e e'"
| subscribe: "Subscribe buffer e = (e', sid) \<Longrightarrow> eng_step db e e'"
| unsubscribe: "eng_step db e (Unsubscribe sid e)"
| receive: "map_of (subscribers e) sid = Some ch \<Longrightarrow> ch_queue ch \<noteq> [] \<Longrightarrow>
    eng_step db e (e\<lparr>subscribers := AList.update sid (ch\<lparr>ch_queue := tl (ch_queue ch)\<rparr>) (subscribers e)\<rparr>)"
| run: "Run_start e = (e', err) \<Longrightarrow> eng_step db e e'"
| stop: "running e \<Longrightarrow> eng_step db e (Run_stop e)"
| exit: "eng_step db e (runDevice_exit n e)"
| finish: "stopping e \<Longrightarrow> runners e = [] \<Longrightarrow> eng_step db e (Run_finish e)"

inductive eng_reachable :: "unicode_db \<Rightarrow> engine \<Rightarrow> bool" for db :: unicode_db where
  new: "New db ds pb ul st o1 clk = Inr e \<Longrightarrow> eng_reachable db e"
| next_step: "eng_reachable db e \<Longrightarrow> eng_step db e e' \<Longrightarrow> eng_reachable db e'"

text \<open>A concrete engine with one device, for the witnesses.\<close>

definition demo_device :: device where
  "demo_device = \<lparr>dName = ''mac'', dHost = ''10.0.0.9'', dUser = ''admin'', dPort = 22,
     dCredentialRef = ''systemd:mac'', dAutoUnlock = True\<rparr>"

definition demo_engine :: engine where
  "demo_engine = \<lparr>has_unlocker = True, opts = DefaultOptions,
     devices = [(''mac'', \<lparr>mdevice = demo_device,
       mrecord = zero_record\<lparr>State := StateIndeterminate\<rparr>, observed = False\<rparr>)],
     events = [], sequence = 0, subscribers = [], nextSubID = 0, running = False, stopping = False,
     runners = [], clock = (\<lambda>i. 1000 + int i), ticks = 0, disk = \<lparr>Version = 1, Devices = []\<rparr>\<rparr>"

definition demo_env :: poll_env where
  "demo_env = \<lparr>acquire_err = None,
     probe_out = (\<lparr>prState = StateLocked, prDetail = ''locked'', prEndpointDown = False\<rparr>, None),
     unlock_out = (\<lparr>urAccepted = True, urDetail = ''ok''\<rparr>, None),
     save_probe = (\<lambda>_. SaveOk), save_mark = (\<lambda>_. SaveOk), save_result = (\<lambda>_. SaveOk)\<rparr>"

section \<open>Primitive effects\<close>

text \<open>The critical sections that work on one known device are sequences of four primitive effects.\<close>

inductive prim :: "engine \<Rightarrow> engine \<Rightarrow> bool" where
  prim_tick: "prim e (e\<lparr>ticks := t\<rparr>)"
| prim_put: "map_of (devices e) n = Some m \<Longrightarrow> mdevice m' = mdevice m \<Longrightarrow>
    validRuntimeState (State (mrecord m')) \<Longrightarrow> prim e (e\<lparr>devices := AList.update n m' (devices e)\<rparr>)"
| prim_persist: "persistLocked sv e = (e', err) \<Longrightarrow> prim e e'"
| prim_emit: "prim e (emitLocked k n msg e)"

abbreviation prims :: "engine \<Rightarrow> engine \<Rightarrow> bool" where
  "prims \<equiv> prim\<^sup>*\<^sup>*"

lemma prims_tick: "prims e e1 \<Longrightarrow> prims e (e1\<lparr>ticks := t\<rparr>)"
  by (erule rtranclp.rtrancl_into_rtrancl) (rule prim_tick)

lemma prims_emit: "prims e e1 \<Longrightarrow> prims e (emitLocked k n msg e1)"
  by (erule rtranclp.rtrancl_into_rtrancl) (rule prim_emit)

lemma prims_emit_if: "prims e e1 \<Longrightarrow> prims e (emit_if b k n msg e1)"
  by (simp add: emit_if_def prims_emit)

lemma prims_persist: "persistLocked sv e1 = (e2, err) \<Longrightarrow> prims e e1 \<Longrightarrow> prims e e2"
  by (rule rtranclp.rtrancl_into_rtrancl) (auto intro: prim_persist)

lemma prims_devices:
  "prims e e1 \<Longrightarrow> map_of (devices e1) n = Some mo \<Longrightarrow> mdevice m = mdevice mo \<Longrightarrow>
   validRuntimeState (State (mrecord m)) \<Longrightarrow> prims e (e1\<lparr>devices := AList.update n m (devices e1)\<rparr>)"
  by (rule rtranclp.rtrancl_into_rtrancl) (auto intro: prim_put)

lemma prims_put:
  "prims e e1 \<Longrightarrow> map_of (devices e1) n = Some m1 \<Longrightarrow> mdevice m = mdevice m1 \<Longrightarrow>
   validRuntimeState (State r) \<Longrightarrow> prims e (put_record n m r e1)"
  unfolding put_record_def by (rule prims_devices) auto

text \<open>The write that follows a change of the record, and what the table holds after it.\<close>

lemma prims_put_persist:
  assumes "persistLocked sv (put_record n m r (e\<lparr>ticks := t\<rparr>)) = (e2, err)"
    "map_of (devices e) n = Some m" "validRuntimeState (State r)"
  shows "prims e e2 \<and> map_of (devices e2) n = Some (m\<lparr>mrecord := r\<rparr>)"
  using assms persist_lookup [OF assms(1), of n]
  by (auto simp: devices_put_record update_conv' intro!: prims_persist [OF assms(1)] prims_put prims_tick)

lemma prims_opts: "prims e e' \<Longrightarrow> opts e' = opts e"
  by (induction rule: rtranclp_induct) (auto elim!: prim.cases dest: persist_frame)

lemma probe_record_valid: "validRuntimeState (State (probe_record db now previous result probeErr))"
  by (auto simp: probe_record_def probe_error_record_def probe_invalid_record_def stateForLatch_def
      probe_observed_record_def latchLocked_def Let_def
      split: option.split failure_kind.split dev_state.split)

lemma unlock_record_valid:
  "validRuntimeState (State (fst (unlock_record o1 now before result unlockErr)))"
  by (auto simp: unlock_record_def markPreSubmissionRetryLocked_def latchLocked_def Let_def
      split: option.splits if_splits)

lemma stateForObservation_valid [simp]: "validRuntimeState (stateForObservation s)"
  by (cases s) (auto simp: stateForObservation_def)

lemma applyProbe_prims:
  assumes "applyProbe db sv n result probeErr e = (e', should, err)"
  shows "prims e e'"
proof (cases "map_of (devices e) n")
  case (Some m)
  let ?r = "probe_record db (clock e (ticks e)) (mrecord m) result probeErr"
  let ?e2 = "put_record n m ?r (e\<lparr>ticks := Suc (ticks e)\<rparr>)"
  obtain e3 saveErr where p: "(if persistenceRelevantChanged (mrecord m) ?r
      then persistLocked sv ?e2 else (?e2, None)) = (e3, saveErr)" by (meson surj_pair)
  have "prims e ?e2" "map_of (devices ?e2) n = Some (m\<lparr>mrecord := ?r\<rparr>)"
    using Some
    by (auto simp: devices_put_record update_conv' probe_record_valid intro!: prims_put prims_tick)
  with p have e3: "prims e e3" and m3: "map_of (devices e3) n = Some (m\<lparr>mrecord := ?r\<rparr>)"
    by (auto simp: persist_lookup intro: prims_persist split: if_splits)
  have obs: "prims e ((emitLocked EventProbe n (Detail ?r) e3)\<lparr>devices :=
      AList.update n (m\<lparr>mrecord := ?r, observed := True\<rparr>) (devices e3)\<rparr>)"
    using prims_devices [OF prims_emit [OF e3, of EventProbe n "Detail ?r"], of n
        "m\<lparr>mrecord := ?r\<rparr>" "m\<lparr>mrecord := ?r, observed := True\<rparr>"] m3
    by (simp add: probe_record_valid)
  show ?thesis using assms Some p obs e3
    by (auto simp: applyProbe_def now_of_pair Let_def
        intro!: prims_emit prims_emit_if split: option.splits if_splits)
qed (use assms in \<open>simp add: applyProbe_def\<close>)

lemma markUnlockStarted_prims:
  assumes "markUnlockStarted sv n e = (e', started, err)"
  shows "prims e e'"
  using assms
  by (auto simp: markUnlockStarted_def now_of_pair Let_def
      split: option.splits if_splits prod.splits dest!: prims_put_persist
      intro!: prims_emit prims_put prims_tick)

lemma applyUnlockResult_prims:
  assumes "applyUnlockResult sv n result unlockErr e = (e', err)"
  shows "prims e e'"
proof (cases "map_of (devices e) n")
  case (Some m)
  obtain r c where r: "unlock_record (opts e) (clock e (ticks e)) (mrecord m) result unlockErr = (r, c)"
    by (meson surj_pair)
  then have "validRuntimeState (State r)" by (metis fst_conv unlock_record_valid)
  with assms Some r show ?thesis
    by (auto simp: applyUnlockResult_def now_of_pair Let_def
        split: option.splits if_splits prod.splits dest!: prims_put_persist
        intro!: prims_emit prims_emit_if)
qed (use assms in \<open>simp add: applyUnlockResult_def\<close>)

lemma ClearLatch_prims:
  assumes "ClearLatch sv n e = (e', err)"
    "\<And>m. map_of (devices e) n = Some m \<Longrightarrow> validRuntimeState (State (mrecord m))"
  shows "prims e e'"
proof (cases "map_of (devices e) n")
  case (Some m)
  note put = prims_put_persist [OF _ Some] prims_put_persist [OF _ Some, of sv _ "ticks e", simplified]
  from Some assms show ?thesis
    by (auto simp: ClearLatch_def now_of_pair Let_def
        split: option.splits if_splits prod.splits dest!: put
        intro!: prims_emit prims_put)
qed (use assms in \<open>simp add: ClearLatch_def\<close>)

lemma runDevice_schedule_prims:
  assumes "runDevice_schedule cv raw n e = (e', delay)"
    "\<And>m. map_of (devices e) n = Some m \<Longrightarrow> validRuntimeState (State (mrecord m))"
  shows "prims e e'"
  using assms
  by (auto simp: runDevice_schedule_def now_of_pair Let_def split: option.splits
      intro!: prims_put prims_tick)

section \<open>Device table\<close>

definition managed_ok :: "unicode_db \<Rightarrow> bool \<Rightarrow> string \<Rightarrow> managed \<Rightarrow> bool" where
  "managed_ok db ul k m \<longleftrightarrow> dName (mdevice m) = k \<and> validateDevice db (mdevice m) = None
     \<and> (dAutoUnlock (mdevice m) \<longrightarrow> ul) \<and> validRuntimeState (State (mrecord m))"

definition dev_inv :: "unicode_db \<Rightarrow> engine \<Rightarrow> bool" where
  "dev_inv db e \<longleftrightarrow> wf_map (devices e) \<and> (\<forall>(k, m) \<in> set (devices e). managed_ok db (has_unlocker e) k m)"

lemma dev_inv_cong:
  "devices e' = devices e \<Longrightarrow> has_unlocker e' = has_unlocker e \<Longrightarrow> dev_inv db e' = dev_inv db e"
  by (simp add: dev_inv_def)

lemma dev_inv_get: "dev_inv db e \<Longrightarrow> map_of (devices e) k = Some m \<Longrightarrow> managed_ok db (has_unlocker e) k m"
  unfolding dev_inv_def by (metis (mono_tags, lifting) case_prodD map_of_SomeD)

lemma dev_inv_update:
  assumes "dev_inv db e" "managed_ok db (has_unlocker e) k m"
    "devices e' = AList.update k m (devices e)" "has_unlocker e' = has_unlocker e"
  shows "dev_inv db e'"
  using assms set_update_subset [of k m "devices e"] by (auto simp: dev_inv_def)

lemma prim_dev_inv: "prim e e' \<Longrightarrow> dev_inv db e \<Longrightarrow> dev_inv db e'"
proof (induction rule: prim.induct)
  case (prim_put e n m m')
  then have "managed_ok db (has_unlocker e) n m'"
    using dev_inv_get [OF prim_put(4,1)] by (simp add: managed_ok_def)
  then show ?case by (intro dev_inv_update [OF prim_put(4)]) simp_all
next
  case (prim_persist sv e e' err)
  then show ?case by (simp add: dev_inv_cong [OF persist_frame(1,6)])
qed (simp_all add: dev_inv_def)

lemma new_devices_ok:
  assumes "new_devices db persisted ds acc = Inr devs"
    "wf_map acc" "\<forall>(k, m) \<in> set acc. managed_ok db True k m \<and> mdevice m \<in> D" "set ds \<subseteq> D"
  shows "wf_map devs \<and> (\<forall>(k, m) \<in> set devs. managed_ok db True k m \<and> mdevice m \<in> D)"
  using assms
proof (induction db persisted ds acc rule: new_devices.induct)
  case (2 db persisted d ds acc)
  let ?r = "case map_of persisted (dName d) of
      None \<Rightarrow> zero_record\<lparr>State := StateIndeterminate\<rparr> | Some r \<Rightarrow> r"
  let ?m = "\<lparr>mdevice = d, mrecord = ?r\<lparr>NextCheckAt := 0\<rparr>, observed = False\<rparr>"
  from 2(2) have c: "validateDevice db d = None" "map_of acc (dName d) = None"
    "validRuntimeState (State ?r)" "new_devices db persisted ds (AList.update (dName d) ?m acc) = Inr devs"
    by (auto simp: Let_def split: option.splits if_splits)
  have "\<forall>(k, m) \<in> set (AList.update (dName d) ?m acc). managed_ok db True k m \<and> mdevice m \<in> D"
    using 2(4,5) c(1,3) set_update_subset [of "dName d" ?m acc] by (auto simp: managed_ok_def)
  then show ?case using 2(1) [OF c(1) _ refl _ c(4)] 2(3,5) c by auto
qed simp

lemma New_dev_inv:
  assumes "New db ds pb ul st o1 clk = Inr e"
  shows "dev_inv db e"
proof -
  from assms obtain persisted where
    nd: "new_devices db persisted ds [] = Inr (devices e)"
    and ul: "has_unlocker e = ul" and no: "ul \<or> List.find dAutoUnlock ds = None"
    by (auto simp: New_def split: option.splits sum.splits if_splits)
  from new_devices_ok [OF nd, of "set ds"] have
    "wf_map (devices e)" "\<forall>(k, m) \<in> set (devices e). managed_ok db True k m \<and> mdevice m \<in> set ds"
    by auto
  with ul no show ?thesis by (fastforce simp: dev_inv_def managed_ok_def find_None_iff)
qed

definition fresh_managed :: "device \<Rightarrow> time \<Rightarrow> managed" where
  "fresh_managed d now = \<lparr>mdevice = d, mrecord = zero_record\<lparr>State := StateIndeterminate,
     StateChangedAt := now\<rparr>, observed = False\<rparr>"

lemma AddDevice_cases [consumes 1, case_names refused unsaved added]:
  assumes "AddDevice db sv d e = (e', err)"
  obtains "e' = e" "err \<noteq> None"
  | e2 er where "validateDevice db d = None" "dAutoUnlock d \<longrightarrow> has_unlocker e"
      "map_of (devices e) (dName d) = None"
      "persistLocked sv (e\<lparr>ticks := Suc (ticks e), devices :=
         AList.update (dName d) (fresh_managed d (clock e (ticks e))) (devices e)\<rparr>) = (e2, Some er)"
      "e' = e2\<lparr>devices := AList.delete (dName d) (devices e2)\<rparr>"
      "err = Some (errorf ''persist added monitor device'' er)"
  | e2 where "validateDevice db d = None" "dAutoUnlock d \<longrightarrow> has_unlocker e"
      "map_of (devices e) (dName d) = None"
      "persistLocked sv (e\<lparr>ticks := Suc (ticks e), devices :=
         AList.update (dName d) (fresh_managed d (clock e (ticks e))) (devices e)\<rparr>) = (e2, None)"
      "e' = (if running e2 then startDeviceLocked (dName d) (emitLocked EventDeviceAdded (dName d) [] e2)
             else emitLocked EventDeviceAdded (dName d) [] e2)"
      "err = None"
  using assms
  by (cases "validateDevice db d"; simp add: AddDevice_def)
    (auto simp: now_of_pair Let_def fresh_managed_def
      split: option.splits if_splits prod.splits)

lemma AddDevice_dev_inv:
  assumes "AddDevice db sv d e = (e', err)" "dev_inv db e"
  shows "dev_inv db e'"
proof -
  let ?e1 = "e\<lparr>ticks := Suc (ticks e), devices :=
      AList.update (dName d) (fresh_managed d (clock e (ticks e))) (devices e)\<rparr>"
  have per: "dev_inv db e2"
    if "persistLocked sv ?e1 = (e2, er)" "validateDevice db d = None" "dAutoUnlock d \<longrightarrow> has_unlocker e"
    for e2 er
  proof -
    have "dev_inv db ?e1"
      using that by (intro dev_inv_update [OF assms(2)]) (auto simp: managed_ok_def fresh_managed_def)
    then show ?thesis using dev_inv_cong [OF persist_frame(1,6) [OF that(1)]] by blast
  qed
  from assms(1) show ?thesis
  proof (cases rule: AddDevice_cases)
    case (unsaved e2 er)
    with per [OF unsaved(4,1,2)] set_delete_subset [of "dName d" "devices e2"]
    show ?thesis by (auto simp: dev_inv_def)
  next
    case (added e2)
    with per [OF added(4,1,2)] show ?thesis by (auto simp: dev_inv_def startDeviceLocked_def)
  qed (use assms in simp)
qed

section \<open>Event history and subscribers\<close>

definition seq_run :: "u64 \<Rightarrow> event list \<Rightarrow> bool" where
  "seq_run s evs \<longleftrightarrow> map evSequence (rev evs) = map (\<lambda>i. s - of_nat i) [0..<length evs]"

definition chan_ok :: "chan \<Rightarrow> bool" where
  "chan_ok ch \<longleftrightarrow> 1 \<le> ch_cap ch \<and> length (ch_queue ch) \<le> ch_cap ch"

definition ev_inv :: "engine \<Rightarrow> bool" where
  "ev_inv e \<longleftrightarrow> int (length (events e)) \<le> max 0 (EventHistory (opts e))
     \<and> (EventHistory (opts e) > 0 \<longrightarrow> seq_run (sequence e) (events e))
     \<and> (\<forall>(i, ch) \<in> set (subscribers e). chan_ok ch)"

lemma ev_inv_cong:
  "events e' = events e \<Longrightarrow> sequence e' = sequence e \<Longrightarrow> subscribers e' = subscribers e \<Longrightarrow>
   opts e' = opts e \<Longrightarrow> ev_inv e' = ev_inv e"
  by (simp add: ev_inv_def)

lemma seq_run_snoc:
  assumes "seq_run s evs" "evSequence ev = s + 1"
  shows "seq_run (s + 1) (evs @ [ev])"
proof -
  have "map (\<lambda>i. s + 1 - of_nat i) [0..<Suc (length evs)]
    = (s + 1) # map (\<lambda>i. s - of_nat i) [0..<length evs]"
    by (simp del: upt_Suc add: map_upt_Suc)
  with assms show ?thesis by (simp add: seq_run_def)
qed

lemma seq_run_drop: "seq_run s evs \<Longrightarrow> seq_run s (drop k evs)"
proof -
  assume a: "seq_run s evs"
  let ?n = "length evs - k"
  have "map evSequence (rev (drop k evs)) = take ?n (map evSequence (rev evs))"
    by (cases "k \<le> length evs") (simp_all add: take_rev take_map)
  also have "\<dots> = map (\<lambda>i. s - of_nat i) (take ?n [0..<length evs])"
    using a by (simp add: seq_run_def take_map)
  also have "take ?n [0..<length evs] = [0..<?n]" by simp
  finally show ?thesis by (simp add: seq_run_def)
qed

lemma append_event_bounded:
  "0 < h \<Longrightarrow> int (length evs) \<le> h \<Longrightarrow> int (length (append_event h evs ev)) \<le> h"
  by (auto simp: append_event_def Let_def)

lemma append_event_seq:
  "0 < h \<Longrightarrow> seq_run s evs \<Longrightarrow> evSequence ev = s + 1 \<Longrightarrow> seq_run (s + 1) (append_event h evs ev)"
  by (auto simp: append_event_def Let_def seq_run_snoc seq_run_drop)

lemma chan_send_ok: "chan_ok ch \<Longrightarrow> chan_ok (chan_send ev ch)"
  by (auto simp: chan_ok_def chan_send_def Let_def)

lemma emit_ev_inv:
  assumes "ev_inv e"
  shows "ev_inv (emitLocked k n msg e)"
proof (cases "map_of (devices e) n")
  case (Some m)
  let ?ev = "make_event (e\<lparr>sequence := sequence e + 1, ticks := Suc (ticks e)\<rparr>)
      (clock e (ticks e)) k n m msg"
  have e': "emitLocked k n msg e = e\<lparr>sequence := sequence e + 1, ticks := Suc (ticks e),
      events := append_event (EventHistory (opts e)) (events e) ?ev,
      subscribers := map (\<lambda>(i, ch). (i, chan_send ?ev ch)) (subscribers e)\<rparr>"
    using Some by (simp add: emitLocked_def now_of_pair Let_def)
  have sq: "evSequence ?ev = sequence e + 1" by (simp add: make_event_def)
  show ?thesis
  proof (cases "EventHistory (opts e) > 0")
    case True
    then show ?thesis using assms append_event_bounded append_event_seq [OF True _ sq]
      by (auto simp: e' ev_inv_def chan_send_ok)
  next
    case False
    with assms show ?thesis by (auto simp: e' ev_inv_def append_event_def chan_send_ok)
  qed
qed (use assms in \<open>simp add: emitLocked_def\<close>)

lemma prim_ev_inv: "prim e e' \<Longrightarrow> ev_inv e \<Longrightarrow> ev_inv e'"
proof (induction rule: prim.induct)
  case (prim_persist sv e e' err)
  then show ?case by (simp add: ev_inv_cong [OF persist_frame(9,10,11,2)])
next
  case (prim_emit e k n msg)
  then show ?case by (rule emit_ev_inv)
qed (simp_all add: ev_inv_def)

section \<open>Run loop\<close>

definition run_inv :: "engine \<Rightarrow> bool" where
  "run_inv e \<longleftrightarrow> \<not> (running e \<and> stopping e) \<and> distinct (runners e)
     \<and> set (runners e) \<subseteq> set (map_keys (devices e))
     \<and> (\<not> running e \<and> \<not> stopping e \<longrightarrow> runners e = [])"

lemma prim_run_inv: "prim e e' \<Longrightarrow> run_inv e \<Longrightarrow> run_inv e'"
proof (induction rule: prim.induct)
  case (prim_put e n m m')
  then have "set (map_keys (AList.update n m' (devices e))) = set (map_keys (devices e))"
    using map_of_None_notin [of "devices e" n] by (simp only: set_keys_update) auto
  with prim_put show ?case by (simp add: run_inv_def)
next
  case (prim_persist sv e e' err)
  then show ?case using persist_frame [OF prim_persist(1)] by (simp add: run_inv_def)
qed (simp_all add: run_inv_def)

lemma start_all: "fold startDeviceLocked ns e = e\<lparr>runners := runners e @ ns\<rparr>"
  by (induction ns arbitrary: e) (simp_all add: startDeviceLocked_def)

lemma Run_start_run_inv: "Run_start e = (e', err) \<Longrightarrow> wf_map (devices e) \<Longrightarrow> run_inv e \<Longrightarrow> run_inv e'"
  by (auto simp: Run_start_def start_all run_inv_def wf_map_def split: if_splits)

lemma AddDevice_ev_inv:
  assumes "AddDevice db sv d e = (e', err)" "ev_inv e"
  shows "ev_inv e'"
  using assms(1)
proof (cases rule: AddDevice_cases)
  case (unsaved e2 er)
  with assms(2) show ?thesis using persist_frame [OF unsaved(4)] by (simp add: ev_inv_def)
next
  case (added e2)
  have "ev_inv e2" using assms(2) persist_frame [OF added(4)] by (simp add: ev_inv_def)
  from emit_ev_inv [OF this] added show ?thesis by (simp add: ev_inv_def startDeviceLocked_def)
qed (use assms in simp)

lemma AddDevice_run_inv:
  assumes "AddDevice db sv d e = (e', err)" "run_inv e"
  shows "run_inv e'"
proof -
  have fresh: "dName d \<notin> set (runners e)" if "map_of (devices e) (dName d) = None"
    using that assms(2) unfolding map_of_None_notin run_inv_def by blast
  from assms(1) show ?thesis
  proof (cases rule: AddDevice_cases)
    case (unsaved e2 er)
    have "devices e' = AList.delete (dName d) (AList.update (dName d)
        (fresh_managed d (clock e (ticks e))) (devices e))"
      using unsaved(5) persist_frame(1) [OF unsaved(4)] by simp
    then have "set (map_keys (devices e')) = set (map_keys (devices e)) - {dName d}"
      by (simp only: set_keys_delete set_keys_update) blast
    then show ?thesis using assms(2) fresh [OF unsaved(3)] unsaved(5) persist_frame [OF unsaved(4)]
      by (auto simp: run_inv_def)
  next
    case (added e2)
    have "set (map_keys (devices e2)) = insert (dName d) (set (map_keys (devices e)))"
      using persist_frame(1) [OF added(4)] set_keys_update by simp
    then show ?thesis using assms(2) fresh [OF added(3)] added(5) persist_frame [OF added(4)]
      by (auto simp: run_inv_def startDeviceLocked_def)
  qed (use assms in simp)
qed

section \<open>The invariant\<close>

definition engine_inv :: "unicode_db \<Rightarrow> engine \<Rightarrow> bool" where
  "engine_inv db e \<longleftrightarrow> dev_inv db e \<and> ev_inv e \<and> run_inv e"

lemma prims_engine_inv: "prims e e' \<Longrightarrow> engine_inv db e \<Longrightarrow> engine_inv db e'"
  by (induction rule: rtranclp_induct)
    (auto simp: engine_inv_def dest: prim_dev_inv prim_ev_inv prim_run_inv)

lemma dev_inv_valid:
  "dev_inv db e \<Longrightarrow> map_of (devices e) n = Some m \<Longrightarrow> validRuntimeState (State (mrecord m))"
  by (auto dest: dev_inv_get simp: managed_ok_def)

lemma New_engine_inv:
  assumes "New db ds pb ul st o1 clk = Inr e"
  shows "engine_inv db e"
proof -
  have "events e = []" "sequence e = 0" "subscribers e = []" "\<not> running e" "\<not> stopping e" "runners e = []"
    using assms by (auto simp: New_def split: option.splits sum.splits if_splits)
  then show ?thesis using New_dev_inv [OF assms]
    by (simp add: engine_inv_def ev_inv_def run_inv_def seq_run_def)
qed

lemma engine_inv_subs:
  assumes "engine_inv db e" "set chs \<subseteq> insert (i, ch) (set (subscribers e))" "chan_ok ch"
  shows "engine_inv db (e\<lparr>subscribers := chs\<rparr>)"
proof -
  have "\<forall>(i, c) \<in> set chs. chan_ok c" using assms by (auto simp: engine_inv_def ev_inv_def)
  with assms(1) show ?thesis by (simp add: engine_inv_def dev_inv_def ev_inv_def run_inv_def)
qed

lemma eng_step_inv:
  assumes "eng_step db e e'" "engine_inv db e"
  shows "engine_inv db e'"
  using assms(1)
proof cases
  case (clear sv n err)
  then show ?thesis using assms(2) ClearLatch_prims prims_engine_inv dev_inv_valid
    by (metis engine_inv_def)
next
  case (reschedule cv raw n delay)
  then show ?thesis using assms(2) runDevice_schedule_prims prims_engine_inv dev_inv_valid
    by (metis engine_inv_def)
next
  case (add sv d err)
  then show ?thesis using assms(2) AddDevice_dev_inv AddDevice_ev_inv AddDevice_run_inv
    by (auto simp: engine_inv_def)
next
  case (view s)
  then show ?thesis using assms(2)
    by (auto simp: Snapshot_engine_def now_of_pair Let_def engine_inv_def dev_inv_def ev_inv_def run_inv_def)
next
  case (subscribe buffer sid)
  define ch where "ch = \<lparr>ch_cap = nat (if buffer < 1 then 1 else buffer), ch_queue = []\<rparr>"
  have "chan_ok ch" by (auto simp: ch_def chan_ok_def)
  then have "engine_inv db (e\<lparr>subscribers := AList.update (nextSubID e + 1) ch (subscribers e)\<rparr>)"
    using engine_inv_subs [OF assms(2) set_update_subset] by blast
  moreover have "Subscribe buffer e = (e\<lparr>nextSubID := nextSubID e + 1,
      subscribers := AList.update (nextSubID e + 1) ch (subscribers e)\<rparr>, nextSubID e + 1)"
    by (simp only: Subscribe_def Let_def ch_def)
  then have "e' = e\<lparr>nextSubID := nextSubID e + 1,
      subscribers := AList.update (nextSubID e + 1) ch (subscribers e)\<rparr>"
    using subscribe by (simp only: prod.inject)
  ultimately show ?thesis by (simp add: engine_inv_def dev_inv_def ev_inv_def run_inv_def)
next
  case (unsubscribe sid)
  have "set (AList.delete sid (subscribers e)) \<subseteq> set (subscribers e)" by (rule set_delete_subset)
  then have "ev_inv (Unsubscribe sid e)"
    using assms(2) unfolding Unsubscribe_def engine_inv_def ev_inv_def by auto
  then show ?thesis using assms(2) unsubscribe
    by (simp add: Unsubscribe_def engine_inv_def dev_inv_def run_inv_def)
next
  case (receive sid ch)
  then have "chan_ok ch" using assms(2) map_of_SomeD [OF receive(2)] by (auto simp: engine_inv_def ev_inv_def)
  then have "chan_ok (ch\<lparr>ch_queue := tl (ch_queue ch)\<rparr>)" by (auto simp: chan_ok_def)
  then show ?thesis unfolding receive(1) using engine_inv_subs [OF assms(2) set_update_subset] by blast
next
  case (run err)
  then have "run_inv e'" using assms(2) Run_start_run_inv by (auto simp: engine_inv_def dev_inv_def)
  with run assms(2) show ?thesis
    by (auto simp: Run_start_def start_all engine_inv_def dev_inv_def ev_inv_def split: if_splits)
next
  case stop
  then show ?thesis using assms(2)
    by (auto simp: Run_stop_def engine_inv_def dev_inv_def ev_inv_def run_inv_def)
next
  case (exit n)
  then show ?thesis using assms(2) set_remove1_subset [of n "runners e"]
    by (auto simp: runDevice_exit_def engine_inv_def dev_inv_def ev_inv_def run_inv_def)
next
  case finish
  then show ?thesis using assms(2)
    by (auto simp: Run_finish_def engine_inv_def dev_inv_def ev_inv_def run_inv_def)
next
  case (probe sv n result probeErr should err)
  then show ?thesis using assms(2) by (blast intro: prims_engine_inv applyProbe_prims)
next
  case (mark sv n started err)
  then show ?thesis using assms(2) by (blast intro: prims_engine_inv markUnlockStarted_prims)
next
  case (result sv n res unlockErr err)
  then show ?thesis using assms(2) by (blast intro: prims_engine_inv applyUnlockResult_prims)
qed

lemma reachable_engine_inv: "eng_reachable db e \<Longrightarrow> engine_inv db e"
  by (induction rule: eng_reachable.induct) (auto intro: New_engine_inv eng_step_inv)

text \<open>
  C12. Whatever sequence of critical sections the engine executes: its table holds only valid
  devices under their own names, none with automatic unlock when there is no unlocker; the
  event history never exceeds its bound and its sequence numbers are consecutive and end at
  the last number issued; no subscriber's queue exceeds its capacity; at most one schedule
  exists per device and none is left once the run loop has ended.
\<close>

theorem reachable_engine_safe:
  assumes "eng_reachable db e"
  shows "distinct (map_keys (devices e)) \<and>
    (\<forall>(k, m) \<in> set (devices e). dName (mdevice m) = k \<and> validateDevice db (mdevice m) = None \<and>
       validRuntimeState (State (mrecord m)) \<and> (dAutoUnlock (mdevice m) \<longrightarrow> has_unlocker e)) \<and>
    int (length (events e)) \<le> max 0 (EventHistory (opts e)) \<and>
    (EventHistory (opts e) > 0 \<longrightarrow>
       map evSequence (rev (events e)) = map (\<lambda>i. sequence e - of_nat i) [0..<length (events e)]) \<and>
    (\<forall>(i, ch) \<in> set (subscribers e). length (ch_queue ch) \<le> ch_cap ch) \<and>
    \<not> (running e \<and> stopping e) \<and> distinct (runners e) \<and>
    (\<not> running e \<and> \<not> stopping e \<longrightarrow> runners e = [])"
  using reachable_engine_inv [OF assms]
  by (auto simp: engine_inv_def dev_inv_def ev_inv_def run_inv_def managed_ok_def seq_run_def
      chan_ok_def wf_map_def)

lemma demo_new:
  "New ascii_only_db [demo_device] True True (Some (Inr \<lparr>Version = 1, Devices = []\<rparr>)) DefaultOptions
     (\<lambda>i. 1000 + int i) = Inr demo_engine"
proof -
  have "validateDevice ascii_only_db demo_device = None" "validateOptions DefaultOptions = None"
    by (simp_all add: validateDevice_def demo_device_def TrimSpace_def is_space_def validateOptions_def DefaultOptions_def
        duration_units)
  then show ?thesis
    by (simp add: New_def demo_engine_def persistentStateVersion_def demo_device_def zero_record_def)
qed

theorem reachable_engine_safe_witness:
  "let e = fst (applyProbe ascii_only_db (save_probe demo_env) ''mac'' (fst (probe_out demo_env)) None demo_engine)
   in distinct (map_keys (devices e)) \<and> int (length (events e)) \<le> 200 \<and> distinct (runners e)"
proof -
  define e where "e = fst (applyProbe ascii_only_db (save_probe demo_env) ''mac''
    (fst (probe_out demo_env)) None demo_engine)"
  obtain s err where p: "applyProbe ascii_only_db (save_probe demo_env) ''mac''
    (fst (probe_out demo_env)) None demo_engine = (e, s, err)"
    unfolding e_def by (metis prod.collapse)
  have "eng_reachable ascii_only_db e"
    by (rule next_step [OF new [OF demo_new] probe [OF p]])
  from reachable_engine_safe [OF this] applyProbe_prims [OF p]
  have "distinct (map_keys (devices e)) \<and> int (length (events e)) \<le> max 0 (EventHistory (opts e))
      \<and> distinct (runners e)" by blast
  moreover have "opts e = DefaultOptions"
    using prims_opts [OF applyProbe_prims [OF p]] by (simp add: demo_engine_def)
  ultimately show ?thesis by (simp add: e_def [symmetric] DefaultOptions_def)
qed

end
