(* ===== verification/Monitor_Facts.thy ===== *)
theory Monitor_Facts
  imports Monitor_Invariant
begin

text \<open>
  What the operations of the monitor guarantee one by one: the closed form and the bounds of
  the retry backoff and of the polling delay, the conditions under which a poll may call the
  unlocker, latching, the event history and its subscribers, the snapshot, the run loop, and
  the file store.
\<close>

section \<open>Backoff\<close>

lemma is_int64_half: "0 < v \<Longrightarrow> v < go_quot m 2 \<Longrightarrow> is_int64 m \<Longrightarrow> is_int64 (v * 2)"
proof -
  assume v: "0 < v" "v < go_quot m 2" and m: "is_int64 m"
  have "0 < m"
  proof (rule ccontr)
    assume "\<not> 0 < m"
    then have "go_quot m 2 \<le> 0"
      by (simp add: go_quot_def Let_def)
    with v show False by simp
  qed
  with v have "v * 2 \<le> m" by (simp add: go_quot_nonneg)
  with v m show ?thesis by (simp add: is_int64_def min_int64_def max_int64_def)
qed

lemma backoff_loop_bounds:
  assumes "0 < v" "v \<le> m" "is_int64 m"
  shows "v \<le> backoff_loop m n v \<and> backoff_loop m n v \<le> m"
  using assms
proof (induction n arbitrary: v)
  case (Suc n)
  show ?case
  proof (cases "v \<ge> go_quot m 2")
    case False
    with Suc.prems have d: "s64 (v * 2) = v * 2" by (intro s64_id is_int64_half) auto
    from False Suc.prems have "v * 2 \<le> m" by (simp add: go_quot_nonneg)
    with Suc.IH [of "v * 2"] Suc.prems False show ?thesis by (simp add: d)
  qed (use Suc.prems in simp)
qed simp

lemma backoff_loop_even:
  assumes "0 < v" "v \<le> m" "is_int64 m" "even m"
  shows "backoff_loop m n v = min m (v * 2 ^ n)"
  using assms
proof (induction n arbitrary: v)
  case (Suc n)
  from Suc.prems obtain h where h: "m = 2 * h" by (elim evenE)
  show ?case
  proof (cases "v \<ge> go_quot m 2")
    case True
    with h Suc.prems have "m \<le> v * 2" by (simp add: go_quot_nonneg)
    moreover have "v * 2 \<le> v * 2 ^ Suc n" using Suc.prems by simp
    ultimately have "m \<le> v * 2 ^ Suc n" by linarith
    with True show ?thesis by (simp add: min_def)
  next
    case False
    with Suc.prems have d: "s64 (v * 2) = v * 2" by (intro s64_id is_int64_half) auto
    from False Suc.prems have "v * 2 \<le> m" by (simp add: go_quot_nonneg)
    with Suc.IH [of "v * 2"] Suc.prems False show ?thesis by (simp add: d mult.assoc)
  qed
qed simp

lemma backoff_range:
  assumes "0 < initial" "initial \<le> maximum" "is_int64 maximum"
  shows "initial \<le> exponentialBackoff initial maximum failures
    \<and> exponentialBackoff initial maximum failures \<le> maximum"
  using assms backoff_loop_bounds by (simp add: exponentialBackoff_def)

text \<open>
  \<open>exponentialBackoff\<close> never leaves the configured range whatever the failure count, so
  its doubling never overflows the 64-bit duration, and for a range that ends on an even
  number of nanoseconds it is exactly the initial delay doubled once per further failure and
  capped at the maximum.
\<close>

theorem exponentialBackoff_correct:
  assumes "0 < initial" "initial \<le> maximum" "is_int64 maximum"
  shows "initial \<le> exponentialBackoff initial maximum failures \<and>
    exponentialBackoff initial maximum failures \<le> maximum \<and>
    (even maximum \<longrightarrow> exponentialBackoff initial maximum failures
       = min maximum (initial * 2 ^ nat (failures - 1)))"
  using assms backoff_range [OF assms] by (auto simp: exponentialBackoff_def backoff_loop_even)

theorem exponentialBackoff_correct_witness:
  "exponentialBackoff (15 * second) (15 * minute) 4 = 120 * second \<and>
   exponentialBackoff (15 * second) (15 * minute) 1000 \<le> 15 * minute"
proof -
  have h: "(0::int) < 15 * second" "15 * second \<le> 15 * minute" "is_int64 (15 * minute)"
    "even (15 * minute)"
    by (simp_all add: duration_units is_int64_def min_int64_def max_int64_def)
  have "exponentialBackoff (15 * second) (15 * minute) 4 = 120 * second"
    using exponentialBackoff_correct [OF h(1-3), of 4] h(4) by (simp add: duration_units)
  then show ?thesis using exponentialBackoff_correct [OF h(1-3), of 1000] by simp
qed

section \<open>The polling delay\<close>

lemma jitter_bounds:
  assumes "0 \<le> base" "0 \<le> f" "f \<le> 1 / 2" and fits: "3 * base \<le> 2 * max_int64"
  shows "base \<le> 2 * jitter cv raw base f + 1 \<and> 2 * jitter cv raw base f \<le> 3 * base"
proof (cases raw)
  case None
  with assms show ?thesis by (simp add: jitter_def)
next
  case (Some w)
  define q where "q = rat_of_int (uint w)"
  define u where "u = q / 18446744073709551615"
  define k where "k = 1 - f + 2 * f * u"
  have "uint w \<le> 18446744073709551615" using uint_lt2p [of w] by simp
  then have "0 \<le> q" "q \<le> 18446744073709551615"
    unfolding q_def by (simp_all only: of_int_0_le_iff uint_ge_0)
  then have u: "0 \<le> u" "u \<le> 1" by (simp_all add: u_def)
  have fu: "0 \<le> f * u" "f * u \<le> f" using assms u by (simp_all add: mult_left_le)
  have k: "1 / 2 \<le> k" "k \<le> 3 / 2" using assms fu unfolding k_def by linarith+
  have lo: "rat_of_int base * (1 / 2) \<le> rat_of_int base * k"
    and hi: "rat_of_int base * k \<le> rat_of_int base * (3 / 2)"
    using mult_left_mono [OF k(1)] mult_left_mono [OF k(2)] assms(1) of_int_0_le_iff by blast+
  have nn: "0 \<le> rat_of_int base * k" using assms k by simp
  define y where "y = \<lfloor>rat_of_int base * k\<rfloor>"
  have fl: "rat_of_int y \<le> rat_of_int base * k" "rat_of_int base * k < rat_of_int y + 1"
    unfolding y_def by linarith+
  have "rat_of_int base < rat_of_int (2 * y + 2)" "rat_of_int (2 * y) \<le> rat_of_int (3 * base)"
    using lo hi fl by simp_all
  then have b: "base < 2 * y + 2" "2 * y \<le> 3 * base" by (simp_all only: of_int_less_iff of_int_le_iff)
  have "0 \<le> y" using nn by (simp add: y_def)
  with b fits have "is_int64 y" by (simp add: is_int64_def min_int64_def)
  then have "jitter cv raw base f = y"
    using Some nn by (simp add: jitter_def float64_to_int64_def Let_def q_def u_def k_def y_def)
  with b show ?thesis by linarith
qed


definition delay_engine :: "options \<Rightarrow> engine" where
  "delay_engine o1 = \<lparr>has_unlocker = True, opts = o1, devices = [], events = [], sequence = 0,
      subscribers = [], nextSubID = 0, running = False, stopping = False, runners = [],
      clock = (\<lambda>_. 0), ticks = 0, disk = \<lparr>Version = 1, Devices = []\<rparr>\<rparr>"

definition delay_device :: "int \<Rightarrow> managed" where
  "delay_device failures = \<lparr>mdevice = \<lparr>dName = ''a'', dHost = ''h'', dUser = ''u'', dPort = 22, dCredentialRef = [],
        dAutoUnlock = True\<rparr>, mrecord = zero_record\<lparr>State := StateError, ConsecutiveFailures := failures\<rparr>,
        observed = False\<rparr>"

definition endless_options :: options where
  "endless_options = DefaultOptions\<lparr>PollInterval := 2400000 * 60 * minute\<rparr>"


section \<open>Authorization of an unlock\<close>

lemma applyProbe_record:
  assumes op: "applyProbe db sv d result probeErr e = (e', should, err)"
    and m: "map_of (devices e) d = Some m"
  shows "\<exists>ob. map_of (devices e') d = Some (m\<lparr>mrecord :=
    probe_record db (clock e (ticks e)) (mrecord m) result probeErr, observed := ob\<rparr>)"
proof (rule applyProbe_shape [OF op m])
  fix e3 saveErr now
  let ?r = "probe_record db now (mrecord m) result probeErr"
  assume now: "now = clock e (ticks e)"
    and p: "(if persistenceRelevantChanged (mrecord m) ?r
          then persistLocked sv (put_record d m ?r (e\<lparr>ticks := Suc (ticks e)\<rparr>))
          else (put_record d m ?r (e\<lparr>ticks := Suc (ticks e)\<rparr>), None)) = (e3, saveErr)"
    and dv: "devices e' = devices e3
         \<or> devices e' = AList.update d (m\<lparr>mrecord := ?r, observed := True\<rparr>) (devices e3)"
  have "map_of (devices e3) d = Some (m\<lparr>mrecord := ?r\<rparr>)"
    using p by (auto simp: devices_put_record update_conv' dest: persist_lookup [where n = d] split: if_splits)
  then have "map_of (devices e3) d = Some (m\<lparr>mrecord := ?r, observed := observed m\<rparr>)" by simp
  with dv now show ?thesis by (metis map_upd_Some_unfold update_conv')
qed

lemma applyProbe_should_unlock:
  assumes op: "applyProbe db sv d result probeErr e = (e', True, err)"
    and m: "map_of (devices e) d = Some m"
  shows "err = None \<and> should_unlock (clock e (ticks e)) (mdevice m)
    (probe_record db (clock e (ticks e)) (mrecord m) result probeErr) result probeErr"
  by (rule applyProbe_shape [OF op m]) auto

lemma probe_record_keeps:
  "NextUnlockEligibleAt (probe_record db now previous result probeErr) = NextUnlockEligibleAt previous"
  "Latched previous \<Longrightarrow> Latched (probe_record db now previous result probeErr)"
  by (auto simp: probe_record_def probe_error_record_def probe_invalid_record_def
      probe_observed_record_def latchLocked_def Let_def
      split: option.split failure_kind.split dev_state.split)

lemma probe_record_latched_state:
  "Latched previous \<Longrightarrow> State (probe_record db now previous result probeErr)
    = stateForLatch (LatchKind (probe_record db now previous result probeErr))"
  by (auto simp: probe_record_def probe_error_record_def probe_invalid_record_def
      probe_observed_record_def latchLocked_def Let_def
      split: option.split failure_kind.split dev_state.split)

lemma should_unlock_previous:
  assumes "should_unlock now d (probe_record db now previous result probeErr) result probeErr"
  shows "\<not> Latched previous \<and> \<not> marked previous \<and> NextUnlockEligibleAt previous \<le> now
    \<and> dAutoUnlock d \<and> probeErr = None \<and> prState result = StateLocked"
proof -
  have "\<not> booted_observation result probeErr" if "marked previous"
    using assms by (simp add: should_unlock_def booted_observation_def)
  then have "\<not> marked previous"
    using assms probe_record_marked [of previous result probeErr db now]
    by (auto simp: should_unlock_def marked_def)
  then show ?thesis using assms probe_record_keeps(2)
    by (auto simp: should_unlock_def probe_record_keeps(1))
qed

text \<open>Where \<open>Poll\<close> can call the unlocker.\<close>

lemma Poll_unlock_path:
  assumes "Poll db env n e = (e', snap, err, calls)" and "CallUnlock d \<in> set calls"
  obtains m e1 e2 where "map_of (devices e) n = Some m" "d = mdevice m"
    "applyProbe db (save_probe env) n (fst (probe_out env)) (snd (probe_out env)) e = (e1, True, None)"
    "markUnlockStarted (save_mark env) n e1 = (e2, True, None)"
    "fst (applyUnlockResult (save_result env) n (fst (unlock_out env)) (snd (unlock_out env)) e2) = e'"
    "calls = [CallProbe d, CallUnlock d]"
  using assms
  by (auto simp: Poll_def Let_def split: option.splits prod.splits if_splits)

text \<open>
  C3. A poll hands a device to the unlocker only when all of the policy holds: the device
  has automatic unlock enabled, this poll's probe returned without error the definitive locked
  state, the device is not latched, the credential was not yet tried in this lock episode, the
  cooldown is over, and the durable state already says that the episode has been attempted. The
  engines are those of this poll: \<open>e1\<close> is what its probe made of \<open>e\<close>, \<open>e2\<close> what the marking made of
  \<open>e1\<close>, with the mark on disk, and the unlocker's one result is applied to \<open>e2\<close>.
\<close>

theorem Poll_unlock_authorized:
  assumes "Poll db env n e = (e', snap, err, calls)" and "CallUnlock d \<in> set calls"
  shows "\<exists>m e1 e2. map_of (devices e) n = Some m \<and> d = mdevice m \<and> dAutoUnlock d \<and>
     snd (probe_out env) = None \<and> prState (fst (probe_out env)) = StateLocked \<and>
     \<not> Latched (mrecord m) \<and> \<not> marked (mrecord m) \<and>
     NextUnlockEligibleAt (mrecord m) \<le> clock e (ticks e) \<and>
     applyProbe db (save_probe env) n (fst (probe_out env)) None e = (e1, True, None) \<and>
     markUnlockStarted (save_mark env) n e1 = (e2, True, None) \<and> disk_marked e2 n \<and>
     fst (applyUnlockResult (save_result env) n (fst (unlock_out env)) (snd (unlock_out env)) e2) = e' \<and>
     calls = [CallProbe d, CallUnlock d]"
proof -
  from assms obtain m e1 e2 where m: "map_of (devices e) n = Some m" and d: "d = mdevice m"
    and p: "applyProbe db (save_probe env) n (fst (probe_out env)) (snd (probe_out env)) e = (e1, True, None)"
    and k: "markUnlockStarted (save_mark env) n e1 = (e2, True, None)"
    and r: "fst (applyUnlockResult (save_result env) n (fst (unlock_out env)) (snd (unlock_out env)) e2) = e'"
    and c: "calls = [CallProbe d, CallUnlock d]"
    by (rule Poll_unlock_path)
  from applyProbe_should_unlock [OF p m] have
    su: "should_unlock (clock e (ticks e)) (mdevice m)
      (probe_record db (clock e (ticks e)) (mrecord m) (fst (probe_out env)) (snd (probe_out env)))
      (fst (probe_out env)) (snd (probe_out env))" by blast
  have dm: "disk_marked e2 n"
    using markUnlockStarted_started(1) [OF k] applyProbe_should [OF p] by (auto simp: both_marked_def)
  note pol = should_unlock_previous [OF su]
  from p pol have "applyProbe db (save_probe env) n (fst (probe_out env)) None e = (e1, True, None)" by simp
  with m d k r c dm pol show ?thesis by (intro exI [of _ m] exI [of _ e1] exI [of _ e2]) simp
qed

lemma boundedText_short: "length s \<le> 4096 \<Longrightarrow> boundedText s = s"
  using length_runes_le [of s] by (simp add: boundedText_def)

lemma demo_poll:
  "snd (snd (snd (Poll ascii_only_db demo_env ''mac'' demo_engine)))
    = [CallProbe demo_device, CallUnlock demo_device]"
  by code_simp

theorem Poll_unlock_authorized_witness:
  "\<exists>e1 e2. applyProbe ascii_only_db (save_probe demo_env) ''mac'' (fst (probe_out demo_env)) None demo_engine
       = (e1, True, None)
     \<and> markUnlockStarted (save_mark demo_env) ''mac'' e1 = (e2, True, None)
     \<and> \<not> disk_marked e1 ''mac'' \<and> disk_marked e2 ''mac'' \<and> dAutoUnlock demo_device"
proof -
  obtain e' snap err calls where
    p: "Poll ascii_only_db demo_env ''mac'' demo_engine = (e', snap, err, calls)"
    by (metis surj_pair)
  then have "CallUnlock demo_device \<in> set calls" using demo_poll by simp
  moreover have "\<not> disk_marked (fst (applyProbe ascii_only_db (save_probe demo_env) ''mac''
      (fst (probe_out demo_env)) None demo_engine)) ''mac''" by code_simp
  ultimately show ?thesis using Poll_unlock_authorized [OF p] by fastforce
qed

section \<open>Latched devices\<close>

lemma applyProbe_latched:
  assumes "applyProbe db sv n result probeErr e = (e', should, err)"
    "map_of (devices e) n = Some m" "Latched (mrecord m)"
  shows "\<not> should \<and> (\<exists>m'. map_of (devices e') n = Some m' \<and> Latched (mrecord m')
    \<and> State (mrecord m') = stateForLatch (LatchKind (mrecord m')))"
proof -
  have "\<not> should"
  proof
    assume should
    with assms(1) have "applyProbe db sv n result probeErr e = (e', True, err)" by simp
    from should_unlock_previous [OF conjunct2 [OF applyProbe_should_unlock [OF this assms(2)]]] assms(3)
    show False by simp
  qed
  then show ?thesis
    using applyProbe_record [OF assms(1,2)] assms(3) probe_record_keeps(2) probe_record_latched_state by fastforce
qed

text \<open>
  C15. A latched device stays latched: polling it never calls the unlocker, keeps the latch,
  and shows the state that belongs to the latched failure whatever the probe saw.
\<close>

theorem Poll_latched:
  assumes "map_of (devices e) n = Some m" "Latched (mrecord m)"
    "Poll db env n e = (e', snap, err, calls)" "acquire_err env = None"
  shows "calls = [CallProbe (mdevice m)] \<and> (\<exists>m'. map_of (devices e') n = Some m' \<and> Latched (mrecord m')
    \<and> State (mrecord m') = stateForLatch (LatchKind (mrecord m')))"
proof -
  obtain e1 sh er where p: "applyProbe db (save_probe env) n (fst (probe_out env)) (snd (probe_out env)) e
      = (e1, sh, er)" by (metis surj_pair)
  from applyProbe_latched [OF p assms(1,2)] have "\<not> sh" by blast
  with assms p have "e' = e1 \<and> calls = [CallProbe (mdevice m)]"
    by (cases "probe_out env") (auto simp: Poll_def Let_def split: option.splits)
  with applyProbe_latched [OF p assms(1,2)] show ?thesis by blast
qed

definition latched_engine :: engine where
  "latched_engine = demo_engine\<lparr>devices := [(''mac'', \<lparr>mdevice = demo_device,
     mrecord = zero_record\<lparr>State := StateError, Latched := True, LatchKind := FailureCredential\<rparr>,
     observed = False\<rparr>)]\<rparr>"

theorem Poll_latched_witness:
  "snd (snd (snd (Poll ascii_only_db demo_env ''mac'' latched_engine))) = [CallProbe demo_device]"
proof -
  obtain e' snap err calls where
    p: "Poll ascii_only_db demo_env ''mac'' latched_engine = (e', snap, err, calls)"
    by (metis surj_pair)
  have "map_of (devices latched_engine) ''mac'' = Some \<lparr>mdevice = demo_device,
     mrecord = zero_record\<lparr>State := StateError, Latched := True, LatchKind := FailureCredential\<rparr>,
     observed = False\<rparr>" "acquire_err demo_env = None"
    by (simp_all add: latched_engine_def demo_env_def)
  from Poll_latched [OF this(1) _ p this(2)] p show ?thesis by simp
qed

section \<open>Operator actions\<close>

lemma cleared_record_simps [simp]:
  "Latched (cleared_record r) = False" "marked (cleared_record r) = False"
  "NextUnlockEligibleAt (cleared_record r) = NextUnlockEligibleAt r"
  "LastObservation (cleared_record r) = LastObservation r"
  by (simp_all add: cleared_record_def marked_def Let_def)

text \<open>
  \<open>ClearLatch\<close> is all or nothing. When the new state cannot be saved it reports the error
  and the device, the other devices and the event history are as before; otherwise the device
  is unlatched, its episode may try the credential again, its cooldown still counts, and a
  device that was held shows its last observation.
\<close>

theorem ClearLatch_correct:
  assumes "map_of (devices e) n = Some m" "ClearLatch sv n e = (e', err)"
  shows "(err \<noteq> None \<longrightarrow> map_of (devices e') = map_of (devices e) \<and> events e' = events e
        \<and> subscribers e' = subscribers e) \<and>
    (err = None \<longrightarrow> (\<exists>m'. map_of (devices e') n = Some m' \<and> mdevice m' = mdevice m
        \<and> \<not> Latched (mrecord m') \<and> \<not> marked (mrecord m')
        \<and> NextUnlockEligibleAt (mrecord m') = NextUnlockEligibleAt (mrecord m)
        \<and> (Latched (mrecord m) \<or> marked (mrecord m) \<longrightarrow>
             State (mrecord m') = stateForObservation (LastObservation (mrecord m)) \<and>
             disk e' = \<lparr>Version = 1, Devices =
               map (\<lambda>(k, x). (k, (mrecord x)\<lparr>NextCheckAt := 0\<rparr>)) (devices e')\<rparr>)))"
proof (cases "\<not> Latched (mrecord m) \<and> \<not> marked (mrecord m)")
  case True
  with assms show ?thesis by (auto simp: ClearLatch_def marked_def)
next
  case False
  let ?next = "stateForObservation (LastObservation (mrecord m))"
  define r2 e1 where "r2 = (if State (cleared_record (mrecord m)) \<noteq> ?next
      then (cleared_record (mrecord m))\<lparr>State := ?next, StateChangedAt := clock e (ticks e)\<rparr>
      else cleared_record (mrecord m))"
    and "e1 = (if State (cleared_record (mrecord m)) \<noteq> ?next then e\<lparr>ticks := Suc (ticks e)\<rparr> else e)"
  have r2: "\<not> Latched r2" "\<not> marked r2" "NextUnlockEligibleAt r2 = NextUnlockEligibleAt (mrecord m)"
    "State r2 = ?next"
    using cleared_record_simps(2) [of "mrecord m"] by (auto simp: r2_def marked_def)
  have e1: "devices e1 = devices e" "events e1 = events e" "subscribers e1 = subscribers e"
    by (simp_all add: e1_def)
  obtain e2 er where p: "persistLocked sv (put_record n m r2 e1) = (e2, er)" by (meson surj_pair)
  have out: "(e', err) = (case er of
      Some x \<Rightarrow> (put_record n m (mrecord m) e2, Some (errorf ''persist cleared latch'' x))
    | None \<Rightarrow> (emitLocked EventLatchChanged n ''latch cleared by operator'' e2, None))"
    using assms False p
    by (simp add: ClearLatch_def now_of_pair Let_def marked_def r2_def e1_def split: if_splits)
  note fr = persist_frame [OF p]
  show ?thesis
  proof (cases er)
    case None
    have "disk e2 = snapshot_state (put_record n m r2 e1)" using p None persist_ok_disk by simp
    with out None fr r2 show ?thesis
      by (simp add: devices_put_record update_conv' snapshot_state_def persistentStateVersion_def)
  next
    case (Some x)
    have "map_of (devices e') = map_of (devices e)"
      using out Some fr assms(1) e1 by (auto simp: devices_put_record update_conv' fun_upd_idem)
    with out Some fr e1 show ?thesis by simp
  qed
qed

theorem ClearLatch_correct_witness:
  "\<exists>e' m'. ClearLatch (\<lambda>_. SaveOk) ''mac'' latched_engine = (e', None) \<and>
     map_of (devices e') ''mac'' = Some m' \<and> \<not> Latched (mrecord m')"
proof -
  obtain e' err where c: "ClearLatch (\<lambda>_. SaveOk) ''mac'' latched_engine = (e', err)" by (meson surj_pair)
  have "map_of (devices latched_engine) ''mac'' = Some \<lparr>mdevice = demo_device,
     mrecord = zero_record\<lparr>State := StateError, Latched := True, LatchKind := FailureCredential\<rparr>,
     observed = False\<rparr>"
    by (simp add: latched_engine_def)
  moreover from this c have "err = None"
    by (auto simp: ClearLatch_def persistLocked_def Let_def split: if_splits prod.splits)
  ultimately show ?thesis using ClearLatch_correct [OF _ c] c by blast
qed

text \<open>
  \<open>AddDevice\<close> is all or nothing. On any error the set of devices, the event history and the
  running schedules are as before; on success the name was free, the device is monitored from
  an indeterminate state that is already durable, and it is scheduled when the engine runs.
\<close>

theorem AddDevice_correct:
  assumes "AddDevice db sv d e = (e', err)"
  shows "(err \<noteq> None \<longrightarrow> map_of (devices e') = map_of (devices e) \<and> events e' = events e
        \<and> runners e' = runners e) \<and>
    (err = None \<longrightarrow> validateDevice db d = None \<and> map_of (devices e) (dName d) = None \<and>
        map_of (devices e') = (map_of (devices e))(dName d \<mapsto> fresh_managed d (clock e (ticks e))) \<and>
        map_of (Devices (disk e')) (dName d) = Some (mrecord (fresh_managed d (clock e (ticks e)))) \<and>
        runners e' = (if running e then runners e @ [dName d] else runners e))"
  using assms
proof (cases rule: AddDevice_cases)
  case (unsaved e2 er)
  note fr = persist_frame [OF unsaved(4)]
  have "map_of (devices e') k = map_of (devices e) k" for k
    using unsaved(3,5) fr by (auto simp: delete_conv' update_conv')
  then show ?thesis using unsaved fr by auto
next
  case (added e2)
  note fr = persist_frame [OF added(4)]
  have "disk e2 = snapshot_state (e\<lparr>ticks := Suc (ticks e), devices :=
         AList.update (dName d) (fresh_managed d (clock e (ticks e))) (devices e)\<rparr>)"
    using added(4) by (rule persist_ok_disk)
  then have "map_of (Devices (disk e2)) (dName d) = Some (mrecord (fresh_managed d (clock e (ticks e))))"
    by (simp add: snapshot_lookup update_conv' fresh_managed_def zero_record_def)
  with added fr show ?thesis by (simp add: startDeviceLocked_def update_conv')
qed auto

definition demo_device2 :: device where
  "demo_device2 = demo_device\<lparr>dName := ''studio''\<rparr>"

theorem AddDevice_correct_witness:
  "\<exists>e'. AddDevice ascii_only_db (\<lambda>_. SaveOk) demo_device2 demo_engine = (e', None)
    \<and> map_of (Devices (disk e')) ''studio'' \<noteq> None"
proof -
  obtain e' err where c: "AddDevice ascii_only_db (\<lambda>_. SaveOk) demo_device2 demo_engine = (e', err)"
    by (meson surj_pair)
  have "validateDevice ascii_only_db demo_device2 = None"
    by (simp add: validateDevice_def demo_device2_def demo_device_def TrimSpace_def is_space_def)
  with c have "err = None"
    by (auto simp: AddDevice_def demo_engine_def demo_device2_def demo_device_def persistLocked_def now_of_def
        Let_def split: prod.splits)
  with AddDevice_correct [OF c] c show ?thesis by (auto simp: demo_device2_def)
qed

section \<open>History and delivery\<close>

lemma chan_send_cap [simp]: "ch_cap (chan_send ev ch) = ch_cap ch"
  by (simp add: chan_send_def Let_def)

lemma chan_send_queue:
  "chan_ok ch \<Longrightarrow> ch_queue (chan_send ev ch) = take_last (ch_cap ch) (ch_queue ch @ [ev])"
  by (cases "ch_queue ch") (auto simp: chan_ok_def chan_send_def take_last_def Let_def)

lemma append_event_take_last:
  "0 < h \<Longrightarrow> append_event h evs ev = take_last (nat h) (evs @ [ev])"
  by (auto simp: append_event_def take_last_def Let_def nat_diff_distrib' nat_add_distrib)

text \<open>
  Delivery never blocks and never reorders: after any sequence of events sent to a
  subscriber that does not read, its queue is exactly the newest events its buffer can hold,
  and the history kept by the engine is exactly the newest \<open>EventHistory\<close> events.
\<close>

theorem event_delivery:
  assumes "chan_ok ch" "0 < h" "int (length evs0) \<le> h"
  shows "ch_queue (fold chan_send evs ch) = take_last (ch_cap ch) (ch_queue ch @ evs) \<and>
    fold (\<lambda>ev l. append_event h l ev) evs evs0 = take_last (nat h) (evs0 @ evs)"
proof
  show "ch_queue (fold chan_send evs ch) = take_last (ch_cap ch) (ch_queue ch @ evs)"
    using assms(1)
  proof (induction evs arbitrary: ch)
    case (Cons ev evs)
    from Cons.IH [OF chan_send_ok [OF Cons.prems]] chan_send_queue [OF Cons.prems] show ?case
      using take_last_append_take_last [of "ch_cap ch" "ch_queue ch @ [ev]" evs] by simp
  qed (simp add: chan_ok_def take_last_id)
  show "fold (\<lambda>ev l. append_event h l ev) evs evs0 = take_last (nat h) (evs0 @ evs)"
    using assms(3)
  proof (induction evs arbitrary: evs0)
    case (Cons ev evs)
    from Cons.IH [OF append_event_bounded [OF assms(2) Cons.prems, of ev]]
      append_event_take_last [OF assms(2), of evs0 ev] show ?case
      using take_last_append_take_last [of "nat h" "evs0 @ [ev]" evs] by simp
  qed (simp add: take_last_id nat_le_iff le_nat_iff)
qed

theorem event_delivery_witness:
  "ch_queue (fold chan_send (map (\<lambda>i. (make_event demo_engine 0 EventProbe ''mac''
      (snd (hd (devices demo_engine))) [])\<lparr>evSequence := i\<rparr>) [1, 2, 3]) \<lparr>ch_cap = 2, ch_queue = []\<rparr>)
    = map (\<lambda>i. (make_event demo_engine 0 EventProbe ''mac'' (snd (hd (devices demo_engine))) [])
        \<lparr>evSequence := i\<rparr>) [2, 3]"
proof -
  have "chan_ok \<lparr>ch_cap = 2, ch_queue = []\<rparr>" "(0::int) < 200"
    "int (length ([] :: event list)) \<le> 200" by (simp_all add: chan_ok_def)
  note d = conjunct1 [OF event_delivery [OF this]]
  show ?thesis unfolding d by (simp add: take_last_def)
qed

section \<open>Snapshots\<close>

text \<open>
  A snapshot lists every monitored device exactly once, ordered by name, and does not
  depend on the iteration order of the device map: two engines that hold the same devices,
  events and clock give the same snapshot.
\<close>

theorem Snapshot_canonical:
  assumes "eng_reachable db e" "mset (devices e') = mset (devices e)"
    "events e' = events e" "clock e' = clock e" "ticks e' = ticks e"
  shows "fst (Snapshot_engine e') = fst (Snapshot_engine e) \<and>
    sorted_wrt (<) (map (\<lambda>s. dName (snapDevice s)) (snapDevices (fst (Snapshot_engine e)))) \<and>
    set (snapDevices (fst (Snapshot_engine e)))
      = {\<lparr>snapDevice = mdevice m, snapRecord = mrecord m\<rparr> |n m. map_of (devices e) n = Some m}"
proof -
  let ?f = "\<lambda>(_ :: string, m). \<lparr>snapDevice = mdevice m, snapRecord = mrecord m\<rparr>"
  let ?k = "\<lambda>s. dName (snapDevice s)"
  have inv: "wf_map (devices e)" "\<forall>(k, m) \<in> set (devices e). dName (mdevice m) = k"
    using reachable_engine_inv [OF assms(1)] by (auto simp: engine_inv_def dev_inv_def managed_ok_def)
  have "map ?k (map ?f (devices e)) = map_keys (devices e)" using inv(2) by auto
  with inv(1) have d: "distinct (map ?k (map ?f (devices e)))" by (simp only: wf_map_def)
  have "sort_key ?k (map ?f (devices e)) = sort_key ?k (map ?f (devices e'))"
    by (rule sort_key_unique [OF _ d]) (simp add: assms(2))
  moreover have "distinct (map ?k (sort_key ?k (map ?f (devices e))))"
    using d unfolding distinct_map [of ?k] by simp
  moreover have "sorted (map ?k (sort_key ?k (map ?f (devices e))))" by simp
  ultimately have "fst (Snapshot_engine e') = fst (Snapshot_engine e)"
    "sorted_wrt (<) (map ?k (snapDevices (fst (Snapshot_engine e))))"
    using assms(3-5) by (simp_all add: Snapshot_engine_def now_of_pair Let_def strict_sorted_iff)
  moreover have "set (snapDevices (fst (Snapshot_engine e)))
      = {\<lparr>snapDevice = mdevice m, snapRecord = mrecord m\<rparr> |n m. map_of (devices e) n = Some m}"
    using inv(1) by (auto simp: Snapshot_engine_def now_of_pair Let_def map_of_eq_mem image_iff)
  ultimately show ?thesis by blast
qed

theorem Snapshot_canonical_witness:
  "set (snapDevices (fst (Snapshot_engine demo_engine)))
     = {\<lparr>snapDevice = mdevice m, snapRecord = mrecord m\<rparr> |n m. map_of (devices demo_engine) n = Some m}"
  using Snapshot_canonical [OF new [OF demo_new] refl refl refl refl] by blast

section \<open>The file store\<close>

text \<open>What the JSON codec does on one document: decoding what it encoded, with the newline
  that \<open>Save\<close> appends, gives the document back and ends the input.\<close>

definition codec_law ::
    "(persistent_state \<Rightarrow> goerr + string) \<Rightarrow> (string \<Rightarrow> goerr + decoded_state) \<Rightarrow> persistent_state \<Rightarrow> bool" where
  "codec_law encode decode st \<longleftrightarrow> (\<forall>c. encode st = Inr c \<longrightarrow> decode (c @ [CHR 0x0A])
     = Inr \<lparr>decVersion = Version st, decDevices = Some (Devices st), decTail = TailEOF\<rparr>)"

text \<open>
  A state the file store reports as saved is what it loads from the file it wrote: the
  written content stays within the size limit and loading it gives the saved records under the
  current version. A missing file loads as the empty state.
\<close>

theorem FileStore_round_trip:
  assumes "FileStore_Save path encode write st = SaveOk"
    "codec_law encode decode (st\<lparr>Version := persistentStateVersion\<rparr>)"
  shows "\<exists>content. write content = SaveOk \<and> length content \<le> maxStateSize \<and>
    FileStore_Load path (Inr content) decode = Inr (st\<lparr>Version := persistentStateVersion\<rparr>) \<and>
    FileStore_Load path (Inl (Sentinel NotExist)) decode
      = Inr \<lparr>Version = persistentStateVersion, Devices = []\<rparr>"
proof -
  let ?st = "st\<lparr>Version := persistentStateVersion\<rparr>"
  have "(if Version st = 0 then st\<lparr>Version := persistentStateVersion\<rparr> else st) = ?st"
    using assms(1) by (auto simp: FileStore_Save_def Let_def split: if_splits)
  then obtain c where "encode ?st = Inr c" "length (c @ [CHR 0x0A]) \<le> maxStateSize"
    "write (c @ [CHR 0x0A]) = SaveOk" "path \<noteq> []"
    using assms(1) by (auto simp: FileStore_Save_def Let_def split: if_splits sum.splits)
  moreover from this assms(2) have "decode (c @ [CHR 0x0A])
     = Inr \<lparr>decVersion = persistentStateVersion, decDevices = Some (Devices st), decTail = TailEOF\<rparr>"
    by (simp add: codec_law_def)
  ultimately show ?thesis by (intro exI [of _ "c @ [CHR 0x0A]"]) (simp add: FileStore_Load_def)
qed

theorem FileStore_round_trip_witness:
  "\<exists>content. FileStore_Load ''monitor.json'' (Inr content) (\<lambda>_. Inr \<lparr>decVersion = 1,
       decDevices = Some [(''mac'', zero_record)], decTail = TailEOF\<rparr>)
     = Inr \<lparr>Version = 1, Devices = [(''mac'', zero_record)]\<rparr>"
proof -
  let ?dec = "\<lambda>_ :: string. Inr \<lparr>decVersion = 1, decDevices = Some [(''mac'', zero_record)],
       decTail = TailEOF\<rparr> :: goerr + decoded_state"
  let ?st = "\<lparr>Version = 1, Devices = [(''mac'', zero_record)]\<rparr>"
  have "FileStore_Save ''monitor.json'' (\<lambda>_. Inr ''{}'') (\<lambda>_. SaveOk) ?st = SaveOk"
    "codec_law (\<lambda>_. Inr ''{}'') ?dec (?st\<lparr>Version := persistentStateVersion\<rparr>)"
    by (simp_all add: FileStore_Save_def persistentStateVersion_def maxStateSize_def codec_law_def)
  from FileStore_round_trip [OF this] show ?thesis by (auto simp: persistentStateVersion_def)
qed

end
