(* ===== verification/Credentials_Facts.thy ===== *)
theory Credentials_Facts
  imports Credentials
begin

text \<open>
  What the credential layer guarantees: references are normalized once and for all and cannot
  leave their directory, a file is released only from memory-backed storage unless the operator
  opted out, environment names are portable, and reports do not depend on map order.
\<close>

section \<open>References\<close>

lemma HasPrefix_append [simp]: "HasPrefix (p @ s) p"
  by (simp add: HasPrefix_def)

lemma HasPrefix_iff: "HasPrefix s p \<longleftrightarrow> (\<exists>t. s = p @ t)"
  by (metis HasPrefix_append HasPrefix_def append_take_drop_id)

lemma TrimPrefix_append [simp]: "TrimPrefix (p @ s) p = s"
  by (simp add: TrimPrefix_def)

lemma Clean_not_systemd: "IsAbs p \<Longrightarrow> \<not> HasPrefix (Clean p) systemdCredentialPrefix"
  using IsAbs_Clean [of p]
  by (cases "Clean p") (auto simp: IsAbs_def HasPrefix_def systemdCredentialPrefix_def)

lemma systemd_rune_ascii: "list_all systemd_rune (runes s) \<Longrightarrow> ascii s"
proof (induction s rule: utf8_induct)
  case (Step s)
  have r: "systemd_rune (fst (decode_rune s))"
    and rest: "list_all systemd_rune (runes (drop (snd (decode_rune s)) s))"
    using Step.prems Step.hyps by (simp_all add: runes_def utf8_segments_step)
  obtain c t where s: "s = c # t" using Step.hyps by (cases s) auto
  have "byte c < 128"
  proof (rule ccontr)
    assume "\<not> byte c < 128"
    then have "\<not> fst (decode_rune s) < 128"
      using decode_rune_not_ascii [of c t] s by simp
    with r show False by (auto simp: systemd_rune_def)
  qed
  with s Step rest show ?case by (simp add: decode_rune_ascii)
qed simp

text \<open>A valid name is one plain path element.\<close>

lemma validName_plain:
  assumes "validateSystemdCredentialName db name = None"
  shows "plain_elem name \<and> name \<noteq> ''..''"
proof -
  have v: "name \<noteq> []" "list_all systemd_rune (runes name)" "name \<noteq> ''.''" "name \<noteq> ''..''"
    using assms by (auto simp: validateSystemdCredentialName_def split: if_splits)
  have "list_all systemd_rune (map byte name)"
    using v(2) runes_ascii [OF systemd_rune_ascii [OF v(2)]] by simp
  then have "slash \<notin> set name" by (auto simp: list_all_iff systemd_rune_def)
  with v show ?thesis by (simp add: plain_elem_def)
qed

text \<open>
  Normalizing a credential file reference is final: normalizing the result again changes
  nothing, and the result is either a valid \<open>systemd:\<close> name or an absolute cleaned path.
\<close>

theorem NormalizeFileReference_idempotent:
  assumes "NormalizeFileReference db reference = Inr n"
  shows "NormalizeFileReference db n = Inr n \<and>
    ((\<exists>name. n = systemdCredentialPrefix @ name \<and> validateSystemdCredentialName db name = None)
     \<or> IsAbs n \<and> Clean n = n)"
proof (cases "HasPrefix reference systemdCredentialPrefix")
  case True
  with assms obtain name where "n = systemdCredentialPrefix @ name" "validateSystemdCredentialName db name = None"
    by (auto simp: NormalizeFileReference_def Let_def split: option.splits)
  then show ?thesis by (simp add: NormalizeFileReference_def)
next
  case False
  with assms have n: "n = Clean reference" "IsAbs reference"
    by (auto simp: NormalizeFileReference_def Let_def split: if_splits)
  then have "\<not> HasPrefix n systemdCredentialPrefix" by (simp add: Clean_not_systemd)
  with n show ?thesis by (simp add: NormalizeFileReference_def)
qed

theorem NormalizeFileReference_idempotent_witness:
  "NormalizeFileReference ascii_only_db ''/run//secrets/./a/../mac'' = Inr ''/run/secrets/mac'' \<and>
   NormalizeFileReference ascii_only_db ''/run/secrets/mac'' = Inr ''/run/secrets/mac''"
proof -
  have n: "NormalizeFileReference ascii_only_db ''/run//secrets/./a/../mac'' = Inr ''/run/secrets/mac''"
    by (simp add: NormalizeFileReference_def HasPrefix_def systemdCredentialPrefix_def Clean_def IsAbs_def)
  from NormalizeFileReference_idempotent [OF n] n show ?thesis by blast
qed

text \<open>
  A service credential cannot escape its directory: whatever accepted \<open>systemd:\<close>
  reference is resolved, the path is absolute and its elements are those of the credential
  directory followed by exactly the credential's name.
\<close>

theorem systemd_reference_confined:
  assumes "resolveCredentialFileReference db env (systemdCredentialPrefix @ name) = Inr path"
  shows "IsAbs path \<and>
    path_elems path = path_elems (Clean (ce_getenv env ''CREDENTIALS_DIRECTORY'')) @ [name]"
proof -
  let ?dir = "ce_getenv env ''CREDENTIALS_DIRECTORY''"
  have "validateSystemdCredentialName db name = None" and d: "IsAbs ?dir" "path = Join2 (Clean ?dir) name"
    using assms by (auto simp: resolveCredentialFileReference_def NormalizeFileReference_def Let_def
        split: option.splits if_splits)
  with validName_plain have "plain_elem name" "name \<noteq> ''..''" by blast+
  with d Join2_elem [OF d(1)] show ?thesis by simp
qed

definition demo_cred_env :: cred_env where
  "demo_cred_env = \<lparr>ce_linux = True, ce_goos = ''linux'', ce_keyring_tag = False,
     ce_getenv = (\<lambda>n. if n = ''CREDENTIALS_DIRECTORY'' then ''/run/credentials/fv'' else []),
     ce_cwd = Inr ''/'', ce_eval_symlinks = Inr,
     ce_open_stable = (\<lambda>_. Inr \<lparr>fh_stat_err = None, fh_regular = True, fh_size = 7,
        fh_fstype = Some tmpfsMagic, fh_read = Inr (''secret'' @ [CHR 0x0A])\<rparr>),
     ce_real_dir = (\<lambda>_. True), ce_fstype = (\<lambda>_. Some tmpfsMagic), ce_readdir = (\<lambda>_. Inr []),
     ce_is_device = (\<lambda>_. False), ce_security_tool = None, ce_kr_get = (\<lambda>_. Inl (ErrText [])),
     ce_kr_set = (\<lambda>_ _. None), ce_kr_delete = (\<lambda>_. None)\<rparr>"

lemma demo_cred_env_simps:
  "ce_linux demo_cred_env" "ce_getenv demo_cred_env ''CREDENTIALS_DIRECTORY'' = ''/run/credentials/fv''"
  "ce_open_stable demo_cred_env q = Inr \<lparr>fh_stat_err = None, fh_regular = True, fh_size = 7,
        fh_fstype = Some tmpfsMagic, fh_read = Inr (''secret'' @ [CHR 0x0A])\<rparr>"
  "ce_real_dir demo_cred_env q" "ce_fstype demo_cred_env q = Some tmpfsMagic"
  by (simp_all add: demo_cred_env_def)

lemma demo_resolve:
  "resolveCredentialFileReference ascii_only_db demo_cred_env (systemdCredentialPrefix @ ''mac'')
    = Inr ''/run/credentials/fv/mac''"
  by (simp add: resolveCredentialFileReference_def NormalizeFileReference_def HasPrefix_def
      systemdCredentialPrefix_def TrimPrefix_def validateSystemdCredentialName_def runes_def systemd_rune_def
      demo_cred_env_def Clean_def IsAbs_def Join2_def)

theorem systemd_reference_confined_witness:
  "path_elems ''/run/credentials/fv/mac'' = path_elems (Clean ''/run/credentials/fv'') @ [''mac'']"
  using systemd_reference_confined [OF demo_resolve] by (simp add: demo_cred_env_def)

section \<open>Containment\<close>

lemma strip_common_spec:
  "\<exists>c. as = c @ fst (strip_common as bs) \<and> bs = c @ snd (strip_common as bs)"
proof (induction as bs rule: strip_common.induct)
  case (1 a as b bs)
  show ?case
  proof (cases "a = b")
    case True
    with 1 obtain c where "as = c @ fst (strip_common as bs)" "bs = c @ snd (strip_common as bs)" by blast
    with True have "a # as = (a # c) @ fst (strip_common (a # as) (b # bs))"
      "b # bs = (a # c) @ snd (strip_common (a # as) (b # bs))" by simp_all
    then show ?thesis by blast
  qed simp
qed simp_all

lemma strip_common_prefix: "strip_common as (as @ ts) = ([], ts)"
  by (induction as) (cases ts; simp)+

lemma Join_not_dotdot:
  assumes "\<forall>t \<in> set ts. plain_elem t \<and> t \<noteq> ''..''" "ts \<noteq> []"
  shows "Join ts ''/'' \<noteq> ''..''" "Join ts ''/'' \<noteq> ''.''" "\<not> HasPrefix (Join ts ''/'') ''../''"
    "\<not> IsAbs (Join ts ''/'')"
proof -
  obtain t us where ts: "ts = t # us" using assms(2) by (cases ts) auto
  have sp: "Split1 (Join ts ''/'') slash = ts" using Split1_Join [of ts slash] assms by (simp add: plain_elem_def)
  show "Join ts ''/'' \<noteq> ''..''" using sp assms(1) ts by (cases "Join ts ''/'' = ''..''") auto
  show "Join ts ''/'' \<noteq> ''.''" using sp assms(1) ts by (cases "Join ts ''/'' = ''.''") (auto simp: plain_elem_def)
  show "\<not> HasPrefix (Join ts ''/'') ''../''"
  proof
    assume "HasPrefix (Join ts ''/'') ''../''"
    then obtain r where "Join ts ''/'' = ''../'' @ r" by (auto simp: HasPrefix_iff)
    with sp have "ts = ''..'' # Split1 r slash" by simp
    with assms(1) show False by simp
  qed
  show "\<not> IsAbs (Join ts ''/'')" using Join_head [of t us] assms(1) ts by simp
qed

lemma Join_dotdot:
  "HasPrefix (Join (''..'' # ts) ''/'') ''../'' \<or> Join (''..'' # ts) ''/'' = ''..''"
  by (cases ts) (simp_all add: HasPrefix_def)

lemma Rel_abs_within:
  assumes "IsAbs base" "IsAbs targ"
  shows "(Rel_abs base targ \<noteq> ''..'' \<and> Rel_abs base targ \<noteq> ''.'' \<and> \<not> IsAbs (Rel_abs base targ)
      \<and> \<not> HasPrefix (Rel_abs base targ) ''../'')
    \<longleftrightarrow> strict_prefix (path_elems (Clean base)) (path_elems (Clean targ))"
proof -
  let ?b = "path_elems (Clean base)" and ?t = "path_elems (Clean targ)"
  obtain bs ts where st: "strip_common ?b ?t = (bs, ts)" by (meson surj_pair)
  obtain c where c: "?b = c @ bs" "?t = c @ ts" using strip_common_spec [of ?b ?t] st by auto
  have plain: "\<forall>t \<in> set ts. plain_elem t \<and> t \<noteq> ''..''" using path_elems_Clean(2) [OF assms(2)] c(2) by auto
  have rel: "Rel_abs base targ = (if bs = [] \<and> ts = [] then ''.''
      else Join (replicate (length bs) ''..'' @ ts) ''/'')" by (simp add: Rel_abs_def st)
  show ?thesis
  proof (cases bs)
    case Nil
    then have "strict_prefix ?b ?t \<longleftrightarrow> ts \<noteq> []" using c by (auto simp: strict_prefix_def)
    then show ?thesis using rel Nil Join_not_dotdot [OF plain] by auto
  next
    case (Cons b bs')
    have "\<not> strict_prefix ?b ?t"
    proof
      assume "strict_prefix ?b ?t"
      then obtain us where "?t = ?b @ us" by (auto simp: strict_prefix_def prefix_def)
      then have "strip_common ?b ?t = ([], us)" using strip_common_prefix by simp
      with st Cons show False by simp
    qed
    moreover have "HasPrefix (Rel_abs base targ) ''../'' \<or> Rel_abs base targ = ''..''"
      using rel Cons Join_dotdot [of "replicate (length bs') ''..'' @ ts"] by simp
    ultimately show ?thesis by blast
  qed
qed

text \<open>
  C20. \<open>pathWithin\<close> decides strict containment: after links are resolved, the path lies
  below the base exactly when the base's elements are a proper prefix of the path's.
\<close>

theorem pathWithin_iff:
  assumes "resolved env base = Some b" "resolved env path = Some p" "IsAbs b" "IsAbs p"
  shows "pathWithin env base path \<longleftrightarrow> strict_prefix (path_elems (Clean b)) (path_elems (Clean p))"
  using assms Rel_abs_within [OF assms(3,4)] by (simp add: pathWithin_def Let_def)

theorem pathWithin_iff_witness:
  "pathWithin demo_cred_env ''/run/credentials/fv'' ''/run/credentials/fv/mac''"
proof -
  have "resolved demo_cred_env ''/run/credentials/fv'' = Some ''/run/credentials/fv''"
    "resolved demo_cred_env ''/run/credentials/fv/mac'' = Some ''/run/credentials/fv/mac''"
    "IsAbs ''/run/credentials/fv''" "IsAbs ''/run/credentials/fv/mac''"
    by (simp_all add: resolved_def Abs_def demo_cred_env_def Clean_def IsAbs_def HasPrefix_def)
  from pathWithin_iff [OF this] show ?thesis
    by (simp add: Clean_def path_elems_def IsAbs_def HasPrefix_def strict_prefix_def)
qed

section \<open>Release of a file credential\<close>

lemma assess_secure_memory:
  "raSecure (assessCredentialHandle env path h) \<Longrightarrow> ce_linux env \<and> memory_type (fh_fstype h)"
  by (auto simp: assessCredentialHandle_def platformSecureCredentialFile_def
      platformMemoryBackedCredentialFile_def Let_def split: option.splits if_splits)

text \<open>
  C19. Without the explicit opt-in a file credential is released only from verified
  memory-backed storage: the value comes from the opened, regular, size-limited file on a
  tmpfs or ramfs of a Linux host below the service's credential directory or
  \<open>/run/secrets\<close>, and it is never empty.
\<close>

theorem fileProvider_release:
  assumes "fileProvider_Get db env False reference = Inr value"
  shows "\<exists>path h content. resolveCredentialFileReference db env reference = Inr path \<and>
    ce_open_stable env (Clean path) = Inr h \<and> fh_regular h \<and> fh_size h \<le> maxCredentialFileSize \<and>
    ce_linux env \<and> memory_type (fh_fstype h) \<and>
    (pathWithin env (ce_getenv env ''CREDENTIALS_DIRECTORY'') (Clean path) \<or>
     pathWithin env ''/run/secrets'' (Clean path)) \<and>
    fh_read h = Inr content \<and> length content \<le> maxCredentialFileSize \<and>
    value \<noteq> [] \<and> prefix value content"
proof -
  from assms obtain path h content where p: "resolveCredentialFileReference db env reference = Inr path"
    and op: "openStableCredentialFile env path = Inr h"
    and sec: "raSecure (assessCredentialHandle env path h)"
    and rd: "fh_read h = Inr content"
    and len: "\<not> maxCredentialFileSize < length (take (maxCredentialFileSize + 1) content)"
    and v: "value \<noteq> []" "value = (if HasSuffix (take (maxCredentialFileSize + 1) content) [CHR 0x0D, CHR 0x0A]
        then TrimSuffix (take (maxCredentialFileSize + 1) content) [CHR 0x0D, CHR 0x0A]
        else TrimSuffix (take (maxCredentialFileSize + 1) content) [CHR 0x0A])"
    by (auto simp: fileProvider_Get_def Let_def split: sum.splits if_splits)
  have content: "length content \<le> maxCredentialFileSize" using len by simp
  then have "prefix value content" using v(2) by (auto simp: TrimSuffix_def take_is_prefix)
  moreover have "ce_open_stable env (Clean path) = Inr h" "fh_regular h" "fh_size h \<le> maxCredentialFileSize"
    using op by (auto simp: openStableCredentialFile_def Let_def split: sum.splits option.splits if_splits)
  moreover have "pathWithin env (ce_getenv env ''CREDENTIALS_DIRECTORY'') (Clean path) \<or>
     pathWithin env ''/run/secrets'' (Clean path)"
    using sec by (auto simp: assessCredentialHandle_def platformSecureCredentialFile_def Let_def
        split: option.splits if_splits)
  ultimately show ?thesis using p rd v(1) content assess_secure_memory [OF sec] by blast
qed

lemma demo_secret:
  "fileProvider_Get ascii_only_db demo_cred_env False (systemdCredentialPrefix @ ''mac'') = Inr ''secret''"
proof -
  have "pathWithin demo_cred_env ''/run/credentials/fv'' ''/run/credentials/fv/mac''"
    by (simp add: pathWithin_def resolved_def Abs_def demo_cred_env_def Clean_def IsAbs_def HasPrefix_def
        Rel_abs_def path_elems_def)
  then show ?thesis
    by (simp add: fileProvider_Get_def demo_resolve openStableCredentialFile_def Clean_def IsAbs_def
        HasPrefix_def maxCredentialFileSize_def assessCredentialHandle_def
        platformSecureCredentialDirectory_def platformMemoryBackedCredentialFile_def memory_type_def
        tmpfsMagic_def HasSuffix_def TrimSuffix_def demo_cred_env_simps Let_def)
qed

theorem fileProvider_release_witness:
  "\<exists>path h. resolveCredentialFileReference ascii_only_db demo_cred_env (systemdCredentialPrefix @ ''mac'') = Inr path
     \<and> ce_open_stable demo_cred_env (Clean path) = Inr h
     \<and> memory_type (fh_fstype h) \<and> fileProvider_Get ascii_only_db demo_cred_env False
       (systemdCredentialPrefix @ ''mac'') = Inr ''secret''"
  using fileProvider_release [OF demo_secret] demo_secret by blast

section \<open>Environment names\<close>

definition env_char :: "char \<Rightarrow> bool" where
  "env_char c \<longleftrightarrow> (65 \<le> byte c \<and> byte c \<le> 90) \<or> (48 \<le> byte c \<and> byte c \<le> 57) \<or> byte c = 95"

lemma env_rune_char: "list_all env_char (env_rune r)"
  by (auto simp: env_rune_def encode_rune_ascii env_char_def)

text \<open>
  C21. The name of a credential's environment variable is a portable identifier for every
  device name: the fixed prefix followed only by capital letters, digits and underscores.
\<close>

theorem EnvName_portable:
  "HasPrefix (EnvName db name) ''FV_UNLOCK_PASSWORD_'' \<and> list_all env_char (EnvName db name)"
proof -
  have "list_all env_char (concat (map env_rune rs))" for rs
    by (induction rs) (simp_all add: env_rune_char)
  moreover have "list_all env_char ''FV_UNLOCK_PASSWORD_''" by (simp add: env_char_def)
  ultimately show ?thesis by (simp add: EnvName_def Let_def HasPrefix_def)
qed

section \<open>Reports\<close>

text \<open>
  The provider report has one entry per provider in the documented order, whatever
  order the registry's map is iterated in, and secure storage is reported exactly when the
  keyring is usable or secure file delivery was detected.
\<close>

theorem Reports_stable:
  assumes "mset r = mset (NewRegistry allowUnsafe)"
  shows "Reports env r = [keyringProviderReport env, provider_Report env (FileProvider allowUnsafe),
      provider_Report env RuntimeProvider, tpm2ProviderReport env] \<and>
    (HasSecureStorage env r \<longleftrightarrow> rpAvailable (keyringProviderReport env) \<or> fst (detectedSecureFileDelivery env))"
proof -
  let ?f = "\<lambda>(_ :: string, p). provider_Report env p"
  have reg: "NewRegistry allowUnsafe = [(ProviderRuntime, RuntimeProvider), (ProviderKeyring, KeyringProvider),
      (ProviderFile, FileProvider allowUnsafe)]"
    by (simp add: NewRegistry_def provider_names)
  have kn: "rpName (keyringProviderReport env) = ProviderKeyring"
    by (simp add: keyringProviderReport_def Let_def split: option.split)
  have fn: "rpName (provider_Report env (FileProvider allowUnsafe)) = ProviderFile"
    by (simp split: prod.split)
  have tn: "rpName (tpm2ProviderReport env) = ProviderTPM2" by (simp add: tpm2ProviderReport_def)
  have ord: "report_order ProviderKeyring = 0" "report_order ProviderFile = 1"
    "report_order ProviderRuntime = 2" "report_order ProviderTPM2 = 3"
    by (simp_all add: report_order_def provider_names)
  let ?out = "[keyringProviderReport env, provider_Report env (FileProvider allowUnsafe),
      provider_Report env RuntimeProvider, tpm2ProviderReport env]"
  have "mset (map ?f r) = mset (map ?f (NewRegistry allowUnsafe))" using assms by simp
  then have ms: "mset (map ?f r @ [tpm2ProviderReport env]) = mset ?out" by (simp add: reg)
  have srt: "sorted (map (\<lambda>rep. report_order (rpName rep)) ?out)"
    and dist: "distinct (map (\<lambda>rep. report_order (rpName rep)) ?out)"
    using kn fn tn ord by (simp_all del: provider_Report.simps(3))
  have "Reports env r = sort_key (\<lambda>rep. report_order (rpName rep)) ?out"
    unfolding Reports_def by (rule sort_key_unique [symmetric]) (use ms dist in \<open>simp_all only:\<close>)
  also have "\<dots> = ?out" using srt by (rule sort_key_id_if_sorted)
  finally have rep: "Reports env r = ?out" .
  have ks: "rpSecureStorage (keyringProviderReport env) = rpAvailable (keyringProviderReport env)"
    "rpPersistent (keyringProviderReport env)"
    by (simp_all add: keyringProviderReport_def Let_def split: option.split)
  show ?thesis unfolding HasSecureStorage_def rep
    using ks by (simp add: tpm2ProviderReport_def split: prod.split)
qed

theorem Reports_stable_witness:
  "Reports demo_cred_env [(ProviderFile, FileProvider False), (ProviderRuntime, RuntimeProvider),
      (ProviderKeyring, KeyringProvider)] = Reports demo_cred_env (NewRegistry False)"
proof -
  have "mset [(ProviderFile, FileProvider False), (ProviderRuntime, RuntimeProvider),
      (ProviderKeyring, KeyringProvider)] = mset (NewRegistry False)"
    by (simp add: NewRegistry_def provider_names)
  from Reports_stable [OF this, of demo_cred_env] Reports_stable [OF refl, of demo_cred_env False] show ?thesis
    by simp
qed

end
