(* ===== verification/Config_Facts.thy ===== *)
theory Config_Facts
  imports Config
begin

text \<open>
  What the device configuration guarantees: the meaning of an accepted inventory, the
  transaction discipline of the store, and what each update does to the inventory.
\<close>

section \<open>Inventories\<close>

abbreviation env_of :: "unicode_db \<Rightarrow> cdevice \<Rightarrow> string" where
  "env_of db d \<equiv> EnvName db (credential_id d)"

lemma validate_from_None:
  "validate_from db all i names envNames ds = None \<longleftrightarrow>
     (\<forall>d \<in> set ds. ValidateDevice db d = None) \<and>
     distinct (map cName ds) \<and> set (map cName ds) \<inter> set (map_keys names) = {} \<and>
     distinct (map (env_of db) ds) \<and> set (map (env_of db) ds) \<inter> set (map_keys envNames) = {}"
proof (induction db all i names envNames ds rule: validate_from.induct)
  case (2 db all i names envNames d ds)
  show ?case
  proof (cases "ValidateDevice db d = None \<and> map_of names (cName d) = None
      \<and> map_of envNames (env_of db d) = None")
    case True
    then have n: "cName d \<notin> set (map_keys names)" "env_of db d \<notin> set (map_keys envNames)"
      unfolding map_of_None_notin by blast+
    have "validate_from db all i names envNames (d # ds) = None \<longleftrightarrow>
        validate_from db all (Suc i) (AList.update (cName d) i names) (AList.update (env_of db d) i envNames) ds = None"
      using True by (simp add: Let_def)
    also have "\<dots> \<longleftrightarrow> (\<forall>x \<in> set ds. ValidateDevice db x = None) \<and>
        distinct (map cName ds) \<and> set (map cName ds) \<inter> insert (cName d) (set (map_keys names)) = {} \<and>
        distinct (map (env_of db) ds) \<and>
        set (map (env_of db) ds) \<inter> insert (env_of db d) (set (map_keys envNames)) = {}"
      using 2 [OF _ _ refl] True by (simp only: set_keys_update simp_thms)
    finally show ?thesis using True n by auto
  next
    case False
    then have "validate_from db all i names envNames (d # ds) \<noteq> None"
      by (auto simp: Let_def split: option.split)
    moreover have "ValidateDevice db d \<noteq> None \<or> cName d \<in> set (map_keys names)
        \<or> env_of db d \<in> set (map_keys envNames)"
      using False by (auto simp: map_of_eq_None_iff)
    ultimately show ?thesis by auto
  qed
qed simp

text \<open>
  An inventory is accepted exactly when every device is valid, no two devices share a
  name, and no two devices share a credential environment variable, so a password meant for one
  device can never be read for another.
\<close>

theorem validateDevices_iff:
  "validateDevices db devs = None \<longleftrightarrow>
     (\<forall>d \<in> set devs. ValidateDevice db d = None) \<and> distinct (map cName devs) \<and>
     distinct (map (\<lambda>d. EnvName db (credential_id d)) devs)"
  by (simp add: validateDevices_def validate_from_None)

lemma validateDevices_iff_names: "validateDevices db devs = None \<Longrightarrow> distinct (map cName devs)"
  by (simp add: validateDevices_def validate_from_None)

definition demo_cdevice :: "string \<Rightarrow> cdevice" where
  "demo_cdevice name = \<lparr>cName = name, cHost = ''10.0.0.9'', cUser = ''admin'', cPort = 22, cCred = [],
     cCredentialSource = ''file'', cCredentialRef = ''systemd:mac'', cSuccessMessage = [],
     cMACAddress = [], cAutoUnlock = True\<rparr>"

lemma demo_cdevice_valid:
  "ValidateDevice ascii_only_db (demo_cdevice ''office-mac'') = None"
  "ValidateDevice ascii_only_db (demo_cdevice ''office_mac'') = None"
  by (simp_all add: ValidateDevice_def validatePlain_def demo_cdevice_def TrimSpace_def is_space_def runes_def
      ascii_only_db_def is_control_def HasPrefix_def effective_source_def provider_names
      NormalizeFileReference_def systemdCredentialPrefix_def TrimPrefix_def validateSystemdCredentialName_def
      systemd_rune_def)

theorem validateDevices_iff_witness:
  "validateDevices ascii_only_db [demo_cdevice ''office-mac'', demo_cdevice ''office_mac''] \<noteq> None"
proof -
  have low: "ToLower ascii_only_db ''fvu-office-mac'' = ''fvu-office-mac''"
    "ToLower ascii_only_db ''fvu-office_mac'' = ''fvu-office_mac''"
    by (simp_all add: ToLower_ascii lower_char_id)
  have up: "uc_upper ascii_only_db = ascii_upper" by (simp add: ascii_only_db_def)
  have "EnvName ascii_only_db (credential_id (demo_cdevice ''office-mac''))
      = EnvName ascii_only_db (credential_id (demo_cdevice ''office_mac''))"
    using low by (simp add: EnvName_def credential_id_def demo_cdevice_def ID_def ToUpper_def runes_def
        TrimPrefix_def HasPrefix_def encode_runes_def encode_rune_ascii up
        ascii_upper_def env_rune_def char_of_def)
  then show ?thesis
    using validateDevices_iff [of ascii_only_db "[demo_cdevice ''office-mac'', demo_cdevice ''office_mac'']"]
    by simp
qed

lemma ValidateDevice_auto:
  "ValidateDevice db d = None \<Longrightarrow> cAutoUnlock d \<Longrightarrow> effective_source d \<noteq> ProviderRuntime"
  by (simp only: ValidateDevice_def first_err_None split: if_splits) simp_all

lemma Store_Load_valid: "Store_Load db env = Inr devs \<Longrightarrow> validateDevices db devs = None"
  by (auto simp: Store_Load_def validateDevices_def split: sum.splits prod.splits if_splits option.splits)

section \<open>Transactions\<close>

text \<open>
  C28. The transaction discipline of the configuration: external state (a keyring entry) is
  prepared only after the lock was taken, the current file was read and the new inventory was
  validated; a refused change writes nothing; and every inventory that is written is valid.
\<close>

theorem mutate_discipline:
  "let out = mutate db env modify prepare in
     (coPrepared out \<or> coWritten out \<noteq> None \<longrightarrow>
        cf_lock env = None \<and> (\<exists>devs next_devs. Store_Load db env = Inr devs \<and> modify devs = Inr next_devs
          \<and> validateDevices db next_devs = None
          \<and> (\<forall>b. coWritten out = Some b \<longrightarrow> cf_encode env next_devs = Inr b \<and> length b \<le> maxConfigSize))) \<and>
     (coPrepared out \<longrightarrow> prepare \<noteq> None) \<and>
     (coErr out = None \<longrightarrow> coWritten out \<noteq> None \<or>
        (\<exists>devs err. Store_Load db env = Inr devs \<and> modify devs = Inl err \<and> err_is err ErrNoMutation))"
  by (auto simp: mutate_def save_def Let_def split: option.splits sum.splits if_splits prod.splits)

definition demo_config_env :: config_env where
  "demo_config_env = \<lparr>cf_lock = None, cf_read = Inr ''[]'',
     cf_decode = (\<lambda>_. Inr ([demo_cdevice ''office-mac''], AtEOF)),
     cf_encode = (\<lambda>devs. Inr (concat (map cName devs))), cf_write = (\<lambda>_. None)\<rparr>"

lemma demo_config_env_simps:
  "cf_lock demo_config_env = None" "cf_encode demo_config_env devs = Inr (concat (map cName devs))"
  "cf_write demo_config_env b = None" "cName (demo_cdevice n) = n"
  by (simp_all add: demo_config_env_def demo_cdevice_def)

lemma demo_config_load:
  "Store_Load ascii_only_db demo_config_env = Inr [demo_cdevice ''office-mac'']"
proof -
  have "validateDevices ascii_only_db [demo_cdevice ''office-mac''] = None"
    by (simp add: validateDevices_def validate_from_None demo_cdevice_valid)
  then show ?thesis by (simp add: Store_Load_def demo_config_env_def)
qed

theorem mutate_discipline_witness:
  "let out = mutate ascii_only_db demo_config_env (remove_fn ''office-mac'') None in
     coErr out = None \<and> coWritten out = Some [] \<and> \<not> coPrepared out"
proof -
  let ?out = "mutate ascii_only_db demo_config_env (remove_fn ''office-mac'') None"
  have "coErr ?out = None" "coWritten ?out = Some []"
    by (simp_all add: mutate_def demo_config_load remove_fn_def validateDevices_def save_def
        demo_config_env_simps maxConfigSize_def)
  moreover from mutate_discipline [of ascii_only_db demo_config_env "remove_fn ''office-mac''" None]
  have "\<not> coPrepared ?out" by (auto simp: Let_def)
  ultimately show ?thesis by (simp add: Let_def)
qed

text \<open>A transaction that succeeds, as the other operations see it.\<close>

lemma mutate_cases:
  assumes "coErr (mutate db env modify prepare) = None"
    "\<And>devs err. modify devs = Inl err \<Longrightarrow> \<not> err_is err ErrNoMutation"
  obtains devs next_devs b where "Store_Load db env = Inr devs" "modify devs = Inr next_devs"
    "validateDevices db next_devs = None" "cf_encode env next_devs = Inr b"
    "coWritten (mutate db env modify prepare) = Some b"
  using assms
  by (auto simp: mutate_def save_def split: option.splits sum.splits if_splits prod.splits)

lemma distinct_head: "distinct (map f (x # xs)) \<Longrightarrow> \<forall>y \<in> set xs. f y \<noteq> f x"
  by (simp add: image_iff) metis

lemma replace_first_map:
  "distinct (map cName devs) \<Longrightarrow> replace_first d devs = Some devs' \<Longrightarrow>
    devs' = map (\<lambda>x. if cName x = cName d then d else x) devs"
proof (induction devs arbitrary: devs')
  case (Cons x xs)
  show ?case
  proof (cases "cName x = cName d")
    case True
    then have "\<forall>y \<in> set xs. cName y \<noteq> cName d" using distinct_head [OF Cons.prems(1)] by simp
    then have "map (\<lambda>x. if cName x = cName d then d else x) xs = xs" by (intro map_idI) auto
    with True Cons.prems show ?thesis by simp
  next
    case False
    with Cons show ?thesis by auto
  qed
qed simp

lemma remove_if_unchanged_spec:
  "remove_if_unchanged_fn expected devs = Inr rest \<Longrightarrow> distinct (map cName devs) \<Longrightarrow>
    expected \<in> set devs \<and> rest = filter (\<lambda>d. cName d \<noteq> cName expected) devs"
proof (induction devs arbitrary: rest)
  case (Cons x xs)
  show ?case
  proof (cases "cName x = cName expected")
    case True
    then have "\<forall>y \<in> set xs. cName y \<noteq> cName expected" using distinct_head [OF Cons.prems(2)] by simp
    then have "filter (\<lambda>d. cName d \<noteq> cName expected) xs = xs" by (simp add: filter_id_conv)
    with True Cons.prems show ?thesis by (auto split: if_splits)
  next
    case False
    with Cons show ?thesis by (auto split: sum.splits)
  qed
qed simp

lemma remove_if_unchanged_err:
  "remove_if_unchanged_fn expected devs = Inl err \<Longrightarrow>
    (\<forall>d \<in> set devs. cName d \<noteq> cName expected) \<or> \<not> err_is err ErrNoMutation"
  by (induction devs) (auto split: sum.splits if_splits)

text \<open>
  What a successful update leaves in the file, for the inventory read under the lock: an
  addition appends a new name at the end, an update replaces the one device of that name in
  place, a removal deletes that device and keeps all others in order, and a conditional
  rollback removes the device only when it is still exactly the one that was added.
\<close>

theorem config_updates:
  assumes "Store_Load db env = Inr devs"
  shows "(coErr (addPrepared db env d prepare) = None \<longrightarrow> cName d \<notin> cName ` set devs \<and>
       coWritten (addPrepared db env d prepare) = (case cf_encode env (devs @ [d]) of Inl _ \<Rightarrow> None | Inr b \<Rightarrow> Some b)) \<and>
    (coErr (Update db env d) = None \<longrightarrow> coWritten (Update db env d)
       = (case cf_encode env (map (\<lambda>x. if cName x = cName d then d else x) devs) of Inl _ \<Rightarrow> None | Inr b \<Rightarrow> Some b)) \<and>
    (coErr (Remove db env name) = None \<longrightarrow> name \<in> cName ` set devs \<and>
       coWritten (Remove db env name)
         = (case cf_encode env (filter (\<lambda>x. cName x \<noteq> name) devs) of Inl _ \<Rightarrow> None | Inr b \<Rightarrow> Some b)) \<and>
    (coErr (RemoveIfUnchangedContext db env d) = None \<longrightarrow>
       cName d \<notin> cName ` set devs \<and> coWritten (RemoveIfUnchangedContext db env d) = None \<or>
       d \<in> set devs \<and> coWritten (RemoveIfUnchangedContext db env d)
         = (case cf_encode env (filter (\<lambda>x. cName x \<noteq> cName d) devs) of Inl _ \<Rightarrow> None | Inr b \<Rightarrow> Some b))"
proof (intro conjI impI)
  have dist: "distinct (map cName devs)"
    using Store_Load_valid [OF assms] by (simp add: validateDevices_iff_names)
  {
    assume "coErr (addPrepared db env d prepare) = None"
    then show "cName d \<notin> cName ` set devs"
      "coWritten (addPrepared db env d prepare) = (case cf_encode env (devs @ [d]) of Inl _ \<Rightarrow> None | Inr b \<Rightarrow> Some b)"
      unfolding addPrepared_def
      by (rule mutate_cases; use assms in \<open>auto simp: add_device_fn_def list_ex_iff split: if_splits\<close>)+
  next
    assume "coErr (Update db env d) = None"
    then have u: "coErr (mutate db env (\<lambda>devs. case replace_first d devs of
            None \<Rightarrow> Inl (ErrText (''device not found: '' @ cName d)) | Some devs' \<Rightarrow> Inr devs') None) = None"
      and e: "Update db env d = mutate db env (\<lambda>devs. case replace_first d devs of
            None \<Rightarrow> Inl (ErrText (''device not found: '' @ cName d)) | Some devs' \<Rightarrow> Inr devs') None"
      by (auto simp: Update_def split: option.splits)
    show "coWritten (Update db env d) = (case cf_encode env (map (\<lambda>x. if cName x = cName d then d else x) devs)
        of Inl _ \<Rightarrow> None | Inr b \<Rightarrow> Some b)"
      by (rule mutate_cases [OF u]; use assms e replace_first_map [OF dist] in \<open>auto split: option.splits\<close>)
  next
    assume "coErr (Remove db env name) = None"
    then show "name \<in> cName ` set devs" "coWritten (Remove db env name)
         = (case cf_encode env (filter (\<lambda>x. cName x \<noteq> name) devs) of Inl _ \<Rightarrow> None | Inr b \<Rightarrow> Some b)"
      unfolding Remove_def
      by (rule mutate_cases; use assms in \<open>auto simp: remove_fn_def list_ex_iff split: if_splits\<close>)+
  next
    assume ok: "coErr (RemoveIfUnchangedContext db env d) = None"
    show "cName d \<notin> cName ` set devs \<and> coWritten (RemoveIfUnchangedContext db env d) = None \<or>
       d \<in> set devs \<and> coWritten (RemoveIfUnchangedContext db env d)
         = (case cf_encode env (filter (\<lambda>x. cName x \<noteq> cName d) devs) of Inl _ \<Rightarrow> None | Inr b \<Rightarrow> Some b)"
    proof (cases "remove_if_unchanged_fn d devs")
      case (Inl err)
      with ok assms have "err_is err ErrNoMutation"
        by (auto simp: RemoveIfUnchangedContext_def mutate_def split: option.splits if_splits)
      with remove_if_unchanged_err [OF Inl] ok assms Inl show ?thesis
        by (auto simp: RemoveIfUnchangedContext_def mutate_def split: option.splits if_splits)
    next
      case (Inr rest)
      with remove_if_unchanged_spec [OF Inr dist] ok assms show ?thesis
        by (auto simp: RemoveIfUnchangedContext_def mutate_def save_def
            split: option.splits if_splits sum.splits)
    qed
  }
qed

theorem config_updates_witness:
  "coErr (Remove ascii_only_db demo_config_env ''office-mac'') = None \<and>
     coWritten (Remove ascii_only_db demo_config_env ''office-mac'') = Some []"
proof -
  have "coErr (Remove ascii_only_db demo_config_env ''office-mac'') = None"
    by (simp add: Remove_def mutate_def demo_config_load remove_fn_def validateDevices_def save_def
        demo_config_env_simps maxConfigSize_def)
  then show ?thesis
    using config_updates [OF demo_config_load, of "demo_cdevice ''office-mac''" None "''office-mac''"]
    by (auto simp: demo_config_env_def demo_cdevice_def)
qed

text \<open>
  Saving and loading an inventory round-trips: if the codec decodes what it encoded, the
  content a successful \<open>Save\<close> wrote loads as exactly the saved devices.
\<close>

theorem config_round_trip:
  assumes "coErr (Store_Save db env devs) = None" "coWritten (Store_Save db env devs) = Some content"
    "cf_encode env devs = Inr content \<Longrightarrow> cf_decode env content = Inr (devs, AtEOF)"
  shows "Store_Load db (env\<lparr>cf_read := Inr content\<rparr>) = Inr devs"
proof -
  have "validateDevices db devs = None" "cf_encode env devs = Inr content"
    using assms(1,2) by (auto simp: Store_Save_def save_def split: option.splits sum.splits if_splits)
  with assms(3) show ?thesis by (simp add: Store_Load_def)
qed

theorem config_round_trip_witness:
  "Store_Load ascii_only_db (demo_config_env\<lparr>cf_read := Inr ''office-mac''\<rparr>) = Inr [demo_cdevice ''office-mac'']"
proof -
  have v: "validateDevices ascii_only_db [demo_cdevice ''office-mac''] = None"
    by (simp add: validateDevices_def validate_from_None demo_cdevice_valid)
  have "coErr (Store_Save ascii_only_db demo_config_env [demo_cdevice ''office-mac'']) = None"
    "coWritten (Store_Save ascii_only_db demo_config_env [demo_cdevice ''office-mac'']) = Some ''office-mac''"
    using v by (simp_all add: Store_Save_def save_def demo_config_env_simps maxConfigSize_def)
  from config_round_trip [OF this] show ?thesis by (simp add: demo_config_env_def)
qed

end
