(* ===== verification/Cli_Facts.thy ===== *)
theory Cli_Facts
  imports Cli Config_Facts Fvcore_Facts
begin

text \<open>
  What the command line guarantees: nothing it prints can carry a control sequence, selecting
  devices is all or nothing, the retry machine is bounded and honest, and the inventory
  comparison says \<open>unchanged\<close> exactly when nothing changes.
\<close>

section \<open>Terminal output\<close>

lemma hex_digit_upper: "32 \<le> byte (hex_digit hex_upper n) \<and> byte (hex_digit hex_upper n) < 127"
proof -
  have "length hex_upper = 16" by (simp add: hex_upper_def)
  then have "hex_digit hex_upper n \<in> set hex_upper" unfolding hex_digit_def by (intro nth_mem) simp
  moreover have "\<forall>c \<in> set hex_upper. 32 \<le> byte c \<and> byte c < 127" by (simp add: hex_upper_def)
  ultimately show ?thesis by blast
qed

lemma ascii_printable: "ascii_db db \<Longrightarrow> 32 \<le> r \<Longrightarrow> r < 127 \<Longrightarrow> \<not> uc_other db r"
  by (auto simp: ascii_db_def)

definition safe_text :: "unicode_db \<Rightarrow> bool \<Rightarrow> string \<Rightarrow> bool" where
  "safe_text db multiline s \<longleftrightarrow> (\<exists>rs. s = encode_runes rs \<and> (\<forall>r \<in> set rs. valid_rune r \<and>
     (\<not> uc_other db r \<or> multiline \<and> (r = 10 \<or> r = 9))))"

lemma safe_text_append: "safe_text db m s \<Longrightarrow> safe_text db m t \<Longrightarrow> safe_text db m (s @ t)"
proof -
  assume "safe_text db m s" "safe_text db m t"
  then obtain rs qs where "s = encode_runes rs" "t = encode_runes qs"
    "\<forall>r \<in> set (rs @ qs). valid_rune r \<and> (\<not> uc_other db r \<or> m \<and> (r = 10 \<or> r = 9))"
    by (auto simp: safe_text_def)
  moreover from this have "s @ t = encode_runes (rs @ qs)" by (simp add: encode_runes_def)
  ultimately show ?thesis unfolding safe_text_def by blast
qed

lemma safe_text_Nil: "safe_text db m []"
  by (simp add: safe_text_def encode_runes_def exI [of _ "[]"])

lemma safe_text_rune:
  "valid_rune r \<Longrightarrow> \<not> uc_other db r \<or> m \<and> (r = 10 \<or> r = 9) \<Longrightarrow> safe_text db m (encode_rune r)"
  unfolding safe_text_def by (rule exI [of _ "[r]"]) (simp add: encode_runes_def)

lemma safe_text_printable:
  "ascii_db db \<Longrightarrow> 32 \<le> byte c \<Longrightarrow> byte c < 127 \<Longrightarrow> safe_text db m [c]"
  using safe_text_rune [of "byte c" db m] ascii_printable [of db "byte c"]
  by (simp add: valid_rune_def)

lemma safe_text_hex: "ascii_db db \<Longrightarrow> safe_text db m (hex_pad hex_upper w n)"
proof (induction w arbitrary: n)
  case (Suc w)
  then show ?case using hex_digit_upper [of n] by (auto intro!: safe_text_append safe_text_printable)
qed (simp add: safe_text_Nil)

lemma safe_text_Cons: "safe_text db m [c] \<Longrightarrow> safe_text db m s \<Longrightarrow> safe_text db m (c # s)"
  using safe_text_append [of db m "[c]" s] by simp

lemma terminal_rune_safe:
  assumes "ascii_db db" "valid_rune r"
  shows "safe_text db m (terminal_rune db m r)"
proof -
  have b: "safe_text db m [backslash]" "safe_text db m [CHR ''u'']" "safe_text db m [CHR ''U'']"
    using assms(1) by (auto intro!: safe_text_printable simp: backslash_def)
  show ?thesis using assms b
    by (auto simp: terminal_rune_def intro!: safe_text_rune safe_text_Cons safe_text_hex)
qed

lemma terminalSafe_safe: "ascii_db db \<Longrightarrow> safe_text db m (terminalSafe db s m)"
proof -
  assume db: "ascii_db db"
  have "\<forall>r \<in> set rs. valid_rune r \<Longrightarrow> safe_text db m (concat (map (terminal_rune db m) rs))" for rs
    by (induction rs) (simp_all add: safe_text_Nil safe_text_append terminal_rune_safe db)
  then show ?thesis by (auto simp: terminalSafe_def Let_def runes_valid)
qed

text \<open>
  C35. Network-controlled text cannot drive the terminal: whatever bytes an SSH banner, a
  discovered name or an error contains, the runes of the inline form are all outside Unicode
  category C, and those of the multi-line form are too except for tab and newline.
\<close>

theorem terminal_output_safe:
  assumes "ascii_db db"
  shows "list_all (\<lambda>r. \<not> uc_other db r) (runes (terminalSafeInline db s)) \<and>
    list_all (\<lambda>r. uc_other db r \<longrightarrow> r = 10 \<or> r = 9) (runes (terminalSafeMultiline db s))"
proof -
  have "list_all (\<lambda>r. uc_other db r \<longrightarrow> m \<and> (r = 10 \<or> r = 9)) (runes t)" if "safe_text db m t" for m t
  proof -
    from that obtain rs where "t = encode_runes rs"
      "\<forall>r \<in> set rs. valid_rune r \<and> (\<not> uc_other db r \<or> m \<and> (r = 10 \<or> r = 9))"
      by (auto simp: safe_text_def)
    then show ?thesis by (auto simp: runes_encode_runes list_all_iff)
  qed
  from this [OF terminalSafe_safe [OF assms, of False]] this [OF terminalSafe_safe [OF assms, of True]]
  show ?thesis by (simp add: terminalSafeInline_def terminalSafeMultiline_def Let_def)
qed

theorem terminal_output_safe_witness:
  "list_all (\<lambda>r. \<not> uc_other ascii_only_db r)
     (runes (terminalSafeInline ascii_only_db [CHR 0x1B, CHR ''['', CHR ''2'', CHR ''J'', CHR 0x0A]))"
  using terminal_output_safe [OF ascii_only_db_ascii] by blast

section \<open>Selection\<close>

lemma by_name_lookup: "distinct (map cName ds) \<Longrightarrow> map_of (by_name ds) n = List.find (\<lambda>d. cName d = n) ds"
proof -
  have "distinct (map cName ds) \<Longrightarrow> map_of (fold (\<lambda>d m. AList.update (cName d) d m) ds m) n
      = (case List.find (\<lambda>d. cName d = n) ds of Some d \<Rightarrow> Some d | None \<Rightarrow> map_of m n)" for m
  proof (induction ds arbitrary: m)
    case (Cons x xs)
    have "cName x = n \<Longrightarrow> List.find (\<lambda>d. cName d = n) xs = None"
      using distinct_head [OF Cons.prems] by (auto simp: find_None_iff)
    with Cons show ?case by (auto simp: update_conv' split: option.splits)
  qed simp
  from this [of "[]"] show "distinct (map cName ds) \<Longrightarrow> ?thesis" by (simp add: by_name_def split: option.split)
qed

lemma by_name_mem:
  assumes "distinct (map cName ds)"
  shows "map_of (by_name ds) n = Some d \<longleftrightarrow> d \<in> set ds \<and> cName d = n"
proof (cases "List.find (\<lambda>d. cName d = n) ds")
  case None
  moreover from this have "\<forall>x \<in> set ds. cName x \<noteq> n" by (auto simp: find_None_iff)
  ultimately show ?thesis by (auto simp: by_name_lookup [OF assms])
next
  case (Some e)
  have inj: "inj_on cName (set ds)" using assms by (simp add: distinct_map)
  have e: "e \<in> set ds" "cName e = n" using Some by (auto simp: find_Some_iff)
  have "d \<in> set ds \<Longrightarrow> cName d = n \<Longrightarrow> d = e" using inj_onD [OF inj, of d e] e by simp
  with e show ?thesis by (auto simp: by_name_lookup [OF assms] Some)
qed

lemma by_name_None:
  assumes "distinct (map cName ds)"
  shows "map_of (by_name ds) n = None \<longleftrightarrow> n \<notin> cName ` set ds"
  by (auto simp: by_name_lookup [OF assms] find_None_iff)

lemma select_from_spec:
  assumes "distinct (map cName ds)"
  shows "select_from db (by_name ds) seen names = Inr sel \<longleftrightarrow>
    distinct names \<and> set names \<inter> set seen = {} \<and> set sel \<subseteq> set ds \<and> map cName sel = names"
proof (induction names arbitrary: seen sel)
  case (Cons n ns)
  show ?case
  proof (cases "map_of (by_name ds) n")
    case None
    then have "n \<notin> cName ` set ds" using by_name_None [OF assms] by simp
    then have "\<not> (set sel \<subseteq> set ds \<and> map cName sel = n # ns)" by (cases sel) auto
    with None show ?thesis by auto
  next
    case (Some d)
    then have d: "d \<in> set ds" "cName d = n" using by_name_mem [OF assms] by auto
    have u: "e \<in> set ds \<Longrightarrow> cName e = n \<Longrightarrow> e = d" for e using by_name_mem [OF assms, of n e] Some by simp
    have step: "select_from db (by_name ds) seen (n # ns) = Inr sel \<longleftrightarrow>
        n \<notin> set seen \<and> (\<exists>sel'. sel = d # sel' \<and> select_from db (by_name ds) (n # seen) ns = Inr sel')"
      using Some by (cases "select_from db (by_name ds) (n # seen) ns") auto
    have sel: "set sel \<subseteq> set ds \<and> map cName sel = n # ns \<longleftrightarrow>
        (\<exists>sel'. sel = d # sel' \<and> set sel' \<subseteq> set ds \<and> map cName sel' = ns)"
    proof (cases sel)
      case (Cons e sel')
      then show ?thesis using d u [of e] by auto
    qed simp
    have names: "n \<notin> set seen \<and> distinct ns \<and> set ns \<inter> set (n # seen) = {} \<longleftrightarrow>
        distinct (n # ns) \<and> set (n # ns) \<inter> set seen = {}" by auto
    have pull: "(\<exists>x. Q x \<and> A \<and> B \<and> C x \<and> D x) \<longleftrightarrow> A \<and> B \<and> (\<exists>x. Q x \<and> C x \<and> D x)"
      for A B and Q C D :: "cdevice list \<Rightarrow> bool" by blast
    have "select_from db (by_name ds) seen (n # ns) = Inr sel \<longleftrightarrow>
        n \<notin> set seen \<and> distinct ns \<and> set ns \<inter> set (n # seen) = {} \<and>
        (set sel \<subseteq> set ds \<and> map cName sel = n # ns)"
      unfolding step Cons.IH pull sel ..
    then show ?thesis using names by argo
  qed
qed auto

text \<open>
  Selecting devices by name is all or nothing: it succeeds exactly when every name is
  configured and none is repeated, and then returns the configured devices in the order asked.
\<close>

theorem selectConfiguredDevices_iff:
  assumes "validateDevices db devices = None"
  shows "selectConfiguredDevices db devices names = Inr sel \<longleftrightarrow>
    distinct names \<and> set sel \<subseteq> set devices \<and> map cName sel = names"
  using assms by (simp add: selectConfiguredDevices_def select_from_spec validateDevices_iff_names)

theorem selectConfiguredDevices_iff_witness:
  "selectConfiguredDevices ascii_only_db [demo_cdevice ''office-mac''] [''office-mac'']
     = Inr [demo_cdevice ''office-mac'']"
proof -
  have "validateDevices ascii_only_db [demo_cdevice ''office-mac''] = None"
    by (simp add: validateDevices_def validate_from_None demo_cdevice_valid)
  from selectConfiguredDevices_iff [OF this] show ?thesis by (simp add: demo_cdevice_def)
qed

section \<open>Comparing inventories\<close>

text \<open>
  The report of \<open>config apply\<close> is exact for valid inventories: the three sorted lists are
  the names only wanted, wanted with other settings, and only present; and it reports no change
  exactly when both inventories hold the same devices.
\<close>

theorem compareDeviceInventories_exact:
  assumes "validateDevices db current = None" "validateDevices db desired = None"
  shows "let r = compareDeviceInventories current desired in
    set (arAdded r) = cName ` set desired - cName ` set current \<and>
    set (arUpdated r) = {cName d |d. d \<in> set desired \<and> d \<notin> set current \<and> cName d \<in> cName ` set current} \<and>
    set (arRemoved r) = cName ` set current - cName ` set desired \<and>
    sorted (arAdded r) \<and> sorted (arUpdated r) \<and> sorted (arRemoved r) \<and>
    (\<not> arChanged r \<longleftrightarrow> set current = set desired)"
proof -
  have dc: "distinct (map cName current)" and dd: "distinct (map cName desired)"
    using assms by (simp_all add: validateDevices_iff_names)
  let ?r = "compareDeviceInventories current desired"
  have upd: "(case map_of (by_name current) (cName d) of None \<Rightarrow> False | Some old \<Rightarrow> old \<noteq> d)
      \<longleftrightarrow> d \<notin> set current \<and> cName d \<in> cName ` set current" for d
  proof (cases "map_of (by_name current) (cName d)")
    case None
    then show ?thesis using by_name_None [OF dc, of "cName d"] by simp
  next
    case (Some old)
    then have o: "old \<in> set current" "cName old = cName d" using by_name_mem [OF dc] by auto
    then have "cName d \<in> cName ` set current" by (metis imageI)
    moreover have "d \<in> set current \<Longrightarrow> old = d" using by_name_mem [OF dc, of "cName d" d] Some by simp
    ultimately show ?thesis using o Some by auto
  qed
  have a: "set (arAdded ?r) = cName ` set desired - cName ` set current"
    by (auto simp: compareDeviceInventories_def Let_def by_name_None [OF dc])
  have u: "set (arUpdated ?r) = {cName d |d. d \<in> set desired \<and> d \<notin> set current \<and> cName d \<in> cName ` set current}"
    by (auto simp: compareDeviceInventories_def Let_def upd)
  have r: "set (arRemoved ?r) = cName ` set current - cName ` set desired"
    by (auto simp: compareDeviceInventories_def Let_def by_name_None [OF dd])
  have srt: "sorted (arAdded ?r)" "sorted (arUpdated ?r)" "sorted (arRemoved ?r)"
    by (simp_all add: compareDeviceInventories_def Let_def)
  have "\<not> arChanged ?r \<longleftrightarrow> arAdded ?r = [] \<and> arUpdated ?r = [] \<and> arRemoved ?r = []"
    by (simp add: compareDeviceInventories_def Let_def)
  also have "\<dots> \<longleftrightarrow> set (arAdded ?r) = {} \<and> set (arUpdated ?r) = {} \<and> set (arRemoved ?r) = {}"
    by simp
  also have "\<dots> \<longleftrightarrow> set current = set desired"
  proof
    assume "set current = set desired"
    then show "set (arAdded ?r) = {} \<and> set (arUpdated ?r) = {} \<and> set (arRemoved ?r) = {}"
      unfolding a u r by auto
  next
    assume z: "set (arAdded ?r) = {} \<and> set (arUpdated ?r) = {} \<and> set (arRemoved ?r) = {}"
    then have names: "cName ` set desired = cName ` set current" unfolding a r by auto
    then have sub: "set desired \<subseteq> set current" using z unfolding u by auto
    have "inj_on cName (set current)" using dc by (simp add: distinct_map)
    with names sub show "set current = set desired" by (metis inj_on_image_eq_iff subset_refl)
  qed
  finally show ?thesis using a u r srt by (simp add: Let_def)
qed

theorem compareDeviceInventories_exact_witness:
  "\<not> arChanged (compareDeviceInventories [demo_cdevice ''office-mac''] [demo_cdevice ''office-mac''])"
proof -
  have "validateDevices ascii_only_db [demo_cdevice ''office-mac''] = None"
    by (simp add: validateDevices_def validate_from_None demo_cdevice_valid)
  from compareDeviceInventories_exact [OF this this] show ?thesis by (simp add: Let_def)
qed

section \<open>Retrying\<close>

text \<open>What a stopped attempt says.\<close>

lemma retry_attempt_stop:
  assumes "retry_attempt env opts i = Stop r"
  shows "(r = Inr (OutcomeUnlocked, e) \<longrightarrow> Status (re_unlock env i) \<in> {StatusUnlocked, StatusUnlockedRecently}
      \<or> (opt_is (Error (re_unlock env i)) ErrUnlockOutcomeUnknown
         \<and> fst (re_verify env i (unacknowledged_verify (verifyWindow opts))))) \<and>
    (r = Inr (OutcomeIncorrectPassword, e) \<longrightarrow> Status (re_unlock env i) = StatusLocked) \<and>
    (r = Inr (OutcomeExhausted, e) \<longrightarrow> maxAttempts opts \<le> i \<and> Status (re_unlock env i) = StatusUnknown)"
  using assms
  by (auto simp: retry_attempt_def Let_def split: device_status.splits if_splits option.splits prod.splits)

lemma retry_attempt_hostkey:
  "Status (re_unlock env i) = StatusUnknown \<Longrightarrow> opt_is (Error (re_unlock env i)) ErrHostKeyMismatch \<Longrightarrow>
   retry_attempt env opts i \<noteq> Again"
  by (auto simp: retry_attempt_def Let_def split: option.splits)

lemma unlock_retry_from_last:
  "unlock_retry_from env opts i = (r, n) \<Longrightarrow> i \<le> n \<and> n \<le> max i (maxAttempts opts)
    \<and> retry_attempt env opts n = Stop r \<and> (\<forall>k. i \<le> k \<and> k < n \<longrightarrow> retry_attempt env opts k = Again)"
proof (induction env opts i rule: unlock_retry_from.induct)
  case (1 env opts i)
  show ?case
  proof (cases "retry_attempt env opts i")
    case (Stop x)
    with "1.prems" show ?thesis by (auto simp: unlock_retry_from.simps [of env opts i])
  next
    case Again
    with "1.prems" have "unlock_retry_from env opts (i + 1) = (r, n)"
      by (simp add: unlock_retry_from.simps [of env opts i])
    from "1.IH" [OF Again this] retry_again [OF Again]
    have h: "i + 1 \<le> n" "n \<le> max (i + 1) (maxAttempts opts)" "retry_attempt env opts n = Stop r"
      "\<forall>k. i + 1 \<le> k \<and> k < n \<longrightarrow> retry_attempt env opts k = Again" by auto
    have "retry_attempt env opts k = Again" if "i \<le> k" "k < n" for k
      using that h(4) Again by (cases "k = i") auto
    with h retry_again [OF Again] show ?thesis by auto
  qed
qed

text \<open>
  C34. The retry machine of \<open>unlock\<close> always ends, after at most the configured number of
  attempts, and its verdict is honest: it reports an unlocked device only after an attempt that
  reported one or, for a password whose fate is unknown, after a password-free verification; it
  gives up only with all attempts used; and a host-key failure is never retried past.
\<close>

theorem unlock_retry_honest:
  assumes "unlockDeviceWithRetry env opts = (r, n)"
  shows "1 \<le> n \<and> n \<le> max 1 (maxAttempts opts) \<and>
    (r = Inr (OutcomeUnlocked, e) \<longrightarrow> Status (re_unlock env n) \<in> {StatusUnlocked, StatusUnlockedRecently}
      \<or> (opt_is (Error (re_unlock env n)) ErrUnlockOutcomeUnknown
         \<and> fst (re_verify env n (unacknowledged_verify (verifyWindow opts))))) \<and>
    (r = Inr (OutcomeExhausted, e) \<longrightarrow> maxAttempts opts \<le> n) \<and>
    (\<forall>k. 1 \<le> k \<and> k < n \<longrightarrow> \<not> (Status (re_unlock env k) = StatusUnknown
        \<and> opt_is (Error (re_unlock env k)) ErrHostKeyMismatch))"
proof -
  have h: "1 \<le> n \<and> n \<le> max 1 (maxAttempts opts) \<and> retry_attempt env opts n = Stop r
      \<and> (\<forall>k. 1 \<le> k \<and> k < n \<longrightarrow> retry_attempt env opts k = Again)"
    using unlock_retry_from_last assms by (simp add: unlockDeviceWithRetry_def)
  then show ?thesis using retry_attempt_stop [of env opts n r e] retry_attempt_hostkey by blast
qed

theorem unlock_retry_honest_witness:
  "snd (unlockDeviceWithRetry \<lparr>re_unlock = (\<lambda>_. \<lparr>Host = ''h'', Status = StatusUnknown, Output = [],
       Error = Some (Sentinel ErrConnectionRefused), Verified = False\<rparr>), re_ctx = (\<lambda>_. None),
     re_verify = (\<lambda>_ _. (False, None)), re_wait = (\<lambda>_. None)\<rparr>
     \<lparr>maxAttempts = 10, retryDelay = 30 * second, verifyWindow = 0\<rparr>) \<le> 10"
proof -
  let ?env = "\<lparr>re_unlock = (\<lambda>_. \<lparr>Host = ''h'', Status = StatusUnknown, Output = [],
       Error = Some (Sentinel ErrConnectionRefused), Verified = False\<rparr>), re_ctx = (\<lambda>_. None),
     re_verify = (\<lambda>_ _. (False, None)), re_wait = (\<lambda>_. None)\<rparr>"
  let ?opts = "\<lparr>maxAttempts = 10, retryDelay = 30 * second, verifyWindow = 0\<rparr>"
  obtain r n where u: "unlockDeviceWithRetry ?env ?opts = (r, n)" by (meson surj_pair)
  from unlock_retry_honest [OF u] u show ?thesis by simp
qed

end
