(* ===== verification/Daemon_Facts.thy ===== *)
theory Daemon_Facts
  imports Daemon_Adapter Monitor_Facts Credentials_Facts Config_Facts Cli_Facts
begin

text \<open>
  What the daemon adds to the engine: its adapter meets the contracts of the monitor's two
  interfaces, so the safety of the engine holds for the real unlocker; its time budgets do not
  overflow; what it accepts at startup the engine accepts too.
\<close>

section \<open>The unlocker\<close>

lemma staticStore_Get_nonempty [simp]: "pw \<noteq> [] \<Longrightarrow> staticStore_Get pw = Inr pw"
  by (simp add: staticStore_Get_def)

lemma Unlock_submitted:
  assumes "Unlock before cred (\<lambda>pass. AnalyzePrompt db env host pass msg) after host = (res, replies)"
  shows "submissions replies \<le> 1 \<and> (submissions replies = 1 \<longrightarrow>
       Status res = StatusUnlocked \<or> Status res = StatusUnlockedRecently
       \<or> Status res = StatusLocked \<or> opt_is (Error res) ErrUnlockOutcomeUnknown
       \<or> opt_is (Error res) ErrHostKeyMismatch)"
proof (cases "before \<noteq> None \<or> (\<exists>err. cred = Inl err)")
  case True
  with assms show ?thesis by (auto simp: Unlock_def split: option.splits)
next
  case False
  then obtain pass where p: "before = None" "cred = Inr pass" by (cases cred) auto
  obtain st out err rs where a: "AnalyzePrompt db env host pass msg = ((st, out, err), rs)"
    by (metis surj_pair)
  with assms p have rs: "rs = replies"
    and st: "st \<noteq> StatusUnknown \<or> err \<noteq> None \<Longrightarrow> Status res = st \<and> Error res = err"
    by (auto simp: Unlock_def)
  have one: "submissions replies \<le> 1" using AnalyzePrompt_submits_once [OF a] rs by simp
  have "submissions replies = 1 \<Longrightarrow>
      (st = StatusUnlocked \<or> st = StatusUnlockedRecently) \<and> err = None
       \<or> st = StatusLocked \<and> err = Some (Sentinel ErrAuthFailed)
       \<or> st = StatusUnknown \<and> (\<exists>x. err = Some x \<and>
            (err_is x ErrUnlockOutcomeUnknown \<or> err_is x ErrHostKeyMismatch))"
    using AnalyzePrompt_truth [OF a] rs by blast
  with one st show ?thesis by auto
qed

text \<open>
  The switch keeps the promise of the interface: when the password may have been sent, the
  result is accepted, or the failure is one the engine never retries.
\<close>

lemma unlock_switch_retryable:
  assumes "unlock_switch res = (result, uerr)" "retryable result uerr"
  shows "Status res \<noteq> StatusUnlocked \<and> Status res \<noteq> StatusUnlockedRecently \<and> Status res \<noteq> StatusLocked
    \<and> \<not> opt_is (Error res) ErrUnlockOutcomeUnknown \<and> \<not> opt_is (Error res) ErrHostKeyMismatch"
  using assms by (auto simp: unlock_switch_def retryable_def split: if_splits)

definition adapter_behaviour :: "unicode_db \<Rightarrow> unlock_behaviour" where
  "adapter_behaviour db d k result unlockErr \<longleftrightarrow>
     (\<exists>env a replies. adapter_Unlock db env a (dName d) = (result, unlockErr, replies) \<and> k = submissions replies)"

lemma adapter_Unlock_submissions:
  assumes "adapter_Unlock db env a n = (result, uerr, replies)"
  shows "submissions replies \<le> 1 \<and> (retryable result uerr \<longrightarrow> submissions replies = 0)"
proof (cases "replies = []")
  case False
  with assms obtain d cred res where
      u: "Unlock (ae_before env) cred
        (\<lambda>pass. AnalyzePrompt db (ae_net env (deviceEndpoint d) (cUser d) (adUnlockTimeout a))
           (deviceEndpoint d) pass (success_message d)) (ae_after env) (deviceEndpoint d) = (res, replies)"
    and s: "unlock_switch res = (result, uerr)"
    by (auto simp: adapter_Unlock_def Let_def split: sum.splits if_splits prod.splits)
  from Unlock_submitted [OF u] unlock_switch_retryable [OF s] show ?thesis by force
qed simp

interpretation adapter_unlocker: unlocker_contract "adapter_behaviour db" for db
  by unfold_locales (auto simp: adapter_behaviour_def dest: adapter_Unlock_submissions)


text \<open>A run that submits: the Mac asks for the password and refuses it.\<close>

definition asking_mac :: adapter_env where
  "asking_mac = \<lparr>ae_net = (\<lambda>_ _ _. greedy_server), ae_reach_known = (\<lambda>_. None), ae_reach_failed = (\<lambda>_. None),
     ae_cred = demo_cred_env, ae_before = None, ae_after = None\<rparr>"

definition locked_result :: probe_result where
  "locked_result = \<lparr>prState = StateLocked, prDetail = [], prEndpointDown = False\<rparr>"

definition probed_engine :: engine where
  "probed_engine = fst (applyProbe ascii_only_db (\<lambda>_. SaveOk) ''mac'' locked_result None demo_engine)"

definition marked_engine :: engine where
  "marked_engine = fst (markUnlockStarted (\<lambda>_. SaveOk) ''mac'' probed_engine)"

lemma demo_run_engines:
  "snd (applyProbe ascii_only_db (\<lambda>_. SaveOk) ''mac'' locked_result None demo_engine) = (True, None)"
  "snd (markUnlockStarted (\<lambda>_. SaveOk) ''mac'' probed_engine) = (True, None)"
  "map_option mdevice (map_of (devices marked_engine) ''mac'') = Some demo_device"
  by code_simp+

lemma asking_mac_submits:
  "\<exists>result uerr. adapter_behaviour ascii_only_db demo_device 1 result uerr"
proof -
  let ?a = "newDaemonAdapter True [demo_cdevice ''mac''] 0 0"
  let ?u = "adapter_Unlock ascii_only_db asking_mac ?a ''mac''"
  have "isPasswordPrompt ascii_only_db ''Password:''"
    by (simp add: isPasswordPrompt_def EqualFold_def TrimSpace_def is_space_def runes_def)
  then have an: "submissions rs = 1" if "AnalyzePrompt ascii_only_db greedy_server h pass m = (x, rs)" for h pass m x rs
    using that by (auto simp add: AnalyzePrompt_def greedy_server_def handshake_def clientConfig_def kbd_callback_def
        recordPasswordPrompt_def addText_def new_trace_def Let_def)
  have ref: "systemdCredentialPrefix @ ''mac'' = ''systemd:mac''" by (simp add: systemdCredentialPrefix_def)
  have conf: "configured ?a ''mac'' = Inr (demo_cdevice ''mac'')"
    by (simp add: configured_def newDaemonAdapter_def by_name_def demo_cdevice_def)
  have store: "credentialStoreForDevice ascii_only_db (demo_cdevice ''mac'') False
      = Inr \<lparr>psProvider = FileProvider False, psReference = ''systemd:mac''\<rparr>"
    by (simp add: credentialStoreForDevice_def Registry_Provider_def NewRegistry_def effective_source_def
        demo_cdevice_def provider_names)
  have "providerStore_Get ascii_only_db (ae_cred asking_mac)
      \<lparr>psProvider = FileProvider False, psReference = ''systemd:mac''\<rparr> = Inr ''secret''"
    using demo_secret by (simp add: providerStore_Get_def asking_mac_def ref)
  with conf store have "submissions (snd (snd ?u)) = 1"
    by (auto simp: adapter_Unlock_def asking_mac_def Unlock_def Let_def split: prod.split dest: an)
  moreover have "dName demo_device = ''mac''" by (simp add: demo_device_def)
  ultimately show ?thesis unfolding adapter_behaviour_def by (metis prod.collapse)
qed


section \<open>The prober\<close>

text \<open>
  What the engine relies on from a prober: it does not use the credential, it returns without
  error only an observation, and none of its errors is a credential failure.
\<close>

locale prober_contract =
  fixes P :: "device \<Rightarrow> nat \<Rightarrow> probe_result \<Rightarrow> goerr option \<Rightarrow> bool"
  assumes password_free: "P d k r e \<Longrightarrow> k = 0"
    and definite: "P d k r None \<Longrightarrow> validProbeState (prState r)"
    and never_credential: "P d k r (Some err) \<Longrightarrow> FailureKindOf (Some err) \<noteq> FailureCredential"
begin

lemma probe_record_latch:
  assumes "P d k r e" "\<not> Latched previous" "Latched (probe_record db now previous r e)"
  shows "LatchKind (probe_record db now previous r e) = FailureHostKey"
proof (cases e)
  case None
  with assms definite [of d k r] show ?thesis
    by (auto simp: probe_record_def probe_observed_record_def Let_def split: if_splits dev_state.splits)
next
  case (Some err)
  with assms never_credential [of d k r err] show ?thesis
    by (auto simp: probe_record_def probe_error_record_def latchLocked_def Let_def
        split: if_splits failure_kind.splits)
qed

lemma applyProbe_error:
  assumes "P d k r e" "applyProbe db sv n r e e0 = (e', should, Some err)"
  shows "\<exists>x. err = errorf ''persist probe state'' x"
  using assms definite [of d k r]
  by (auto simp: applyProbe_def Let_def split: option.splits prod.splits if_splits)

end

definition probe_behaviour :: "unicode_db \<Rightarrow> device \<Rightarrow> nat \<Rightarrow> probe_result \<Rightarrow> goerr option \<Rightarrow> bool" where
  "probe_behaviour db d k result probeErr \<longleftrightarrow>
     (\<exists>env a a' replies. adapter_Probe db env (dName d) a = (a', result, probeErr, replies)
        \<and> k = submissions replies)"

lemma ProbeStatus_submissions:
  assumes "ProbeStatus db env host = (res, replies)"
  shows "submissions replies = 0"
proof -
  obtain t rs err where h: "handshake env (clientConfig db [] [] False) (new_trace None) = (t, rs, err)"
    by (metis surj_pair)
  with assms have "rs = replies" by (auto simp: ProbeStatus_def split: option.splits)
  with h have "\<forall>r \<in> set replies. \<not> submits r"
    by (auto simp: handshake_def split: option.splits prod.splits dest: run_callbacks_replies)
  then show ?thesis by (auto simp: submissions_def filter_empty_conv)
qed

text \<open>The three ways a probe of the adapter ends.\<close>

lemma adapter_Probe_cases:
  assumes "adapter_Probe db env n a = (a', result, perr, replies)"
  obtains (unknown) err where "configured a n = Inl err" "perr = Some (NewFailure FailureTransient (Some err))"
      "replies = []"
  | (down) d reachErr where "configured a n = Inr d" "result = probe_value StateUnreachable ''SSH TCP endpoint is down'' True"
      "perr = Some (NewFailure FailureUnreachable (Some reachErr))" "replies = []"
  | (checked) d a1 st out err where "configured a n = Inr d" "adProbeTimeout a1 = adProbeTimeout a"
      "CheckStatus db (ae_net env) (deviceEndpoint d) (cUser d) (adProbeTimeout a) = ((st, out, err), replies)"
      "probe_switch env n (deviceEndpoint d) st err a1 = (a', result, perr)"
proof (cases "configured a n")
  case (Inl err)
  with assms unknown show ?thesis by (simp add: adapter_Probe_def)
next
  case (Inr d)
  let ?known = "knownEndpointDown a n \<and> adReachability a"
  let ?a1 = "if ?known then setEndpointDown n False a else a"
  have t: "adProbeTimeout ?a1 = adProbeTimeout a" by (simp add: setEndpointDown_def)
  show ?thesis
  proof (cases "if ?known then ae_reach_known env (deviceEndpoint d) else None")
    case (Some reachErr)
    with assms Inr show ?thesis by (intro down [of d reachErr]) (simp_all add: adapter_Probe_def Let_def)
  next
    case None
    obtain st out err rs where c: "CheckStatus db (ae_net env) (deviceEndpoint d) (cUser d) (adProbeTimeout a)
        = ((st, out, err), rs)" by (metis surj_pair)
    obtain a2 r2 p2 where s: "probe_switch env n (deviceEndpoint d) st err ?a1 = (a2, r2, p2)"
      by (metis surj_pair)
    have "adapter_Probe db env n a = (a2, r2, p2, rs)"
      using None Inr c s t by (simp only: adapter_Probe_def Let_def sum.case option.case prod.case)
    with assms c s checked [OF Inr t] show ?thesis by simp
  qed
qed

lemma probe_switch_contract:
  assumes "probe_switch env n ep st err a = (a', result, perr)"
  shows "(perr = None \<longrightarrow> validProbeState (prState result)) \<and> FailureKindOf perr \<noteq> FailureCredential"
  using assms by (auto simp: probe_switch_def Let_def split: if_splits)

lemma adapter_Probe_contract:
  assumes "adapter_Probe db env n a = (a', result, perr, replies)"
  shows "submissions replies = 0 \<and> (perr = None \<longrightarrow> validProbeState (prState result))
    \<and> FailureKindOf perr \<noteq> FailureCredential"
  using assms
proof (cases rule: adapter_Probe_cases)
  case (checked d a1 st out err)
  then show ?thesis using probe_switch_contract ProbeStatus_submissions by (auto simp: CheckStatus_def)
qed auto

interpretation adapter_prober: prober_contract "probe_behaviour db" for db
proof
  show "k = 0" if "probe_behaviour db d k r e" for d k r e
    using that adapter_Probe_contract by (auto simp: probe_behaviour_def)
  show "validProbeState (prState r)" if "probe_behaviour db d k r None" for d k r
    using that adapter_Probe_contract by (fastforce simp: probe_behaviour_def)
  show "FailureKindOf (Some err) \<noteq> FailureCredential" if "probe_behaviour db d k r (Some err)" for d k r err
    using that adapter_Probe_contract by (fastforce simp: probe_behaviour_def)
qed

text \<open>
  A probe of the daemon's adapter uses no credential, and the engine can always interpret
  it: applying it fails only when the durable state cannot be written, and the only failure a
  probe can latch is a host-key mismatch.
\<close>

theorem adapter_probe_effects:
  fixes d :: device
  assumes "adapter_Probe db env (dName d) a = (a', result, perr, replies)"
    and "applyProbe db sv (dName d) result perr e = (e', should, err)"
    and "map_of (devices e) (dName d) = Some m" and "\<not> Latched (mrecord m)"
  shows "submissions replies = 0 \<and> (\<forall>x. err = Some x \<longrightarrow> (\<exists>y. x = errorf ''persist probe state'' y)) \<and>
    (let r = probe_record db (clock e (ticks e)) (mrecord m) result perr in
      (\<exists>m'. map_of (devices e') (dName d) = Some m' \<and> mrecord m' = r) \<and>
      (Latched r \<longrightarrow> LatchKind r = FailureHostKey))"
proof -
  have p: "probe_behaviour db d (submissions replies) result perr"
    using assms(1) by (auto simp: probe_behaviour_def)
  have "\<exists>m'. map_of (devices e') (dName d) = Some m' \<and>
      mrecord m' = probe_record db (clock e (ticks e)) (mrecord m) result perr"
    by (rule applyProbe_shape [OF assms(2,3)])
      (auto simp: put_record_def update_conv' dest!: persist_frame(1) split: if_splits)
  then show ?thesis
    using adapter_prober.password_free [OF p] adapter_prober.applyProbe_error [OF p] assms(2)
      adapter_prober.probe_record_latch [OF p assms(4)] by (auto simp: Let_def)
qed

lemma demo_engine_devices: "map_of (devices demo_engine) ''mac'' =
    Some \<lparr>mdevice = demo_device, mrecord = zero_record\<lparr>State := StateIndeterminate\<rparr>, observed = False\<rparr>"
  by (simp add: demo_engine_def)

lemma demo_device_name: "dName demo_device = ''mac''"
  by (simp add: demo_device_def)

text \<open>A Mac that shows its banner and closes the connection, behind the adapter.\<close>

definition locked_mac :: adapter_env where
  "locked_mac = \<lparr>ae_net = (\<lambda>_ _ _. \<lparr>hs_dial = None, hs_events = [BannerMsg ''system is locked''],
       hs_conn = Some (ErrText ''closed''), hs_ctx = None\<rparr>),
     ae_reach_known = (\<lambda>_. None), ae_reach_failed = (\<lambda>_. None), ae_cred = demo_cred_env,
     ae_before = None, ae_after = None\<rparr>"

theorem adapter_probe_effects_witness:
  "submissions (snd (snd (snd (adapter_Probe ascii_only_db locked_mac (dName demo_device)
     (newDaemonAdapter True [] 0 0))))) = 0"
proof -
  let ?p = "adapter_Probe ascii_only_db locked_mac (dName demo_device) (newDaemonAdapter True [] 0 0)"
  obtain a' result perr replies where p: "?p = (a', result, perr, replies)" by (metis surj_pair)
  obtain e' should err where q:
    "applyProbe ascii_only_db (\<lambda>_. SaveOk) (dName demo_device) result perr demo_engine = (e', should, err)"
    by (metis surj_pair)
  have "map_of (devices demo_engine) (dName demo_device) =
    Some \<lparr>mdevice = demo_device, mrecord = zero_record\<lparr>State := StateIndeterminate\<rparr>, observed = False\<rparr>"
    by (simp add: demo_engine_devices demo_device_name)
  from adapter_probe_effects [OF p q this] p show ?thesis by (simp add: zero_record_def)
qed

section \<open>From the banner to the release\<close>

lemma ProbeStatus_locked:
  assumes "ProbeStatus db env host = ((StatusLocked, out, err), replies)"
  shows "err = None \<and> lockedSeen db out"
  using assms by (auto simp: ProbeStatus_def Let_def split: prod.splits option.splits if_splits)

lemma probe_switch_locked:
  assumes "probe_switch env n ep st err a = (a', result, perr)" "prState result = StateLocked"
  shows "st = StatusLocked"
  using assms by (auto simp: probe_switch_def Let_def split: if_splits)


lemma locked_mac_text: "normalizeBanner ascii_only_db (''system is locked'' @ [CHR 0x0A]) = ''system is locked''"
proof -
  have a: "ascii (''system is locked'' @ [CHR 0x0A])" by simp
  have "map lower_char (''system is locked'' @ [CHR 0x0A]) = ''system is locked'' @ [CHR 0x0A]"
    by (rule map_idI, rule lower_char_id) auto
  then have "Fields (ToLower ascii_only_db (''system is locked'' @ [CHR 0x0A]))
      = char_fields [] (''system is locked'' @ [CHR 0x0A])"
    using a by (simp only: ToLower_ascii [OF ascii_only_db_ascii a] Fields_ascii [OF a])
  then show ?thesis by (simp add: normalizeBanner_def is_space_def)
qed

lemma locked_mac_seen: "lockedSeen ascii_only_db (''system is locked'' @ [CHR 0x0A])"
  by (simp only: lockedSeen_def locked_mac_text) (simp add: lockedPhrase_def HasPrefix_def)

lemma locked_mac_incomplete: "\<not> IsFileVaultLockedBanner ascii_only_db (''system is locked'' @ [CHR 0x0A])"
  by (simp only: IsFileVaultLockedBanner_def locked_mac_text) (simp add: lockedBannerText_def HasPrefix_def)

lemma locked_mac_status:
  "ProbeStatus ascii_only_db (ae_net locked_mac h u t) h
     = ((StatusLocked, ''system is locked'' @ [CHR 0x0A], None), [Proceed])"
  using locked_mac_seen
  by (simp add: ProbeStatus_def locked_mac_def handshake_def clientConfig_def banner_callback_def
      recordResponseText_def addText_def new_trace_def isHostKeyError_def HasPrefix_def Let_def)

lemma locked_mac_probe:
  "\<exists>a'. adapter_Probe ascii_only_db locked_mac ''mac'' (newDaemonAdapter True [demo_cdevice ''mac''] 0 0)
    = (a', probe_value StateLocked ''FileVault pre-boot banner detected'' False, None, [Proceed])"
  using locked_mac_status
  by (simp add: adapter_Probe_def configured_def newDaemonAdapter_def by_name_def demo_cdevice_def
      knownEndpointDown_def CheckStatus_def probe_switch_def Let_def)

lemma locked_mac_poll:
  "snd (snd (snd (Poll ascii_only_db (demo_env\<lparr>probe_out :=
      (probe_value StateLocked ''FileVault pre-boot banner detected'' False, None)\<rparr>) ''mac'' demo_engine)))
    = [CallProbe demo_device, CallUnlock demo_device]"
  by code_simp


section \<open>Time budgets\<close>

lemma duration_sum_from_saturates:
  "list_all is_int64 vs \<Longrightarrow> 0 \<le> acc \<Longrightarrow> acc \<le> max_int64 \<Longrightarrow>
   duration_sum_from acc vs = min max_int64 (acc + sum_list (filter (\<lambda>v. 0 < v) vs))"
proof (induction vs arbitrary: acc)
  case (Cons v vs)
  have pos: "0 \<le> sum_list (filter (\<lambda>v. 0 < v) vs)" by (rule sum_list_nonneg) auto
  have "is_int64 (max_int64 - acc)" using Cons.prems by (simp add: is_int64_def min_int64_def max_int64_def)
  moreover have "is_int64 (acc + v)" if "0 < v" "v \<le> max_int64 - acc"
    using that Cons.prems by (simp add: is_int64_def min_int64_def)
  ultimately show ?case using Cons pos by (auto simp: min_def)
qed (simp add: min_def)

text \<open>
  A control timeout never wraps: the sum of the budgets saturates at the largest duration,
  so a request is never given less time than each of the operations it waits for.
\<close>

theorem control_timeouts_saturate:
  assumes "list_all is_int64 values"
  shows "durationSum values = min max_int64 (sum_list (filter (\<lambda>v. 0 < v) values)) \<and>
    (\<forall>v \<in> set values. v \<le> durationSum values)"
proof -
  have sum: "durationSum values = min max_int64 (sum_list (filter (\<lambda>v. 0 < v) values))"
    using duration_sum_from_saturates [OF assms, of 0] by (simp add: durationSum_def max_int64_def)
  have "v \<le> sum_list (filter (\<lambda>v. 0 < v) values)" if "v \<in> set values" for v
  proof (cases "0 < v")
    case True
    with that have "v \<in> set (filter (\<lambda>v. 0 < v) values)" by simp
    then show ?thesis by (rule member_le_sum_list) auto
  next
    case False
    have "0 \<le> sum_list (filter (\<lambda>v. 0 < v) values)" by (rule sum_list_nonneg) auto
    with False show ?thesis by simp
  qed
  moreover have "v \<le> max_int64" if "v \<in> set values" for v
    using assms that by (auto simp: list_all_iff is_int64_def)
  ultimately show ?thesis using sum by auto
qed

theorem control_timeouts_saturate_witness:
  "controlPollTimeout 9223372036854775807 1 = max_int64 \<and> controlPollTimeout 0 0 = 70 * second"
proof -
  have "list_all is_int64 [9223372036854775807, 1, 10 * second]" "list_all is_int64 [15 * second, 45 * second, 10 * second]"
    by (simp_all add: is_int64_def min_int64_def max_int64_def second_def)
  from control_timeouts_saturate [OF this(1)] control_timeouts_saturate [OF this(2)] show ?thesis
    by (simp add: controlPollTimeout_def controlOperationOverhead_def defaultProbeTimeout_def
        defaultUnlockTimeout_def second_def max_int64_def)
qed

section \<open>Starting\<close>

lemma validatePlain_trim: "validatePlain db f v n = None \<Longrightarrow> v \<noteq> [] \<and> TrimSpace v = v"
  by (auto simp: validatePlain_def split: if_splits)

lemma ValidateDevice_monitor:
  assumes "ValidateDevice db d = None"
  shows "validateDevice db (toMonitorDevice d) = None"
proof -
  have "validatePlain db ''name'' (cName d) 128 = None" "validatePlain db ''host'' (cHost d) 253 = None"
    "validatePlain db ''user'' (cUser d) 256 = None" "0 \<le> cPort d" "cPort d \<le> 65535"
    using assms by (simp_all only: ValidateDevice_def first_err_None split: if_splits) simp_all
  then show ?thesis using validatePlain_trim by (simp add: validateDevice_def toMonitorDevice_def)
qed

lemma new_devices_total:
  assumes "\<And>d. d \<in> set ds \<Longrightarrow> validateDevice db d = None" "distinct (map dName ds)"
    "set (map dName ds) \<inter> set (map_keys acc) = {}"
    "\<And>n r. map_of persisted n = Some r \<Longrightarrow> validRuntimeState (State r)"
  shows "\<exists>devs. new_devices db persisted ds acc = Inr devs \<and>
    set (map_keys devs) = set (map_keys acc) \<union> dName ` set ds"
  using assms(1-3)
proof (induction ds arbitrary: acc)
  case (Cons d ds)
  let ?r = "case map_of persisted (dName d) of None \<Rightarrow> zero_record\<lparr>State := StateIndeterminate\<rparr> | Some r \<Rightarrow> r"
  let ?acc = "AList.update (dName d) \<lparr>mdevice = d, mrecord = ?r\<lparr>NextCheckAt := 0\<rparr>, observed = False\<rparr> acc"
  have v: "validRuntimeState (State ?r)" using assms(4) by (auto split: option.split)
  have n: "map_of acc (dName d) = None" using Cons.prems(3) by (auto simp: map_of_eq_None_iff)
  have k: "set (map_keys ?acc) = insert (dName d) (set (map_keys acc))"
    by (auto simp: update_keys)
  have "\<exists>devs. new_devices db persisted ds ?acc = Inr devs \<and>
      set (map_keys devs) = set (map_keys ?acc) \<union> dName ` set ds"
  proof (rule Cons.IH)
    show "set (map dName ds) \<inter> set (map_keys ?acc) = {}" unfolding k using Cons.prems by auto
  qed (use Cons.prems in auto)
  with v n Cons.prems(1) k show ?case by (auto simp: Let_def)
qed simp


definition demo_options :: daemon_options where
  "demo_options = \<lparr>doSocket = ''/s'', doIdentityFiles = [], doPollInterval = 30 * second,
     doBootInterval = 5 * second, doProbeTimeout = 15 * second, doUnlockTimeout = 45 * second,
     doConcurrency = 4, doDiscoverInterval = 0, doDiscoverTimeout = 0, doDiscoverInterface = [],
     doScanCIDRs = [], doScanInterval = minute, doScanTimeout = second, doScanConcurrency = 32,
     doLogFormat = ''text'', doLogLevel = LevelInfo, doOnce = False\<rparr>"

lemma demo_options_accepted:
  "daemonOptionsFromFlags ascii_only_db sock \<lparr>flLogLevel = ''info'', flLogFormatChanged = False,
     flJsonLog = False\<rparr> demo_options = Inr demo_options"
proof -
  have low: "ToLower ascii_only_db w = w" if "ascii w" "\<forall>c \<in> set w. lower_char c = c" for w
    using that ToLower_ascii [OF ascii_only_db_ascii that(1)] by (simp add: map_idI)
  have "TrimSpace ''text'' = ''text''" "TrimSpace ''info'' = ''info''"
    by (simp_all add: TrimSpace_def is_space_def runes_def)
  moreover have "ToLower ascii_only_db ''text'' = ''text''" "ToLower ascii_only_db ''info'' = ''info''"
    by (rule low; auto intro!: lower_char_id)+
  ultimately have "ToLower ascii_only_db (TrimSpace ''text'') = ''text''"
      "ToLower ascii_only_db (TrimSpace ''info'') = ''info''" by simp_all
  then show ?thesis
    by (simp add: daemonOptionsFromFlags_def demo_options_def parseDaemonLogLevel_def daemon_limits_def
        IsAbs_def HasPrefix_def maxScanConcurrency_def duration_units Let_def)
qed


end
