(* ===== verification/Go_Encoding.thy ===== *)
theory Go_Encoding
  imports Go_Errors
begin

text \<open>
  The unpadded base64 of \<open>encoding/base64\<close> (\<open>RawStdEncoding\<close>, not strict, newlines ignored), the
  test \<open>hex.DecodeString\<close> succeeds, and what trimming white space leaves. With them the
  functions that normalize a text or a fingerprint are shown to be idempotent.
\<close>

section \<open>Base64\<close>

definition b64_alphabet :: string where
  "b64_alphabet = ''ABCDEFGHIJKLMNOPQRSTUVWXYZabcdefghijklmnopqrstuvwxyz0123456789+/''"

definition b64_digit :: "nat \<Rightarrow> char" where
  "b64_digit n =
     (if n < 26 then char_of (65 + n) else if n < 52 then char_of (71 + n)
      else if n < 62 then char_of (n - 4) else if n = 62 then CHR ''+'' else CHR 0x2F)"

definition b64_value :: "char \<Rightarrow> nat option" where
  "b64_value c =
     (let b = byte c in
      if 65 \<le> b \<and> b \<le> 90 then Some (b - 65)
      else if 97 \<le> b \<and> b \<le> 122 then Some (b - 71)
      else if 48 \<le> b \<and> b \<le> 57 then Some (b + 4)
      else if b = 43 then Some 62
      else if b = 47 then Some 63
      else None)"

text \<open>The sextets of a byte list, and the bytes of a list of sextets; a single sextet is an error.\<close>

fun b64_sextets :: "nat list \<Rightarrow> nat list" where
  "b64_sextets [] = []"
| "b64_sextets [x] = [x div 4, x mod 4 * 16]"
| "b64_sextets [x, y] = [x div 4, x mod 4 * 16 + y div 16, y mod 16 * 4]"
| "b64_sextets (x # y # z # bs) =
     [x div 4, x mod 4 * 16 + y div 16, y mod 16 * 4 + z div 64, z mod 64] @ b64_sextets bs"

fun b64_bytes :: "nat list \<Rightarrow> nat list option" where
  "b64_bytes [] = Some []"
| "b64_bytes [a] = None"
| "b64_bytes [a, b] = Some [a * 4 + b div 16]"
| "b64_bytes [a, b, c] = Some [a * 4 + b div 16, b mod 16 * 16 + c div 4]"
| "b64_bytes (a # b # c # d # vs) =
     map_option ((@) [a * 4 + b div 16, b mod 16 * 16 + c div 4, c mod 4 * 64 + d]) (b64_bytes vs)"

fun b64_values :: "string \<Rightarrow> nat list option" where
  "b64_values [] = Some []"
| "b64_values (c # s) =
     (if c = CHR 0x0A \<or> c = CHR 0x0D then b64_values s
      else case b64_value c of
        None \<Rightarrow> None
      | Some v \<Rightarrow> map_option ((#) v) (b64_values s))"

definition RawStd_Decode :: "string \<Rightarrow> nat list option" where
  "RawStd_Decode s = Option.bind (b64_values s) b64_bytes"

definition RawStd_Encode :: "nat list \<Rightarrow> string" where
  "RawStd_Encode bs = map b64_digit (b64_sextets bs)"

lemma b64_value_digit:
  assumes "n < 64"
  shows "b64_value (b64_digit n) = Some n" "b64_digit n \<noteq> CHR 0x0A" "b64_digit n \<noteq> CHR 0x0D"
    "b64_digit n \<noteq> CHR ''=''" "byte (b64_digit n) < 128" "\<not> byte (b64_digit n) \<le> 32"
proof -
  have b: "byte (b64_digit n) = (if n < 26 then 65 + n else if n < 52 then 71 + n
      else if n < 62 then n - 4 else if n = 62 then 43 else 47)"
    using assms by (simp add: b64_digit_def)
  show "b64_value (b64_digit n) = Some n" using assms unfolding b64_value_def Let_def b by auto
  show less: "byte (b64_digit n) < 128" "\<not> byte (b64_digit n) \<le> 32" unfolding b by auto
  have "byte (b64_digit n) \<noteq> 61" unfolding b using assms by auto
  then show "b64_digit n \<noteq> CHR ''=''" by auto
  show "b64_digit n \<noteq> CHR 0x0A" "b64_digit n \<noteq> CHR 0x0D" using less by auto
qed

lemma div_less_bound: "n < a * b \<Longrightarrow> n div b < a" for n a b :: nat
  by (rule less_mult_imp_div_less)

lemma b64_sextets_less: "\<forall>b \<in> set bs. b < 256 \<Longrightarrow> \<forall>v \<in> set (b64_sextets bs). v < 64"
proof (induction bs rule: b64_sextets.induct)
  case (3 x y)
  then have "x mod 4 * 16 + y div 16 < 64" using mod_less_divisor [of 4 x] div_less_bound [of y 16 16] by simp
  with 3 show ?case using mod_less_divisor [of 16 y] div_less_bound [of x 64 4] by simp
next
  case (4 x y z bs)
  then have "x mod 4 * 16 + y div 16 < 64" "y mod 16 * 4 + z div 64 < 64"
    using mod_less_divisor [of 4 x] mod_less_divisor [of 16 y]
      div_less_bound [of y 16 16] div_less_bound [of z 4 64] by simp_all
  with 4 show ?case using div_less_bound [of x 64 4] by simp
qed (auto simp: div_less_bound)

lemma b64_values_digits: "\<forall>v \<in> set vs. v < 64 \<Longrightarrow> b64_values (map b64_digit vs) = Some vs"
  by (induction vs) (simp_all add: b64_value_digit)

lemma b64_bytes_sextets: "\<forall>b \<in> set bs. b < 256 \<Longrightarrow> b64_bytes (b64_sextets bs) = Some bs"
proof (induction bs rule: b64_sextets.induct)
  case (3 x y)
  then have "y div 16 < 16" using div_less_bound [of y 16 16] by simp
  then have "(x mod 4 * 16 + y div 16) div 16 = x mod 4" "(x mod 4 * 16 + y div 16) mod 16 = y div 16"
    by simp_all
  then show ?case by simp
next
  case (4 x y z bs)
  then have "y div 16 < 16" "z div 64 < 4" using div_less_bound [of y 16 16] div_less_bound [of z 4 64] by simp_all
  then have "(x mod 4 * 16 + y div 16) div 16 = x mod 4" "(x mod 4 * 16 + y div 16) mod 16 = y div 16"
    "(y mod 16 * 4 + z div 64) div 4 = y mod 16" "(y mod 16 * 4 + z div 64) mod 4 = z div 64"
    by simp_all
  with 4 show ?case by simp
qed simp_all

lemma RawStd_round_trip: "\<forall>b \<in> set bs. b < 256 \<Longrightarrow> RawStd_Decode (RawStd_Encode bs) = Some bs"
  by (simp add: RawStd_Decode_def RawStd_Encode_def b64_values_digits b64_sextets_less b64_bytes_sextets)

lemma b64_value_less: "b64_value c = Some v \<Longrightarrow> v < 64"
  by (auto simp: b64_value_def Let_def split: if_splits)

lemma b64_values_less: "b64_values s = Some vs \<Longrightarrow> \<forall>v \<in> set vs. v < 64"
  by (induction s arbitrary: vs) (auto split: if_splits option.splits dest: b64_value_less)

lemma b64_bytes_less: "b64_bytes vs = Some bs \<Longrightarrow> \<forall>v \<in> set vs. v < 64 \<Longrightarrow> \<forall>b \<in> set bs. b < 256"
proof (induction vs arbitrary: bs rule: b64_bytes.induct)
  case (3 a b)
  then show ?case by (auto simp: less_mult_imp_div_less)
next
  case (4 a b c)
  have "b mod 16 < 16" by simp
  with 4 show ?case by (auto simp: less_mult_imp_div_less)
next
  case (5 a b c d vs)
  have "b mod 16 < 16" "c mod 4 < 4" by simp_all
  with 5 show ?case by (auto simp: less_mult_imp_div_less)
qed simp_all

lemma RawStd_Decode_less: "RawStd_Decode s = Some bs \<Longrightarrow> \<forall>b \<in> set bs. b < 256"
  using b64_bytes_less b64_values_less by (auto simp: RawStd_Decode_def bind_eq_Some_conv)

section \<open>Hexadecimal\<close>

definition hex_char :: "char \<Rightarrow> bool" where
  "hex_char c \<longleftrightarrow> (let b = byte c in 48 \<le> b \<and> b \<le> 57 \<or> 97 \<le> b \<and> b \<le> 102 \<or> 65 \<le> b \<and> b \<le> 70)"

definition hex_DecodeString_ok :: "string \<Rightarrow> bool" where
  "hex_DecodeString_ok s \<longleftrightarrow> even (length s) \<and> list_all hex_char s"

section \<open>Trimming\<close>

text \<open>Decoding looks ahead only to accept: cutting the text after a rune does not change it.\<close>

lemma decode_rune_cut:
  assumes "snd (decode_rune (t @ u)) \<le> length t" "t \<noteq> []"
  shows "decode_rune t = decode_rune (t @ u)"
proof (cases t)
  case (Cons c0 t1)
  show ?thesis
  proof (cases t1)
    case Nil
    with Cons assms show ?thesis
      by (cases u) (auto simp: decode_rune_def Let_def split: if_splits list.splits)
  next
    case t1: (Cons c1 t2)
    show ?thesis
    proof (cases t2)
      case Nil
      with Cons t1 assms show ?thesis
        by (cases u) (auto simp: decode_rune_def Let_def split: if_splits list.splits)
    next
      case t2: (Cons c2 t3)
      with Cons t1 assms show ?thesis
        by (cases t3; cases u) (auto simp: decode_rune_def Let_def split: if_splits list.splits)
    qed
  qed
qed (use assms in simp)

lemma utf8_segments_cut:
  "utf8_segments s = xs @ ys \<Longrightarrow> utf8_segments (concat (map snd xs)) = xs"
proof (induction xs arbitrary: s)
  case (Cons x xs)
  then have ne: "s \<noteq> []" by auto
  let ?w = "snd (decode_rune s)"
  have seg: "x = (fst (decode_rune s), take ?w s)" "utf8_segments (drop ?w s) = xs @ ys"
    using Cons.prems utf8_segments_step [OF ne] by auto
  define t where "t = concat (map snd (x # xs))"
  define u where "u = concat (map snd ys)"
  have s: "s = t @ u" using concat_utf8_segments [of s] Cons.prems by (simp add: t_def u_def)
  have w: "1 \<le> ?w" "?w \<le> length s" using decode_rune_width [OF ne] decode_rune_width_le by auto
  then have "length (snd x) = ?w" using seg(1) by simp
  then have le: "?w \<le> length t" by (simp add: t_def)
  then have tn: "t \<noteq> []" using w by auto
  have dec: "decode_rune t = decode_rune s" using decode_rune_cut [of t u] le tn s by simp
  have "take ?w t = snd x" "drop ?w t = concat (map snd xs)"
    using \<open>length (snd x) = ?w\<close> by (simp_all add: t_def)
  with dec tn seg(1) Cons.IH [OF seg(2)] have "utf8_segments t = x # xs"
    by (simp add: utf8_segments_step)
  then show ?case by (simp add: t_def)
qed simp

lemma utf8_segments_suffix:
  "utf8_segments s = xs @ ys \<Longrightarrow> utf8_segments (concat (map snd ys)) = ys"
proof (induction xs arbitrary: s)
  case Nil
  then show ?case using concat_utf8_segments [of s] by simp
next
  case (Cons x xs)
  then have ne: "s \<noteq> []" by auto
  then have "utf8_segments (drop (snd (decode_rune s)) s) = xs @ ys"
    using Cons.prems utf8_segments_step [OF ne] by auto
  then show ?case by (rule Cons.IH)
qed

abbreviation trim_segments :: "(rune \<times> string) list \<Rightarrow> (rune \<times> string) list" where
  "trim_segments segs \<equiv> rev (dropWhile seg_space (rev (dropWhile seg_space segs)))"

lemma utf8_segments_TrimSpace: "utf8_segments (TrimSpace s) = trim_segments (utf8_segments s)"
proof -
  let ?d = "dropWhile seg_space (utf8_segments s)"
  have "utf8_segments s = takeWhile seg_space (utf8_segments s) @ ?d" by simp
  then have d: "utf8_segments (concat (map snd ?d)) = ?d" by (rule utf8_segments_suffix)
  have "rev ?d = takeWhile seg_space (rev ?d) @ dropWhile seg_space (rev ?d)" by simp
  then have "rev (rev ?d) = rev (dropWhile seg_space (rev ?d)) @ rev (takeWhile seg_space (rev ?d))"
    by (metis rev_append)
  then have "utf8_segments (concat (map snd ?d)) = trim_segments (utf8_segments s) @ rev (takeWhile seg_space (rev ?d))"
    using d by simp
  from utf8_segments_cut [OF this] show ?thesis by (simp add: TrimSpace_def)
qed

lemma dropWhile_fix: "dropWhile P (dropWhile P xs) = dropWhile P xs"
  by (induction xs) auto

lemma dropWhile_rev_fix:
  assumes "dropWhile P d = d"
  shows "dropWhile P (rev (dropWhile P (rev d))) = rev (dropWhile P (rev d))"
proof (cases "dropWhile P (rev d) = []")
  case False
  have "rev d = takeWhile P (rev d) @ dropWhile P (rev d)" by simp
  then have "d = rev (dropWhile P (rev d)) @ rev (takeWhile P (rev d))" by (metis rev_append rev_rev_ident)
  then have "hd (rev (dropWhile P (rev d))) = hd d" using False by (metis Nil_is_rev_conv hd_append2)
  moreover have "d \<noteq> []" using False by auto
  then have "\<not> P (hd d)" using assms dropWhile_eq_self_iff by metis
  ultimately show ?thesis using dropWhile_eq_self_iff by metis
qed (simp only: rev.simps dropWhile.simps)

lemma trim_segments_idem: "trim_segments (trim_segments xs) = trim_segments xs"
  by (simp only: dropWhile_rev_fix [OF dropWhile_fix] rev_rev_ident dropWhile_fix)

lemma TrimSpace_idem [simp]: "TrimSpace (TrimSpace s) = TrimSpace s"
  by (simp add: TrimSpace_def [of "TrimSpace s"] utf8_segments_TrimSpace trim_segments_idem)
    (simp add: TrimSpace_def)

lemma TrimSpace_graphic:
  assumes "\<forall>c \<in> set s. byte c < 128 \<and> 32 < byte c"
  shows "TrimSpace s = s"
proof -
  have "\<forall>x \<in> set (utf8_segments s). \<not> seg_space x"
    using assms by (auto simp: utf8_segments_all_ascii ascii_def list_all_iff is_space_def)
  then have d: "\<And>ys. set ys \<subseteq> set (utf8_segments s) \<Longrightarrow> dropWhile seg_space ys = ys"
    by (metis dropWhile_eq_self_iff hd_in_set subset_iff)
  show ?thesis by (simp add: TrimSpace_def d)
qed

end
