(* ===== verification/Candidates.thy ===== *)
theory Candidates
  imports Go_Encoding Monitor_Engine "HOL-Library.Product_Lexorder"
begin

text \<open>
  The package \<open>internal/candidates\<close>: the inbox of SSH hosts seen by discovery and scanning. It holds
  untrusted data of bounded size; an operator reviews its entries. The inbox is a \<open>record\<close>;
  the time of the clock, the generated identifiers and the outcome of a save are arguments of the
  operations. \<open>ibDisk\<close> is the stored document.

  \<open>netip.ParseAddr\<close> followed by \<open>Unmap\<close> and \<open>String\<close> is the parameter \<open>addr\<close> of the operations
  that normalize an address; the JSON codec and the private file are parameters as well.
\<close>

section \<open>Types\<close>

datatype cand_state =
    CandDiscovered | CandIdentityPending | CandVerified | CandIgnored
  | CandOther string

definition state_text :: "cand_state \<Rightarrow> string" where
  "state_text st = (case st of CandDiscovered \<Rightarrow> ''discovered'' | CandIdentityPending \<Rightarrow> ''identity_pending''
     | CandVerified \<Rightarrow> ''verified'' | CandIgnored \<Rightarrow> ''ignored'' | CandOther s \<Rightarrow> s)"

datatype cand_event_type =
    CandEventDiscovered | CandEventUpdated | CandEventMerged | CandEventVerified | CandEventIgnored
  | CandEventRestored | CandEventExpired | CandEventEvicted | CandEventDropped | CandEventConfiguredChanged

record observation =
  obSource :: string
  obObservedAt :: time
  obName :: string
  obHostname :: string
  obAddress :: string
  obPort :: int
  obFingerprint :: string
  obKeyType :: string
  obEvidence :: string

record endpoint =
  epAddress :: string
  epPort :: int
  epFirstSeen :: time
  epLastSeen :: time

record candidate =
  cdID :: string
  cdState :: cand_state
  cdFingerprint :: string
  cdKeyType :: string
  cdNames :: "string list"
  cdHostnames :: "string list"
  cdEndpoints :: "endpoint list"
  cdSources :: "string list"
  cdLastEvidence :: string
  cdConfiguredNames :: "string list"
  cdFirstSeen :: time
  cdLastSeen :: time
  cdVerifiedAt :: "time option"
  cdIgnoredAt :: "time option"

record configured_fingerprint =
  cfFingerprint :: string
  cfDeviceNames :: "string list"

record ingest_result =
  irCandidate :: "candidate option"  \<comment> \<open>\<open>None\<close> is the zero value of a dropped observation\<close>
  irCreated :: bool
  irDropped :: "observation option"
  irEvictedIDs :: "string list"
  irMergedIDs :: "string list"

record cand_event =
  ceSequence :: u64
  ceAt :: time
  ceType :: cand_event_type
  ceCandidate :: "candidate option"
  ceCandidateID :: string
  ceMergedIDs :: "string list"

record event_batch =
  ebLatestSequence :: u64
  ebResetRequired :: bool
  ebEvents :: "cand_event list"

record cand_snapshot =
  csSequence :: u64
  csGenerated :: time
  csDropped :: u64
  csEvicted :: u64
  csCandidates :: "candidate list"

record cand_options =
  coTTL :: duration
  coMaxCandidates :: int
  coMaxEvents :: int

definition DefaultTTL :: duration where "DefaultTTL = 7 * 24 * hour"
definition DefaultMaxCandidates :: int where "DefaultMaxCandidates = 4096"
definition DefaultMaxEvents :: int where "DefaultMaxEvents = 512"

record disk_state =
  dsVersion :: int
  dsSequence :: u64
  dsConfigured :: "configured_fingerprint list"
  dsCandidates :: "candidate list"

record inbox =
  ibPath :: string
  ibTTL :: duration
  ibMaxEntries :: int
  ibMaxEvents :: int
  ibSequence :: u64
  ibDropped :: u64
  ibEvicted :: u64
  ibEntries :: "candidate gomap"
  ibConfigured :: "string list gomap"
  ibEvents :: "cand_event list"
  ibDisk :: "disk_state option"

type_synonym cand_saver = "disk_state \<Rightarrow> save_outcome"

section \<open>Normalization\<close>

text \<open>Sequencing of fallible steps.\<close>

definition and_then :: "goerr + 'a \<Rightarrow> ('a \<Rightarrow> goerr + 'b) \<Rightarrow> goerr + 'b" where
  "and_then r f = (case r of Inl err \<Rightarrow> Inl err | Inr x \<Rightarrow> f x)"

lemma and_then_simps [simp]: "and_then (Inl e) f = Inl e" "and_then (Inr x) f = f x"
  by (simp_all add: and_then_def)

lemma and_then_Inr: "and_then r f = Inr y \<longleftrightarrow> (\<exists>x. r = Inr x \<and> f x = Inr y)"
  by (cases r) simp_all

definition normalizePlain :: "unicode_db \<Rightarrow> string \<Rightarrow> string \<Rightarrow> nat \<Rightarrow> goerr + string" where
  "normalizePlain db field value maxLen =
     (let v = TrimSpace value in
      if v = [] then Inl (ErrText (field @ '' must not be empty''))
      else if maxLen < length v then Inl (ErrText (field @ '' exceeds '' @ decimal maxLen @ '' bytes''))
      else if list_ex (uc_other db) (runes v) then
        Inl (ErrText (field @ '' contains a control or formatting character''))
      else Inr v)"

definition fingerprint_prefix :: string where
  "fingerprint_prefix = ''SHA256:''"

definition normalizeFingerprint :: "string \<Rightarrow> goerr + string" where
  "normalizeFingerprint value =
     (let v = TrimSpace value in
      if \<not> HasPrefix v fingerprint_prefix then Inl (ErrText ''fingerprint must use OpenSSH SHA256 format'')
      else case RawStd_Decode (TrimRight (TrimPrefix v fingerprint_prefix) ''='') of
        None \<Rightarrow> Inl (ErrText ''fingerprint must contain a 32-byte SHA256 digest'')
      | Some digest \<Rightarrow>
          if length digest \<noteq> 32 then Inl (ErrText ''fingerprint must contain a 32-byte SHA256 digest'')
          else Inr (fingerprint_prefix @ RawStd_Encode digest))"

text \<open>A field that may be empty is normalized only when it is not.\<close>

definition normalize_opt :: "(string \<Rightarrow> goerr + string) \<Rightarrow> string \<Rightarrow> goerr + string" where
  "normalize_opt f v = (if v = [] then Inr [] else f v)"

definition normalize_host :: "unicode_db \<Rightarrow> string \<Rightarrow> goerr + string" where
  "normalize_host db v = normalizePlain db ''hostname'' (TrimSuffix (TrimSpace v) ''.'') 253"

definition normalize_addr :: "(string \<Rightarrow> goerr + string) \<Rightarrow> string \<Rightarrow> goerr + string" where
  "normalize_addr addr v =
     (case addr (TrimSpace v) of Inl err \<Rightarrow> Inl (errorf ''invalid address'' err) | Inr a \<Rightarrow> Inr a)"

definition normalizeObservation ::
    "unicode_db \<Rightarrow> (string \<Rightarrow> goerr + string) \<Rightarrow> time \<Rightarrow> observation \<Rightarrow> goerr + observation" where
  "normalizeObservation db addr now ob =
     and_then (normalizePlain db ''source'' (obSource ob) 64) (\<lambda>source.
     and_then (if time_is_zero (obObservedAt ob) then Inr now
               else if now + 5 * minute < obObservedAt ob then
                 Inl (ErrText ''observed_at is too far in the future'')
               else Inr (obObservedAt ob)) (\<lambda>seen.
     and_then (normalize_opt (\<lambda>v. normalizePlain db ''name'' v 256) (obName ob)) (\<lambda>name.
     and_then (normalize_opt (normalize_host db) (obHostname ob)) (\<lambda>hostname.
     and_then (normalize_opt (normalize_addr addr) (obAddress ob)) (\<lambda>address.
     let port = (if obPort ob = 0 then 22 else obPort ob) in
     and_then (if port < 1 \<or> 65535 < port then Inl (ErrText ''port must be between 1 and 65535'')
               else Inr port) (\<lambda>port.
     and_then (normalize_opt normalizeFingerprint (obFingerprint ob)) (\<lambda>fingerprint.
     and_then (normalize_opt (\<lambda>v. normalizePlain db ''key type'' v 128) (obKeyType ob)) (\<lambda>keyType.
     and_then (normalize_opt (\<lambda>v. normalizePlain db ''evidence'' v 256) (obEvidence ob)) (\<lambda>evidence.
     if name = [] \<and> hostname = [] \<and> address = [] \<and> fingerprint = [] then
       Inl (ErrText ''observation must contain a name, hostname, address, or fingerprint'')
     else Inr \<lparr>obSource = source, obObservedAt = seen, obName = name, obHostname = hostname,
            obAddress = address, obPort = port, obFingerprint = fingerprint, obKeyType = keyType,
            obEvidence = evidence\<rparr>)))))))))"

section \<open>Merging\<close>

definition earlier :: "time \<Rightarrow> time \<Rightarrow> time" where
  "earlier a b = (if time_is_zero a \<or> b < a then b else a)"

definition later :: "time \<Rightarrow> time \<Rightarrow> time" where
  "later a b = (if time_is_zero a \<or> a < b then b else a)"

definition addString :: "string list \<Rightarrow> string \<Rightarrow> string list" where
  "addString vs v = (if v \<in> set vs then vs else vs @ [v])"

definition containsFold :: "unicode_db \<Rightarrow> string list \<Rightarrow> string \<Rightarrow> bool" where
  "containsFold db vs v = list_ex (\<lambda>x. EqualFold db x v) vs"

definition addStringFold :: "unicode_db \<Rightarrow> string list \<Rightarrow> string \<Rightarrow> string list" where
  "addStringFold db vs v = (if list_ex (\<lambda>x. EqualFold db x v) vs then vs else vs @ [v])"

definition hasEndpoint :: "endpoint list \<Rightarrow> string \<Rightarrow> int \<Rightarrow> bool" where
  "hasEndpoint eps a p = list_ex (\<lambda>e. epAddress e = a \<and> epPort e = p) eps"

fun touch_endpoint :: "endpoint \<Rightarrow> endpoint list \<Rightarrow> endpoint list" where
  "touch_endpoint i [] = []"
| "touch_endpoint i (e # es) =
     (if epAddress e = epAddress i \<and> epPort e = epPort i
      then e\<lparr>epFirstSeen := earlier (epFirstSeen e) (epFirstSeen i),
             epLastSeen := later (epLastSeen e) (epLastSeen i)\<rparr> # es
      else e # touch_endpoint i es)"

definition mergeEndpoint :: "endpoint \<Rightarrow> endpoint list \<Rightarrow> endpoint list" where
  "mergeEndpoint i eps =
     (if hasEndpoint eps (epAddress i) (epPort i) then touch_endpoint i eps
      else sort_key (\<lambda>e. (epAddress e, epPort e)) (eps @ [i]))"

definition mergeObservation :: "unicode_db \<Rightarrow> observation \<Rightarrow> candidate \<Rightarrow> candidate" where
  "mergeObservation db ob c =
     c\<lparr>cdFirstSeen := earlier (cdFirstSeen c) (obObservedAt ob),
       cdLastSeen := later (cdLastSeen c) (obObservedAt ob),
       cdNames := sort (if obName ob \<noteq> [] then addStringFold db (cdNames c) (obName ob) else cdNames c),
       cdHostnames := sort (if obHostname ob \<noteq> [] then addStringFold db (cdHostnames c) (obHostname ob)
                            else cdHostnames c),
       cdSources := sort (if obSource ob \<noteq> [] then addString (cdSources c) (obSource ob) else cdSources c),
       cdEndpoints := (if obAddress ob \<noteq> [] then
           mergeEndpoint \<lparr>epAddress = obAddress ob, epPort = obPort ob, epFirstSeen = obObservedAt ob,
             epLastSeen = obObservedAt ob\<rparr> (cdEndpoints c) else cdEndpoints c),
       cdKeyType := (if obKeyType ob \<noteq> [] then obKeyType ob else cdKeyType c),
       cdLastEvidence := (if obEvidence ob \<noteq> [] then obEvidence ob else cdLastEvidence c)\<rparr>"

definition mergeCandidates :: "unicode_db \<Rightarrow> candidate \<Rightarrow> candidate \<Rightarrow> candidate" where
  "mergeCandidates db target source =
     target\<lparr>cdFirstSeen := earlier (cdFirstSeen target) (cdFirstSeen source),
       cdLastSeen := later (cdLastSeen target) (cdLastSeen source),
       cdNames := sort (foldl (addStringFold db) (cdNames target) (cdNames source)),
       cdHostnames := sort (foldl (addStringFold db) (cdHostnames target) (cdHostnames source)),
       cdSources := sort (foldl addString (cdSources target) (cdSources source)),
       cdEndpoints := fold mergeEndpoint (cdEndpoints source) (cdEndpoints target),
       cdState := (if cdState source = CandIgnored then CandIgnored else cdState target),
       cdIgnoredAt := (if cdState source = CandIgnored then cdIgnoredAt source else cdIgnoredAt target),
       cdLastEvidence := (if cdLastEvidence target = [] then cdLastEvidence source else cdLastEvidence target)\<rparr>"

section \<open>Events and storage\<close>

definition makeEventLocked ::
    "cand_event_type \<Rightarrow> candidate option \<Rightarrow> string list \<Rightarrow> time \<Rightarrow> string \<Rightarrow> inbox \<Rightarrow> cand_event \<times> inbox" where
  "makeEventLocked kind cand merged atTime eid b =
     (let sq = ibSequence b + 1 in
      (\<lparr>ceSequence = sq, ceAt = atTime, ceType = kind, ceCandidate = cand,
        ceCandidateID = (case cand of Some c \<Rightarrow> cdID c | None \<Rightarrow> eid), ceMergedIDs = merged\<rparr>,
       b\<lparr>ibSequence := sq\<rparr>))"

definition appendEventsLocked :: "cand_event list \<Rightarrow> inbox \<Rightarrow> inbox" where
  "appendEventsLocked evs b =
     (let all = ibEvents b @ evs in
      b\<lparr>ibEvents := (if ibMaxEvents b < int (length all)
                     then drop (nat (int (length all) - ibMaxEvents b)) all else all)\<rparr>)"

definition storeVersion :: int where "storeVersion = 1"
definition maxStoreSize :: nat where "maxStoreSize = 4 * 1024 * 1024"

definition disk_of :: "inbox \<Rightarrow> disk_state" where
  "disk_of b =
     \<lparr>dsVersion = storeVersion, dsSequence = ibSequence b,
      dsConfigured = sort_key cfFingerprint
        (map (\<lambda>(fp, names). \<lparr>cfFingerprint = fp, cfDeviceNames = names\<rparr>) (ibConfigured b)),
      dsCandidates = sort_key cdID (map snd (ibEntries b))\<rparr>"

definition saveLocked :: "cand_saver \<Rightarrow> inbox \<Rightarrow> inbox \<times> goerr option" where
  "saveLocked sv b =
     (if ibPath b = [] then (b, None)
      else case sv (disk_of b) of
        SaveOk \<Rightarrow> (b\<lparr>ibDisk := Some (disk_of b)\<rparr>, None)
      | SaveFailed err landed \<Rightarrow> (if landed then b\<lparr>ibDisk := Some (disk_of b)\<rparr> else b, Some err))"

text \<open>\<open>saveState\<close> over the encoder and the private writer.\<close>

definition saveState :: "(disk_state \<Rightarrow> goerr + string) \<Rightarrow> (string \<Rightarrow> save_outcome) \<Rightarrow> cand_saver" where
  "saveState encode write state =
     (case encode state of
        Inl err \<Rightarrow> SaveFailed err False
      | Inr text \<Rightarrow>
        let data = text @ [CHR 0x0A] in
        if maxStoreSize < length data then
          SaveFailed (ErrText (''candidate inbox exceeds '' @ decimal maxStoreSize @ '' bytes'')) False
        else write data)"

text \<open>\<open>loadState\<close>: the decoder gives the document and whether nothing follows it.\<close>

definition loadState :: "(goerr + string) \<Rightarrow> (string \<Rightarrow> goerr + disk_state \<times> bool) \<Rightarrow> goerr + disk_state option" where
  "loadState content decode =
     (case content of
        Inl err \<Rightarrow> if err_is err NotExist then Inr None else Inl err
      | Inr data \<Rightarrow>
        (case decode data of
           Inl err \<Rightarrow> Inl (errorf ''decode candidate inbox'' err)
         | Inr (state, atEOF) \<Rightarrow>
           if \<not> atEOF then Inl (ErrText ''candidate inbox contains trailing data'')
           else if dsVersion state \<noteq> storeVersion then
             Inl (ErrText (''unsupported candidate inbox version '' @ decimal_int (dsVersion state)))
           else Inr (Some state)))"

section \<open>Validation of stored candidates\<close>

definition stringsHasHexPrefix :: "string \<Rightarrow> string \<Rightarrow> bool" where
  "stringsHasHexPrefix v pre =
     (if length v \<le> length pre \<or> take (length pre) v \<noteq> pre then False
      else hex_DecodeString_ok (drop (length pre) v))"

definition valid_id :: "string \<Rightarrow> bool" where
  "valid_id v \<longleftrightarrow> length v = 37 \<and> stringsHasHexPrefix v ''cand_''"

definition normal_plain :: "unicode_db \<Rightarrow> string \<Rightarrow> nat \<Rightarrow> string \<Rightarrow> bool" where
  "normal_plain db field maxLen v \<longleftrightarrow> normalizePlain db field v maxLen = Inr v"

definition endpoint_err :: "(string \<Rightarrow> goerr + string) \<Rightarrow> endpoint \<Rightarrow> goerr option" where
  "endpoint_err addr e =
     (if addr (epAddress e) \<noteq> Inr (epAddress e) then Some (ErrText ''invalid endpoint address'')
      else if epPort e < 1 \<or> 65535 < epPort e \<or> time_is_zero (epFirstSeen e) \<or> epLastSeen e < epFirstSeen e
      then Some (ErrText ''invalid endpoint'')
      else None)"

fun first_some :: "('a \<Rightarrow> goerr option) \<Rightarrow> 'a list \<Rightarrow> goerr option" where
  "first_some f [] = None"
| "first_some f (x # xs) = (case f x of Some err \<Rightarrow> Some err | None \<Rightarrow> first_some f xs)"

definition validateCandidate :: "unicode_db \<Rightarrow> (string \<Rightarrow> goerr + string) \<Rightarrow> candidate \<Rightarrow> goerr option" where
  "validateCandidate db addr c =
     (if \<not> valid_id (cdID c) then Some (ErrText ''invalid candidate ID'')
      else if (case cdState c of CandOther _ \<Rightarrow> True | _ \<Rightarrow> False) then Some (ErrText (''invalid state '' @ Quote db (state_text (cdState c))))
      else if cdFingerprint c \<noteq> [] \<and> normalizeFingerprint (cdFingerprint c) \<noteq> Inr (cdFingerprint c) then
        Some (ErrText ''invalid fingerprint'')
      else if cdState c = CandDiscovered \<and> cdFingerprint c \<noteq> [] then
        Some (ErrText ''discovered candidate must not have a fingerprint'')
      else if cdState c = CandIdentityPending \<and> cdFingerprint c = [] then
        Some (ErrText ''identity-pending candidate requires a fingerprint'')
      else if cdState c = CandVerified \<and> cdFingerprint c = [] then
        Some (ErrText ''verified candidate requires a fingerprint'')
      else if cdState c = CandIgnored \<and> cdIgnoredAt c = None then
        Some (ErrText ''ignored candidate requires ignored_at'')
      else if cdState c \<noteq> CandIgnored \<and> cdIgnoredAt c \<noteq> None then
        Some (ErrText ''non-ignored candidate has ignored_at'')
      else if cdConfiguredNames c \<noteq> [] \<and> cdFingerprint c = [] then
        Some (ErrText ''configured candidate requires a fingerprint'')
      else if cdFingerprint c = [] \<and> cdNames c = [] \<and> cdHostnames c = [] \<and> cdEndpoints c = [] then
        Some (ErrText ''candidate has no observable identity'')
      else if time_is_zero (cdFirstSeen c) \<or> time_is_zero (cdLastSeen c) \<or> cdLastSeen c < cdFirstSeen c then
        Some (ErrText ''invalid candidate timestamps'')
      else if \<not> list_all (normal_plain db ''name'' 256) (cdNames c) then
        Some (ErrText ''invalid candidate name'')
      else if \<not> list_all (\<lambda>h. normal_plain db ''hostname'' 253 h \<and> \<not> HasSuffix h ''.'') (cdHostnames c) then
        Some (ErrText ''invalid candidate hostname'')
      else if \<not> list_all (normal_plain db ''source'' 64) (cdSources c) then
        Some (ErrText ''invalid candidate source'')
      else if \<not> list_all (normal_plain db ''configured device name'' 128) (cdConfiguredNames c) then
        Some (ErrText ''invalid configured device name'')
      else if cdKeyType c \<noteq> [] \<and> \<not> normal_plain db ''key type'' 128 (cdKeyType c) then
        Some (ErrText ''invalid key type'')
      else if cdLastEvidence c \<noteq> [] \<and> \<not> normal_plain db ''evidence'' 256 (cdLastEvidence c) then
        Some (ErrText ''invalid evidence'')
      else if cdVerifiedAt c = Some 0 then Some (ErrText ''invalid verified_at'')
      else if cdIgnoredAt c = Some 0 then Some (ErrText ''invalid ignored_at'')
      else first_some (endpoint_err addr) (cdEndpoints c))"

section \<open>Opening\<close>

definition newInbox :: "string \<Rightarrow> cand_options \<Rightarrow> inbox" where
  "newInbox path o1 =
     \<lparr>ibPath = path,
      ibTTL = (if coTTL o1 = 0 then DefaultTTL else coTTL o1),
      ibMaxEntries = (if coMaxCandidates o1 \<le> 0 then DefaultMaxCandidates else coMaxCandidates o1),
      ibMaxEvents = (if coMaxEvents o1 \<le> 0 then DefaultMaxEvents else coMaxEvents o1),
      ibSequence = 0, ibDropped = 0, ibEvicted = 0, ibEntries = [], ibConfigured = [], ibEvents = [],
      ibDisk = None\<rparr>"

text \<open>The names of a fingerprint; the zero value of a missing key is the empty list.\<close>

definition names_of :: "string list gomap \<Rightarrow> string \<Rightarrow> string list" where
  "names_of m fp = (case map_of m fp of None \<Rightarrow> [] | Some ns \<Rightarrow> ns)"

fun add_names :: "unicode_db \<Rightarrow> string \<Rightarrow> string list \<Rightarrow> string list gomap \<Rightarrow> goerr + string list gomap" where
  "add_names db fp [] m = Inr m"
| "add_names db fp (n # ns) m =
     and_then (normalizePlain db ''configured device name'' n 128) (\<lambda>name.
       add_names db fp ns (AList.update fp (addString (names_of m fp) name) m))"

text \<open>
  The loop over configured fingerprints of \<open>Open\<close> and of \<open>ReplaceConfiguredFingerprints\<close>, which
  differ in the text of the errors and in whether an item without names is refused.
\<close>

fun configured_loop ::
    "unicode_db \<Rightarrow> string \<Rightarrow> bool \<Rightarrow> nat \<Rightarrow> configured_fingerprint list \<Rightarrow> string list gomap
      \<Rightarrow> goerr + string list gomap" where
  "configured_loop db what needNames i [] m = Inr m"
| "configured_loop db what needNames i (item # items) m =
     (let wrap = (\<lambda>err. errorf (what @ decimal i) err) in
      case normalizeFingerprint (cfFingerprint item) of
        Inl err \<Rightarrow> Inl (wrap err)
      | Inr fp \<Rightarrow>
        if needNames \<and> cfDeviceNames item = [] then
          Inl (ErrText (what @ decimal i @ '' must name at least one device''))
        else case add_names db fp (cfDeviceNames item) m of
          Inl err \<Rightarrow> Inl (wrap err)
        | Inr m' \<Rightarrow> configured_loop db what needNames (Suc i) items m')"

definition sort_names :: "string list gomap \<Rightarrow> string list gomap" where
  "sort_names m = map (\<lambda>(fp, ns). (fp, sort ns)) m"

fun open_candidates ::
    "unicode_db \<Rightarrow> (string \<Rightarrow> goerr + string) \<Rightarrow> string list gomap \<Rightarrow> nat \<Rightarrow> candidate list
      \<Rightarrow> string gomap \<Rightarrow> candidate gomap \<Rightarrow> goerr + candidate gomap" where
  "open_candidates db addr configured i [] fps entries = Inr entries"
| "open_candidates db addr configured i (c # cs) fps entries =
     (case validateCandidate db addr c of
        Some err \<Rightarrow> Inl (errorf (''invalid candidate at index '' @ decimal i) err)
      | None \<Rightarrow>
        if map_of entries (cdID c) \<noteq> None then
          Inl (ErrText (''duplicate candidate ID '' @ Quote db (cdID c)))
        else if cdFingerprint c \<noteq> [] \<and> map_of fps (cdFingerprint c) \<noteq> None then
          Inl (ErrText (''candidates '' @ Quote db (the (map_of fps (cdFingerprint c))) @ '' and '' @
            Quote db (cdID c) @ '' share fingerprint '' @ cdFingerprint c))
        else if Join (cdConfiguredNames c) [CHR 0x00]
             \<noteq> Join (names_of configured (cdFingerprint c)) [CHR 0x00] then
          Inl (ErrText (''candidate '' @ Quote db (cdID c) @ '' has stale configured device names''))
        else open_candidates db addr configured (Suc i) cs
               (if cdFingerprint c \<noteq> [] then AList.update (cdFingerprint c) (cdID c) fps else fps)
               (AList.update (cdID c) c entries))"

definition Open ::
    "unicode_db \<Rightarrow> (string \<Rightarrow> goerr + string) \<Rightarrow> string \<Rightarrow> cand_options \<Rightarrow> (goerr + disk_state option)
      \<Rightarrow> goerr + inbox" where
  "Open db addr path o1 loaded =
     (if TrimSpace path = [] then Inl (ErrText ''candidate inbox path must not be empty'')
      else and_then loaded (\<lambda>found.
        case found of
          None \<Rightarrow> Inr (newInbox path o1)
        | Some st \<Rightarrow>
          and_then (configured_loop db ''invalid configured fingerprint at index '' False 0 (dsConfigured st) []) (\<lambda>m.
          let configured = sort_names m; b = newInbox path o1 in
          and_then (open_candidates db addr configured 0 (dsCandidates st) [] []) (\<lambda>entries.
          if ibMaxEntries b < int (length entries) then
            Inl (ErrText (''candidate inbox contains '' @ decimal (length entries) @ '' entries; limit is '' @
              decimal_int (ibMaxEntries b)))
          else Inr (b\<lparr>ibSequence := dsSequence st, ibConfigured := configured, ibEntries := entries,
                 ibDisk := Some st\<rparr>)))))"

section \<open>Ingesting\<close>

definition candidatePinned :: "candidate \<Rightarrow> bool" where
  "candidatePinned c \<longleftrightarrow> cdState c = CandVerified \<or> cdState c = CandIgnored \<or> cdVerifiedAt c \<noteq> None
     \<or> cdConfiguredNames c \<noteq> []"

fun eviction_scan :: "string list \<Rightarrow> candidate option \<Rightarrow> candidate gomap \<Rightarrow> candidate option" where
  "eviction_scan touched victim [] = victim"
| "eviction_scan touched victim ((k, c) # es) =
     (if k \<in> set touched \<or> candidatePinned c then eviction_scan touched victim es
      else if (case victim of None \<Rightarrow> True
               | Some v \<Rightarrow> cdLastSeen c < cdLastSeen v \<or> cdLastSeen c = cdLastSeen v \<and> cdID c < cdID v)
      then eviction_scan touched (Some c) es
      else eviction_scan touched victim es)"

definition evictionTargetLocked :: "string list \<Rightarrow> candidate gomap \<Rightarrow> candidate option" where
  "evictionTargetLocked touched es = eviction_scan touched None es"

definition matches_observation :: "unicode_db \<Rightarrow> observation \<Rightarrow> candidate \<Rightarrow> bool" where
  "matches_observation db ob c \<longleftrightarrow>
     obFingerprint ob \<noteq> [] \<and> cdFingerprint c = obFingerprint ob
     \<or> \<not> (obFingerprint ob \<noteq> [] \<and> cdFingerprint c \<noteq> [] \<and> cdFingerprint c \<noteq> obFingerprint ob) \<and>
       (obAddress ob \<noteq> [] \<and> hasEndpoint (cdEndpoints c) (obAddress ob) (obPort ob)
        \<or> obHostname ob \<noteq> [] \<and> containsFold db (cdHostnames c) (obHostname ob)
        \<or> obAddress ob = [] \<and> obHostname ob = [] \<and> obName ob \<noteq> [] \<and> containsFold db (cdNames c) (obName ob))"

text \<open>The map \<open>seen\<close> is keyed by the identifiers, as the entries are.\<close>

definition matchesLocked :: "unicode_db \<Rightarrow> observation \<Rightarrow> inbox \<Rightarrow> candidate list" where
  "matchesLocked db ob b = sort_key cdID (filter (matches_observation db ob) (map snd (ibEntries b)))"

definition choose_match :: "observation \<Rightarrow> candidate list \<Rightarrow> candidate option" where
  "choose_match ob ms =
     (if obFingerprint ob \<noteq> [] then
        (case List.find (\<lambda>m. cdFingerprint m = obFingerprint ob) ms of
           Some m \<Rightarrow> Some m
         | None \<Rightarrow> List.find (\<lambda>m. cdFingerprint m = []) ms)
      else if length ms = 1 then Some (hd ms)
      else if length ms > 1 then List.find (\<lambda>m. cdFingerprint m = []) ms
      else None)"

text \<open>
  The loop that makes room: \<open>Inl\<close> when nothing can be evicted, else the identifiers and events.
  Every turn removes an entry, so the number of entries is enough fuel (\<open>make_room_loop\<close>).
\<close>

fun make_room ::
    "nat \<Rightarrow> string list \<Rightarrow> time \<Rightarrow> inbox \<Rightarrow> inbox \<times> string list \<times> cand_event list \<times> bool" where
  "make_room 0 touched atTime b = (b, [], [], \<not> ibMaxEntries b \<le> int (length (ibEntries b)))"
| "make_room (Suc fuel) touched atTime b =
     (if \<not> ibMaxEntries b \<le> int (length (ibEntries b)) then (b, [], [], True)
      else case evictionTargetLocked touched (ibEntries b) of
        None \<Rightarrow> (b, [], [], False)
      | Some v \<Rightarrow>
        let b1 = b\<lparr>ibEntries := AList.delete (cdID v) (ibEntries b), ibEvicted := ibEvicted b + 1\<rparr>;
            (ev, b2) = makeEventLocked CandEventEvicted None [] atTime (cdID v) b1;
            (b3, ids, evs, room) = make_room fuel touched atTime b2 in
        (b3, cdID v # ids, ev # evs, room))"

definition new_candidate :: "string \<Rightarrow> time \<Rightarrow> candidate" where
  "new_candidate cid seen =
     \<lparr>cdID = cid, cdState = CandDiscovered, cdFingerprint = [], cdKeyType = [], cdNames = [], cdHostnames = [],
      cdEndpoints = [], cdSources = [], cdLastEvidence = [], cdConfiguredNames = [], cdFirstSeen = seen,
      cdLastSeen = seen, cdVerifiedAt = None, cdIgnoredAt = None\<rparr>"

text \<open>The candidate after the observation, before the aliases are folded in.\<close>

definition observe_candidate :: "unicode_db \<Rightarrow> string list gomap \<Rightarrow> observation \<Rightarrow> candidate \<Rightarrow> candidate" where
  "observe_candidate db configured ob c0 =
     (let c1 = (if obFingerprint ob \<noteq> [] then
                  c0\<lparr>cdFingerprint := obFingerprint ob,
                     cdState := (if cdState c0 = CandDiscovered then CandIdentityPending else cdState c0)\<rparr>
                else c0);
          c2 = mergeObservation db ob c1;
          names = names_of configured (cdFingerprint c2) in
      if names \<noteq> [] then
        c2\<lparr>cdConfiguredNames := names,
           cdState := (if cdState c2 \<noteq> CandIgnored then CandVerified else cdState c2)\<rparr>
      else c2)"

text \<open>
  \<open>ingestLocked\<close> on a normalized observation. \<open>fresh\<close> is the outcome of \<open>newCandidateID\<close>; the
  result holds the events, the identifiers touched so far and the new state.
\<close>

definition ingestLocked ::
    "unicode_db \<Rightarrow> (goerr + string) \<Rightarrow> observation \<Rightarrow> string list \<Rightarrow> inbox
      \<Rightarrow> goerr + (ingest_result \<times> cand_event list \<times> string list \<times> inbox)" where
  "ingestLocked db fresh ob touched b =
     (let ms = matchesLocked db ob b;
          seen = obObservedAt ob;
          found = choose_match ob ms;
          (b1, evictedIDs, evictedEvs, room) =
            (case found of Some _ \<Rightarrow> (b, [], [], True)
             | None \<Rightarrow> make_room (length (ibEntries b)) touched seen b) in
      if \<not> room then
        (let (ev, b2) = makeEventLocked CandEventDropped None [] seen [] (b1\<lparr>ibDropped := ibDropped b1 + 1\<rparr>) in
         Inr (\<lparr>irCandidate = None, irCreated = False, irDropped = Some ob, irEvictedIDs = [], irMergedIDs = []\<rparr>,
              [ev], touched, b2))
      else and_then
        (case found of
           Some c \<Rightarrow> Inr c
         | None \<Rightarrow> (case fresh of Inl err \<Rightarrow> Inl (errorf ''generate candidate ID'' err)
                    | Inr cid \<Rightarrow> Inr (new_candidate cid seen))) (\<lambda>c0.
        let c1 = observe_candidate db (ibConfigured b) ob c0;
            aliases = (if cdFingerprint c1 \<noteq> [] then
                         filter (\<lambda>m. cdID m \<noteq> cdID c1 \<and> cdFingerprint m = []) ms else []);
            c2 = fold (\<lambda>m c. mergeCandidates db c m) aliases c1;
            merged = sort (map cdID aliases);
            entries1 = AList.update (cdID c2) c2 (ibEntries b1);
            b2 = b1\<lparr>ibEntries := fold AList.delete (map cdID aliases) entries1\<rparr>;
            kind = (if found = None then CandEventDiscovered
                    else if merged \<noteq> [] then CandEventMerged else CandEventUpdated);
            (ev, b3) = makeEventLocked kind (Some c2) merged seen [] b2 in
        Inr (\<lparr>irCandidate = Some c2, irCreated = (found = None), irDropped = None,
               irEvictedIDs = evictedIDs, irMergedIDs = merged\<rparr>,
             evictedEvs @ [ev], cdID c2 # touched, b3)))"

text \<open>\<open>expireLocked\<close>: the expired identifiers, their events and the new state.\<close>

definition expired_entry :: "duration \<Rightarrow> time \<Rightarrow> candidate \<Rightarrow> bool" where
  "expired_entry ttl now c \<longleftrightarrow> \<not> (cdState c = CandIgnored \<or> time_sub now (cdLastSeen c) \<le> ttl)"

fun expire_events :: "time \<Rightarrow> string list \<Rightarrow> inbox \<Rightarrow> cand_event list \<times> inbox" where
  "expire_events now [] b = ([], b)"
| "expire_events now (i # is) b =
     (let (ev, b1) = makeEventLocked CandEventExpired None [] now i b;
          (evs, b2) = expire_events now is b1 in
      (ev # evs, b2))"

definition expireLocked :: "time \<Rightarrow> inbox \<Rightarrow> string list \<times> cand_event list \<times> inbox" where
  "expireLocked now b =
     (if ibTTL b < 0 then ([], [], b)
      else
        let ids = sort (map fst (filter (\<lambda>(k, c). expired_entry (ibTTL b) now c) (ibEntries b)));
            b1 = b\<lparr>ibEntries := filter (\<lambda>(k, c). \<not> expired_entry (ibTTL b) now c) (ibEntries b)\<rparr>;
            (evs, b2) = expire_events now ids b1 in
        (ids, evs, b2))"

fun normalize_all ::
    "unicode_db \<Rightarrow> (string \<Rightarrow> goerr + string) \<Rightarrow> time \<Rightarrow> nat \<Rightarrow> observation list \<Rightarrow> goerr + observation list" where
  "normalize_all db addr now i [] = Inr []"
| "normalize_all db addr now i (ob # obs) =
     (case normalizeObservation db addr now ob of
        Inl err \<Rightarrow> Inl (errorf (''observation '' @ decimal i) err)
      | Inr n \<Rightarrow> and_then (normalize_all db addr now (Suc i) obs) (\<lambda>ns. Inr (n # ns)))"

text \<open>The loop over the normalized observations; \<open>fresh i\<close> is the identifier generated for the \<open>i\<close>-th.\<close>

fun ingest_loop ::
    "unicode_db \<Rightarrow> (nat \<Rightarrow> goerr + string) \<Rightarrow> nat \<Rightarrow> observation list \<Rightarrow> string list \<Rightarrow> inbox
      \<Rightarrow> goerr + (ingest_result list \<times> cand_event list \<times> inbox)" where
  "ingest_loop db fresh i [] touched b = Inr ([], [], b)"
| "ingest_loop db fresh i (ob # obs) touched b =
     and_then (ingestLocked db (fresh i) ob touched b) (\<lambda>(r, evs, touched1, b1).
     and_then (ingest_loop db fresh (Suc i) obs touched1 b1) (\<lambda>(rs, evs2, b2).
       Inr (r # rs, evs @ evs2, b2)))"

text \<open>What a failed transaction restores.\<close>

definition rollback_entries :: "inbox \<Rightarrow> inbox \<Rightarrow> inbox" where
  "rollback_entries before b =
     b\<lparr>ibEntries := ibEntries before, ibSequence := ibSequence before,
       ibDropped := ibDropped before, ibEvicted := ibEvicted before\<rparr>"

definition IngestMany ::
    "unicode_db \<Rightarrow> (string \<Rightarrow> goerr + string) \<Rightarrow> cand_saver \<Rightarrow> time \<Rightarrow> (nat \<Rightarrow> goerr + string)
      \<Rightarrow> observation list \<Rightarrow> inbox \<Rightarrow> inbox \<times> (goerr + ingest_result list)" where
  "IngestMany db addr sv now fresh obs b =
     (if obs = [] then (b, Inr [])
      else case normalize_all db addr now 0 obs of
        Inl err \<Rightarrow> (b, Inl err)
      | Inr normalized \<Rightarrow>
        let (_, expiredEvs, b1) = expireLocked now b in
        case ingest_loop db fresh 0 normalized [] b1 of
          Inl err \<Rightarrow> (rollback_entries b b1, Inl err)
        | Inr (results, evs, b2) \<Rightarrow>
          (case saveLocked sv b2 of
             (b3, Some err) \<Rightarrow> (rollback_entries b b3, Inl err)
           | (b3, None) \<Rightarrow> (appendEventsLocked (expiredEvs @ evs) b3, Inr results)))"

definition Ingest ::
    "unicode_db \<Rightarrow> (string \<Rightarrow> goerr + string) \<Rightarrow> cand_saver \<Rightarrow> time \<Rightarrow> (nat \<Rightarrow> goerr + string)
      \<Rightarrow> observation \<Rightarrow> inbox \<Rightarrow> inbox \<times> (goerr + ingest_result)" where
  "Ingest db addr sv now fresh ob b =
     (case IngestMany db addr sv now fresh [ob] b of
        (b', Inl err) \<Rightarrow> (b', Inl err)
      | (b', Inr results) \<Rightarrow> (b', Inr (hd results)))"

section \<open>Review\<close>

definition transition ::
    "cand_saver \<Rightarrow> time \<Rightarrow> string \<Rightarrow> cand_event_type \<Rightarrow> (candidate \<Rightarrow> time \<Rightarrow> goerr + candidate)
      \<Rightarrow> inbox \<Rightarrow> inbox \<times> (goerr + candidate)" where
  "transition sv now cid kind change b =
     (case map_of (ibEntries b) cid of
        None \<Rightarrow> (b, Inl (ErrText (''candidate not found: '' @ cid)))
      | Some before \<Rightarrow>
        (case change before now of
           Inl err \<Rightarrow> (b, Inl err)
         | Inr c \<Rightarrow>
           let (ev, b1) = makeEventLocked kind (Some c) [] now []
                            (b\<lparr>ibEntries := AList.update cid c (ibEntries b)\<rparr>) in
           case saveLocked sv b1 of
             (b2, Some err) \<Rightarrow>
               (b2\<lparr>ibEntries := AList.update cid before (ibEntries b2), ibSequence := ibSequence b\<rparr>, Inl err)
           | (b2, None) \<Rightarrow> (appendEventsLocked [ev] b2, Inr c)))"

definition verify_change :: "candidate \<Rightarrow> time \<Rightarrow> goerr + candidate" where
  "verify_change c now =
     (if cdFingerprint c = [] then Inl (ErrText ''cannot verify a candidate without an SSH fingerprint'')
      else Inr (c\<lparr>cdState := CandVerified, cdVerifiedAt := Some now, cdIgnoredAt := None\<rparr>))"

definition ignore_change :: "candidate \<Rightarrow> time \<Rightarrow> goerr + candidate" where
  "ignore_change c now = Inr (c\<lparr>cdState := CandIgnored, cdIgnoredAt := Some now\<rparr>)"

definition restore_change :: "candidate \<Rightarrow> time \<Rightarrow> goerr + candidate" where
  "restore_change c now =
     (if cdState c \<noteq> CandIgnored then Inl (ErrText ''candidate is not ignored'')
      else Inr (c\<lparr>cdIgnoredAt := None,
             cdState := (if cdFingerprint c = [] then CandDiscovered
                         else if cdConfiguredNames c \<noteq> [] \<or> cdVerifiedAt c \<noteq> None then CandVerified
                         else CandIdentityPending)\<rparr>))"

definition MarkVerified :: "cand_saver \<Rightarrow> time \<Rightarrow> string \<Rightarrow> inbox \<Rightarrow> inbox \<times> (goerr + candidate)" where
  "MarkVerified sv now cid b = transition sv now cid CandEventVerified verify_change b"

definition Ignore :: "cand_saver \<Rightarrow> time \<Rightarrow> string \<Rightarrow> inbox \<Rightarrow> inbox \<times> (goerr + candidate)" where
  "Ignore sv now cid b = transition sv now cid CandEventIgnored ignore_change b"

definition Restore :: "cand_saver \<Rightarrow> time \<Rightarrow> string \<Rightarrow> inbox \<Rightarrow> inbox \<times> (goerr + candidate)" where
  "Restore sv now cid b = transition sv now cid CandEventRestored restore_change b"

section \<open>Configured fingerprints\<close>

definition reconfigure :: "string list gomap \<Rightarrow> candidate \<Rightarrow> candidate" where
  "reconfigure next c =
     (let prior = Join (cdConfiguredNames c) [CHR 0x00];
          names = names_of next (cdFingerprint c) in
      c\<lparr>cdConfiguredNames := names,
        cdState := (if names \<noteq> [] \<and> cdState c \<noteq> CandIgnored then CandVerified
                    else if prior \<noteq> [] \<and> cdState c = CandVerified \<and> cdVerifiedAt c = None then CandIdentityPending
                    else cdState c)\<rparr>)"

definition names_changed :: "candidate \<Rightarrow> candidate \<Rightarrow> bool" where
  "names_changed before after \<longleftrightarrow>
     Join (cdConfiguredNames before) [CHR 0x00] \<noteq> Join (cdConfiguredNames after) [CHR 0x00]"

fun reconfigure_loop ::
    "string list gomap \<Rightarrow> time \<Rightarrow> candidate gomap \<Rightarrow> inbox \<Rightarrow> candidate gomap \<times> cand_event list \<times> inbox" where
  "reconfigure_loop next now [] b = ([], [], b)"
| "reconfigure_loop next now ((k, c) # es) b =
     (let c' = reconfigure next c;
          (evs1, b1) = (if names_changed c c'
             then (let (ev, b') = makeEventLocked CandEventConfiguredChanged (Some c') [] now [] b in ([ev], b'))
             else ([], b));
          (es', evs2, b2) = reconfigure_loop next now es b1 in
      ((k, c') # es', evs1 @ evs2, b2))"

definition equalStringMap :: "string list gomap \<Rightarrow> string list gomap \<Rightarrow> bool" where
  "equalStringMap a b \<longleftrightarrow> length a = length b \<and>
     list_all (\<lambda>(k, left). case map_of b k of
         None \<Rightarrow> False | Some right \<Rightarrow> Join left [CHR 0x00] = Join right [CHR 0x00]) a"

definition ReplaceConfiguredFingerprints ::
    "unicode_db \<Rightarrow> cand_saver \<Rightarrow> time \<Rightarrow> configured_fingerprint list \<Rightarrow> inbox \<Rightarrow> inbox \<times> goerr option" where
  "ReplaceConfiguredFingerprints db sv now items b =
     (case configured_loop db ''configured fingerprint '' True 0 items [] of
        Inl err \<Rightarrow> (b, Some err)
      | Inr m \<Rightarrow>
        let next = sort_names m;
            (es, evs, b1) = reconfigure_loop next now (ibEntries b) b;
            b2 = b1\<lparr>ibEntries := es, ibConfigured := next\<rparr> in
        if evs = [] \<and> equalStringMap (ibConfigured b) next then (b2, None)
        else case saveLocked sv b2 of
          (b3, Some err) \<Rightarrow>
            (b3\<lparr>ibEntries := ibEntries b, ibConfigured := ibConfigured b, ibSequence := ibSequence b\<rparr>, Some err)
        | (b3, None) \<Rightarrow> (appendEventsLocked evs b3, None))"

section \<open>Expiring and reading\<close>

definition Expire :: "cand_saver \<Rightarrow> time \<Rightarrow> inbox \<Rightarrow> inbox \<times> (goerr + string list)" where
  "Expire sv now b =
     (let (ids, evs, b1) = expireLocked now b in
      if ids = [] then (b1, Inr [])
      else case saveLocked sv b1 of
        (b2, Some err) \<Rightarrow> (b2\<lparr>ibEntries := ibEntries b, ibSequence := ibSequence b\<rparr>, Inl err)
      | (b2, None) \<Rightarrow> (appendEventsLocked evs b2, Inr ids))"

text \<open>Most recently seen first, then by identifier.\<close>

definition Snapshot_inbox :: "time \<Rightarrow> inbox \<Rightarrow> cand_snapshot" where
  "Snapshot_inbox now b =
     \<lparr>csSequence = ibSequence b, csGenerated = now, csDropped = ibDropped b, csEvicted = ibEvicted b,
      csCandidates = sort_key (\<lambda>c. (- cdLastSeen c, cdID c)) (map snd (ibEntries b))\<rparr>"

definition EventsSince :: "u64 \<Rightarrow> inbox \<Rightarrow> event_batch" where
  "EventsSince cursor b =
     (if ibSequence b \<le> cursor then
        \<lparr>ebLatestSequence = ibSequence b, ebResetRequired = False, ebEvents = []\<rparr>
      else if ibEvents b = [] \<or> cursor + 1 < ceSequence (hd (ibEvents b)) then
        \<lparr>ebLatestSequence = ibSequence b, ebResetRequired = True, ebEvents = []\<rparr>
      else \<lparr>ebLatestSequence = ibSequence b, ebResetRequired = False,
             ebEvents = filter (\<lambda>e. cursor < ceSequence e) (ibEvents b)\<rparr>)"

end
