(* ===== verification/Candidates_Invariant.thy ===== *)
theory Candidates_Invariant
  imports Candidates
begin

text \<open>
  Towards the invariant of the candidate inbox: normal forms of texts and fingerprints, what a
  well-formed candidate is, and that observing, merging, evicting and expiring keep the entries
  well formed, keyed by their identifiers, with distinct fingerprints and within the capacity.
\<close>

section \<open>Normal forms\<close>

lemma normalizePlain_fix: "normalizePlain db f v n = Inr w \<Longrightarrow> normalizePlain db f' w n = Inr w"
  by (auto simp: normalizePlain_def Let_def split: if_splits)

lemma normalizePlain_normal: "normalizePlain db f v n = Inr w \<Longrightarrow> normal_plain db f' n w"
  by (simp add: normal_plain_def normalizePlain_fix)

lemma normalizePlain_nonempty: "normalizePlain db f v n = Inr w \<Longrightarrow> w \<noteq> []"
  by (auto simp: normalizePlain_def Let_def split: if_splits)

lemma TrimRight_id: "c \<notin> set s \<Longrightarrow> TrimRight s [c] = s"
proof -
  assume "c \<notin> set s"
  then have "dropWhile (\<lambda>x. x \<in> set [c]) (rev s) = rev s"
    by (metis dropWhile_eq_self_iff hd_in_set set_rev empty_set insert_iff list.simps(15) singletonD)
  then show ?thesis by (simp add: TrimRight_def)
qed

lemma RawStd_Encode_chars:
  assumes "\<forall>b \<in> set bs. b < 256" "c \<in> set (RawStd_Encode bs)"
  shows "byte c < 128" "32 < byte c" "c \<noteq> CHR ''=''"
proof -
  from assms obtain v where "c = b64_digit v" "v < 64"
    using b64_sextets_less by (auto simp: RawStd_Encode_def)
  with b64_value_digit [of v] show "byte c < 128" "32 < byte c" "c \<noteq> CHR ''=''" by auto
qed

lemma normalizeFingerprint_fix:
  assumes "normalizeFingerprint v = Inr w"
  shows "normalizeFingerprint w = Inr w" "w \<noteq> []"
proof -
  from assms obtain digest s where d: "RawStd_Decode s = Some digest" "length digest = 32"
    and w: "w = fingerprint_prefix @ RawStd_Encode digest"
    by (auto simp: normalizeFingerprint_def Let_def split: if_splits option.splits)
  have bytes: "\<forall>b \<in> set digest. b < 256" using d(1) by (rule RawStd_Decode_less)
  have "\<forall>c \<in> set w. byte c < 128 \<and> 32 < byte c"
    using RawStd_Encode_chars [OF bytes] by (auto simp: w fingerprint_prefix_def)
  then have "TrimSpace w = w" by (rule TrimSpace_graphic)
  moreover have "TrimRight (RawStd_Encode digest) ''='' = RawStd_Encode digest"
    using RawStd_Encode_chars(3) [OF bytes] by (intro TrimRight_id) auto
  ultimately show "normalizeFingerprint w = Inr w"
    using RawStd_round_trip [OF bytes] d(2)
    by (simp add: normalizeFingerprint_def w HasPrefix_def TrimPrefix_def)
  show "w \<noteq> []" by (simp add: w fingerprint_prefix_def)
qed

lemma normalizeFingerprint_Nil: "normalizeFingerprint [] \<noteq> Inr []"
  using normalizeFingerprint_fix(2) by blast

section \<open>The invariant of a candidate\<close>

text \<open>\<open>netip.Addr.String\<close> is parsed back to the same address.\<close>

definition canonical_addr :: "(string \<Rightarrow> goerr + string) \<Rightarrow> bool" where
  "canonical_addr addr \<longleftrightarrow> (\<forall>s a. addr s = Inr a \<longrightarrow> a \<noteq> [] \<and> addr a = Inr a)"

definition has_identity :: "candidate \<Rightarrow> bool" where
  "has_identity c \<longleftrightarrow> cdFingerprint c \<noteq> [] \<or> cdNames c \<noteq> [] \<or> cdHostnames c \<noteq> [] \<or> cdEndpoints c \<noteq> []"

definition state_ok :: "candidate \<Rightarrow> bool" where
  "state_ok c \<longleftrightarrow>
     (case cdState c of
        CandDiscovered \<Rightarrow> cdFingerprint c = [] \<and> cdIgnoredAt c = None
      | CandIdentityPending \<Rightarrow> cdFingerprint c \<noteq> [] \<and> cdIgnoredAt c = None
      | CandVerified \<Rightarrow> cdFingerprint c \<noteq> [] \<and> cdIgnoredAt c = None
      | CandIgnored \<Rightarrow> cdIgnoredAt c \<noteq> None
      | CandOther _ \<Rightarrow> False)"

definition times_ok :: "candidate \<Rightarrow> bool" where
  "times_ok c \<longleftrightarrow> cdFirstSeen c \<noteq> 0 \<and> cdLastSeen c \<noteq> 0 \<and> cdFirstSeen c \<le> cdLastSeen c
     \<and> cdVerifiedAt c \<noteq> Some 0 \<and> cdIgnoredAt c \<noteq> Some 0"

definition texts_ok :: "unicode_db \<Rightarrow> (string \<Rightarrow> goerr + string) \<Rightarrow> candidate \<Rightarrow> bool" where
  "texts_ok db addr c \<longleftrightarrow>
     (cdFingerprint c \<noteq> [] \<longrightarrow> normalizeFingerprint (cdFingerprint c) = Inr (cdFingerprint c))
     \<and> list_all (normal_plain db ''name'' 256) (cdNames c)
     \<and> list_all (normal_plain db ''hostname'' 253) (cdHostnames c)
     \<and> list_all (normal_plain db ''source'' 64) (cdSources c)
     \<and> list_all (normal_plain db ''configured device name'' 128) (cdConfiguredNames c)
     \<and> (cdKeyType c \<noteq> [] \<longrightarrow> normal_plain db ''key type'' 128 (cdKeyType c))
     \<and> (cdLastEvidence c \<noteq> [] \<longrightarrow> normal_plain db ''evidence'' 256 (cdLastEvidence c))
     \<and> list_all (\<lambda>e. endpoint_err addr e = None) (cdEndpoints c)"

text \<open>What \<open>validateCandidate\<close> asks apart from \<open>has_identity\<close>, the shape of the configured names and \<open>undotted\<close>, that no
  host name ends with a dot: the part the operations keep. \<open>validateCandidate_iff\<close> puts the parts together.\<close>

definition cand_ok :: "unicode_db \<Rightarrow> (string \<Rightarrow> goerr + string) \<Rightarrow> candidate \<Rightarrow> bool" where
  "cand_ok db addr c \<longleftrightarrow> valid_id (cdID c) \<and> state_ok c \<and> times_ok c \<and> texts_ok db addr c"

definition undotted :: "candidate \<Rightarrow> bool" where
  "undotted c \<longleftrightarrow> list_all (\<lambda>h. \<not> HasSuffix h ''.'') (cdHostnames c)"

lemma first_some_None: "first_some f xs = None \<longleftrightarrow> list_all (\<lambda>x. f x = None) xs"
  by (induction xs) (auto split: option.splits)

lemma validateCandidate_iff:
  assumes "cdFingerprint c = [] \<longrightarrow> cdConfiguredNames c = []"
  shows "validateCandidate db addr c = None \<longleftrightarrow> cand_ok db addr c \<and> has_identity c \<and> undotted c"
proof -
  have "list_all (\<lambda>h. normal_plain db ''hostname'' 253 h \<and> \<not> HasSuffix h ''.'') (cdHostnames c)
      \<longleftrightarrow> list_all (normal_plain db ''hostname'' 253) (cdHostnames c) \<and> undotted c"
    by (auto simp: undotted_def list_all_iff)
  then show ?thesis using assms
    by (cases "cdState c")
      (auto simp: validateCandidate_def cand_ok_def state_ok_def times_ok_def texts_ok_def has_identity_def
        first_some_None time_is_zero_def linorder_not_less)
qed

lemma validateCandidate_None:
  "validateCandidate db addr c = None \<Longrightarrow> cdFingerprint c = [] \<longrightarrow> cdConfiguredNames c = []"
  by (auto simp: validateCandidate_def split: if_splits)

section \<open>Observations and merging\<close>

definition obs_ok :: "unicode_db \<Rightarrow> (string \<Rightarrow> goerr + string) \<Rightarrow> observation \<Rightarrow> bool" where
  "obs_ok db addr ob \<longleftrightarrow> obObservedAt ob \<noteq> 0
     \<and> normal_plain db ''source'' 64 (obSource ob)
     \<and> (obName ob \<noteq> [] \<longrightarrow> normal_plain db ''name'' 256 (obName ob))
     \<and> (obHostname ob \<noteq> [] \<longrightarrow> normal_plain db ''hostname'' 253 (obHostname ob))
     \<and> (obAddress ob \<noteq> [] \<longrightarrow> addr (obAddress ob) = Inr (obAddress ob))
     \<and> 1 \<le> obPort ob \<and> obPort ob \<le> 65535
     \<and> (obFingerprint ob \<noteq> [] \<longrightarrow> normalizeFingerprint (obFingerprint ob) = Inr (obFingerprint ob))
     \<and> (obKeyType ob \<noteq> [] \<longrightarrow> normal_plain db ''key type'' 128 (obKeyType ob))
     \<and> (obEvidence ob \<noteq> [] \<longrightarrow> normal_plain db ''evidence'' 256 (obEvidence ob))
     \<and> (obName ob \<noteq> [] \<or> obHostname ob \<noteq> [] \<or> obAddress ob \<noteq> [] \<or> obFingerprint ob \<noteq> [])"

lemma normalize_opt_plain:
  "normalize_opt (\<lambda>v. normalizePlain db f v n) v = Inr w \<Longrightarrow> w \<noteq> [] \<Longrightarrow> normal_plain db f' n w"
  by (auto simp: normalize_opt_def normalizePlain_normal split: if_splits)

lemma normalize_opt_host:
  "normalize_opt (normalize_host db) v = Inr w \<Longrightarrow> w \<noteq> [] \<Longrightarrow> normal_plain db f' 253 w"
  by (auto simp: normalize_opt_def normalize_host_def normalizePlain_normal split: if_splits)

lemma normalize_opt_addr:
  "canonical_addr addr \<Longrightarrow> normalize_opt (normalize_addr addr) v = Inr w \<Longrightarrow> w \<noteq> [] \<Longrightarrow> addr w = Inr w"
  by (auto simp: normalize_opt_def normalize_addr_def canonical_addr_def split: if_splits sum.splits)

lemma normalize_opt_fingerprint:
  "normalize_opt normalizeFingerprint v = Inr w \<Longrightarrow> w \<noteq> [] \<Longrightarrow> normalizeFingerprint w = Inr w"
  by (auto simp: normalize_opt_def normalizeFingerprint_fix split: if_splits)

lemma normalizeObservation_ok:
  assumes "normalizeObservation db addr now ob = Inr ob'" "now \<noteq> 0" "canonical_addr addr"
  shows "obs_ok db addr ob'"
proof -
  from assms(1) obtain source seen name hostname address port fingerprint keyType evidence where
    n: "normalizePlain db ''source'' (obSource ob) 64 = Inr source"
    "normalize_opt (\<lambda>v. normalizePlain db ''name'' v 256) (obName ob) = Inr name"
    "normalize_opt (normalize_host db) (obHostname ob) = Inr hostname"
    "normalize_opt (normalize_addr addr) (obAddress ob) = Inr address"
    "normalize_opt normalizeFingerprint (obFingerprint ob) = Inr fingerprint"
    "normalize_opt (\<lambda>v. normalizePlain db ''key type'' v 128) (obKeyType ob) = Inr keyType"
    "normalize_opt (\<lambda>v. normalizePlain db ''evidence'' v 256) (obEvidence ob) = Inr evidence"
    and seen: "seen = (if time_is_zero (obObservedAt ob) then now else obObservedAt ob)"
    and port: "1 \<le> port" "port \<le> 65535"
    and ident: "name \<noteq> [] \<or> hostname \<noteq> [] \<or> address \<noteq> [] \<or> fingerprint \<noteq> []"
    and ob': "ob' = \<lparr>obSource = source, obObservedAt = seen, obName = name, obHostname = hostname,
            obAddress = address, obPort = port, obFingerprint = fingerprint, obKeyType = keyType,
            obEvidence = evidence\<rparr>"
    unfolding normalizeObservation_def and_then_Inr Let_def by (auto split: if_splits)
  have "seen \<noteq> 0" using assms(2) by (simp add: seen time_is_zero_def)
  moreover have "normal_plain db ''source'' 64 source" using n(1) by (rule normalizePlain_normal)
  ultimately show ?thesis
    using port ident normalize_opt_plain [OF n(2)] normalize_opt_host [OF n(3)]
      normalize_opt_addr [OF assms(3) n(4)] normalize_opt_fingerprint [OF n(5)]
      normalize_opt_plain [OF n(6)] normalize_opt_plain [OF n(7)]
    by (simp add: obs_ok_def ob')
qed

lemma earlier_later:
  assumes "a \<noteq> 0" "b \<noteq> 0" "a' \<noteq> 0" "b' \<noteq> 0" "a \<le> a'" "b \<le> b'"
  shows "earlier a b \<noteq> 0" "later a' b' \<noteq> 0" "earlier a b \<le> later a' b'"
  using assms by (auto simp: earlier_def later_def time_is_zero_def)

lemma list_all_sort [simp]: "list_all P (sort_key k xs) = list_all P xs"
  by (simp add: list_all_iff)

lemma addStringFold_all: "list_all P vs \<Longrightarrow> P v \<Longrightarrow> list_all P (addStringFold db vs v)"
  by (simp add: addStringFold_def)

lemma addString_all: "list_all P vs \<Longrightarrow> P v \<Longrightarrow> list_all P (addString vs v)"
  by (simp add: addString_def)

lemma foldl_addStringFold_all: "list_all P vs \<Longrightarrow> list_all P ws \<Longrightarrow> list_all P (foldl (addStringFold db) vs ws)"
  by (induction ws arbitrary: vs) (simp_all add: addStringFold_all)

lemma foldl_addString_all: "list_all P vs \<Longrightarrow> list_all P ws \<Longrightarrow> list_all P (foldl addString vs ws)"
  by (induction ws arbitrary: vs) (simp_all add: addString_all)

lemma addStringFold_nonempty: "addStringFold db vs v \<noteq> []"
  by (auto simp: addStringFold_def)

lemma foldl_addStringFold_nonempty: "vs \<noteq> [] \<Longrightarrow> foldl (addStringFold db) vs ws \<noteq> []"
  by (induction ws arbitrary: vs) (simp_all add: addStringFold_nonempty)

lemma endpoint_ok: "endpoint_err addr e = None \<longleftrightarrow> addr (epAddress e) = Inr (epAddress e)
    \<and> 1 \<le> epPort e \<and> epPort e \<le> 65535 \<and> epFirstSeen e \<noteq> 0 \<and> epFirstSeen e \<le> epLastSeen e"
  by (auto simp: endpoint_err_def time_is_zero_def)

lemma touch_endpoint_ok:
  assumes "list_all (\<lambda>e. endpoint_err addr e = None) es" "endpoint_err addr i = None"
  shows "list_all (\<lambda>e. endpoint_err addr e = None) (touch_endpoint i es)"
  using assms
proof (induction es)
  case (Cons e es)
  have "earlier (epFirstSeen e) (epFirstSeen i) \<le> later (epLastSeen e) (epLastSeen i)"
    "earlier (epFirstSeen e) (epFirstSeen i) \<noteq> 0"
    using Cons.prems by (auto simp: endpoint_ok earlier_def later_def time_is_zero_def)
  then have "endpoint_err addr (e\<lparr>epFirstSeen := earlier (epFirstSeen e) (epFirstSeen i),
             epLastSeen := later (epLastSeen e) (epLastSeen i)\<rparr>) = None"
    using Cons.prems by (simp add: endpoint_ok)
  with Cons show ?case by simp
qed simp

lemma mergeEndpoint_ok:
  "list_all (\<lambda>e. endpoint_err addr e = None) es \<Longrightarrow> endpoint_err addr i = None \<Longrightarrow>
   list_all (\<lambda>e. endpoint_err addr e = None) (mergeEndpoint i es)"
  by (simp add: mergeEndpoint_def touch_endpoint_ok)

lemma mergeEndpoint_nonempty: "mergeEndpoint i es \<noteq> []"
proof -
  have "touch_endpoint i es = [] \<Longrightarrow> es = []" by (cases es) (auto split: if_splits)
  then show ?thesis
    by (auto simp: mergeEndpoint_def hasEndpoint_def dest: arg_cong [where f = length])
qed

lemma fold_mergeEndpoint_ok:
  "list_all (\<lambda>e. endpoint_err addr e = None) es \<Longrightarrow> list_all (\<lambda>e. endpoint_err addr e = None) is \<Longrightarrow>
   list_all (\<lambda>e. endpoint_err addr e = None) (fold mergeEndpoint is es)"
  by (induction "is" arbitrary: es) (simp_all add: mergeEndpoint_ok)

lemma fold_mergeEndpoint_nonempty: "es \<noteq> [] \<Longrightarrow> fold mergeEndpoint is es \<noteq> []"
  by (induction "is" arbitrary: es) (simp_all add: mergeEndpoint_nonempty)

lemma sort_key_Nil_iff: "sort_key k xs = [] \<longleftrightarrow> xs = []"
  by (metis length_0_conv length_sort)

section \<open>Candidates under the operations\<close>

definition conf_ok :: "unicode_db \<Rightarrow> string list gomap \<Rightarrow> bool" where
  "conf_ok db m \<longleftrightarrow> wf_map m \<and> (\<forall>(fp, ns) \<in> set m. normalizeFingerprint fp = Inr fp \<and> ns \<noteq> [] \<and> distinct ns
     \<and> sorted ns \<and> list_all (normal_plain db ''configured device name'' 128) ns)"

lemma names_of_Nil: "conf_ok db m \<Longrightarrow> names_of m [] = []"
  using normalizeFingerprint_Nil by (fastforce simp: names_of_def conf_ok_def split: option.split dest: map_of_SomeD)

lemma names_of_normal: "conf_ok db m \<Longrightarrow> list_all (normal_plain db ''configured device name'' 128) (names_of m fp)"
  by (fastforce simp: names_of_def conf_ok_def split: option.split dest: map_of_SomeD)

lemma mergeObservation_frame [simp]:
  "cdID (mergeObservation db ob c) = cdID c" "cdFingerprint (mergeObservation db ob c) = cdFingerprint c"
  "cdState (mergeObservation db ob c) = cdState c"
  "cdConfiguredNames (mergeObservation db ob c) = cdConfiguredNames c"
  "cdVerifiedAt (mergeObservation db ob c) = cdVerifiedAt c"
  "cdIgnoredAt (mergeObservation db ob c) = cdIgnoredAt c"
  by (simp_all add: mergeObservation_def)

lemma mergeObservation_ok:
  assumes "times_ok c" "texts_ok db addr c" "obs_ok db addr ob"
  shows "times_ok (mergeObservation db ob c)" "texts_ok db addr (mergeObservation db ob c)"
proof -
  show "times_ok (mergeObservation db ob c)"
    using assms earlier_later [of "cdFirstSeen c" "obObservedAt ob" "cdLastSeen c" "obObservedAt ob"]
    by (simp add: times_ok_def mergeObservation_def obs_ok_def)
  have c: "list_all (normal_plain db ''name'' 256) (cdNames c)"
      "list_all (normal_plain db ''hostname'' 253) (cdHostnames c)"
      "list_all (normal_plain db ''source'' 64) (cdSources c)"
      "list_all (\<lambda>e. endpoint_err addr e = None) (cdEndpoints c)"
    using assms(2) by (simp_all add: texts_ok_def)
  have o: "obName ob \<noteq> [] \<Longrightarrow> normal_plain db ''name'' 256 (obName ob)"
      "obHostname ob \<noteq> [] \<Longrightarrow> normal_plain db ''hostname'' 253 (obHostname ob)"
      "normal_plain db ''source'' 64 (obSource ob)"
      "obAddress ob \<noteq> [] \<Longrightarrow> endpoint_err addr \<lparr>epAddress = obAddress ob, epPort = obPort ob,
         epFirstSeen = obObservedAt ob, epLastSeen = obObservedAt ob\<rparr> = None"
    using assms(3) by (simp_all add: obs_ok_def endpoint_ok)
  have "list_all (normal_plain db ''name'' 256) (cdNames (mergeObservation db ob c))"
    "list_all (normal_plain db ''hostname'' 253) (cdHostnames (mergeObservation db ob c))"
    "list_all (normal_plain db ''source'' 64) (cdSources (mergeObservation db ob c))"
    "list_all (\<lambda>e. endpoint_err addr e = None) (cdEndpoints (mergeObservation db ob c))"
    using c o by (simp_all add: mergeObservation_def addStringFold_all addString_all mergeEndpoint_ok)
  moreover have "cdKeyType (mergeObservation db ob c) \<noteq> [] \<longrightarrow>
      normal_plain db ''key type'' 128 (cdKeyType (mergeObservation db ob c))"
    "cdLastEvidence (mergeObservation db ob c) \<noteq> [] \<longrightarrow>
      normal_plain db ''evidence'' 256 (cdLastEvidence (mergeObservation db ob c))"
    using assms(2,3) by (simp_all add: texts_ok_def mergeObservation_def obs_ok_def)
  ultimately show "texts_ok db addr (mergeObservation db ob c)"
    using assms(2) by (simp add: texts_ok_def)
qed

lemma mergeObservation_identity:
  "obs_ok db addr ob \<Longrightarrow> obFingerprint ob \<noteq> [] \<longrightarrow> cdFingerprint c \<noteq> [] \<Longrightarrow> has_identity (mergeObservation db ob c)"
  by (auto simp: has_identity_def mergeObservation_def obs_ok_def sort_key_Nil_iff addStringFold_nonempty
      mergeEndpoint_nonempty)

lemma observe_candidate_frame [simp]:
  "cdID (observe_candidate db m ob c) = cdID c"
  "cdFingerprint (observe_candidate db m ob c) = (if obFingerprint ob \<noteq> [] then obFingerprint ob else cdFingerprint c)"
  by (simp_all add: observe_candidate_def Let_def)

lemma observe_candidate_ok:
  assumes ok: "cand_ok db addr c" and ob: "obs_ok db addr ob" and m: "conf_ok db m"
    and names: "cdConfiguredNames c = names_of m (cdFingerprint c)"
    and fp: "obFingerprint ob \<noteq> [] \<Longrightarrow> cdFingerprint c = [] \<or> cdFingerprint c = obFingerprint ob"
  shows "cand_ok db addr (observe_candidate db m ob c)" "has_identity (observe_candidate db m ob c)"
    "cdConfiguredNames (observe_candidate db m ob c) = names_of m (cdFingerprint (observe_candidate db m ob c))"
proof -
  define c1 where "c1 = (if obFingerprint ob \<noteq> [] then
                  c\<lparr>cdFingerprint := obFingerprint ob,
                     cdState := (if cdState c = CandDiscovered then CandIdentityPending else cdState c)\<rparr>
                else c)"
  define c2 where "c2 = mergeObservation db ob c1"
  define ns where "ns = names_of m (cdFingerprint c2)"
  have res: "observe_candidate db m ob c = (if ns \<noteq> [] then
        c2\<lparr>cdConfiguredNames := ns, cdState := (if cdState c2 \<noteq> CandIgnored then CandVerified else cdState c2)\<rparr>
      else c2)"
    by (simp add: observe_candidate_def c1_def c2_def ns_def Let_def)
  have s1: "state_ok c1" using ok by (auto simp: cand_ok_def state_ok_def c1_def split: cand_state.splits)
  have t1: "times_ok c1" "texts_ok db addr c1" "valid_id (cdID c1)"
    using ok ob by (auto simp: cand_ok_def times_ok_def texts_ok_def c1_def obs_ok_def)
  have s2: "state_ok c2" using s1 by (simp add: state_ok_def c2_def split: cand_state.splits)
  have t2: "times_ok c2" "texts_ok db addr c2" "valid_id (cdID c2)"
    using mergeObservation_ok [OF t1(1,2) ob] t1(3) by (simp_all add: c2_def)
  have ne: "ns \<noteq> [] \<Longrightarrow> cdFingerprint c2 \<noteq> []" using names_of_Nil [OF m] by (auto simp: ns_def)
  have norm: "list_all (normal_plain db ''configured device name'' 128) ns"
    unfolding ns_def using m by (rule names_of_normal)
  show "cand_ok db addr (observe_candidate db m ob c)"
    using s2 t2 ne norm
    by (auto simp: res cand_ok_def state_ok_def times_ok_def texts_ok_def split: cand_state.splits)
  have "has_identity c2"
    unfolding c2_def using ob by (rule mergeObservation_identity) (simp add: c1_def)
  then show "has_identity (observe_candidate db m ob c)" by (simp add: res has_identity_def)
  have "cdConfiguredNames c2 = cdConfiguredNames c" by (simp add: c2_def c1_def)
  moreover have "cdFingerprint c2 = cdFingerprint c \<or> cdConfiguredNames c = []"
    using fp names names_of_Nil [OF m] by (auto simp: c2_def c1_def)
  ultimately show "cdConfiguredNames (observe_candidate db m ob c)
      = names_of m (cdFingerprint (observe_candidate db m ob c))"
    using names by (auto simp: res ns_def)
qed

lemma mergeCandidates_frame [simp]:
  "cdID (mergeCandidates db t c) = cdID t" "cdFingerprint (mergeCandidates db t c) = cdFingerprint t"
  "cdConfiguredNames (mergeCandidates db t c) = cdConfiguredNames t"
  by (simp_all add: mergeCandidates_def)

lemma mergeCandidates_ok:
  assumes "cand_ok db addr t" "cand_ok db addr c"
  shows "cand_ok db addr (mergeCandidates db t c)"
proof -
  have "times_ok (mergeCandidates db t c)"
    using assms earlier_later [of "cdFirstSeen t" "cdFirstSeen c" "cdLastSeen t" "cdLastSeen c"]
    by (simp add: times_ok_def mergeCandidates_def cand_ok_def)
  moreover have "texts_ok db addr (mergeCandidates db t c)"
    using assms by (auto simp: texts_ok_def mergeCandidates_def cand_ok_def foldl_addStringFold_all
        foldl_addString_all fold_mergeEndpoint_ok)
  moreover have "state_ok (mergeCandidates db t c)"
    using assms by (auto simp: state_ok_def mergeCandidates_def cand_ok_def split: cand_state.splits)
  ultimately show ?thesis using assms by (simp add: cand_ok_def)
qed

lemma mergeCandidates_identity: "has_identity t \<Longrightarrow> has_identity (mergeCandidates db t c)"
  by (auto simp: has_identity_def mergeCandidates_def sort_key_Nil_iff foldl_addStringFold_nonempty
      fold_mergeEndpoint_nonempty)

lemma fold_mergeCandidates:
  assumes "cand_ok db addr t" "has_identity t" "\<forall>c \<in> set cs. cand_ok db addr c"
  shows "cand_ok db addr (fold (\<lambda>m c. mergeCandidates db c m) cs t)
    \<and> has_identity (fold (\<lambda>m c. mergeCandidates db c m) cs t)
    \<and> cdID (fold (\<lambda>m c. mergeCandidates db c m) cs t) = cdID t
    \<and> cdFingerprint (fold (\<lambda>m c. mergeCandidates db c m) cs t) = cdFingerprint t
    \<and> cdConfiguredNames (fold (\<lambda>m c. mergeCandidates db c m) cs t) = cdConfiguredNames t"
  using assms by (induction cs arbitrary: t) (simp_all add: mergeCandidates_ok mergeCandidates_identity)

lemma new_candidate_ok:
  assumes "valid_id cid" "seen \<noteq> 0"
  shows "cand_ok db addr (new_candidate cid seen)"
  using assms by (simp add: cand_ok_def new_candidate_def state_ok_def times_ok_def texts_ok_def)

section \<open>The invariant of the entries\<close>

definition entry_ok ::
    "unicode_db \<Rightarrow> (string \<Rightarrow> goerr + string) \<Rightarrow> string list gomap \<Rightarrow> string \<Rightarrow> candidate \<Rightarrow> bool" where
  "entry_ok db addr m k c \<longleftrightarrow> k = cdID c \<and> cand_ok db addr c \<and> has_identity c
     \<and> cdConfiguredNames c = names_of m (cdFingerprint c)"

definition entries_ok ::
    "unicode_db \<Rightarrow> (string \<Rightarrow> goerr + string) \<Rightarrow> string list gomap \<Rightarrow> candidate gomap \<Rightarrow> bool" where
  "entries_ok db addr m es \<longleftrightarrow> wf_map es \<and> (\<forall>(k, c) \<in> set es. entry_ok db addr m k c)
     \<and> (\<forall>(k, c) \<in> set es. \<forall>(k', c') \<in> set es. cdFingerprint c \<noteq> [] \<longrightarrow> cdFingerprint c' = cdFingerprint c \<longrightarrow> k' = k)"

lemma entries_okD:
  "entries_ok db addr m es \<Longrightarrow> (k, c) \<in> set es \<Longrightarrow> entry_ok db addr m k c"
  by (auto simp: entries_ok_def)

lemma entries_ok_unique:
  "entries_ok db addr m es \<Longrightarrow> (k, c) \<in> set es \<Longrightarrow> (k', c') \<in> set es \<Longrightarrow> cdFingerprint c \<noteq> [] \<Longrightarrow>
   cdFingerprint c' = cdFingerprint c \<Longrightarrow> k' = k"
  by (auto simp: entries_ok_def)

lemma entries_ok_subset:
  assumes "entries_ok db addr m es" "set es' \<subseteq> set es" "wf_map es'"
  shows "entries_ok db addr m es'"
  using assms unfolding entries_ok_def by blast

lemma entries_ok_delete: "entries_ok db addr m es \<Longrightarrow> entries_ok db addr m (AList.delete k es)"
  by (rule entries_ok_subset) (auto simp: entries_ok_def dest: subsetD [OF set_delete_subset])

lemma entries_ok_fold_delete: "entries_ok db addr m es \<Longrightarrow> entries_ok db addr m (fold AList.delete ks es)"
  by (induction ks arbitrary: es) (simp_all add: entries_ok_delete)

lemma set_update_cases:
  assumes "wf_map es" "x \<in> set (AList.update k v es)"
  shows "x = (k, v) \<or> x \<in> set es \<and> fst x \<noteq> k"
proof -
  have "wf_map (AList.update k v es)" using assms(1) by (rule wf_map_update)
  then have "map_of (AList.update k v es) (fst x) = Some (snd x)" using assms(2) by (simp add: map_of_eq_mem)
  then show ?thesis using assms(1) map_of_eq_mem [of es "fst x" "snd x"]
    by (cases x) (auto simp: update_conv' split: if_splits)
qed

lemma entries_ok_update:
  assumes es: "entries_ok db addr m es" and c: "entry_ok db addr m (cdID c) c"
    and new: "\<And>k c'. (k, c') \<in> set es \<Longrightarrow> k \<noteq> cdID c \<Longrightarrow> cdFingerprint c \<noteq> [] \<Longrightarrow> cdFingerprint c' \<noteq> cdFingerprint c"
  shows "entries_ok db addr m (AList.update (cdID c) c es)"
proof -
  have wf: "wf_map es" using es by (simp add: entries_ok_def)
  note cases = set_update_cases [OF wf, of _ "cdID c" c]
  show ?thesis unfolding entries_ok_def
  proof (intro conjI ballI; clarify?)
    show "wf_map (AList.update (cdID c) c es)" using wf by (rule wf_map_update)
    show "entry_ok db addr m k c'" if "(k, c') \<in> set (AList.update (cdID c) c es)" for k c'
      using cases [OF that] c entries_okD [OF es] by auto
    show "k2 = k1" if "(k1, c1) \<in> set (AList.update (cdID c) c es)" "(k2, c2) \<in> set (AList.update (cdID c) c es)"
      "cdFingerprint c1 \<noteq> []" "cdFingerprint c2 = cdFingerprint c1" for k1 c1 k2 c2
      using cases [OF that(1)] cases [OF that(2)] that(3,4) new [of k1 c1] new [of k2 c2]
        entries_ok_unique [OF es, of k1 c1 k2 c2] by auto
  qed
qed

section \<open>Eviction\<close>

definition evict_key :: "candidate \<Rightarrow> int \<times> string" where
  "evict_key c = (cdLastSeen c, cdID c)"

abbreviation evictable :: "string list \<Rightarrow> string \<Rightarrow> candidate \<Rightarrow> bool" where
  "evictable touched k c \<equiv> k \<notin> set touched \<and> \<not> candidatePinned c"

lemma evict_less:
  "(cdLastSeen c < cdLastSeen v \<or> cdLastSeen c = cdLastSeen v \<and> cdID c < cdID v) \<longleftrightarrow> evict_key c < evict_key v"
  by (auto simp: evict_key_def less_prod_def)

lemma eviction_scan_None:
  "eviction_scan touched victim es = None \<longleftrightarrow> victim = None \<and> (\<forall>(k, c) \<in> set es. \<not> evictable touched k c)"
  by (induction touched victim es rule: eviction_scan.induct) auto

lemma eviction_scan_Some:
  "eviction_scan touched victim es = Some v \<Longrightarrow>
   (victim = Some v \<or> (\<exists>k. (k, v) \<in> set es \<and> evictable touched k v))
   \<and> (\<forall>(k, c) \<in> set es. evictable touched k c \<longrightarrow> evict_key v \<le> evict_key c)
   \<and> (\<forall>w. victim = Some w \<longrightarrow> evict_key v \<le> evict_key w)"
proof (induction touched victim es arbitrary: v rule: eviction_scan.induct)
  case (2 touched victim k c es)
  show ?case
  proof (cases "k \<in> set touched \<or> candidatePinned c")
    case True
    with 2 show ?thesis by auto
  next
    case ev: False
    show ?thesis
    proof (cases "case victim of None \<Rightarrow> True | Some v \<Rightarrow> evict_key c < evict_key v")
      case True
      with ev 2 have "eviction_scan touched (Some c) es = Some v" by (simp add: evict_less split: option.splits)
      with 2 True ev show ?thesis
        by (auto simp: evict_less split: option.splits)
    next
      case False
      then obtain w where w: "victim = Some w" "evict_key w \<le> evict_key c" by (auto split: option.splits)
      with ev 2 False have "eviction_scan touched victim es = Some v" by (simp add: evict_less)
      with 2 False ev w show ?thesis by (auto simp: evict_less)
    qed
  qed
qed simp

lemma evictionTarget_None:
  "evictionTargetLocked touched es = None \<longleftrightarrow> (\<forall>(k, c) \<in> set es. \<not> evictable touched k c)"
  by (simp add: evictionTargetLocked_def eviction_scan_None)

lemma evictionTarget_Some:
  assumes "evictionTargetLocked touched es = Some v"
  shows "\<exists>k. (k, v) \<in> set es \<and> evictable touched k v"
    "(k, c) \<in> set es \<Longrightarrow> evictable touched k c \<Longrightarrow> evict_key v \<le> evict_key c"
  using eviction_scan_Some [OF assms [unfolded evictionTargetLocked_def]] by auto

section \<open>Sequences of events\<close>

fun seq_from :: "u64 \<Rightarrow> cand_event list \<Rightarrow> bool" where
  "seq_from sq [] = True"
| "seq_from sq (e # es) = (ceSequence e = sq + 1 \<and> seq_from (sq + 1) es)"

lemma seq_from_append [simp]:
  "seq_from sq (xs @ ys) = (seq_from sq xs \<and> seq_from (sq + of_nat (length xs)) ys)"
  by (induction xs arbitrary: sq) (auto simp: add.assoc)

lemma seq_from_drop: "seq_from sq xs \<Longrightarrow> n \<le> length xs \<Longrightarrow> seq_from (sq + of_nat n) (drop n xs)"
  by (metis append_take_drop_id length_take min.absorb2 seq_from_append)

text \<open>What the steps of a transaction leave alone, and that they number their events in order.\<close>

definition moved :: "inbox \<Rightarrow> cand_event list \<Rightarrow> inbox \<Rightarrow> bool" where
  "moved b evs b' \<longleftrightarrow> ibPath b' = ibPath b \<and> ibTTL b' = ibTTL b \<and> ibMaxEntries b' = ibMaxEntries b
     \<and> ibMaxEvents b' = ibMaxEvents b \<and> ibConfigured b' = ibConfigured b \<and> ibEvents b' = ibEvents b
     \<and> ibDisk b' = ibDisk b \<and> seq_from (ibSequence b) evs \<and> ibSequence b' = ibSequence b + of_nat (length evs)"

lemma moved_refl [simp]: "moved b [] b"
  by (simp add: moved_def)

lemma moved_trans: "moved b e1 b1 \<Longrightarrow> moved b1 e2 b2 \<Longrightarrow> moved b (e1 @ e2) b2"
  by (auto simp: moved_def add.assoc)

lemma makeEvent_moved:
  "makeEventLocked kind cand merged atTime eid b = (ev, b') \<Longrightarrow> moved b [ev] b' \<and> ibEntries b' = ibEntries b
     \<and> ibDropped b' = ibDropped b \<and> ibEvicted b' = ibEvicted b"
  by (auto simp: makeEventLocked_def moved_def Let_def)

lemma moved_entries [simp]:
  "moved (b\<lparr>ibEntries := es\<rparr>) evs b' = moved b evs b'" "moved (b\<lparr>ibDropped := n\<rparr>) evs b' = moved b evs b'"
  "moved (b\<lparr>ibEvicted := n\<rparr>) evs b' = moved b evs b'"
  by (simp_all add: moved_def)

section \<open>The invariant of the inbox\<close>

definition ev_ok :: "inbox \<Rightarrow> bool" where
  "ev_ok b \<longleftrightarrow> (\<exists>sq. seq_from sq (ibEvents b) \<and> ibSequence b = sq + of_nat (length (ibEvents b)))"

definition inbox_inv :: "unicode_db \<Rightarrow> (string \<Rightarrow> goerr + string) \<Rightarrow> inbox \<Rightarrow> bool" where
  "inbox_inv db addr b \<longleftrightarrow> conf_ok db (ibConfigured b) \<and> entries_ok db addr (ibConfigured b) (ibEntries b)
     \<and> int (length (ibEntries b)) \<le> ibMaxEntries b \<and> 0 < ibMaxEntries b \<and> 0 < ibMaxEvents b
     \<and> int (length (ibEvents b)) \<le> ibMaxEvents b \<and> ev_ok b"

text \<open>The part a transaction keeps while its events are pending.\<close>

definition core_inv :: "unicode_db \<Rightarrow> (string \<Rightarrow> goerr + string) \<Rightarrow> inbox \<Rightarrow> bool" where
  "core_inv db addr b \<longleftrightarrow> conf_ok db (ibConfigured b) \<and> entries_ok db addr (ibConfigured b) (ibEntries b)
     \<and> int (length (ibEntries b)) \<le> ibMaxEntries b \<and> 0 < ibMaxEntries b \<and> 0 < ibMaxEvents b
     \<and> int (length (ibEvents b)) \<le> ibMaxEvents b"

lemma inbox_inv_core: "inbox_inv db addr b \<longleftrightarrow> core_inv db addr b \<and> ev_ok b"
  by (auto simp: inbox_inv_def core_inv_def)

lemma core_inv_moved:
  assumes "core_inv db addr b" "moved b evs b'" "entries_ok db addr (ibConfigured b) (ibEntries b')"
    "int (length (ibEntries b')) \<le> ibMaxEntries b"
  shows "core_inv db addr b'"
  using assms by (simp add: core_inv_def moved_def)

lemma appendEvents_inv:
  assumes "core_inv db addr b'" "moved b evs b'" "ev_ok b"
  shows "inbox_inv db addr (appendEventsLocked evs b')"
proof -
  from assms(3) obtain sq where sq: "seq_from sq (ibEvents b)" "ibSequence b = sq + of_nat (length (ibEvents b))"
    by (auto simp: ev_ok_def)
  let ?all = "ibEvents b' @ evs"
  let ?n = "if ibMaxEvents b' < int (length ?all) then nat (int (length ?all) - ibMaxEvents b') else 0"
  have all: "seq_from sq ?all" "ibSequence b' = sq + of_nat (length ?all)"
    using sq assms(2) by (auto simp: moved_def add.assoc)
  have pos: "0 < ibMaxEvents b'" using assms(1) by (simp add: core_inv_def)
  have n: "?n \<le> length ?all" using pos by auto
  have kept: "ibEvents (appendEventsLocked evs b') = drop ?n ?all"
    "ibSequence (appendEventsLocked evs b') = ibSequence b'"
    by (auto simp: appendEventsLocked_def Let_def)
  have "ev_ok (appendEventsLocked evs b')"
    unfolding ev_ok_def kept
  proof (intro exI conjI)
    show "seq_from (sq + of_nat ?n) (drop ?n ?all)" using all(1) n by (rule seq_from_drop)
    have "length ?all = ?n + length (drop ?n ?all)" using n by (simp only: length_drop)
    then have "of_nat (length ?all) = (of_nat ?n + of_nat (length (drop ?n ?all)) :: u64)"
      by (metis of_nat_add)
    then show "ibSequence b' = sq + of_nat ?n + of_nat (length (drop ?n ?all))"
      using all(2) by (simp only: add.assoc)
  qed
  moreover have "int (length (drop ?n ?all)) \<le> ibMaxEvents b'" using pos by auto
  ultimately show ?thesis using assms(1) kept
    by (simp add: inbox_inv_core core_inv_def appendEventsLocked_def Let_def)
qed

section \<open>Ingesting one observation\<close>

lemma target_in_entries:
  assumes "entries_ok db addr m es" "evictionTargetLocked touched es = Some v"
  shows "(cdID v, v) \<in> set es" "evictable touched (cdID v) v"
proof -
  from evictionTarget_Some(1) [OF assms(2)] obtain k where k: "(k, v) \<in> set es" "evictable touched k v" by blast
  with entries_okD [OF assms(1)] have "k = cdID v" by (auto simp: entry_ok_def)
  with k show "(cdID v, v) \<in> set es" "evictable touched (cdID v) v" by simp_all
qed

text \<open>The loop makes room for one entry with at most one eviction; it does not run out of fuel.\<close>

lemma make_room_loop:
  assumes "core_inv db addr b"
  shows "make_room (length (ibEntries b)) touched atTime b =
    (if int (length (ibEntries b)) < ibMaxEntries b then (b, [], [], True)
     else case evictionTargetLocked touched (ibEntries b) of
       None \<Rightarrow> (b, [], [], False)
     | Some v \<Rightarrow>
       let (ev, b2) = makeEventLocked CandEventEvicted None [] atTime (cdID v)
             (b\<lparr>ibEntries := AList.delete (cdID v) (ibEntries b), ibEvicted := ibEvicted b + 1\<rparr>) in
       (b2, [cdID v], [ev], True))"
proof (cases "int (length (ibEntries b)) < ibMaxEntries b")
  case True
  then show ?thesis by (cases "length (ibEntries b)") auto
next
  case False
  with assms have eq: "int (length (ibEntries b)) = ibMaxEntries b" and pos: "0 < ibMaxEntries b"
    and ok: "entries_ok db addr (ibConfigured b) (ibEntries b)" by (auto simp: core_inv_def)
  then obtain f where f: "length (ibEntries b) = Suc f" by (cases "length (ibEntries b)") auto
  show ?thesis
  proof (cases "evictionTargetLocked touched (ibEntries b)")
    case None
    with False f show ?thesis by simp
  next
    case (Some v)
    have "cdID v \<in> set (map_keys (ibEntries b))"
      using target_in_entries(1) [OF ok Some] by (force intro: rev_image_eqI)
    then have "length (AList.delete (cdID v) (ibEntries b)) < length (ibEntries b)" by (rule delete_length_less)
    then have less: "\<not> ibMaxEntries b \<le> int (length (AList.delete (cdID v) (ibEntries b)))" using eq by simp
    have "make_room f touched atTime b2 = (b2, [], [], True)"
      if "ibEntries b2 = AList.delete (cdID v) (ibEntries b)" "ibMaxEntries b2 = ibMaxEntries b" for b2
      using that less by (cases f) simp_all
    with False f Some show ?thesis
      by (simp add: makeEventLocked_def Let_def)
  qed
qed

lemma set_matches: "c \<in> set (matchesLocked db ob b) \<longleftrightarrow> (\<exists>k. (k, c) \<in> set (ibEntries b)) \<and> matches_observation db ob c"
  by (force simp: matchesLocked_def)

lemma find_SomeD: "List.find P xs = Some x \<Longrightarrow> x \<in> set xs \<and> P x"
  by (induction xs) (auto split: if_splits)

lemma choose_match_Some:
  assumes "choose_match ob ms = Some c"
  shows "c \<in> set ms \<and> (obFingerprint ob \<noteq> [] \<longrightarrow>
    cdFingerprint c = obFingerprint ob \<or> cdFingerprint c = [] \<and> (\<forall>m \<in> set ms. cdFingerprint m \<noteq> obFingerprint ob))"
  using assms
  by (auto simp: choose_match_def find_None_iff dest: find_SomeD intro: hd_in_set split: if_splits option.splits)

lemma choose_match_None:
  "choose_match ob ms = None \<Longrightarrow> obFingerprint ob \<noteq> [] \<Longrightarrow>
   \<forall>m \<in> set ms. cdFingerprint m \<noteq> obFingerprint ob \<and> cdFingerprint m \<noteq> []"
  by (auto simp: choose_match_def find_None_iff split: option.splits)

text \<open>The candidate an observation ends in, and the aliases folded into it.\<close>

definition aliases_of :: "candidate list \<Rightarrow> candidate \<Rightarrow> candidate list" where
  "aliases_of ms c = (if cdFingerprint c \<noteq> [] then filter (\<lambda>m. cdID m \<noteq> cdID c \<and> cdFingerprint m = []) ms else [])"

definition absorbed :: "unicode_db \<Rightarrow> inbox \<Rightarrow> observation \<Rightarrow> candidate \<Rightarrow> candidate" where
  "absorbed db b ob c0 =
     (let c1 = observe_candidate db (ibConfigured b) ob c0 in
      fold (\<lambda>m c. mergeCandidates db c m) (aliases_of (matchesLocked db ob b) c1) c1)"

definition absorbed_aliases :: "unicode_db \<Rightarrow> inbox \<Rightarrow> observation \<Rightarrow> candidate \<Rightarrow> string list" where
  "absorbed_aliases db b ob c0 =
     map cdID (aliases_of (matchesLocked db ob b) (observe_candidate db (ibConfigured b) ob c0))"

lemma ingest_cases:
  assumes core: "core_inv db addr b"
    and op: "ingestLocked db fresh ob touched b = Inr (r, evs, touched', b')"
  obtains
    (dropped) "choose_match ob (matchesLocked db ob b) = None" "int (length (ibEntries b)) = ibMaxEntries b"
      "evictionTargetLocked touched (ibEntries b) = None" "r = \<lparr>irCandidate = None, irCreated = False,
        irDropped = Some ob, irEvictedIDs = [], irMergedIDs = []\<rparr>"
      "touched' = touched" "ibEntries b' = ibEntries b" "moved b evs b'"
  | (updated) c0 where "choose_match ob (matchesLocked db ob b) = Some c0"
      "ibEntries b' = fold AList.delete (absorbed_aliases db b ob c0)
         (AList.update (cdID (absorbed db b ob c0)) (absorbed db b ob c0) (ibEntries b))"
      "touched' = cdID (absorbed db b ob c0) # touched" "moved b evs b'"
      "r = \<lparr>irCandidate = Some (absorbed db b ob c0), irCreated = False, irDropped = None, irEvictedIDs = [],
        irMergedIDs = sort (absorbed_aliases db b ob c0)\<rparr>"
  | (created) cid es ids where "choose_match ob (matchesLocked db ob b) = None" "fresh = Inr cid"
      "int (length es) < ibMaxEntries b"
      "es = ibEntries b \<and> ids = [] \<or> (\<exists>v. evictionTargetLocked touched (ibEntries b) = Some v \<and>
         int (length (ibEntries b)) = ibMaxEntries b \<and>
         es = AList.delete (cdID v) (ibEntries b) \<and> ids = [cdID v])"
      "ibEntries b' = fold AList.delete (absorbed_aliases db b ob (new_candidate cid (obObservedAt ob)))
         (AList.update (cdID (absorbed db b ob (new_candidate cid (obObservedAt ob))))
           (absorbed db b ob (new_candidate cid (obObservedAt ob))) es)"
      "touched' = cdID (absorbed db b ob (new_candidate cid (obObservedAt ob))) # touched" "moved b evs b'"
      "r = \<lparr>irCandidate = Some (absorbed db b ob (new_candidate cid (obObservedAt ob))), irCreated = True,
        irDropped = None, irEvictedIDs = ids,
        irMergedIDs = sort (absorbed_aliases db b ob (new_candidate cid (obObservedAt ob)))\<rparr>"
proof (cases "choose_match ob (matchesLocked db ob b)")
  case (Some c0)
  with op show ?thesis
    by (intro updated [of c0])
      (auto simp: ingestLocked_def Let_def absorbed_def absorbed_aliases_def aliases_of_def
        dest: makeEvent_moved split: prod.splits)
next
  case None
  have le: "int (length (ibEntries b)) \<le> ibMaxEntries b" using core by (simp add: core_inv_def)
  show ?thesis
  proof (cases "int (length (ibEntries b)) < ibMaxEntries b")
    case True
    with None op make_room_loop [OF core] show ?thesis
      by (cases fresh; intro created [of "projr fresh" "ibEntries b" "[]"])
        (auto simp: ingestLocked_def Let_def absorbed_def absorbed_aliases_def aliases_of_def
          dest: makeEvent_moved split: prod.splits)
  next
    case full: False
    show ?thesis
    proof (cases "evictionTargetLocked touched (ibEntries b)")
      case noTarget: None
      with None full le op make_room_loop [OF core] show ?thesis
        by (intro dropped) (auto simp: ingestLocked_def Let_def dest: makeEvent_moved split: prod.splits)
    next
      case (Some v)
      let ?es = "AList.delete (cdID v) (ibEntries b)"
      have ok: "entries_ok db addr (ibConfigured b) (ibEntries b)" using core by (simp add: core_inv_def)
      have "cdID v \<in> set (map_keys (ibEntries b))"
        using target_in_entries(1) [OF ok Some] by (force intro: rev_image_eqI)
      then have "length ?es < length (ibEntries b)" by (rule delete_length_less)
      then have less: "int (length ?es) < ibMaxEntries b" using le by simp
      obtain ev1 b1 where e1: "makeEventLocked CandEventEvicted None [] (obObservedAt ob) (cdID v)
          (b\<lparr>ibEntries := ?es, ibEvicted := ibEvicted b + 1\<rparr>) = (ev1, b1)" by (meson surj_pair)
      have m1: "moved b [ev1] b1" "ibEntries b1 = ?es" using makeEvent_moved [OF e1] by simp_all
      have room: "make_room (length (ibEntries b)) touched (obObservedAt ob) b = (b1, [cdID v], [ev1], True)"
        using make_room_loop [OF core] full Some e1 by simp
      from op None room obtain cid ev2 where cid: "fresh = Inr cid" and ev2: "makeEventLocked CandEventDiscovered
          (Some (absorbed db b ob (new_candidate cid (obObservedAt ob))))
          (sort (absorbed_aliases db b ob (new_candidate cid (obObservedAt ob)))) (obObservedAt ob) []
          (b1\<lparr>ibEntries := fold AList.delete (absorbed_aliases db b ob (new_candidate cid (obObservedAt ob)))
            (AList.update (cdID (absorbed db b ob (new_candidate cid (obObservedAt ob))))
              (absorbed db b ob (new_candidate cid (obObservedAt ob))) ?es)\<rparr>) = (ev2, b')"
        and rest: "evs = [ev1, ev2]" "touched' = cdID (absorbed db b ob (new_candidate cid (obObservedAt ob))) # touched"
        "r = \<lparr>irCandidate = Some (absorbed db b ob (new_candidate cid (obObservedAt ob))), irCreated = True,
          irDropped = None, irEvictedIDs = [cdID v],
          irMergedIDs = sort (absorbed_aliases db b ob (new_candidate cid (obObservedAt ob)))\<rparr>"
        by (cases fresh) (auto simp: ingestLocked_def Let_def absorbed_def absorbed_aliases_def aliases_of_def
            m1(2) split: prod.splits)
      have "moved b ([ev1] @ [ev2]) b'" using moved_trans [OF m1(1)] makeEvent_moved [OF ev2] by simp
      then show ?thesis using None cid less Some full le rest makeEvent_moved [OF ev2]
        by (intro created [of cid ?es "[cdID v]"]) simp_all
    qed
  qed
qed

lemma absorbed_ok:
  assumes core: "core_inv db addr b" and ob: "obs_ok db addr ob" and c0: "cand_ok db addr c0"
    and names: "cdConfiguredNames c0 = names_of (ibConfigured b) (cdFingerprint c0)"
    and fp: "obFingerprint ob \<noteq> [] \<Longrightarrow> cdFingerprint c0 = [] \<or> cdFingerprint c0 = obFingerprint ob"
  shows "entry_ok db addr (ibConfigured b) (cdID c0) (absorbed db b ob c0)"
    "cdID (absorbed db b ob c0) = cdID c0"
    "cdFingerprint (absorbed db b ob c0) = (if obFingerprint ob \<noteq> [] then obFingerprint ob else cdFingerprint c0)"
proof -
  let ?c1 = "observe_candidate db (ibConfigured b) ob c0"
  have conf: "conf_ok db (ibConfigured b)" and es: "entries_ok db addr (ibConfigured b) (ibEntries b)"
    using core by (simp_all add: core_inv_def)
  have "\<forall>c \<in> set (aliases_of (matchesLocked db ob b) ?c1). cand_ok db addr c"
    using entries_okD [OF es] by (auto simp: aliases_of_def set_matches entry_ok_def)
  with observe_candidate_ok [OF c0 ob conf names fp] fold_mergeCandidates
  show "entry_ok db addr (ibConfigured b) (cdID c0) (absorbed db b ob c0)"
    "cdID (absorbed db b ob c0) = cdID c0"
    "cdFingerprint (absorbed db b ob c0) = (if obFingerprint ob \<noteq> [] then obFingerprint ob else cdFingerprint c0)"
    by (simp_all add: absorbed_def Let_def entry_ok_def)
qed

lemma length_fold_delete: "length (fold AList.delete ks es) \<le> length es"
proof (induction ks arbitrary: es)
  case (Cons k ks)
  have "length (AList.delete k es) \<le> length es" by (rule length_delete_le)
  with Cons [of "AList.delete k es"] show ?case by simp
qed simp

lemma ingest_core_inv:
  assumes core: "core_inv db addr b" and ob: "obs_ok db addr ob"
    and op: "ingestLocked db fresh ob touched b = Inr (r, evs, touched', b')"
    and fresh: "\<And>cid. fresh = Inr cid \<Longrightarrow> valid_id cid"
  shows "core_inv db addr b' \<and> moved b evs b'"
proof -
  have es: "entries_ok db addr (ibConfigured b) (ibEntries b)" and conf: "conf_ok db (ibConfigured b)"
    and le: "int (length (ibEntries b)) \<le> ibMaxEntries b"
    using core by (auto simp: core_inv_def)
  have no_fp: "cdFingerprint c \<noteq> obFingerprint ob"
    if "obFingerprint ob \<noteq> []" "(k, c) \<in> set (ibEntries b)"
      "\<forall>m \<in> set (matchesLocked db ob b). cdFingerprint m \<noteq> obFingerprint ob" for k c
  proof
    assume "cdFingerprint c = obFingerprint ob"
    with that(1,2) have "c \<in> set (matchesLocked db ob b)"
      unfolding set_matches matches_observation_def by blast
    with that(3) \<open>cdFingerprint c = obFingerprint ob\<close> show False by blast
  qed
  from core op show ?thesis
  proof (cases rule: ingest_cases)
    case dropped
    then show ?thesis using core_inv_moved [OF core] es le by simp
  next
    case (updated c0)
    let ?c = "absorbed db b ob c0"
    note ch = choose_match_Some [OF updated(1)]
    then obtain k where k: "(k, c0) \<in> set (ibEntries b)" unfolding set_matches by blast
    have fp: "obFingerprint ob \<noteq> [] \<Longrightarrow> cdFingerprint c0 = obFingerprint ob
        \<or> cdFingerprint c0 = [] \<and> (\<forall>m \<in> set (matchesLocked db ob b). cdFingerprint m \<noteq> obFingerprint ob)"
      using ch by blast
    have c0: "entry_ok db addr (ibConfigured b) k c0" using es k by (rule entries_okD)
    have c0_ok: "cand_ok db addr c0" and c0_names: "cdConfiguredNames c0 = names_of (ibConfigured b) (cdFingerprint c0)"
      using c0 by (simp_all add: entry_ok_def)
    have c0_fp: "obFingerprint ob \<noteq> [] \<Longrightarrow> cdFingerprint c0 = [] \<or> cdFingerprint c0 = obFingerprint ob"
      using fp by blast
    have ok: "entry_ok db addr (ibConfigured b) (cdID c0) ?c" "cdID ?c = cdID c0"
      "cdFingerprint ?c = (if obFingerprint ob \<noteq> [] then obFingerprint ob else cdFingerprint c0)"
      using absorbed_ok [OF core ob c0_ok c0_names c0_fp] by blast+
    have k0: "k = cdID c0" using c0 by (simp add: entry_ok_def)
    have "entries_ok db addr (ibConfigured b) (AList.update (cdID ?c) ?c (ibEntries b))"
    proof (rule entries_ok_update [OF es])
      show "entry_ok db addr (ibConfigured b) (cdID ?c) ?c" using ok by simp
      show "cdFingerprint c' \<noteq> cdFingerprint ?c"
        if c': "(k', c') \<in> set (ibEntries b)" "k' \<noteq> cdID ?c" "cdFingerprint ?c \<noteq> []" for k' c'
        using c' ok(2,3) fp no_fp [OF _ c'(1)] entries_ok_unique [OF es k c'(1)] k0 by (auto split: if_splits)
    qed
    then have "entries_ok db addr (ibConfigured b) (ibEntries b')"
      unfolding updated(2) by (rule entries_ok_fold_delete)
    moreover have "cdID ?c \<in> set (map_keys (ibEntries b))" using k k0 ok(2) by (force intro: rev_image_eqI)
    then have "length (AList.update (cdID ?c) ?c (ibEntries b)) = length (ibEntries b)" by (simp add: update_length)
    then have "length (ibEntries b') \<le> length (ibEntries b)" unfolding updated(2) by (metis length_fold_delete)
    ultimately show ?thesis using core_inv_moved [OF core updated(4)] le updated(4) by simp
  next
    case (created cid es' ids)
    let ?new = "new_candidate cid (obObservedAt ob)" let ?c = "absorbed db b ob ?new"
    have sub: "set es' \<subseteq> set (ibEntries b)" and ok': "entries_ok db addr (ibConfigured b) es'"
      using created(4) es entries_ok_delete set_delete_subset by fastforce+
    have c0: "cand_ok db addr ?new" using fresh [OF created(2)] ob by (simp add: new_candidate_ok obs_ok_def)
    have nf: "cdFingerprint ?new = []" "cdConfiguredNames ?new = []" by (simp_all add: new_candidate_def)
    have ok: "entry_ok db addr (ibConfigured b) (cdID ?new) ?c" "cdID ?c = cdID ?new" "cdFingerprint ?c = obFingerprint ob"
      using absorbed_ok [OF core ob c0] nf names_of_Nil [OF conf] by auto
    have "entries_ok db addr (ibConfigured b) (AList.update (cdID ?c) ?c es')"
    proof (rule entries_ok_update [OF ok'])
      show "entry_ok db addr (ibConfigured b) (cdID ?c) ?c" using ok by simp
      show "cdFingerprint c' \<noteq> cdFingerprint ?c" if c': "(k', c') \<in> set es'" "cdFingerprint ?c \<noteq> []" for k' c'
        using c' sub ok(3) no_fp [of k' c'] choose_match_None [OF created(1)] by auto
    qed
    then have "entries_ok db addr (ibConfigured b) (ibEntries b')"
      unfolding created(5) by (rule entries_ok_fold_delete)
    moreover have "length (AList.update (cdID ?c) ?c es') \<le> Suc (length es')" by (simp add: update_length)
    then have "length (ibEntries b') \<le> Suc (length es')"
      unfolding created(5) using length_fold_delete le_trans by blast
    ultimately show ?thesis using core_inv_moved [OF core created(7)] created(3,7) by simp
  qed
qed

lemma ingest_loop_inv:
  assumes "core_inv db addr b" "\<forall>ob \<in> set obs. obs_ok db addr ob"
    "ingest_loop db fresh i obs touched b = Inr (rs, evs, b')" "\<And>i cid. fresh i = Inr cid \<Longrightarrow> valid_id cid"
  shows "core_inv db addr b' \<and> moved b evs b' \<and> length rs = length obs"
  using assms(1-3)
proof (induction obs arbitrary: i touched b rs evs b')
  case (Cons ob obs)
  from Cons.prems(3) obtain r evs1 touched1 b1 rs2 evs2 where
    a: "ingestLocked db (fresh i) ob touched b = Inr (r, evs1, touched1, b1)"
    "ingest_loop db fresh (Suc i) obs touched1 b1 = Inr (rs2, evs2, b')" "rs = r # rs2" "evs = evs1 @ evs2"
    by (auto simp: and_then_Inr)
  have 1: "core_inv db addr b1 \<and> moved b evs1 b1"
    using ingest_core_inv [OF Cons.prems(1) _ a(1) assms(4)] Cons.prems(2) by simp
  moreover have "core_inv db addr b' \<and> moved b1 evs2 b' \<and> length rs2 = length obs"
    using Cons.IH [OF _ _ a(2)] 1 Cons.prems(2) by simp
  ultimately show ?case using a(3,4) moved_trans by auto
qed simp

lemma expire_events_moved: "expire_events now ids b = (evs, b') \<Longrightarrow> moved b evs b' \<and> ibEntries b' = ibEntries b
    \<and> ibDropped b' = ibDropped b \<and> ibEvicted b' = ibEvicted b"
proof (induction ids arbitrary: b evs)
  case (Cons i ids)
  from Cons.prems obtain ev b1 evs2 where e: "makeEventLocked CandEventExpired None [] now i b = (ev, b1)"
    "expire_events now ids b1 = (evs2, b')" "evs = [ev] @ evs2"
    by (auto simp: Let_def split: prod.splits)
  show ?case using makeEvent_moved [OF e(1)] Cons.IH [OF e(2)] moved_trans e(3) by metis
qed simp

lemma expireLocked_inv:
  assumes "core_inv db addr b" "expireLocked now b = (ids, evs, b')"
  shows "core_inv db addr b' \<and> moved b evs b' \<and> ibDropped b' = ibDropped b \<and> ibEvicted b' = ibEvicted b"
proof (cases "ibTTL b < 0")
  case True
  with assms show ?thesis by (auto simp: expireLocked_def)
next
  case False
  let ?es = "filter (\<lambda>(k, c). \<not> expired_entry (ibTTL b) now c) (ibEntries b)"
  from assms(2) False have m: "moved b evs b' \<and> ibEntries b' = ?es
      \<and> ibDropped b' = ibDropped b \<and> ibEvicted b' = ibEvicted b"
    by (auto simp: expireLocked_def Let_def split: prod.splits dest: expire_events_moved)
  have es: "entries_ok db addr (ibConfigured b) (ibEntries b)" using assms(1) by (simp add: core_inv_def)
  have "entries_ok db addr (ibConfigured b) ?es"
    by (rule entries_ok_subset [OF es]) (use es in \<open>auto simp: entries_ok_def\<close>)
  then have ok: "entries_ok db addr (ibConfigured b) (ibEntries b')" using m by simp
  have "length (ibEntries b') \<le> length (ibEntries b)" using m by simp
  moreover have "int (length (ibEntries b)) \<le> ibMaxEntries b" using assms(1) by (simp add: core_inv_def)
  ultimately have "int (length (ibEntries b')) \<le> ibMaxEntries b" by linarith
  then show ?thesis using m core_inv_moved [OF assms(1) _ ok] by blast
qed

section \<open>Saving\<close>

lemma core_inv_disk [simp]: "core_inv db addr (b\<lparr>ibDisk := d\<rparr>) = core_inv db addr b"
  by (simp add: core_inv_def)

lemma inbox_inv_disk [simp]: "inbox_inv db addr (b\<lparr>ibDisk := d\<rparr>) = inbox_inv db addr b"
  by (simp add: inbox_inv_def ev_ok_def)

lemma appendEvents_disk: "appendEventsLocked evs (b\<lparr>ibDisk := d\<rparr>) = (appendEventsLocked evs b)\<lparr>ibDisk := d\<rparr>"
  by (simp add: appendEventsLocked_def Let_def)

lemma saveLocked_disk:
  assumes "saveLocked sv b = (b', err)"
  obtains d where "b' = b\<lparr>ibDisk := d\<rparr>" "d = ibDisk b \<or> d = Some (disk_of b)"
    "err = None \<Longrightarrow> ibPath b \<noteq> [] \<Longrightarrow> d = Some (disk_of b)"
  using assms
  by (auto simp: saveLocked_def split: if_splits save_outcome.splits intro: that [of "ibDisk b"] that [of "Some (disk_of b)"])

text \<open>A transaction that ends by saving and recording its events, or by restoring the old state.\<close>

lemma commit_inv:
  assumes "core_inv db addr b1" "moved b evs b1" "ev_ok b" "saveLocked sv b1 = (b2, err)"
  shows "inbox_inv db addr (appendEventsLocked evs b2)"
  using assms(4)
proof (rule saveLocked_disk)
  fix d assume "b2 = b1\<lparr>ibDisk := d\<rparr>"
  then show ?thesis using appendEvents_inv [OF assms(1-3)] by (simp add: appendEvents_disk)
qed

text \<open>Rolling back restores everything but the stored document.\<close>

lemma inbox_same:
  assumes "moved b evs b1" "ibEntries b' = ibEntries b" "ibSequence b' = ibSequence b" "ibDropped b' = ibDropped b"
    "ibEvicted b' = ibEvicted b" "ibConfigured b' = ibConfigured b" "ibPath b' = ibPath b1" "ibTTL b' = ibTTL b1"
    "ibMaxEntries b' = ibMaxEntries b1" "ibMaxEvents b' = ibMaxEvents b1" "ibEvents b' = ibEvents b1"
  shows "b' = b\<lparr>ibDisk := ibDisk b'\<rparr>"
  using assms by (cases b; cases b') (simp add: moved_def)

section \<open>Expiring and ingesting\<close>

lemma IngestMany_inv:
  assumes inv: "inbox_inv db addr b" and op: "IngestMany db addr sv now fresh obs b = (b', res)"
    and env: "now \<noteq> 0" "canonical_addr addr" "\<And>i cid. fresh i = Inr cid \<Longrightarrow> valid_id cid"
  shows "inbox_inv db addr b' \<and> (\<forall>err. res = Inl err \<longrightarrow> b' = b\<lparr>ibDisk := ibDisk b'\<rparr>)"
proof (cases "obs = [] \<or> (\<exists>err. normalize_all db addr now 0 obs = Inl err)")
  case True
  with inv op show ?thesis by (auto simp: IngestMany_def split: if_splits)
next
  case False
  then obtain norm where norm: "normalize_all db addr now 0 obs = Inr norm" and ne: "obs \<noteq> []"
    by (cases "normalize_all db addr now 0 obs") auto
  have ok: "\<forall>ob \<in> set norm. obs_ok db addr ob"
  proof -
    have "normalize_all db addr now i obs = Inr norm \<Longrightarrow> \<forall>ob \<in> set norm. obs_ok db addr ob" for i obs norm
      using normalizeObservation_ok [OF _ env(1,2)]
      by (induction obs arbitrary: i norm) (auto simp: and_then_Inr split: sum.splits)
    then show ?thesis using norm by blast
  qed
  obtain ids evs1 b1 where x: "expireLocked now b = (ids, evs1, b1)" by (metis prod_cases3)
  have core: "core_inv db addr b" and ev: "ev_ok b" using inv by (simp_all add: inbox_inv_core)
  from expireLocked_inv [OF core x] have 1: "core_inv db addr b1" "moved b evs1 b1"
    "ibDropped b1 = ibDropped b" "ibEvicted b1 = ibEvicted b" by simp_all
  show ?thesis
  proof (cases "ingest_loop db fresh 0 norm [] b1")
    case (Inl err)
    with op ne norm x have "b' = rollback_entries b b1" by (simp add: IngestMany_def)
    then have "b' = b\<lparr>ibDisk := ibDisk b'\<rparr>"
      using 1(2) by (intro inbox_same [OF 1(2)]) (simp_all add: rollback_entries_def moved_def)
    then show ?thesis using inv by (metis inbox_inv_disk)
  next
    case (Inr y)
    then obtain rs evs2 b2 where l: "ingest_loop db fresh 0 norm [] b1 = Inr (rs, evs2, b2)" by (cases y) auto
    from ingest_loop_inv [OF 1(1) ok l env(3)] have 2: "core_inv db addr b2" "moved b1 evs2 b2" by simp_all
    have m: "moved b (evs1 @ evs2) b2" using 1(2) 2(2) by (rule moved_trans)
    obtain b3 e3 where s: "saveLocked sv b2 = (b3, e3)" by (meson surj_pair)
    then obtain d where d: "b3 = b2\<lparr>ibDisk := d\<rparr>" by (rule saveLocked_disk)
    show ?thesis
    proof (cases e3)
      case None
      with op ne norm x l s have "b' = appendEventsLocked (evs1 @ evs2) b3" "res = Inr rs"
        by (auto simp: IngestMany_def)
      with commit_inv [OF 2(1) m ev s] show ?thesis by simp
    next
      case (Some err)
      with op ne norm x l s have "b' = rollback_entries b b3" by (simp add: IngestMany_def)
      then have "b' = b\<lparr>ibDisk := ibDisk b'\<rparr>"
        using m by (intro inbox_same [OF m]) (simp_all add: rollback_entries_def d moved_def)
      then show ?thesis using inv by (metis inbox_inv_disk)
    qed
  qed
qed

lemma Expire_inv:
  assumes inv: "inbox_inv db addr b" and op: "Expire sv now b = (b', res)"
  shows "inbox_inv db addr b' \<and> (\<forall>err. res = Inl err \<longrightarrow> b' = b\<lparr>ibDisk := ibDisk b'\<rparr>)"
proof -
  obtain ids evs1 b1 where x: "expireLocked now b = (ids, evs1, b1)" by (metis prod_cases3)
  have core: "core_inv db addr b" and ev: "ev_ok b" using inv by (simp_all add: inbox_inv_core)
  from expireLocked_inv [OF core x] have 1: "core_inv db addr b1" "moved b evs1 b1"
    "ibDropped b1 = ibDropped b" "ibEvicted b1 = ibEvicted b" by simp_all
  obtain b3 e3 where s: "saveLocked sv b1 = (b3, e3)" by (meson surj_pair)
  then obtain d where d: "b3 = b1\<lparr>ibDisk := d\<rparr>" by (rule saveLocked_disk)
  show ?thesis
  proof (cases "ids = []")
    case True
    then have "evs1 = []" using x by (auto simp: expireLocked_def Let_def split: if_splits prod.splits)
    then have "ev_ok b1" using 1(2) ev by (simp add: moved_def ev_ok_def)
    with True op x 1(1) show ?thesis by (auto simp: Expire_def inbox_inv_core)
  next
    case False
    show ?thesis
    proof (cases e3)
      case None
      with op x s False have "b' = appendEventsLocked evs1 b3" "res = Inr ids" by (simp_all add: Expire_def)
      with commit_inv [OF 1(1,2) ev s] show ?thesis by simp
    next
      case (Some err)
      with op x s False have "b' = b3\<lparr>ibEntries := ibEntries b, ibSequence := ibSequence b\<rparr>"
        by (simp add: Expire_def)
      then have "b' = b\<lparr>ibDisk := ibDisk b'\<rparr>"
        using 1 by (intro inbox_same [OF 1(2)]) (simp_all add: d moved_def)
      then show ?thesis using inv by (metis inbox_inv_disk)
    qed
  qed
qed

section \<open>Review and configuration\<close>

lemma texts_ok_review [simp]:
  "texts_ok db addr (c\<lparr>cdState := st, cdVerifiedAt := v, cdIgnoredAt := i\<rparr>) = texts_ok db addr c"
  "texts_ok db addr (c\<lparr>cdState := st, cdIgnoredAt := i\<rparr>) = texts_ok db addr c"
  by (simp_all add: texts_ok_def)

lemma has_identity_review [simp]:
  "has_identity (c\<lparr>cdState := st, cdVerifiedAt := v, cdIgnoredAt := i\<rparr>) = has_identity c"
  "has_identity (c\<lparr>cdState := st, cdIgnoredAt := i\<rparr>) = has_identity c"
  by (simp_all add: has_identity_def)

lemma verify_change_ok:
  assumes "entry_ok db addr m k c" "now \<noteq> 0" "verify_change c now = Inr c'"
  shows "entry_ok db addr m k c' \<and> cdFingerprint c' = cdFingerprint c"
proof -
  have c': "c' = c\<lparr>cdState := CandVerified, cdVerifiedAt := Some now, cdIgnoredAt := None\<rparr>" "cdFingerprint c \<noteq> []"
    using assms(3) by (simp_all add: verify_change_def split: if_splits)
  then have "state_ok c'" "times_ok c'" using assms(1,2) by (simp_all add: state_ok_def times_ok_def entry_ok_def cand_ok_def)
  then show ?thesis using assms(1) c' by (simp add: entry_ok_def cand_ok_def)
qed

lemma ignore_change_ok:
  assumes "entry_ok db addr m k c" "now \<noteq> 0" "ignore_change c now = Inr c'"
  shows "entry_ok db addr m k c' \<and> cdFingerprint c' = cdFingerprint c"
proof -
  have c': "c' = c\<lparr>cdState := CandIgnored, cdIgnoredAt := Some now\<rparr>"
    using assms(3) by (simp add: ignore_change_def)
  then have "state_ok c'" "times_ok c'" using assms(1,2) by (simp_all add: state_ok_def times_ok_def entry_ok_def cand_ok_def)
  then show ?thesis using assms(1) c' by (simp add: entry_ok_def cand_ok_def)
qed

lemma restore_change_ok:
  assumes "entry_ok db addr m k c" "restore_change c now = Inr c'"
  shows "entry_ok db addr m k c' \<and> cdFingerprint c' = cdFingerprint c"
proof -
  define st where "st = (if cdFingerprint c = [] then CandDiscovered
    else if cdConfiguredNames c \<noteq> [] \<or> cdVerifiedAt c \<noteq> None then CandVerified else CandIdentityPending)"
  have c': "c' = c\<lparr>cdState := st, cdIgnoredAt := None\<rparr>"
    using assms(2) by (cases c) (auto simp: restore_change_def st_def split: if_splits)
  moreover have "state_ok c'" by (simp add: c' state_ok_def st_def)
  moreover have "times_ok c'" using assms(1) c' by (simp add: times_ok_def entry_ok_def cand_ok_def)
  ultimately show ?thesis using assms(1) by (simp add: entry_ok_def cand_ok_def)
qed

lemma change_ok:
  assumes "entry_ok db addr m k c" "now \<noteq> 0"
    "change = verify_change \<or> change = ignore_change \<or> change = restore_change" "change c now = Inr c'"
  shows "entry_ok db addr m k c' \<and> cdFingerprint c' = cdFingerprint c"
  using assms(3,4) verify_change_ok [OF assms(1,2)] ignore_change_ok [OF assms(1,2)]
    restore_change_ok [OF assms(1)] by metis

lemma update_back: "map_of es k = Some v \<Longrightarrow> AList.update k v (AList.update k w es) = es"
  by (induction es) (auto split: if_splits)

lemma transition_inv:
  assumes inv: "inbox_inv db addr b" and op: "transition sv now cid kind change b = (b', res)" and now: "now \<noteq> 0"
    and change: "change = verify_change \<or> change = ignore_change \<or> change = restore_change"
  shows "inbox_inv db addr b' \<and> (\<forall>err. res = Inl err \<longrightarrow> b' = b\<lparr>ibDisk := ibDisk b'\<rparr>)"
proof (cases "map_of (ibEntries b) cid")
  case None
  with op inv show ?thesis by (auto simp: transition_def)
next
  case (Some c)
  have core: "core_inv db addr b" and ev: "ev_ok b" using inv by (simp_all add: inbox_inv_core)
  have es: "entries_ok db addr (ibConfigured b) (ibEntries b)" and le: "int (length (ibEntries b)) \<le> ibMaxEntries b"
    using core by (simp_all add: core_inv_def)
  have mem: "(cid, c) \<in> set (ibEntries b)" using Some by (rule map_of_SomeD)
  show ?thesis
  proof (cases "change c now")
    case (Inl err)
    with op Some inv show ?thesis by (auto simp: transition_def)
  next
    case (Inr c')
    let ?es = "AList.update cid c' (ibEntries b)"
    have c': "entry_ok db addr (ibConfigured b) cid c'" "cdFingerprint c' = cdFingerprint c"
      using change_ok [OF entries_okD [OF es mem] now change Inr] by simp_all
    then have cid: "cid = cdID c'" by (simp add: entry_ok_def)
    have "entries_ok db addr (ibConfigured b) ?es"
      unfolding cid
    proof (rule entries_ok_update [OF es])
      show "entry_ok db addr (ibConfigured b) (cdID c') c'" using c'(1) cid by simp
      show "cdFingerprint e \<noteq> cdFingerprint c'"
        if e: "(k, e) \<in> set (ibEntries b)" "k \<noteq> cdID c'" "cdFingerprint c' \<noteq> []" for k e
        using entries_ok_unique [OF es mem e(1)] e(2,3) c'(2) cid by auto
    qed
    moreover have "length ?es = length (ibEntries b)" using mem by (force simp: update_length)
    moreover obtain evt b1 where e: "makeEventLocked kind (Some c') [] now [] (b\<lparr>ibEntries := ?es\<rparr>) = (evt, b1)"
      by (meson surj_pair)
    have m: "moved b [evt] b1" and keep: "ibEntries b1 = ?es" "ibDropped b1 = ibDropped b" "ibEvicted b1 = ibEvicted b"
      using makeEvent_moved [OF e] by simp_all
    ultimately have core1: "core_inv db addr b1" using core_inv_moved [OF core m] le by simp
    obtain b2 err where s: "saveLocked sv b1 = (b2, err)" by (meson surj_pair)
    then obtain d where d: "b2 = b1\<lparr>ibDisk := d\<rparr>" by (rule saveLocked_disk)
    show ?thesis
    proof (cases err)
      case None
      with op Some Inr e s have "b' = appendEventsLocked [evt] b2" "res = Inr c'" by (auto simp: transition_def)
      with commit_inv [OF core1 m ev s] show ?thesis by simp
    next
      case (Some x)
      with op \<open>map_of (ibEntries b) cid = Some c\<close> Inr e s
      have "b' = b2\<lparr>ibEntries := AList.update cid c (ibEntries b2), ibSequence := ibSequence b\<rparr>"
        by (simp add: transition_def)
      then have "b' = b\<lparr>ibDisk := ibDisk b'\<rparr>"
        using m keep update_back [OF \<open>map_of (ibEntries b) cid = Some c\<close>]
        by (intro inbox_same [OF m]) (simp_all add: d moved_def)
      then show ?thesis using inv by (metis inbox_inv_disk)
    qed
  qed
qed

text \<open>Names before they are sorted.\<close>

definition conf_pre :: "unicode_db \<Rightarrow> string list gomap \<Rightarrow> bool" where
  "conf_pre db m \<longleftrightarrow> wf_map m \<and> (\<forall>(fp, ns) \<in> set m. normalizeFingerprint fp = Inr fp \<and> ns \<noteq> [] \<and> distinct ns
     \<and> list_all (normal_plain db ''configured device name'' 128) ns)"

lemma add_names_pre:
  assumes "conf_pre db m" "normalizeFingerprint fp = Inr fp" "add_names db fp ns m = Inr m'"
  shows "conf_pre db m'"
  using assms
proof (induction ns arbitrary: m)
  case (Cons n ns)
  from Cons.prems(3) obtain name where n: "normalizePlain db ''configured device name'' n 128 = Inr name"
    "add_names db fp ns (AList.update fp (addString (names_of m fp) name) m) = Inr m'"
    by (auto simp: and_then_Inr)
  have old: "distinct (names_of m fp)" "list_all (normal_plain db ''configured device name'' 128) (names_of m fp)"
    using Cons.prems(1) by (fastforce simp: names_of_def conf_pre_def split: option.split dest: map_of_SomeD)+
  have "conf_pre db (AList.update fp (addString (names_of m fp) name) m)"
    unfolding conf_pre_def
  proof (intro conjI ballI)
    show "wf_map (AList.update fp (addString (names_of m fp) name) m)"
      using Cons.prems(1) by (simp add: conf_pre_def)
    fix x assume "x \<in> set (AList.update fp (addString (names_of m fp) name) m)"
    then have "x = (fp, addString (names_of m fp) name) \<or> x \<in> set m"
      using set_update_subset by fastforce
    moreover have "addString (names_of m fp) name \<noteq> []" by (auto simp: addString_def)
    ultimately show "case x of (fp, ns) \<Rightarrow> normalizeFingerprint fp = Inr fp \<and> ns \<noteq> [] \<and> distinct ns
        \<and> list_all (normal_plain db ''configured device name'' 128) ns"
      using Cons.prems(1,2) old normalizePlain_normal [OF n(1)]
      by (auto simp: conf_pre_def addString_def)
  qed
  then show ?case using Cons.IH [OF _ Cons.prems(2) n(2)] by blast
qed simp

lemma configured_loop_pre:
  "conf_pre db m \<Longrightarrow> configured_loop db what need i items m = Inr m' \<Longrightarrow> conf_pre db m'"
proof (induction items arbitrary: i m)
  case (Cons item items)
  from Cons.prems(2) obtain fp m1 where "normalizeFingerprint (cfFingerprint item) = Inr fp"
    "add_names db fp (cfDeviceNames item) m = Inr m1" "configured_loop db what need (Suc i) items m1 = Inr m'"
    by (auto simp: Let_def split: sum.splits if_splits)
  then show ?case using Cons.IH add_names_pre [OF Cons.prems(1)] normalizeFingerprint_fix(1) by blast
qed simp

lemma sort_names_ok: "conf_pre db m \<Longrightarrow> conf_ok db (sort_names m)"
proof -
  assume m: "conf_pre db m"
  have "wf_map (sort_names m)"
    using m unfolding sort_names_def conf_pre_def by (subst wf_map_map_val [where f = "\<lambda>_. sort"]) simp
  then show ?thesis using m by (auto simp: conf_ok_def conf_pre_def sort_names_def sort_key_Nil_iff)
qed

lemma configured_loop_ok: "configured_loop db what need i items [] = Inr m \<Longrightarrow> conf_ok db (sort_names m)"
  by (rule sort_names_ok, rule configured_loop_pre) (auto simp: conf_pre_def)

lemma reconfigure_ok:
  assumes "entry_ok db addr m k c" "conf_ok db next"
  shows "entry_ok db addr next k (reconfigure next c)"
proof -
  have "names_of next (cdFingerprint c) \<noteq> [] \<Longrightarrow> cdFingerprint c \<noteq> []" using names_of_Nil [OF assms(2)] by auto
  moreover have "list_all (normal_plain db ''configured device name'' 128) (names_of next (cdFingerprint c))"
    using assms(2) by (rule names_of_normal)
  ultimately show ?thesis using assms(1)
    by (auto simp: entry_ok_def reconfigure_def cand_ok_def state_ok_def times_ok_def texts_ok_def
        has_identity_def Let_def split: cand_state.splits if_splits)
qed

lemma reconfigure_loop_moved:
  "reconfigure_loop next now es b = (es', evs, b') \<Longrightarrow> es' = map (\<lambda>(k, c). (k, reconfigure next c)) es
     \<and> moved b evs b' \<and> ibDropped b' = ibDropped b \<and> ibEvicted b' = ibEvicted b"
proof (induction es arbitrary: b b' es' evs)
  case (Cons x es)
  obtain k c where x: "x = (k, c)" by (cases x)
  obtain evs1 b1 where 1: "(if names_changed c (reconfigure next c)
      then (let (ev, b') = makeEventLocked CandEventConfiguredChanged (Some (reconfigure next c)) [] now [] b in ([ev], b'))
      else ([], b)) = (evs1, b1)" by (meson surj_pair)
  have m1: "moved b evs1 b1" "ibDropped b1 = ibDropped b" "ibEvicted b1 = ibEvicted b"
    using 1 by (auto split: if_splits prod.splits dest: makeEvent_moved)
  obtain es2 evs2 b2 where 2: "reconfigure_loop next now es b1 = (es2, evs2, b2)" by (metis prod_cases3)
  have "es' = (k, reconfigure next c) # es2" "evs = evs1 @ evs2" "b' = b2"
    using Cons.prems x 1 2 by (simp_all add: Let_def)
  with Cons.IH [OF 2] m1 moved_trans x show ?case by auto
qed simp

lemma reconfigure_fp [simp]: "cdFingerprint (reconfigure next c) = cdFingerprint c"
  by (simp add: reconfigure_def Let_def)

lemma entries_ok_reconfigure:
  assumes "entries_ok db addr m es" "conf_ok db next"
  shows "entries_ok db addr next (map (\<lambda>(k, c). (k, reconfigure next c)) es)"
  unfolding entries_ok_def
proof (intro conjI)
  show "wf_map (map (\<lambda>(k, c). (k, reconfigure next c)) es)"
    using assms(1) by (subst wf_map_map_val [where f = "\<lambda>_. reconfigure next"]) (simp add: entries_ok_def)
  show "\<forall>(k, c) \<in> set (map (\<lambda>(k, c). (k, reconfigure next c)) es). entry_ok db addr next k c"
  proof (clarsimp)
    fix k c assume "(k, c) \<in> set es"
    then show "entry_ok db addr next k (reconfigure next c)"
      by (rule reconfigure_ok [OF entries_okD [OF assms(1)] assms(2)])
  qed
  show "\<forall>(k, c) \<in> set (map (\<lambda>(k, c). (k, reconfigure next c)) es).
      \<forall>(k', c') \<in> set (map (\<lambda>(k, c). (k, reconfigure next c)) es).
        cdFingerprint c \<noteq> [] \<longrightarrow> cdFingerprint c' = cdFingerprint c \<longrightarrow> k' = k"
    using entries_ok_unique [OF assms(1)] by auto
qed

lemma Replace_inv:
  assumes inv: "inbox_inv db addr b" and op: "ReplaceConfiguredFingerprints db sv now items b = (b', err)"
  shows "inbox_inv db addr b' \<and> (err \<noteq> None \<longrightarrow> b' = b\<lparr>ibDisk := ibDisk b'\<rparr>)"
proof (cases "configured_loop db ''configured fingerprint '' True 0 items []")
  case (Inl e)
  with op inv show ?thesis by (auto simp: ReplaceConfiguredFingerprints_def)
next
  case (Inr m)
  let ?next = "sort_names m"
  have next_ok: "conf_ok db ?next" using Inr by (rule configured_loop_ok)
  have core: "core_inv db addr b" and ev: "ev_ok b" using inv by (simp_all add: inbox_inv_core)
  obtain es evs b1 where l: "reconfigure_loop ?next now (ibEntries b) b = (es, evs, b1)" by (metis prod_cases3)
  from reconfigure_loop_moved [OF l] have es: "es = map (\<lambda>(k, c). (k, reconfigure ?next c)) (ibEntries b)"
    and m: "moved b evs b1" and dr: "ibDropped b1 = ibDropped b" "ibEvicted b1 = ibEvicted b" by simp_all
  define b2 where "b2 = b1\<lparr>ibEntries := es, ibConfigured := ?next\<rparr>"
  have "entries_ok db addr ?next es"
    unfolding es using entries_ok_reconfigure [OF _ next_ok] core by (auto simp: core_inv_def)
  then have core2: "core_inv db addr b2" using core m next_ok es by (auto simp: core_inv_def b2_def moved_def)
  have m2: "moved (b\<lparr>ibConfigured := ?next\<rparr>) evs b2" and ev2: "ev_ok (b\<lparr>ibConfigured := ?next\<rparr>)"
    using m ev by (simp_all add: moved_def b2_def ev_ok_def)
  obtain b3 e3 where s: "saveLocked sv b2 = (b3, e3)" by (meson surj_pair)
  then obtain d where d: "b3 = b2\<lparr>ibDisk := d\<rparr>" by (rule saveLocked_disk)
  show ?thesis
  proof (cases "evs = [] \<and> equalStringMap (ibConfigured b) ?next")
    case True
    then have "ev_ok b2" using m2 ev by (simp add: moved_def ev_ok_def)
    moreover have "b' = b2" "err = None"
      using op Inr l True by (simp_all add: ReplaceConfiguredFingerprints_def b2_def)
    ultimately show ?thesis using core2 by (simp add: inbox_inv_core)
  next
    case False
    show ?thesis
    proof (cases e3)
      case None
      with op Inr l False s have "b' = appendEventsLocked evs b3" "err = None"
        by (auto simp: ReplaceConfiguredFingerprints_def b2_def Let_def)
      with commit_inv [OF core2 m2 ev2 s] show ?thesis by simp
    next
      case (Some x)
      with op Inr l False s
      have "b' = b3\<lparr>ibEntries := ibEntries b, ibConfigured := ibConfigured b, ibSequence := ibSequence b\<rparr>"
        by (auto simp: ReplaceConfiguredFingerprints_def b2_def Let_def)
      then have "b' = b\<lparr>ibDisk := ibDisk b'\<rparr>"
        using m dr by (intro inbox_same [OF m]) (simp_all add: d b2_def moved_def)
      then show ?thesis using inv by (metis inbox_inv_disk)
    qed
  qed
qed

end
