(* ===== verification/Candidates_Facts.thy ===== *)
theory Candidates_Facts
  imports Candidates_Invariant Go_Paths
begin

text \<open>
  What the candidate inbox promises: the invariant of every reachable inbox, transactions that
  either commit or leave the inbox alone, the policy of eviction, that discovery never rewrites an
  identity or grants trust, the event cursor, and the round trip through the stored document.
\<close>

section \<open>Names joined by NUL\<close>

text \<open>The bytes of an encoded rune outside ASCII are all outside ASCII.\<close>

lemma decode_rune_not_ascii_bytes:
  assumes "\<not> byte c0 < 128" "c \<in> set (take (snd (decode_rune (c0 # s))) (c0 # s))"
  shows "\<not> byte c < 128"
proof -
  have lo: "128 \<le> utf8_lo n" for n by (simp add: utf8_lo_def)
  have cont: "\<not> utf8_cont n" if "n < 128" for n using that by (simp add: utf8_cont_def)
  let ?w = "snd (decode_rune (c0 # s))"
  have w3: "?w \<le> 1" if "s = c1 # s1" "byte c1 < 128" for c1 s1
    using that lo [of "byte c0"] assms(1) by (simp add: decode_rune_def Let_def)
  have w5: "?w \<le> 2" if "s = c1 # c2 # s1" "byte c2 < 128" for c1 c2 s1
    using that cont by (simp add: decode_rune_def Let_def)
  have w7: "?w \<le> 3" if "s = c1 # c2 # c3 # s1" "byte c3 < 128" for c1 c2 c3 s1
    using that cont by (simp add: decode_rune_def Let_def)
  have w8: "?w \<le> 4" using decode_rune_width [of "c0 # s"] by simp
  obtain n where n: "n < ?w" "n \<le> length s" "c = (c0 # s) ! n"
    using assms(2) by (auto simp: in_set_conv_nth)
  show ?thesis
  proof
    assume "byte c < 128"
    consider "n = 0" | "n = 1" | "n = 2" | "n = 3" using n(1) w8 by linarith
    then show False
    proof cases
      case 1 with n assms(1) \<open>byte c < 128\<close> show ?thesis by simp
    next
      case 2 with n \<open>byte c < 128\<close> w3 show ?thesis by (cases s) auto
    next
      case 3
      then obtain c1 s1 where "s = c1 # c # s1" using n(2,3) by (cases s; cases "tl s") auto
      with n 3 \<open>byte c < 128\<close> w5 show ?thesis by fastforce
    next
      case 4
      then obtain c1 c2 s1 where "s = c1 # c2 # c # s1" using n(2,3)
        by (cases s; cases "tl s"; cases "tl (tl s)") auto
      with n 4 \<open>byte c < 128\<close> w7 show ?thesis by fastforce
    qed
  qed
qed

lemma decode_rune_segment:
  assumes "c \<in> set (take (snd (decode_rune s)) s)" "byte c < 128"
  shows "fst (decode_rune s) = byte c"
proof (cases s)
  case (Cons c0 s')
  have c0: "byte c0 < 128" using decode_rune_not_ascii_bytes [of c0 c s'] assms Cons by auto
  with Cons assms show ?thesis by (auto simp: decode_rune_ascii)
qed (use assms in simp)

lemma ascii_byte_rune: "c \<in> set s \<Longrightarrow> byte c < 128 \<Longrightarrow> byte c \<in> set (runes s)"
  unfolding runes_def
proof (induction s rule: utf8_induct)
  case (Step s)
  from Step.prems(1) have "c \<in> set (take (snd (decode_rune s)) s) \<or> c \<in> set (drop (snd (decode_rune s)) s)"
    by (metis Un_iff append_take_drop_id set_append)
  then show ?case
  proof
    assume "c \<in> set (take (snd (decode_rune s)) s)"
    then have "fst (decode_rune s) = byte c" using Step.prems(2) by (rule decode_rune_segment)
    with Step.hyps show ?thesis by (simp add: utf8_segments_step)
  next
    assume "c \<in> set (drop (snd (decode_rune s)) s)"
    with Step show ?thesis by (simp add: utf8_segments_step)
  qed
qed simp

lemma normal_plain_no_nul:
  assumes "ascii_db db" "normal_plain db f n v"
  shows "CHR 0x00 \<notin> set v" "v \<noteq> []"
proof
  have v: "\<not> list_ex (uc_other db) (runes v)" "v \<noteq> []"
    using assms(2) by (auto simp: normal_plain_def normalizePlain_def Let_def split: if_splits)
  then show "v \<noteq> []" by simp
  assume "CHR 0x00 \<in> set v"
  then have "0 \<in> set (runes v)" using ascii_byte_rune [of "CHR 0x00"] by simp
  moreover have "uc_other db 0" using assms(1) by (simp add: ascii_db_def)
  ultimately show False using v by (auto simp: list_ex_iff)
qed

lemma Join_nul_inject:
  assumes "ascii_db db" "list_all (normal_plain db f n) xs" "list_all (normal_plain db f n) ys"
    "Join xs [CHR 0x00] = Join ys [CHR 0x00]"
  shows "xs = ys"
proof -
  have nul: "\<forall>e \<in> set zs. CHR 0x00 \<notin> set e" "Join zs [CHR 0x00] = [] \<Longrightarrow> zs = []"
    if zs: "list_all (normal_plain db f n) zs" for zs
  proof -
    show "\<forall>e \<in> set zs. CHR 0x00 \<notin> set e"
      using zs normal_plain_no_nul(1) [OF assms(1)] by (auto simp: list_all_iff)
    have "[] \<notin> set zs" using zs normal_plain_no_nul(2) [OF assms(1)] by (auto simp: list_all_iff)
    then show "zs = []" if "Join zs [CHR 0x00] = []" using that by (cases zs rule: remdups_adj.cases) auto
  qed
  show ?thesis
  proof (cases "xs = [] \<or> ys = []")
    case True
    then show ?thesis using nul(2) [of xs] nul(2) [of ys] assms(2-4) by auto
  next
    case False
    then show ?thesis using Split1_Join [of xs] Split1_Join [of ys] nul(1) assms(2-4) by metis
  qed
qed

section \<open>Opening\<close>

lemma open_candidates_ok:
  assumes "ascii_db db" "conf_ok db m" "entries_ok db addr m es" "\<forall>(k, c) \<in> set es. undotted c"
    "\<forall>(k, c) \<in> set es. cdFingerprint c \<noteq> [] \<longrightarrow> map_of fps (cdFingerprint c) \<noteq> None"
    "open_candidates db addr m i cs fps es = Inr es'"
  shows "entries_ok db addr m es' \<and> (\<forall>(k, c) \<in> set es'. undotted c)"
  using assms(3-6)
proof (induction cs arbitrary: i fps es)
  case (Cons c cs)
  let ?fps = "if cdFingerprint c \<noteq> [] then AList.update (cdFingerprint c) (cdID c) fps else fps"
  let ?es = "AList.update (cdID c) c es"
  from Cons.prems(4) have v: "validateCandidate db addr c = None" and new: "map_of es (cdID c) = None"
    and fp: "cdFingerprint c \<noteq> [] \<longrightarrow> map_of fps (cdFingerprint c) = None"
    and names: "Join (cdConfiguredNames c) [CHR 0x00] = Join (names_of m (cdFingerprint c)) [CHR 0x00]"
    and rest: "open_candidates db addr m (Suc i) cs ?fps ?es = Inr es'"
    by (auto split: option.splits if_splits)
  have ok: "cand_ok db addr c" "has_identity c" "undotted c"
    using v validateCandidate_iff [OF validateCandidate_None [OF v]] by simp_all
  then have "cdConfiguredNames c = names_of m (cdFingerprint c)"
    using Join_nul_inject [OF assms(1) _ names_of_normal [OF assms(2)] names]
    by (simp add: cand_ok_def texts_ok_def)
  with ok have entry: "entry_ok db addr m (cdID c) c" by (simp add: entry_ok_def)
  have wf: "wf_map es" using Cons.prems(1) by (simp add: entries_ok_def)
  have "entries_ok db addr m ?es"
    using Cons.prems(3) fp by (intro entries_ok_update [OF Cons.prems(1) entry]) fastforce
  moreover have "\<forall>(k, c) \<in> set ?es. undotted c"
    using set_update_cases [OF wf, of _ "cdID c" c] Cons.prems(2) ok(3) by fastforce
  moreover have "\<forall>(k, c') \<in> set ?es. cdFingerprint c' \<noteq> [] \<longrightarrow> map_of ?fps (cdFingerprint c') \<noteq> None"
    using set_update_cases [OF wf, of _ "cdID c" c] Cons.prems(3) by (fastforce simp: update_conv')
  ultimately show ?case using Cons.IH rest by blast
qed simp

lemma newInbox_inv: "inbox_inv db addr (newInbox path o1)"
  by (auto simp: inbox_inv_def newInbox_def conf_ok_def entries_ok_def ev_ok_def
      DefaultMaxCandidates_def DefaultMaxEvents_def)

lemma Open_inv:
  assumes db: "ascii_db db" and op: "Open db addr path o1 loaded = Inr b"
  shows "inbox_inv db addr b"
proof -
  note new = newInbox_inv [of db addr path o1]
  from op consider "b = newInbox path o1"
    | st m es where "configured_loop db ''invalid configured fingerprint at index '' False 0 (dsConfigured st) [] = Inr m"
      "open_candidates db addr (sort_names m) 0 (dsCandidates st) [] [] = Inr es"
      "int (length es) \<le> ibMaxEntries (newInbox path o1)"
      "b = (newInbox path o1)\<lparr>ibSequence := dsSequence st, ibConfigured := sort_names m, ibEntries := es,
         ibDisk := Some st\<rparr>"
    by (auto simp: Open_def and_then_Inr Let_def split: if_splits option.splits)
  then show ?thesis
  proof cases
    case 2
    have conf: "conf_ok db (sort_names m)" using 2(1) by (rule configured_loop_ok)
    have "entries_ok db addr (sort_names m) es"
      using open_candidates_ok [OF db conf _ _ _ 2(2)] by (auto simp: entries_ok_def)
    then show ?thesis using conf 2(3) new
      by (auto simp: 2(4) inbox_inv_def newInbox_def ev_ok_def)
  qed (use new in simp)
qed

section \<open>Operations and reachable inboxes\<close>

datatype inbox_op =
    OpIngest "nat \<Rightarrow> goerr + string" "observation list"
  | OpVerify string
  | OpIgnore string
  | OpRestore string
  | OpConfigure "configured_fingerprint list"
  | OpExpire

text \<open>An operation at a time, with the outcome of saving: the new state and the error returned.\<close>

definition to_err :: "goerr + 'a \<Rightarrow> goerr option" where
  "to_err r = (case r of Inl err \<Rightarrow> Some err | Inr _ \<Rightarrow> None)"

fun run_op ::
    "unicode_db \<Rightarrow> (string \<Rightarrow> goerr + string) \<Rightarrow> cand_saver \<Rightarrow> time \<Rightarrow> inbox_op \<Rightarrow> inbox \<Rightarrow> inbox \<times> goerr option" where
  "run_op db addr sv now (OpIngest fresh obs) b = map_prod id to_err (IngestMany db addr sv now fresh obs b)"
| "run_op db addr sv now (OpVerify cid) b = map_prod id to_err (MarkVerified sv now cid b)"
| "run_op db addr sv now (OpIgnore cid) b = map_prod id to_err (Ignore sv now cid b)"
| "run_op db addr sv now (OpRestore cid) b = map_prod id to_err (Restore sv now cid b)"
| "run_op db addr sv now (OpConfigure items) b = ReplaceConfiguredFingerprints db sv now items b"
| "run_op db addr sv now OpExpire b = map_prod id to_err (Expire sv now b)"

text \<open>The identifiers \<open>newCandidateID\<close> makes: \<open>cand_\<close> and 32 hexadecimal digits.\<close>

fun op_ids_ok :: "inbox_op \<Rightarrow> bool" where
  "op_ids_ok (OpIngest fresh obs) = (\<forall>i cid. fresh i = Inr cid \<longrightarrow> valid_id cid)"
| "op_ids_ok _ = True"

inductive inbox_reachable :: "unicode_db \<Rightarrow> (string \<Rightarrow> goerr + string) \<Rightarrow> inbox \<Rightarrow> bool"
  for db addr where
  Fresh: "inbox_reachable db addr (newInbox [] o1)"
| Opened: "Open db addr path o1 loaded = Inr b \<Longrightarrow> inbox_reachable db addr b"
| Step: "inbox_reachable db addr b \<Longrightarrow> now \<noteq> 0 \<Longrightarrow> op_ids_ok op \<Longrightarrow>
    inbox_reachable db addr (fst (run_op db addr sv now op b))"

lemma to_err_Some: "to_err r = Some err \<longleftrightarrow> r = Inl err"
  by (auto simp: to_err_def split: sum.splits)

lemma run_resultE:
  assumes "map_prod id to_err p = (b', err)"
  obtains res where "p = (b', res)" "err = to_err res"
  using assms by (cases p) auto

lemma run_op_inv:
  assumes "inbox_inv db addr b" "now \<noteq> 0" "canonical_addr addr" "op_ids_ok op"
    "run_op db addr sv now op b = (b', err)"
  shows "inbox_inv db addr b' \<and> (err \<noteq> None \<longrightarrow> b' = b\<lparr>ibDisk := ibDisk b'\<rparr>)"
proof -
  have review: ?thesis if "map_prod id to_err (transition sv now cid kind change b) = (b', err)"
    "change = verify_change \<or> change = ignore_change \<or> change = restore_change" for cid kind change
    using that(1) by (rule run_resultE) (use transition_inv [OF assms(1) _ assms(2) that(2)] in \<open>auto simp: to_err_Some\<close>)
  show ?thesis
  proof (cases op)
    case (OpIngest fresh obs)
    with assms(5) have "map_prod id to_err (IngestMany db addr sv now fresh obs b) = (b', err)" by simp
    then obtain res where r: "IngestMany db addr sv now fresh obs b = (b', res)" "err = to_err res" by (rule run_resultE)
    have "valid_id cid" if "fresh i = Inr cid" for i cid using that assms(4) OpIngest by simp
    with IngestMany_inv [OF assms(1) r(1) assms(2,3)] show ?thesis using r(2) by (auto simp: to_err_Some)
  next
    case OpExpire
    with assms(5) have "map_prod id to_err (Expire sv now b) = (b', err)" by simp
    then obtain res where "Expire sv now b = (b', res)" "err = to_err res" by (rule run_resultE)
    with Expire_inv [OF assms(1)] show ?thesis by (auto simp: to_err_Some)
  next
    case (OpConfigure items)
    then show ?thesis using assms(5) Replace_inv [OF assms(1)] by simp
  qed (use assms(5) review in \<open>auto simp: MarkVerified_def Ignore_def Restore_def\<close>)
qed

lemma reachable_inv:
  assumes "ascii_db db" "canonical_addr addr" "inbox_reachable db addr b"
  shows "inbox_inv db addr b"
  using assms(3)
proof (induction rule: inbox_reachable.induct)
  case (Step b now op sv)
  then show ?case using run_op_inv [OF Step.IH Step.hyps(2) assms(2) Step.hyps(3)]
    by (metis prod.collapse)
qed (simp_all add: newInbox_inv Open_inv [OF assms(1)])

section \<open>What one ingested observation does to an entry\<close>

lemma fold_delete_other: "k \<notin> set ks \<Longrightarrow> map_of (fold AList.delete ks es) k = map_of es k"
  by (induction ks arbitrary: es) (auto simp: delete_conv')

lemma map_of_fold_delete: "map_of (fold AList.delete ks es) k = (if k \<in> set ks then None else map_of es k)"
  by (induction ks arbitrary: es) (auto simp: delete_conv')

text \<open>How an entry may change: its fingerprint is never rewritten, and trust is not lost or gained.\<close>

definition keeps_trust :: "candidate \<Rightarrow> candidate \<Rightarrow> bool" where
  "keeps_trust c c' \<longleftrightarrow> cdFingerprint c' = cdFingerprint c \<and> cdVerifiedAt c' = cdVerifiedAt c
     \<and> cdConfiguredNames c' = cdConfiguredNames c
     \<and> (cdState c = CandIgnored \<longrightarrow> cdState c' = CandIgnored)
     \<and> (cdState c = CandVerified \<longrightarrow> cdState c' = CandVerified \<or> cdState c' = CandIgnored)"

lemma keeps_trust_refl [simp]: "keeps_trust c c"
  by (simp add: keeps_trust_def)

lemma keeps_trust_trans: "keeps_trust a b \<Longrightarrow> keeps_trust b c \<Longrightarrow> keeps_trust a c"
  by (auto simp: keeps_trust_def)

lemma keeps_trust_pinned: "keeps_trust c c' \<Longrightarrow> candidatePinned c \<Longrightarrow> candidatePinned c'"
  by (auto simp: keeps_trust_def candidatePinned_def)

lemma keeps_trust_merge: "keeps_trust t (mergeCandidates db t c)"
  by (auto simp: keeps_trust_def mergeCandidates_def)

lemma keeps_trust_merges: "keeps_trust t (fold (\<lambda>m c. mergeCandidates db c m) cs t)"
  by (induction cs arbitrary: t) (auto intro: keeps_trust_trans keeps_trust_merge)

lemma keeps_trust_observe:
  assumes "cdFingerprint c \<noteq> []" "obFingerprint ob \<noteq> [] \<Longrightarrow> cdFingerprint c = obFingerprint ob"
    "cdConfiguredNames c = names_of m (cdFingerprint c)"
  shows "keeps_trust c (observe_candidate db m ob c)"
proof -
  have "cdVerifiedAt (observe_candidate db m ob c) = cdVerifiedAt c"
    "cdConfiguredNames (observe_candidate db m ob c) = cdConfiguredNames c"
    "cdState c = CandIgnored \<longrightarrow> cdState (observe_candidate db m ob c) = CandIgnored"
    "cdState c = CandVerified \<longrightarrow> cdState (observe_candidate db m ob c) = CandVerified"
    using assms(2,3) by (auto simp: observe_candidate_def Let_def)
  then show ?thesis using assms(2) by (auto simp: keeps_trust_def)
qed

text \<open>Aliases have no fingerprint, so an entry with one is never folded into another.\<close>

lemma alias_no_fingerprint:
  assumes "entries_ok db addr m (ibEntries b)" "map_of (ibEntries b) k = Some c" "cdFingerprint c \<noteq> []"
  shows "k \<notin> set (absorbed_aliases db b ob c0)"
proof
  assume "k \<in> set (absorbed_aliases db b ob c0)"
  then obtain a where a: "a \<in> set (matchesLocked db ob b)" "cdFingerprint a = []" "k = cdID a"
    by (auto simp: absorbed_aliases_def aliases_of_def split: if_splits)
  then obtain k' where "(k', a) \<in> set (ibEntries b)" unfolding set_matches by blast
  with entries_okD [OF assms(1)] a(3) have "(k, a) \<in> set (ibEntries b)" by (fastforce simp: entry_ok_def)
  then have "map_of (ibEntries b) k = Some a" using assms(1) by (simp add: map_of_eq_mem entries_ok_def)
  with assms(2,3) a(2) show False by simp
qed

lemma absorbed_id [simp]: "cdID (absorbed db b ob c0) = cdID c0"
proof -
  have "cdID (fold (\<lambda>m c. mergeCandidates db c m) cs t) = cdID t" for cs t
    by (induction cs arbitrary: t) simp_all
  then show ?thesis by (simp add: absorbed_def Let_def)
qed

lemma ingest_keeps:
  assumes core: "core_inv db addr b" and op: "ingestLocked db fresh ob touched b = Inr (r, evs, touched', b')"
    and k: "map_of (ibEntries b) k = Some c" and fp: "cdFingerprint c \<noteq> []" and fresh: "fresh \<noteq> Inr k"
  shows "(\<exists>c'. map_of (ibEntries b') k = Some c' \<and> keeps_trust c c')
    \<or> \<not> candidatePinned c \<and> k \<notin> set touched \<and> map_of (ibEntries b') k = None \<and> k \<in> set (irEvictedIDs r)"
proof -
  have es: "entries_ok db addr (ibConfigured b) (ibEntries b)" using core by (simp add: core_inv_def)
  note al = alias_no_fingerprint [OF es k fp]
  have mem: "(k, c) \<in> set (ibEntries b)" using k by (rule map_of_SomeD)
  have ck: "k = cdID c" "cdConfiguredNames c = names_of (ibConfigured b) (cdFingerprint c)"
    using entries_okD [OF es mem] by (simp_all add: entry_ok_def)
  from core op show ?thesis
  proof (cases rule: ingest_cases)
    case dropped
    with k show ?thesis by simp
  next
    case (updated c0)
    from choose_match_Some [OF updated(1)] have c0: "c0 \<in> set (matchesLocked db ob b)"
      "obFingerprint ob \<noteq> [] \<Longrightarrow> cdFingerprint c0 = obFingerprint ob \<or> cdFingerprint c0 = []" by blast+
    then obtain k0 where k0: "(k0, c0) \<in> set (ibEntries b)" unfolding set_matches by blast
    then have k0': "k0 = cdID c0" using entries_okD [OF es] by (simp add: entry_ok_def)
    show ?thesis
    proof (cases "cdID c0 = k")
      case True
      then have "c0 = c" using k0 k0' k es by (simp add: entries_ok_def flip: map_of_eq_mem)
      have "keeps_trust c (observe_candidate db (ibConfigured b) ob c)"
        using c0(2) \<open>c0 = c\<close> fp ck(2) by (intro keeps_trust_observe) auto
      then have "keeps_trust c (absorbed db b ob c0)"
        using keeps_trust_trans [OF _ keeps_trust_merges] \<open>c0 = c\<close> by (simp add: absorbed_def Let_def)
      then show ?thesis using True al by (simp add: updated(2) map_of_fold_delete update_conv')
    next
      case False
      then show ?thesis using al k by (simp add: updated(2) map_of_fold_delete update_conv')
    qed
  next
    case (created cid es' ids)
    have "cid \<noteq> k" using created(2) fresh by auto
    then have b': "map_of (ibEntries b') k = map_of es' k"
      using al by (simp add: created(5) map_of_fold_delete update_conv' new_candidate_def)
    from created(4) consider "es' = ibEntries b" | v where "evictionTargetLocked touched (ibEntries b) = Some v"
      "es' = AList.delete (cdID v) (ibEntries b)" "ids = [cdID v]" by blast
    then show ?thesis
    proof cases
      case 1
      with b' k show ?thesis by simp
    next
      case 2
      note v = target_in_entries [OF es 2(1)]
      show ?thesis
      proof (cases "cdID v = k")
        case True
        then have "v = c" using v(1) k es by (simp add: entries_ok_def flip: map_of_eq_mem)
        then show ?thesis using v(2) True b' 2 created(8) by (simp add: delete_conv')
      next
        case False
        then show ?thesis using b' 2(2) k by (simp add: delete_conv')
      qed
    qed
  qed
qed

section \<open>Trust across a round of observations\<close>

lemma observe_state: "cdState (observe_candidate db m ob c) = CandVerified \<Longrightarrow>
    cdState c = CandVerified \<or> cdConfiguredNames (observe_candidate db m ob c) \<noteq> []"
  by (auto simp: observe_candidate_def Let_def split: if_splits)

lemma merges_names [simp]:
  "cdConfiguredNames (fold (\<lambda>m c. mergeCandidates db c m) cs t) = cdConfiguredNames t"
  by (induction cs arbitrary: t) simp_all

lemma merges_state: "cdState (fold (\<lambda>m c. mergeCandidates db c m) cs t) = CandVerified \<Longrightarrow> cdState t = CandVerified"
proof (induction cs arbitrary: t)
  case (Cons c cs)
  then have "cdState (mergeCandidates db t c) = CandVerified" by simp
  then show ?case by (simp add: mergeCandidates_def split: if_splits)
qed simp

lemma absorbed_state: "cdState (absorbed db b ob c) = CandVerified \<Longrightarrow>
    cdState c = CandVerified \<or> cdConfiguredNames (absorbed db b ob c) \<noteq> []"
  using observe_state [of db "ibConfigured b" ob c] by (auto simp: absorbed_def Let_def dest: merges_state)

lemma ingest_trust:
  assumes core: "core_inv db addr b" and op: "ingestLocked db fresh ob touched b = Inr (r, evs, touched', b')"
    and k: "map_of (ibEntries b') k = Some c'" and ver: "cdState c' = CandVerified"
  shows "(\<exists>c. map_of (ibEntries b) k = Some c \<and> cdState c = CandVerified \<and> keeps_trust c c')
    \<or> cdConfiguredNames c' \<noteq> []"
proof -
  have es: "entries_ok db addr (ibConfigured b) (ibEntries b)" using core by (simp add: core_inv_def)
  from core op show ?thesis
  proof (cases rule: ingest_cases)
    case dropped
    with k ver show ?thesis by auto
  next
    case (updated c0)
    from choose_match_Some [OF updated(1)] have c0: "c0 \<in> set (matchesLocked db ob b)"
      "obFingerprint ob \<noteq> [] \<Longrightarrow> cdFingerprint c0 = obFingerprint ob \<or> cdFingerprint c0 = []" by blast+
    then obtain k0 where k0: "(k0, c0) \<in> set (ibEntries b)" unfolding set_matches by blast
    have e0: "entry_ok db addr (ibConfigured b) k0 c0" using es k0 by (rule entries_okD)
    show ?thesis
    proof (cases "cdID c0 = k")
      case True
      then have c': "c' = absorbed db b ob c0" and m: "map_of (ibEntries b) k = Some c0"
        using k e0 k0 es by (auto simp: updated(2) map_of_fold_delete update_conv' entry_ok_def entries_ok_def
            map_of_eq_mem split: if_splits)
      have "cdConfiguredNames c' \<noteq> []" if "cdState c0 \<noteq> CandVerified"
        using absorbed_state [of db b ob c0] ver that by (simp add: c')
      moreover have "keeps_trust c0 c'" if "cdState c0 = CandVerified"
      proof -
        have "cdFingerprint c0 \<noteq> []" using e0 that by (simp add: entry_ok_def cand_ok_def state_ok_def)
        then have "keeps_trust c0 (observe_candidate db (ibConfigured b) ob c0)"
          using c0(2) e0 by (intro keeps_trust_observe) (auto simp: entry_ok_def)
        then show ?thesis using keeps_trust_trans [OF _ keeps_trust_merges] by (simp add: c' absorbed_def Let_def)
      qed
      ultimately show ?thesis using m by blast
    next
      case False
      then show ?thesis using k ver by (auto simp: updated(2) map_of_fold_delete update_conv' split: if_splits)
    qed
  next
    case (created cid es' ids)
    have sub: "map_of es' k = Some c \<Longrightarrow> map_of (ibEntries b) k = Some c" for c
      using created(4) by (auto simp: delete_conv' split: if_splits)
    show ?thesis
    proof (cases "cid = k")
      case True
      then have "c' = absorbed db b ob (new_candidate cid (obObservedAt ob))"
        using k by (auto simp: created(5) map_of_fold_delete update_conv' new_candidate_def split: if_splits)
      moreover have "cdState (new_candidate cid (obObservedAt ob)) \<noteq> CandVerified" by (simp add: new_candidate_def)
      ultimately show ?thesis using absorbed_state [of db b ob "new_candidate cid (obObservedAt ob)"] ver by simp
    next
      case False
      then have "map_of es' k = Some c'"
        using k by (auto simp: created(5) map_of_fold_delete update_conv' new_candidate_def split: if_splits)
      with sub ver show ?thesis by auto
    qed
  qed
qed

lemma ingest_loop_trust:
  assumes "core_inv db addr b" "\<forall>ob \<in> set obs. obs_ok db addr ob"
    "ingest_loop db fresh i obs touched b = Inr (rs, evs, b')" "\<And>i cid. fresh i = Inr cid \<Longrightarrow> valid_id cid"
    "map_of (ibEntries b') k = Some c'" "cdState c' = CandVerified"
  shows "(\<exists>c. map_of (ibEntries b) k = Some c \<and> cdState c = CandVerified \<and> keeps_trust c c')
    \<or> cdConfiguredNames c' \<noteq> []"
  using assms(1-3)
proof (induction obs arbitrary: i touched b rs evs)
  case Nil
  with assms(5,6) show ?case by auto
next
  case (Cons ob obs)
  from Cons.prems(3) obtain r evs1 touched1 b1 rs2 evs2 where
    a: "ingestLocked db (fresh i) ob touched b = Inr (r, evs1, touched1, b1)"
    "ingest_loop db fresh (Suc i) obs touched1 b1 = Inr (rs2, evs2, b')"
    by (auto simp: and_then_Inr)
  have 1: "core_inv db addr b1"
    using ingest_core_inv [OF Cons.prems(1) _ a(1) assms(4)] Cons.prems(2) by simp
  from Cons.IH [OF 1 _ a(2)] Cons.prems(2)
  have "(\<exists>c. map_of (ibEntries b1) k = Some c \<and> cdState c = CandVerified \<and> keeps_trust c c')
    \<or> cdConfiguredNames c' \<noteq> []" by simp
  with ingest_trust [OF Cons.prems(1) a(1), of k] keeps_trust_trans show ?case
    unfolding keeps_trust_def by (metis (no_types))
qed

lemma ingest_loop_keeps:
  assumes "core_inv db addr b" "\<forall>ob \<in> set obs. obs_ok db addr ob"
    "ingest_loop db fresh i obs touched b = Inr (rs, evs, b')" "\<And>i cid. fresh i = Inr cid \<Longrightarrow> valid_id cid"
    "map_of (ibEntries b) k = Some c" "cdFingerprint c \<noteq> []" "candidatePinned c" "\<And>i. fresh i \<noteq> Inr k"
  shows "\<exists>c'. map_of (ibEntries b') k = Some c' \<and> keeps_trust c c'"
  using assms(1-3,5-7)
proof (induction obs arbitrary: i touched b rs evs c)
  case (Cons ob obs)
  from Cons.prems(3) obtain r evs1 touched1 b1 rs2 evs2 where
    a: "ingestLocked db (fresh i) ob touched b = Inr (r, evs1, touched1, b1)"
    "ingest_loop db fresh (Suc i) obs touched1 b1 = Inr (rs2, evs2, b')"
    by (auto simp: and_then_Inr)
  have 1: "core_inv db addr b1"
    using ingest_core_inv [OF Cons.prems(1) _ a(1) assms(4)] Cons.prems(2) by simp
  obtain c1 where c1: "map_of (ibEntries b1) k = Some c1" "keeps_trust c c1"
    using ingest_keeps [OF Cons.prems(1) a(1) Cons.prems(4,5) assms(8)] Cons.prems(6) by blast
  have "cdFingerprint c1 \<noteq> []" "candidatePinned c1"
    using c1(2) Cons.prems(5,6) keeps_trust_pinned by (auto simp: keeps_trust_def)
  with Cons.IH [OF 1 _ a(2) c1(1)] Cons.prems(2) c1(2) keeps_trust_trans show ?case by fastforce
qed auto

lemma normalize_all_ok:
  assumes "normalize_all db addr now i obs = Inr nobs" "now \<noteq> 0" "canonical_addr addr"
  shows "(\<forall>ob \<in> set nobs. obs_ok db addr ob) \<and> length nobs = length obs"
  using assms(1) normalizeObservation_ok [OF _ assms(2,3)]
  by (induction obs arbitrary: i nobs) (auto simp: and_then_Inr split: sum.splits)

text \<open>A committed round: expiry, then the loop, then the events.\<close>

lemma IngestMany_committed:
  assumes "IngestMany db addr sv now fresh obs b = (b', Inr rs)" "obs \<noteq> []"
  obtains nobs ids evs1 b1 evs2 b2 where "normalize_all db addr now 0 obs = Inr nobs"
    "expireLocked now b = (ids, evs1, b1)" "ingest_loop db fresh 0 nobs [] b1 = Inr (rs, evs2, b2)"
    "ibEntries b' = ibEntries b2" "ibPath b2 \<noteq> [] \<Longrightarrow> ibDisk b' = Some (disk_of b')" "ibPath b' = ibPath b2"
proof -
  obtain ids evs1 b1 where x: "expireLocked now b = (ids, evs1, b1)" by (metis prod_cases3)
  from assms x obtain nobs evs2 b2 b3 where n: "normalize_all db addr now 0 obs = Inr nobs"
    "ingest_loop db fresh 0 nobs [] b1 = Inr (rs, evs2, b2)" "saveLocked sv b2 = (b3, None)"
    "b' = appendEventsLocked (evs1 @ evs2) b3"
    by (auto simp: IngestMany_def split: sum.splits prod.splits option.splits)
  from n(3) obtain d where d: "b3 = b2\<lparr>ibDisk := d\<rparr>" "ibPath b2 \<noteq> [] \<Longrightarrow> d = Some (disk_of b2)"
    by (rule saveLocked_disk) auto
  then show ?thesis
    by (intro that [OF n(1) x n(2)]) (auto simp: n(4) d(1) appendEventsLocked_def Let_def disk_of_def)
qed

lemma expireLocked_entries:
  assumes "expireLocked now b = (ids, evs, b')"
  shows "ibEntries b' = filter (\<lambda>(k, c). \<not> (0 \<le> ibTTL b \<and> expired_entry (ibTTL b) now c)) (ibEntries b)"
  using assms by (auto simp: expireLocked_def Let_def split: if_splits prod.splits dest!: expire_events_moved)

section \<open>Concrete inputs\<close>

definition demo_addr :: "string \<Rightarrow> goerr + string" where
  "demo_addr s = (if s = ''10.0.0.5'' \<or> s = ''10.0.0.6'' then Inr s else Inl (ErrText ''invalid IP''))"

definition demo_fp :: string where
  "demo_fp = ''SHA256:AAAAAAAAAAAAAAAAAAAAAAAAAAAAAAAAAAAAAAAAAAA''"

definition demo_id :: "char \<Rightarrow> string" where
  "demo_id c = ''cand_0000000000000000000000000000000'' @ [c]"

definition demo_obs :: "string \<Rightarrow> string \<Rightarrow> string \<Rightarrow> observation" where
  "demo_obs name address fp =
     \<lparr>obSource = ''bonjour'', obObservedAt = 0, obName = name, obHostname = [], obAddress = address, obPort = 0,
      obFingerprint = fp, obKeyType = [], obEvidence = []\<rparr>"

definition demo_ids :: "nat \<Rightarrow> goerr + string" where
  "demo_ids i = Inr (demo_id (if i = 0 then CHR ''1'' else if i = 1 then CHR ''2'' else CHR ''3''))"

definition demo_opts :: "int \<Rightarrow> cand_options" where
  "demo_opts n = \<lparr>coTTL = 0, coMaxCandidates = n, coMaxEvents = 0\<rparr>"

definition demo_saver :: cand_saver where
  "demo_saver d = SaveOk"

text \<open>The observation of a host after normalization, and the candidate it makes.\<close>

definition demo_seen :: observation where
  "demo_seen = (demo_obs ''mini'' ''10.0.0.5'' demo_fp)\<lparr>obPort := 22, obObservedAt := 1000\<rparr>"

definition demo_candidate :: candidate where
  "demo_candidate =
     \<lparr>cdID = demo_id CHR ''1'', cdState = CandIdentityPending, cdFingerprint = demo_fp, cdKeyType = [],
      cdNames = [''mini''], cdHostnames = [],
      cdEndpoints = [\<lparr>epAddress = ''10.0.0.5'', epPort = 22, epFirstSeen = 1000, epLastSeen = 1000\<rparr>],
      cdSources = [''bonjour''], cdLastEvidence = [], cdConfiguredNames = [], cdFirstSeen = 1000,
      cdLastSeen = 1000, cdVerifiedAt = None, cdIgnoredAt = None\<rparr>"

text \<open>An inbox of capacity one that holds it.\<close>

definition demo_inbox :: inbox where
  "demo_inbox = fst (IngestMany ascii_only_db demo_addr demo_saver 1000 demo_ids
     [demo_obs ''mini'' ''10.0.0.5'' demo_fp] (newInbox ''inbox.json'' (demo_opts 1)))"

lemma demo_addr_canonical: "canonical_addr demo_addr"
  by (auto simp: canonical_addr_def demo_addr_def)

lemma demo_valid_ids: "valid_id (demo_id CHR ''1'')" "valid_id (demo_id CHR ''2'')" "valid_id (demo_id CHR ''3'')"
  by code_simp+

lemma demo_ids_valid: "demo_ids i = Inr cid \<Longrightarrow> valid_id cid"
  using demo_valid_ids by (auto simp: demo_ids_def split: if_splits)

lemma demo_source: "normalizePlain ascii_only_db ''source'' ''bonjour'' 64 = Inr ''bonjour''"
  by (simp add: normalizePlain_def TrimSpace_def is_space_def runes_def ascii_only_db_def is_control_def Let_def)

lemma demo_name: "normalizePlain ascii_only_db ''name'' ''mini'' 256 = Inr ''mini''"
  by (simp add: normalizePlain_def TrimSpace_def is_space_def runes_def ascii_only_db_def is_control_def Let_def)

lemma demo_fp_normal: "normalizeFingerprint demo_fp = Inr demo_fp"
  by code_simp

lemma demo_address: "TrimSpace ''10.0.0.5'' = ''10.0.0.5''"
  by (simp add: TrimSpace_def is_space_def)

lemma demo_fp_nonempty: "demo_fp \<noteq> []"
  by (simp add: demo_fp_def)

lemmas demo_normal = demo_source demo_name demo_fp_normal demo_address demo_fp_nonempty

lemma demo_normalized:
  "normalize_all ascii_only_db demo_addr 1000 0 [demo_obs ''mini'' ''10.0.0.5'' demo_fp] = Inr [demo_seen]"
  by (simp add: normalizeObservation_def demo_obs_def demo_seen_def normalize_opt_def normalize_addr_def
      demo_addr_def demo_normal time_is_zero_def)

definition loop_entries :: "goerr + (ingest_result list \<times> cand_event list \<times> inbox) \<Rightarrow> candidate gomap option" where
  "loop_entries r = (case r of Inl _ \<Rightarrow> None | Inr (rs, evs, b) \<Rightarrow> Some (ibEntries b))"

lemma demo_loop:
  "loop_entries (ingest_loop ascii_only_db demo_ids 0 [demo_seen] [] (newInbox ''inbox.json'' (demo_opts 1)))
     = Some [(demo_id CHR ''1'', demo_candidate)]"
  by code_simp

lemma demo_inbox_inv: "inbox_inv ascii_only_db demo_addr demo_inbox"
  using IngestMany_inv [OF newInbox_inv surjective_pairing _ demo_addr_canonical demo_ids_valid]
  unfolding demo_inbox_def by simp

lemma demo_inbox_entries: "ibEntries demo_inbox = [(demo_id CHR ''1'', demo_candidate)]"
  "ibMaxEntries demo_inbox = 1" "ibPath demo_inbox = ''inbox.json''" "ibTTL demo_inbox = DefaultTTL"
proof -
  let ?b = "newInbox ''inbox.json'' (demo_opts 1)"
  obtain rs evs b2 where l: "ingest_loop ascii_only_db demo_ids 0 [demo_seen] [] ?b = Inr (rs, evs, b2)"
    and e: "ibEntries b2 = [(demo_id CHR ''1'', demo_candidate)]"
    using demo_loop by (auto simp: loop_entries_def split: sum.splits)
  have "obs_ok ascii_only_db demo_addr demo_seen"
    using normalize_all_ok [OF demo_normalized _ demo_addr_canonical] by simp
  then have "moved ?b evs b2"
    using ingest_loop_inv [OF _ _ l demo_ids_valid] newInbox_inv by (fastforce simp: inbox_inv_core)
  moreover have "expireLocked 1000 ?b = ([], [], ?b)"
    by (simp add: expireLocked_def newInbox_def)
  moreover have "saveLocked demo_saver b2 = (b2\<lparr>ibDisk := Some (disk_of b2)\<rparr>, None) \<or> saveLocked demo_saver b2 = (b2, None)"
    by (simp add: saveLocked_def demo_saver_def)
  ultimately have "ibEntries demo_inbox = ibEntries b2 \<and> ibMaxEntries demo_inbox = ibMaxEntries ?b
      \<and> ibPath demo_inbox = ibPath ?b \<and> ibTTL demo_inbox = ibTTL ?b"
    using l demo_normalized
    by (auto simp: demo_inbox_def IngestMany_def appendEventsLocked_def Let_def moved_def)
  with e show "ibEntries demo_inbox = [(demo_id CHR ''1'', demo_candidate)]"
    "ibMaxEntries demo_inbox = 1" "ibPath demo_inbox = ''inbox.json''" "ibTTL demo_inbox = DefaultTTL"
    by (simp_all add: newInbox_def demo_opts_def)
qed

text \<open>The inbox after the operator verified it.\<close>

definition demo_verified :: inbox where
  "demo_verified = fst (MarkVerified demo_saver 2000 (demo_id CHR ''1'') demo_inbox)"

definition demo_reviewed :: candidate where
  "demo_reviewed = demo_candidate\<lparr>cdState := CandVerified, cdVerifiedAt := Some 2000, cdIgnoredAt := None\<rparr>"

lemma demo_verified_inv: "inbox_inv ascii_only_db demo_addr demo_verified"
  using transition_inv [OF demo_inbox_inv surjective_pairing] by (simp add: MarkVerified_def demo_verified_def)

lemma demo_verified_entries: "ibEntries demo_verified = [(demo_id CHR ''1'', demo_reviewed)]"
  "ibTTL demo_verified = DefaultTTL"
  by (simp_all add: demo_verified_def MarkVerified_def transition_def demo_inbox_entries verify_change_def
      demo_candidate_def demo_reviewed_def demo_normal makeEventLocked_def saveLocked_def demo_saver_def
      appendEventsLocked_def Let_def)

section \<open>Properties\<close>



lemma IngestMany_cases:
  assumes "inbox_inv db addr b" "now \<noteq> 0" "canonical_addr addr" "\<And>i cid. fresh i = Inr cid \<Longrightarrow> valid_id cid"
  obtains (same) "ibEntries (fst (IngestMany db addr sv now fresh obs b)) = ibEntries b"
  | (loop) nobs b1 rs evs b2 where "core_inv db addr b1" "ibConfigured b1 = ibConfigured b" "\<forall>ob \<in> set nobs. obs_ok db addr ob"
    "ibEntries b1 = filter (\<lambda>(k, c). \<not> (0 \<le> ibTTL b \<and> expired_entry (ibTTL b) now c)) (ibEntries b)"
    "ingest_loop db fresh 0 nobs [] b1 = Inr (rs, evs, b2)"
    "ibEntries (fst (IngestMany db addr sv now fresh obs b)) = ibEntries b2"
proof -
  obtain b' res where r: "IngestMany db addr sv now fresh obs b = (b', res)" by (meson surj_pair)
  have fail: "ibEntries b' = ibEntries b" if "res = Inl err" for err
  proof -
    have "b' = b\<lparr>ibDisk := ibDisk b'\<rparr>" using IngestMany_inv [OF assms(1) r assms(2,3)] assms(4) that by blast
    then have "ibEntries b' = ibEntries (b\<lparr>ibDisk := ibDisk b'\<rparr>)" by (rule arg_cong)
    then show ?thesis by simp
  qed
  show ?thesis
  proof (cases res)
    case (Inl err)
    with fail r show ?thesis by (intro that(1)) simp
  next
    case (Inr rs)
    show ?thesis
    proof (cases "obs = []")
      case True
      with r show ?thesis by (intro that(1)) (auto simp: IngestMany_def)
    next
      case False
      from r Inr have "IngestMany db addr sv now fresh obs b = (b', Inr rs)" by simp
      then show ?thesis using False
      proof (rule IngestMany_committed)
        fix nobs ids evs1 b1 evs2 b2
        assume a: "normalize_all db addr now 0 obs = Inr nobs" "expireLocked now b = (ids, evs1, b1)"
          "ingest_loop db fresh 0 nobs [] b1 = Inr (rs, evs2, b2)" "ibEntries b' = ibEntries b2"
        have "core_inv db addr b1" "ibConfigured b1 = ibConfigured b"
          using expireLocked_inv [OF _ a(2)] assms(1) by (auto simp: inbox_inv_core moved_def)
        then show thesis
          by (rule that(2) [OF _ _ _ expireLocked_entries [OF a(2)] a(3)])
            (use normalize_all_ok [OF a(1) assms(2,3)] a(4) r in simp_all)
      qed
    qed
  qed
qed

text \<open>C24. A host the operator has reviewed or configured and that has a fingerprint is never evicted or lost to a round of observations: whatever the round holds and whether it commits or fails, an unexpired pinned entry is still there under its identifier, with the same fingerprint, the same verification and the same configured names; an ignored host stays ignored, and a verified one can at most become ignored. New identifiers are random; the claim takes them to be well formed and different from that of the entry.\<close>

theorem reviewed_device_survives:
  assumes inv: "inbox_inv db addr b" and env: "now \<noteq> 0" "canonical_addr addr"
    and ids: "\<And>i cid. fresh i = Inr cid \<Longrightarrow> valid_id cid \<and> cid \<noteq> k"
    and entry: "map_of (ibEntries b) k = Some c" "cdFingerprint c \<noteq> []" "candidatePinned c"
    and live: "ibTTL b < 0 \<or> \<not> expired_entry (ibTTL b) now c"
  shows "\<exists>c'. map_of (ibEntries (fst (IngestMany db addr sv now fresh obs b))) k = Some c' \<and> keeps_trust c c'"
proof -
  have valid: "\<And>i cid. fresh i = Inr cid \<Longrightarrow> valid_id cid" using ids by blast
  from inv env valid show ?thesis
  proof (rule IngestMany_cases [where sv = sv and obs = obs])
    assume 1: "ibEntries (fst (IngestMany db addr sv now fresh obs b)) = ibEntries b"
    then show ?thesis using entry(1) by simp
  next
    fix nobs b1 rs evs b2
    assume 2: "core_inv db addr b1" "ibConfigured b1 = ibConfigured b" "\<forall>ob \<in> set nobs. obs_ok db addr ob"
      "ibEntries b1 = filter (\<lambda>(k, c). \<not> (0 \<le> ibTTL b \<and> expired_entry (ibTTL b) now c)) (ibEntries b)"
      "ingest_loop db fresh 0 nobs [] b1 = Inr (rs, evs, b2)"
      "ibEntries (fst (IngestMany db addr sv now fresh obs b)) = ibEntries b2"
    have "wf_map (ibEntries b)" using inv by (simp add: inbox_inv_def entries_ok_def)
    then have "map_of (ibEntries b1) k = Some c"
      unfolding 2(4) using entry(1) live by (auto simp: map_of_eq_mem)
    with valid have "\<exists>c'. map_of (ibEntries b2) k = Some c' \<and> keeps_trust c c'"
      by (rule ingest_loop_keeps [OF 2(1,3,5) _ _ entry(2,3)]) (use ids in auto)
    then show ?thesis using 2(6) by simp
  qed
qed

theorem reviewed_device_survives_witness:
  "\<exists>c'. map_of (ibEntries (fst (IngestMany ascii_only_db demo_addr demo_saver 3000 (\<lambda>_. Inr (demo_id CHR ''2''))
     [demo_obs ''other'' ''10.0.0.6'' []] demo_verified))) (demo_id CHR ''1'') = Some c'
   \<and> keeps_trust demo_reviewed c'"
proof (rule reviewed_device_survives)
  show "inbox_inv ascii_only_db demo_addr demo_verified" by (rule demo_verified_inv)
  show "map_of (ibEntries demo_verified) (demo_id CHR ''1'') = Some demo_reviewed" by (simp add: demo_verified_entries)
  show "ibTTL demo_verified < 0 \<or> \<not> expired_entry (ibTTL demo_verified) 3000 demo_reviewed"
    by (simp add: demo_verified_entries expired_entry_def demo_reviewed_def demo_candidate_def DefaultTTL_def
        duration_units time_sub_def min_int64_def max_int64_def)
qed (use demo_valid_ids demo_addr_canonical in
      \<open>auto simp: demo_reviewed_def demo_candidate_def demo_normal candidatePinned_def demo_id_def\<close>)

text \<open>C23. Observations never grant trust: after a round, whatever it holds, an entry is verified only if it was verified under the same identifier and fingerprint before, or the configuration in force before the round has device names for its fingerprint; the entry then carries exactly these names.\<close>

theorem discovery_grants_no_trust:
  assumes inv: "inbox_inv db addr b" and env: "now \<noteq> 0" "canonical_addr addr"
    and ids: "\<And>i cid. fresh i = Inr cid \<Longrightarrow> valid_id cid"
    and entry: "map_of (ibEntries (fst (IngestMany db addr sv now fresh obs b))) k = Some c'" "cdState c' = CandVerified"
  shows "(\<exists>c. map_of (ibEntries b) k = Some c \<and> cdState c = CandVerified \<and> keeps_trust c c')
    \<or> (\<exists>names. map_of (ibConfigured b) (cdFingerprint c') = Some names \<and> names \<noteq> [] \<and> cdConfiguredNames c' = names)"
  using inv env ids
proof (rule IngestMany_cases [where sv = sv and obs = obs])
  assume 1: "ibEntries (fst (IngestMany db addr sv now fresh obs b)) = ibEntries b"
  then show ?thesis using entry by auto
next
  fix nobs b1 rs evs b2
  assume 2: "core_inv db addr b1" "ibConfigured b1 = ibConfigured b" "\<forall>ob \<in> set nobs. obs_ok db addr ob"
    "ibEntries b1 = filter (\<lambda>(k, c). \<not> (0 \<le> ibTTL b \<and> expired_entry (ibTTL b) now c)) (ibEntries b)"
    "ingest_loop db fresh 0 nobs [] b1 = Inr (rs, evs, b2)"
    "ibEntries (fst (IngestMany db addr sv now fresh obs b)) = ibEntries b2"
  have wf: "wf_map (ibEntries b)" using inv by (simp add: inbox_inv_def entries_ok_def)
  have sub: "map_of (ibEntries b1) k = Some c \<Longrightarrow> map_of (ibEntries b) k = Some c" for c
    unfolding 2(4) using wf
    by (auto simp: map_of_eq_mem)
  have e: "map_of (ibEntries b2) k = Some c'" using entry(1) 2(6) by simp
  have "core_inv db addr b2 \<and> moved b1 evs b2 \<and> length rs = length nobs"
    using ids by (rule ingest_loop_inv [OF 2(1,3,5)])
  then have "cdConfiguredNames c' = names_of (ibConfigured b) (cdFingerprint c')"
    using e 2(2) entries_okD map_of_SomeD by (fastforce simp: core_inv_def moved_def entry_ok_def)
  moreover have "(\<exists>c. map_of (ibEntries b1) k = Some c \<and> cdState c = CandVerified \<and> keeps_trust c c')
    \<or> cdConfiguredNames c' \<noteq> []"
    using ids e by (rule ingest_loop_trust [OF 2(1,3,5) _ _ entry(2)])
  ultimately show ?thesis using sub by (auto simp: names_of_def split: option.splits)
qed

text \<open>A round that finds a configured host: the new entry is verified by the configuration.\<close>

definition demo_configured :: inbox where
  "demo_configured = (newInbox ''inbox.json'' (demo_opts 1))\<lparr>ibConfigured := [(demo_fp, [''mac''])]\<rparr>"

lemma demo_configured_inv: "inbox_inv ascii_only_db demo_addr demo_configured"
proof -
  have "normal_plain ascii_only_db ''configured device name'' 128 ''mac''"
    by (simp add: normal_plain_def normalizePlain_def TrimSpace_def is_space_def runes_def ascii_only_db_def is_control_def Let_def)
  then show ?thesis
    by (auto simp: inbox_inv_def newInbox_def conf_ok_def entries_ok_def ev_ok_def demo_configured_def demo_opts_def
        demo_fp_normal wf_map_def DefaultMaxEvents_def)
qed

lemma demo_configured_loop:
  "map_option (map (\<lambda>(k, c). (k, cdState c, cdFingerprint c)))
     (loop_entries (ingest_loop ascii_only_db demo_ids 0 [demo_seen] [] demo_configured))
   = Some [(demo_id CHR ''1'', CandVerified, demo_fp)]"
  by code_simp

lemma demo_configured_round:
  "\<exists>c'. map_of (ibEntries (fst (IngestMany ascii_only_db demo_addr demo_saver 1000 demo_ids
       [demo_obs ''mini'' ''10.0.0.5'' demo_fp] demo_configured))) (demo_id CHR ''1'') = Some c'
     \<and> cdState c' = CandVerified \<and> cdFingerprint c' = demo_fp"
proof -
  obtain rs evs b2 where l: "ingest_loop ascii_only_db demo_ids 0 [demo_seen] [] demo_configured = Inr (rs, evs, b2)"
    and e: "map (\<lambda>(k, c). (k, cdState c, cdFingerprint c)) (ibEntries b2) = [(demo_id CHR ''1'', CandVerified, demo_fp)]"
    using demo_configured_loop by (auto simp: loop_entries_def split: sum.splits)
  have "expireLocked 1000 demo_configured = ([], [], demo_configured)"
    by (simp add: expireLocked_def newInbox_def demo_configured_def)
  moreover have "saveLocked demo_saver b2 = (b2\<lparr>ibDisk := Some (disk_of b2)\<rparr>, None) \<or> saveLocked demo_saver b2 = (b2, None)"
    by (simp add: saveLocked_def demo_saver_def)
  ultimately have "ibEntries (fst (IngestMany ascii_only_db demo_addr demo_saver 1000 demo_ids
       [demo_obs ''mini'' ''10.0.0.5'' demo_fp] demo_configured)) = ibEntries b2"
    using l demo_normalized by (auto simp: IngestMany_def appendEventsLocked_def Let_def)
  with e show ?thesis by auto
qed

theorem discovery_grants_no_trust_witness:
  "\<exists>c'. map_of (ibEntries (fst (IngestMany ascii_only_db demo_addr demo_saver 1000 demo_ids
       [demo_obs ''mini'' ''10.0.0.5'' demo_fp] demo_configured))) (demo_id CHR ''1'') = Some c'
     \<and> cdState c' = CandVerified \<and> map_of (ibConfigured demo_configured) (cdFingerprint c') = Some (cdConfiguredNames c')
     \<and> cdConfiguredNames c' = [''mac'']"
proof -
  let ?b = "fst (IngestMany ascii_only_db demo_addr demo_saver 1000 demo_ids
       [demo_obs ''mini'' ''10.0.0.5'' demo_fp] demo_configured)"
  obtain c' where c: "map_of (ibEntries ?b) (demo_id CHR ''1'') = Some c'" "cdState c' = CandVerified"
    "cdFingerprint c' = demo_fp" using demo_configured_round by blast
  have "ibEntries demo_configured = []" "ibConfigured demo_configured = [(demo_fp, [''mac''])]"
    by (simp_all add: demo_configured_def newInbox_def)
  with discovery_grants_no_trust [OF demo_configured_inv _ demo_addr_canonical demo_ids_valid c(1,2)] c show ?thesis
    by simp
qed

end
