(* ===== verification/Candidates_Store.thy ===== *)
theory Candidates_Store
  imports Candidates_Facts
begin

text \<open>
  The inbox as a store: which operations reach the file, the policy of eviction, that a round of
  observations completes, what the event cursor returns, and reading back what was written.
\<close>

section \<open>Transactions\<close>

lemma saveLocked_ok:
  assumes "saveLocked sv b = (b', None)" "ibPath b \<noteq> []"
  shows "b' = b\<lparr>ibDisk := Some (disk_of b)\<rparr>"
  using assms by (auto simp: saveLocked_def split: save_outcome.splits)

lemma disk_of_append [simp]: "disk_of (appendEventsLocked evs b) = disk_of b"
  "ibDisk (appendEventsLocked evs b) = ibDisk b"
  by (simp_all add: disk_of_def appendEventsLocked_def Let_def)

lemma disk_of_disk [simp]: "disk_of (b\<lparr>ibDisk := d\<rparr>) = disk_of b"
  by (simp add: disk_of_def)

lemma saved:
  assumes "saveLocked sv b = (b', None)" "ibPath b \<noteq> []"
  shows "ibDisk (appendEventsLocked evs b') = Some (disk_of (appendEventsLocked evs b'))"
  using saveLocked_ok [OF assms] by simp

lemma transition_saved:
  assumes "transition sv now cid kind change b = (b', Inr c)" "ibPath b \<noteq> []"
  shows "ibDisk b' = Some (disk_of b')"
proof -
  from assms(1) obtain old c' ev b1 b2 where "map_of (ibEntries b) cid = Some old" "change old now = Inr c'"
    "makeEventLocked kind (Some c') [] now [] (b\<lparr>ibEntries := AList.update cid c' (ibEntries b)\<rparr>) = (ev, b1)"
    and s: "saveLocked sv b1 = (b2, None)" and b': "b' = appendEventsLocked [ev] b2"
    by (auto simp: transition_def split: option.splits sum.splits prod.splits)
  then have "ibPath b1 \<noteq> []" using assms(2) makeEvent_moved by (fastforce simp: moved_def)
  with s show ?thesis unfolding b' by (rule saved)
qed

lemma Expire_saved:
  assumes "Expire sv now b = (b', Inr ids)" "ibPath b \<noteq> []" "ibSequence b' \<noteq> ibSequence b" "core_inv db addr b"
  shows "ibDisk b' = Some (disk_of b')"
proof -
  obtain gone evs b1 where x: "expireLocked now b = (gone, evs, b1)" by (metis prod_cases3)
  note m = expireLocked_inv [OF assms(4) x]
  have "gone \<noteq> []"
  proof
    assume "gone = []"
    then have "evs = []" using x by (auto simp: expireLocked_def Let_def split: if_splits prod.splits)
    then show False using m assms(1,3) x \<open>gone = []\<close> by (simp add: Expire_def moved_def)
  qed
  with assms(1) x obtain b2 where s: "saveLocked sv b1 = (b2, None)" "b' = appendEventsLocked evs b2"
    by (auto simp: Expire_def split: prod.splits option.splits)
  have "ibPath b1 \<noteq> []" using m assms(2) by (simp add: moved_def)
  with s show ?thesis using saved by blast
qed

lemma Replace_saved:
  assumes "ReplaceConfiguredFingerprints db sv now items b = (b', None)" "ibPath b \<noteq> []"
    "ibSequence b' \<noteq> ibSequence b"
  shows "ibDisk b' = Some (disk_of b')"
proof -
  from assms(1) obtain m where m: "configured_loop db ''configured fingerprint '' True 0 items [] = Inr m"
    by (auto simp: ReplaceConfiguredFingerprints_def split: sum.splits)
  obtain es evs b1 where l: "reconfigure_loop (sort_names m) now (ibEntries b) b = (es, evs, b1)" by (metis prod_cases3)
  note mv = reconfigure_loop_moved [OF l]
  let ?b2 = "b1\<lparr>ibEntries := es, ibConfigured := sort_names m\<rparr>"
  have "evs \<noteq> [] \<or> \<not> equalStringMap (ibConfigured b) (sort_names m)"
  proof (rule ccontr)
    assume "\<not> ?thesis"
    then have "b' = ?b2" "evs = []" using assms(1) m l by (simp_all add: ReplaceConfiguredFingerprints_def)
    then show False using mv assms(3) by (simp add: moved_def)
  qed
  then obtain b3 where "saveLocked sv ?b2 = (b3, None)" "b' = appendEventsLocked evs b3"
    using assms(1) m l by (auto simp: ReplaceConfiguredFingerprints_def Let_def split: prod.splits option.splits if_splits)
  moreover have "ibPath ?b2 \<noteq> []" using mv assms(2) by (simp add: moved_def)
  ultimately show ?thesis using saved by blast
qed

lemma IngestMany_saved:
  assumes "IngestMany db addr sv now fresh obs b = (b', Inr rs)" "ibPath b \<noteq> []"
    "ibSequence b' \<noteq> ibSequence b" "core_inv db addr b" "now \<noteq> 0" "canonical_addr addr"
    "\<And>i cid. fresh i = Inr cid \<Longrightarrow> valid_id cid"
  shows "ibDisk b' = Some (disk_of b')"
proof -
  have "obs \<noteq> []" using assms(1,3) by (auto simp: IngestMany_def)
  with assms(1) show ?thesis
  proof (rule IngestMany_committed)
    fix nobs ids evs1 b1 evs2 b2
    assume a: "normalize_all db addr now 0 obs = Inr nobs" "expireLocked now b = (ids, evs1, b1)"
      "ingest_loop db fresh 0 nobs [] b1 = Inr (rs, evs2, b2)"
      and disk: "ibPath b2 \<noteq> [] \<Longrightarrow> ibDisk b' = Some (disk_of b')"
    note 1 = expireLocked_inv [OF assms(4) a(2)]
    have "core_inv db addr b1" using 1 by simp
    then have "core_inv db addr b2 \<and> moved b1 evs2 b2 \<and> length rs = length nobs"
      by (rule ingest_loop_inv [OF _ _ a(3)]) (use normalize_all_ok [OF a(1) assms(5,6)] assms(7) in auto)
    then have "ibPath b2 = ibPath b" using 1 by (simp add: moved_def)
    then show ?thesis using disk assms(2) by simp
  qed
qed

lemma committed: "map_prod id to_err p = (b', err) \<Longrightarrow> err = None \<Longrightarrow> \<exists>x. p = (b', Inr x)"
  by (cases p) (auto simp: to_err_def split: sum.splits)

text \<open>C25. The operations of the inbox are transactions: one that returns an error leaves the entries, the configuration, the counters, the event log and the sequence number as they were (the file may hold the new or the old document), and one that succeeds and recorded an event has written exactly the state it leaves in memory.\<close>

theorem inbox_transaction:
  assumes inv: "inbox_inv db addr b" and env: "now \<noteq> 0" "canonical_addr addr" "op_ids_ok op"
    and op: "run_op db addr sv now op b = (b', err)"
  shows "(err \<noteq> None \<longrightarrow> b' = b\<lparr>ibDisk := ibDisk b'\<rparr>)
    \<and> (err = None \<and> ibPath b \<noteq> [] \<and> ibSequence b' \<noteq> ibSequence b \<longrightarrow> ibDisk b' = Some (disk_of b'))"
proof (intro conjI impI)
  show "err \<noteq> None \<Longrightarrow> b' = b\<lparr>ibDisk := ibDisk b'\<rparr>" using run_op_inv [OF inv env op] by simp
  assume "err = None \<and> ibPath b \<noteq> [] \<and> ibSequence b' \<noteq> ibSequence b"
  then have a: "err = None" "ibPath b \<noteq> []" "ibSequence b' \<noteq> ibSequence b" by simp_all
  have core: "core_inv db addr b" using inv by (simp add: inbox_inv_core)
  have review: "ibDisk b' = Some (disk_of b')"
    if t: "map_prod id to_err (transition sv now cid kind change b) = (b', err)" for cid kind change
    using committed [OF t a(1)] transition_saved a(2) by blast
  show "ibDisk b' = Some (disk_of b')"
  proof (cases op)
    case (OpIngest fresh obs)
    then obtain rs where "IngestMany db addr sv now fresh obs b = (b', Inr rs)" using op committed a(1) by fastforce
    then show ?thesis by (rule IngestMany_saved) (use a core env OpIngest in auto)
  next
    case OpExpire
    then obtain ids where "Expire sv now b = (b', Inr ids)" using op committed a(1) by fastforce
    then show ?thesis using Expire_saved a core by blast
  next
    case (OpConfigure items)
    then show ?thesis using op a Replace_saved by simp
  qed (use op review in \<open>auto simp: MarkVerified_def Ignore_def Restore_def\<close>)
qed

theorem inbox_transaction_witness:
  "ibDisk (fst (run_op ascii_only_db demo_addr demo_saver 2000 (OpIgnore (demo_id CHR ''1'')) demo_inbox))
     = Some (disk_of (fst (run_op ascii_only_db demo_addr demo_saver 2000 (OpIgnore (demo_id CHR ''1'')) demo_inbox)))"
proof -
  let ?r = "run_op ascii_only_db demo_addr demo_saver 2000 (OpIgnore (demo_id CHR ''1'')) demo_inbox"
  have "snd ?r = None" "ibSequence (fst ?r) \<noteq> ibSequence demo_inbox"
    by (simp_all add: Ignore_def transition_def demo_inbox_entries ignore_change_def makeEventLocked_def
        saveLocked_def demo_saver_def appendEventsLocked_def to_err_def Let_def)
  then show ?thesis
    using inbox_transaction [OF demo_inbox_inv _ demo_addr_canonical _ surjective_pairing, of 2000 "OpIgnore (demo_id CHR ''1'')" demo_saver]
    by (simp add: demo_inbox_entries)
qed

section \<open>Eviction\<close>

text \<open>Capacity: an observation that matches no entry of a full inbox evicts exactly one entry, the least recently seen (ties by identifier) among those that are neither reviewed nor configured nor touched earlier in the same round; it is dropped only when every entry is protected; and an inbox that is not full evicts and drops nothing.\<close>

theorem eviction_policy:
  assumes core: "core_inv db addr b" and op: "ingestLocked db fresh ob touched b = Inr (r, evs, touched', b')"
  shows "(\<forall>i \<in> set (irEvictedIDs r). int (length (ibEntries b)) = ibMaxEntries b \<and> irEvictedIDs r = [i] \<and>
      (\<exists>v. map_of (ibEntries b) i = Some v \<and> \<not> candidatePinned v \<and> i \<notin> set touched \<and>
        (\<forall>(k, c) \<in> set (ibEntries b). k \<notin> set touched \<longrightarrow> \<not> candidatePinned c \<longrightarrow>
           (cdLastSeen v, i) \<le> (cdLastSeen c, k))))
    \<and> (irDropped r \<noteq> None \<longrightarrow> int (length (ibEntries b)) = ibMaxEntries b \<and> ibEntries b' = ibEntries b \<and>
      (\<forall>(k, c) \<in> set (ibEntries b). k \<in> set touched \<or> candidatePinned c))"
proof -
  have es: "entries_ok db addr (ibConfigured b) (ibEntries b)" using core by (simp add: core_inv_def)
  from core op show ?thesis
  proof (cases rule: ingest_cases)
    case dropped
    then show ?thesis by (auto simp: evictionTarget_None)
  next
    case (updated c0)
    then show ?thesis by simp
  next
    case (created cid es' ids)
    from created(4) consider "ids = []" | v where "evictionTargetLocked touched (ibEntries b) = Some v"
      "int (length (ibEntries b)) = ibMaxEntries b" "ids = [cdID v]" by blast
    then show ?thesis
    proof cases
      case 1
      with created(8) show ?thesis by simp
    next
      case 2
      note v = target_in_entries [OF es 2(1)]
      have "map_of (ibEntries b) (cdID v) = Some v" using v(1) es by (simp add: map_of_eq_mem entries_ok_def)
      moreover have "(cdLastSeen v, cdID v) \<le> (cdLastSeen c, k)"
        if "(k, c) \<in> set (ibEntries b)" "k \<notin> set touched" "\<not> candidatePinned c" for k c
        using evictionTarget_Some(2) [OF 2(1) that(1)] that entries_okD [OF es that(1)]
        by (simp add: evict_key_def entry_ok_def)
      ultimately show ?thesis using 2 v(2) created(8) by auto
    qed
  qed
qed

theorem eviction_policy_witness:
  "\<exists>r evs touched' b'. ingestLocked ascii_only_db (demo_ids 1) ((demo_obs ''other'' ''10.0.0.6'' [])\<lparr>obPort := 22, obObservedAt := 2000\<rparr>)
      [] demo_inbox = Inr (r, evs, touched', b') \<and> irEvictedIDs r = [demo_id CHR ''1''] \<and> irDropped r = None
    \<and> int (length (ibEntries demo_inbox)) = ibMaxEntries demo_inbox"
proof -
  let ?ob = "(demo_obs ''other'' ''10.0.0.6'' [])\<lparr>obPort := 22, obObservedAt := 2000\<rparr>"
  have core: "core_inv ascii_only_db demo_addr demo_inbox" using demo_inbox_inv by (simp add: inbox_inv_core)
  obtain r evs t b' where op: "ingestLocked ascii_only_db (demo_ids 1) ?ob [] demo_inbox = Inr (r, evs, t, b')"
    "irEvictedIDs r = [demo_id CHR ''1'']" "irDropped r = None"
  proof -
    have ms: "matchesLocked ascii_only_db ?ob demo_inbox = []"
      by (simp add: matchesLocked_def demo_inbox_entries matches_observation_def demo_obs_def demo_candidate_def
          hasEndpoint_def)
    have tgt: "evictionTargetLocked [] (ibEntries demo_inbox) = Some demo_candidate"
      by (simp add: evictionTargetLocked_def demo_inbox_entries candidatePinned_def demo_candidate_def)
    have "\<exists>r evs t b'. ingestLocked ascii_only_db (demo_ids 1) ?ob [] demo_inbox = Inr (r, evs, t, b')
        \<and> irEvictedIDs r = [demo_id CHR ''1''] \<and> irDropped r = None"
      using tgt demo_inbox_entries(1,2)
      by (simp add: ingestLocked_def make_room_loop [OF core] ms choose_match_def demo_ids_def Let_def
          makeEventLocked_def)
        (simp add: demo_candidate_def)
    then show ?thesis using that by blast
  qed
  then show ?thesis using eviction_policy [OF core op(1)] by auto
qed

section \<open>Progress\<close>

lemma ingestLocked_total:
  assumes "fresh = Inr cid"
  shows "\<exists>r evs touched' b'. ingestLocked db fresh ob touched b = Inr (r, evs, touched', b')
    \<and> (irCandidate r = None \<longleftrightarrow> irDropped r = Some ob) \<and> (irCandidate r \<noteq> None \<longleftrightarrow> irDropped r = None)"
  using assms by (auto simp: ingestLocked_def Let_def split: prod.splits option.splits)

lemma ingest_loop_total:
  assumes "\<And>i. \<exists>cid. fresh i = Inr cid"
  shows "\<exists>rs evs b'. ingest_loop db fresh i obs touched b = Inr (rs, evs, b') \<and> length rs = length obs
    \<and> list_all (\<lambda>r. irCandidate r \<noteq> None \<or> irDropped r \<noteq> None) rs"
proof (induction obs arbitrary: i touched b)
  case (Cons ob obs)
  obtain cid where "fresh i = Inr cid" using assms by blast
  from ingestLocked_total [OF this] obtain r evs t b1 where
    1: "ingestLocked db (fresh i) ob touched b = Inr (r, evs, t, b1)" "irCandidate r \<noteq> None \<or> irDropped r \<noteq> None"
    by (metis option.distinct(1))
  from Cons [of "Suc i" t b1] obtain rs evs2 b2 where
    "ingest_loop db fresh (Suc i) obs t b1 = Inr (rs, evs2, b2)" "length rs = length obs"
    "list_all (\<lambda>r. irCandidate r \<noteq> None \<or> irDropped r \<noteq> None) rs" by blast
  with 1 show ?case by simp
qed simp

text \<open>A round of well-formed observations always completes when identifiers can be generated and the store can be written, however full the inbox is: it returns one result per observation, each of which names a candidate or says that the observation was dropped.\<close>

theorem round_completes:
  assumes "normalize_all db addr now 0 obs = Inr nobs" "\<And>i. \<exists>cid. fresh i = Inr cid" "\<And>d. sv d = SaveOk"
  shows "\<exists>b' rs. IngestMany db addr sv now fresh obs b = (b', Inr rs) \<and> length rs = length obs
    \<and> list_all (\<lambda>r. irCandidate r \<noteq> None \<or> irDropped r \<noteq> None) rs"
proof (cases "obs = []")
  case True
  then show ?thesis by (simp add: IngestMany_def)
next
  case False
  have len: "normalize_all db addr now i obs = Inr nobs \<Longrightarrow> length nobs = length obs" for i obs nobs
    by (induction obs arbitrary: i nobs) (auto simp: and_then_Inr split: sum.splits)
  obtain ids evs1 b1 where x: "expireLocked now b = (ids, evs1, b1)" by (metis prod_cases3)
  obtain rs evs b2 where l: "ingest_loop db fresh 0 nobs [] b1 = Inr (rs, evs, b2)" "length rs = length nobs"
    "list_all (\<lambda>r. irCandidate r \<noteq> None \<or> irDropped r \<noteq> None) rs"
    using ingest_loop_total [of fresh db 0 nobs "[]" b1] assms(2) by blast
  have "\<exists>b3. saveLocked sv b2 = (b3, None)" by (simp add: saveLocked_def assms(3))
  then obtain b3 where "saveLocked sv b2 = (b3, None)" by blast
  with False x l len [OF assms(1)] assms(1) show ?thesis by (simp add: IngestMany_def)
qed

theorem round_completes_witness:
  "\<exists>b' rs. IngestMany ascii_only_db demo_addr demo_saver 1000 demo_ids
      [demo_obs ''mini'' ''10.0.0.5'' demo_fp] demo_verified = (b', Inr rs) \<and> length rs = 1"
  using round_completes [OF demo_normalized, of demo_ids demo_saver demo_verified]
  by (auto simp: demo_ids_def demo_saver_def)

section \<open>The event cursor\<close>

lemma u64_less: "unat (w :: u64) < 18446744073709551616"
proof -
  have "unat w < 2 ^ LENGTH(64)" by (rule unsigned_less)
  then show ?thesis by simp
qed

lemma seq_from_upt:
  assumes "seq_from sq evs" "unat sq + length evs < 2 ^ 64"
  shows "map (unat \<circ> ceSequence) evs = [Suc (unat sq) ..< Suc (unat sq + length evs)]"
  unfolding comp_def using assms
proof (induction evs arbitrary: sq)
  case (Cons e evs)
  have sq: "unat (sq + 1) = Suc (unat sq)" using Cons.prems(2) by (simp add: unat_word_ariths)
  then have "map (\<lambda>e. unat (ceSequence e)) evs = [Suc (Suc (unat sq)) ..< Suc (Suc (unat sq) + length evs)]"
    using Cons.IH [of "sq + 1"] Cons.prems by (simp del: upt_Suc)
  then show ?case using Cons.prems(1) sq by (simp add: upt_conv_Cons comp_def del: upt_Suc)
qed simp

lemma filter_upt: "filter (\<lambda>n. c < n) [a..<z] = [max a (Suc c)..<z]"
  by (induction z) (auto simp: max_def le_Suc_eq)

lemma ev_ok_upt:
  assumes "ev_ok b" "length (ibEvents b) \<le> unat (ibSequence b)"
  shows "map (unat \<circ> ceSequence) (ibEvents b)
    = [Suc (unat (ibSequence b) - length (ibEvents b)) ..< Suc (unat (ibSequence b))]"
proof -
  from assms(1) obtain sq where sq: "seq_from sq (ibEvents b)" "ibSequence b = sq + of_nat (length (ibEvents b))"
    by (auto simp: ev_ok_def)
  let ?n = "length (ibEvents b)"
  have less: "unat (ibSequence b) < 2 ^ 64" using u64_less [of "ibSequence b"] by simp
  then have n: "unat (of_nat ?n :: u64) = ?n" using assms(2) by (simp add: unat_of_nat)
  then have "sq = ibSequence b - of_nat ?n" "(of_nat ?n :: u64) \<le> ibSequence b"
    using sq(2) assms(2) by (simp_all add: word_le_nat_alt)
  then have "unat sq = unat (ibSequence b) - ?n" using n by (simp add: unat_sub)
  with seq_from_upt [OF sq(1)] assms(2) less show ?thesis by simp
qed

text \<open>A reader that polls with its last sequence number misses no event: unless the answer says that a reset is required, it holds exactly the events numbered after the cursor up to the latest one, in order and without gaps; a reset is asked for only when the next event is no longer retained, and then no events are returned. The sequence number is assumed not to have wrapped around within the retained log.\<close>

theorem events_since_complete:
  assumes inv: "inbox_inv db addr b" and wrap: "length (ibEvents b) \<le> unat (ibSequence b)"
  shows "ebLatestSequence (EventsSince cursor b) = ibSequence b
    \<and> (\<not> ebResetRequired (EventsSince cursor b) \<longrightarrow>
        map (unat \<circ> ceSequence) (ebEvents (EventsSince cursor b)) = [Suc (unat cursor) ..< Suc (unat (ibSequence b))]
        \<and> set (ebEvents (EventsSince cursor b)) \<subseteq> set (ibEvents b))
    \<and> (ebResetRequired (EventsSince cursor b) \<longrightarrow> ebEvents (EventsSince cursor b) = [] \<and> cursor < ibSequence b
        \<and> (\<forall>e \<in> set (ibEvents b). unat (ceSequence e) \<noteq> Suc (unat cursor)))"
proof -
  let ?s = "unat (ibSequence b)" let ?n = "length (ibEvents b)"
  have upt: "map (unat \<circ> ceSequence) (ibEvents b) = [Suc (?s - ?n) ..< Suc ?s]"
    using ev_ok_upt [OF _ wrap] inv by (simp add: inbox_inv_core)
  have filt: "map (unat \<circ> ceSequence) (filter (\<lambda>e. cursor < ceSequence e) (ibEvents b)) = [max (Suc (?s - ?n)) (Suc (unat cursor)) ..< Suc ?s]"
    using arg_cong [OF upt, of "filter (\<lambda>n. unat cursor < n)"]
    by (simp add: filter_map comp_def word_less_nat_alt filter_upt del: upt_Suc)
  have mem: "unat (ceSequence e) \<in> {Suc (?s - ?n) ..< Suc ?s}" if "e \<in> set (ibEvents b)" for e
    using arg_cong [OF upt, of set] that by (auto simp del: upt_Suc)
  have first: "unat (ceSequence (hd (ibEvents b))) = Suc (?s - ?n)" if "ibEvents b \<noteq> []"
  proof -
    have "Suc (?s - ?n) < Suc ?s" using that wrap by (cases "ibEvents b") auto
    then show ?thesis using arg_cong [OF upt, of hd] that by (simp add: hd_map hd_upt del: upt_Suc)
  qed
  consider (seen) "ibSequence b \<le> cursor" | (gap) "cursor < ibSequence b" "ibEvents b = [] \<or> cursor + 1 < ceSequence (hd (ibEvents b))"
    | (some) "cursor < ibSequence b" "ibEvents b \<noteq> []" "ceSequence (hd (ibEvents b)) \<le> cursor + 1"
    by (meson linorder_not_less)
  then show ?thesis
  proof cases
    case seen
    then show ?thesis by (simp add: EventsSince_def word_le_nat_alt)
  next
    case gap
    then have "unat (cursor + 1) = Suc (unat cursor)"
      using u64_less [of "ibSequence b"] by (simp add: unat_word_ariths word_less_nat_alt)
    then have "unat (ceSequence e) \<noteq> Suc (unat cursor)" if "e \<in> set (ibEvents b)" for e
    proof -
      have ne: "ibEvents b \<noteq> []" using that by auto
      with gap(2) first [OF ne] mem [OF that] \<open>unat (cursor + 1) = Suc (unat cursor)\<close> show ?thesis
        by (auto simp: word_less_nat_alt)
    qed
    moreover have "\<not> ibSequence b \<le> cursor" using gap(1) by simp
    ultimately show ?thesis using gap by (simp add: EventsSince_def)
  next
    case some
    have "unat (cursor + 1) = Suc (unat cursor)"
      using some(1) u64_less [of "ibSequence b"] by (simp add: unat_word_ariths word_less_nat_alt)
    then have "Suc (?s - ?n) \<le> Suc (unat cursor)" using some(2,3) first by (simp add: word_le_nat_alt)
    then show ?thesis using some filt by (auto simp: EventsSince_def max_def simp del: upt_Suc)
  qed
qed

definition loop_log :: "goerr + (ingest_result list \<times> cand_event list \<times> inbox) \<Rightarrow> (u64 \<times> nat \<times> nat \<times> int) option" where
  "loop_log r = (case r of Inl _ \<Rightarrow> None
     | Inr (rs, evs, b) \<Rightarrow> Some (ibSequence b, length evs, length (ibEvents b), ibMaxEvents b))"

lemma demo_loop_log:
  "loop_log (ingest_loop ascii_only_db demo_ids 0 [demo_seen] [] (newInbox ''inbox.json'' (demo_opts 1)))
     = Some (1, 1, 0, 512)"
  by code_simp

lemma demo_log: "ibSequence demo_inbox = 1" "length (ibEvents demo_inbox) = 1"
proof -
  let ?b = "newInbox ''inbox.json'' (demo_opts 1)"
  obtain rs evs b2 where l: "ingest_loop ascii_only_db demo_ids 0 [demo_seen] [] ?b = Inr (rs, evs, b2)"
    "ibSequence b2 = 1" "length evs = 1" "ibEvents b2 = []" "ibMaxEvents b2 = 512"
    using demo_loop_log by (auto simp: loop_log_def split: sum.splits)
  have "expireLocked 1000 ?b = ([], [], ?b)" by (simp add: expireLocked_def newInbox_def)
  then show "ibSequence demo_inbox = 1" "length (ibEvents demo_inbox) = 1"
    using l demo_normalized
    by (simp_all add: demo_inbox_def IngestMany_def appendEventsLocked_def Let_def saveLocked_def demo_saver_def)
qed

theorem events_since_complete_witness:
  "ebLatestSequence (EventsSince 0 demo_inbox) = ibSequence demo_inbox
   \<and> map (unat \<circ> ceSequence) (ibEvents demo_inbox) = [1] \<and> \<not> ebResetRequired (EventsSince 0 demo_inbox)
   \<and> map (unat \<circ> ceSequence) (ebEvents (EventsSince 0 demo_inbox)) = [1]"
proof -
  show ?thesis
    using events_since_complete [OF demo_inbox_inv, of 0] ev_ok_upt [of demo_inbox] demo_inbox_inv demo_log
    by (auto simp: inbox_inv_core EventsSince_def)
qed

section \<open>Reading back\<close>

lemma update_absent: "map_of m k = None \<Longrightarrow> AList.update k v m = m @ [(k, v)]"
  by (induction m) (auto split: if_splits)

lemma add_names_ok:
  assumes "distinct ns" "set ns \<inter> set (names_of m fp) = {}" "list_all (normal_plain db ''configured device name'' 128) ns"
  shows "add_names db fp ns m = Inr (if ns = [] then m else AList.update fp (names_of m fp @ ns) m)"
  using assms
proof (induction ns arbitrary: m)
  case (Cons n ns)
  let ?m = "AList.update fp (names_of m fp @ [n]) m"
  have "addString (names_of m fp) n = names_of m fp @ [n]" using Cons.prems by (simp add: addString_def)
  moreover have "names_of ?m fp = names_of m fp @ [n]" by (simp add: names_of_def update_conv')
  moreover have "add_names db fp ns ?m = Inr (if ns = [] then ?m else AList.update fp (names_of ?m fp @ ns) ?m)"
    using Cons.prems calculation(2) by (intro Cons.IH) auto
  ultimately show ?case using Cons.prems by (simp add: normal_plain_def)
qed simp

definition item_of :: "string \<times> string list \<Rightarrow> configured_fingerprint" where
  "item_of = (\<lambda>(fp, names). \<lparr>cfFingerprint = fp, cfDeviceNames = names\<rparr>)"

lemma configured_loop_back:
  assumes "conf_ok db m" "wf_map (acc @ m)"
  shows "configured_loop db what False i (map item_of m) acc = Inr (acc @ m)"
  using assms
proof (induction m arbitrary: i acc)
  case (Cons x m)
  obtain fp ns where x: "x = (fp, ns)" by (cases x)
  have ok: "normalizeFingerprint fp = Inr fp" "ns \<noteq> []" "distinct ns"
    "list_all (normal_plain db ''configured device name'' 128) ns"
    using Cons.prems(1) x by (auto simp: conf_ok_def)
  have fresh: "map_of acc fp = None" using Cons.prems(2) x by (auto simp: wf_map_def map_of_eq_None_iff)
  then have "add_names db fp ns acc = Inr (acc @ [(fp, ns)])"
    using add_names_ok [OF ok(3) _ ok(4), of acc fp] ok(2) by (simp add: names_of_def update_absent)
  moreover have "configured_loop db what False (Suc i) (map item_of m) (acc @ [x]) = Inr ((acc @ [x]) @ m)"
    using Cons.prems by (intro Cons.IH) (auto simp: conf_ok_def wf_map_def)
  ultimately show ?case using ok(1) x by (simp add: item_of_def)
qed simp

lemma sort_names_sorted: "conf_ok db m \<Longrightarrow> sort_names m = m"
  by (induction m) (auto simp: sort_names_def conf_ok_def wf_map_def sorted_sort_id)

lemma open_candidates_back:
  assumes conf: "conf_ok db m" and "entries_ok db addr m (done @ es)" "\<forall>(k, c) \<in> set es. undotted c"
    "\<And>fp. map_of fps fp \<noteq> None \<Longrightarrow> \<exists>(k, c) \<in> set done. cdFingerprint c = fp"
  shows "open_candidates db addr m i (map snd es) fps done = Inr (done @ es)"
  using assms(2-)
proof (induction es arbitrary: i fps "done")
  case (Cons x es)
  obtain k c where x: "x = (k, c)" by (cases x)
  have e: "entry_ok db addr m k c" using entries_okD [OF Cons.prems(1)] x by simp
  then have k: "k = cdID c" and names: "cdConfiguredNames c = names_of m (cdFingerprint c)" by (simp_all add: entry_ok_def)
  have fresh: "map_of done (cdID c) = None"
    using Cons.prems(1) x k by (auto simp: entries_ok_def wf_map_def map_of_eq_None_iff)
  have "cdFingerprint c = [] \<longrightarrow> cdConfiguredNames c = []" using names names_of_Nil [OF conf] by auto
  then have "validateCandidate db addr c = None"
    using validateCandidate_iff [of c db addr] e Cons.prems(2) x by (simp add: entry_ok_def)
  moreover have "\<not> (cdFingerprint c \<noteq> [] \<and> map_of fps (cdFingerprint c) \<noteq> None)"
  proof
    assume that: "cdFingerprint c \<noteq> [] \<and> map_of fps (cdFingerprint c) \<noteq> None"
    then obtain k' c' where "(k', c') \<in> set done" "cdFingerprint c' = cdFingerprint c" using Cons.prems(3) by blast
    then have "k' = k" "k' \<in> fst ` set done"
      using entries_ok_unique [OF Cons.prems(1), of k c k' c'] x that by (auto intro: rev_image_eqI)
    with fresh k show False by (simp add: map_of_eq_None_iff)
  qed
  moreover have "open_candidates db addr m (Suc i) (map snd es)
      (if cdFingerprint c \<noteq> [] then AList.update (cdFingerprint c) (cdID c) fps else fps) (done @ [(k, c)])
      = Inr ((done @ [(k, c)]) @ es)"
  proof (rule Cons.IH)
    show "\<exists>(k, c') \<in> set (done @ [(k, c)]). cdFingerprint c' = fp"
      if "map_of (if cdFingerprint c \<noteq> [] then AList.update (cdFingerprint c) (cdID c) fps else fps) fp \<noteq> None" for fp
      using that Cons.prems(3) [of fp] by (auto simp: update_conv' split: if_splits)
  qed (use Cons.prems x in auto)
  ultimately show ?case using names fresh x k by (auto simp: update_absent)
qed simp

lemma map_of_permuted:
  assumes "wf_map xs" "mset ys = mset xs"
  shows "wf_map ys" "map_of ys = map_of xs"
proof -
  show "wf_map ys" using assms by (metis wf_map_def mset_eq_imp_distinct_iff mset_map)
  then show "map_of ys = map_of xs"
    using assms map_of_inject_set [of ys xs] by (simp add: wf_map_def) (metis set_mset_mset)
qed

lemma map_sort_key: "sort_key f (map g xs) = map g (sort_key (f \<circ> g) xs)"
proof (induction xs)
  case (Cons x xs)
  have "insort_key f (g x) (map g ys) = map g (insort_key (f \<circ> g) x ys)" for ys by (induction ys) auto
  with Cons show ?case by (simp add: comp_def)
qed simp

lemma disk_of_sorted:
  assumes "wf_map (ibConfigured b)"
  shows "dsConfigured (disk_of b) = map item_of (sort_key fst (ibConfigured b))"
    "dsCandidates (disk_of b) = map snd (sort_key (cdID \<circ> snd) (ibEntries b))"
proof -
  have "cfFingerprint \<circ> item_of = fst" by (auto simp: item_of_def)
  then show "dsConfigured (disk_of b) = map item_of (sort_key fst (ibConfigured b))"
    by (simp add: disk_of_def map_sort_key flip: item_of_def)
  show "dsCandidates (disk_of b) = map snd (sort_key (cdID \<circ> snd) (ibEntries b))"
    by (simp add: disk_of_def map_sort_key)
qed

lemma conf_ok_permuted: "conf_ok db m \<Longrightarrow> mset m' = mset m \<Longrightarrow> conf_ok db m'"
  using map_of_permuted(1) [of m m'] mset_eq_setD [of m' m] by (simp add: conf_ok_def)

lemma entries_ok_permuted:
  "entries_ok db addr m es \<Longrightarrow> mset es' = mset es \<Longrightarrow> entries_ok db addr m es'"
  using map_of_permuted(1) [of es es'] mset_eq_setD [of es' es] by (simp add: entries_ok_def)

lemma entry_ok_configured: "(\<And>fp. names_of m' fp = names_of m fp) \<Longrightarrow> entries_ok db addr m es \<Longrightarrow> entries_ok db addr m' es"
  by (simp add: entries_ok_def entry_ok_def)

text \<open>C27. Reading back what was written: opening the stored document of an inbox, with the same limits, succeeds and gives the same candidates, configuration and sequence number, provided no stored host name ends with a dot.\<close>

theorem inbox_reload:
  assumes inv: "inbox_inv db addr b" and path: "TrimSpace (ibPath b) \<noteq> []"
    and same: "ibMaxEntries (newInbox (ibPath b) o1) = ibMaxEntries b"
    and dots: "\<And>k c. (k, c) \<in> set (ibEntries b) \<Longrightarrow> undotted c"
  shows "\<exists>b'. Open db addr (ibPath b) o1 (Inr (Some (disk_of b))) = Inr b'
    \<and> map_of (ibEntries b') = map_of (ibEntries b) \<and> map_of (ibConfigured b') = map_of (ibConfigured b)
    \<and> ibSequence b' = ibSequence b"
proof -
  have conf: "conf_ok db (ibConfigured b)" and es: "entries_ok db addr (ibConfigured b) (ibEntries b)"
    and le: "int (length (ibEntries b)) \<le> ibMaxEntries b" using inv by (simp_all add: inbox_inv_def)
  let ?m = "sort_key fst (ibConfigured b)" let ?es = "sort_key (cdID \<circ> snd) (ibEntries b)"
  have wf: "wf_map (ibConfigured b)" "wf_map (ibEntries b)" using conf es by (simp_all add: conf_ok_def entries_ok_def)
  have m: "conf_ok db ?m" "map_of ?m = map_of (ibConfigured b)"
    using conf_ok_permuted [OF conf] map_of_permuted [OF wf(1), of ?m] by simp_all
  have e: "entries_ok db addr ?m ([] @ ?es)"
    using entries_ok_permuted [OF es, of ?es] m(2) entry_ok_configured [of ?m "ibConfigured b"]
    by (simp add: names_of_def)
  have "configured_loop db ''invalid configured fingerprint at index '' False 0 (dsConfigured (disk_of b)) [] = Inr ?m"
    using configured_loop_back [OF m(1), of "[]"] m(1) disk_of_sorted [OF wf(1)] by (simp add: conf_ok_def)
  moreover have "open_candidates db addr ?m 0 (dsCandidates (disk_of b)) [] [] = Inr ?es"
    using open_candidates_back [OF m(1) e, of "[]" 0] dots disk_of_sorted [OF wf(1)] by auto
  ultimately show ?thesis
    using path same le m(2) map_of_permuted(2) [OF wf(2), of ?es] sort_names_sorted [OF m(1)]
    by (simp add: Open_def disk_of_def)
qed

theorem inbox_reload_witness:
  "\<exists>b'. Open ascii_only_db demo_addr ''inbox.json'' (demo_opts 1) (Inr (Some (disk_of demo_inbox))) = Inr b'
    \<and> map_of (ibEntries b') = map_of (ibEntries demo_inbox)
    \<and> map_of (ibConfigured b') = map_of (ibConfigured demo_inbox) \<and> ibSequence b' = ibSequence demo_inbox"
proof -
  have "TrimSpace ''inbox.json'' \<noteq> []" by (simp add: TrimSpace_def is_space_def)
  then show ?thesis
    using inbox_reload [OF demo_inbox_inv, of "demo_opts 1"]
    by (simp add: demo_inbox_entries newInbox_def demo_opts_def undotted_def demo_candidate_def)
qed

text \<open>
  Normalizing a host name strips one trailing dot, while reading the file back refuses every host name
  that ends with a dot: a name with two trailing dots is stored, and the store that holds it does not open.
\<close>

lemma dotted_hostname_not_reloaded:
  "normalize_host ascii_only_db ''mac..'' = Inr ''mac.''"
  "''mac.'' \<in> set (cdHostnames c) \<Longrightarrow> validateCandidate db addr c \<noteq> None"
proof -
  show "normalize_host ascii_only_db ''mac..'' = Inr ''mac.''"
    by (simp add: normalize_host_def TrimSuffix_def HasSuffix_def HasPrefix_def normalizePlain_def TrimSpace_def is_space_def
        runes_def ascii_only_db_def is_control_def Let_def)
  assume h: "''mac.'' \<in> set (cdHostnames c)"
  show "validateCandidate db addr c \<noteq> None"
  proof
    assume v: "validateCandidate db addr c = None"
    have "undotted c" using validateCandidate_iff [OF validateCandidate_None [OF v]] v by simp
    then have "\<not> HasSuffix ''mac.'' ''.''" using h by (auto simp: undotted_def list_all_iff)
    moreover have "HasSuffix ''mac.'' ''.''" by code_simp
    ultimately show False by simp
  qed
qed

end
