(* ===== verification/Hostkey.thy ===== *)
theory Hostkey
  imports Daemon_Adapter
begin

text \<open>
  Host-key pinning (\<open>cmd/fv-ssh-unlock/hostkey.go\<close>) and the keys offered to a server
  (\<open>agentkeys.go\<close>). The state is the content of the file \<open>known_hosts\<close>. The package \<open>knownhosts\<close> of
  \<open>x/crypto/ssh\<close> is the record \<open>kh_lib\<close>; locking, reading and writing the file have their outcomes
  in \<open>kh_env\<close>. A key is its marshalled form.
\<close>

section \<open>The library and the file\<close>

text \<open>
  \<open>kl_new\<close>: whether a content parses; \<open>kl_check\<close>: the verdict of the callback on content, host, remote
  address and key; \<open>kl_line\<close>: \<open>knownhosts.Line\<close> of the normalized host; \<open>kl_fp\<close>: \<open>ssh.FingerprintSHA256\<close>.
\<close>

record kh_lib =
  kl_new :: "string \<Rightarrow> goerr option"
  kl_check :: "string \<Rightarrow> string \<Rightarrow> string \<Rightarrow> string \<Rightarrow> goerr option"
  kl_line :: "string \<Rightarrow> string \<Rightarrow> string"
  kl_fp :: "string \<Rightarrow> string"

record kh_env =
  ke_prepare :: "goerr option"
  ke_lock :: "goerr option"
  ke_open :: "goerr option"     \<comment> \<open>opening the file in \<open>knownhosts.New\<close>\<close>
  ke_read :: "goerr option"     \<comment> \<open>\<open>securefs.ReadPrivate\<close>\<close>
  ke_reread :: "goerr option"   \<comment> \<open>the read of \<open>knownHostLinePresent\<close>\<close>
  ke_write :: save_outcome      \<comment> \<open>\<open>securefs.WritePrivate\<close>\<close>

record pending_key =
  pkHost :: string
  pkRemote :: string
  pkKey :: string

definition defaultDialTimeout :: duration where
  "defaultDialTimeout = 15 * second"

definition maxKnownHostsSize :: nat where
  "maxKnownHostsSize = 1048576"

abbreviation newline :: char where
  "newline \<equiv> CHR 0x0A"

definition knownhosts_New :: "kh_lib \<Rightarrow> kh_env \<Rightarrow> string \<Rightarrow> goerr + (string \<Rightarrow> string \<Rightarrow> string \<Rightarrow> goerr option)" where
  "knownhosts_New lib env file =
     (case ke_open env of
        Some err \<Rightarrow> Inl err
      | None \<Rightarrow> (case kl_new lib file of Some err \<Rightarrow> Inl err | None \<Rightarrow> Inr (kl_check lib file)))"

definition write_known :: "kh_env \<Rightarrow> string \<Rightarrow> string \<Rightarrow> string \<times> goerr option" where
  "write_known env data file =
     (case ke_write env of
        SaveOk \<Rightarrow> (data, None)
      | SaveFailed err landed \<Rightarrow> (if landed then data else file, Some err))"

section \<open>Appending and removing a line\<close>

definition appended :: "kh_lib \<Rightarrow> string \<Rightarrow> string \<Rightarrow> string \<Rightarrow> string" where
  "appended lib host key file =
     (if file \<noteq> [] \<and> last file \<noteq> newline then file @ [newline] else file) @ kl_line lib host key @ [newline]"

definition appendKnownHost :: "kh_lib \<Rightarrow> kh_env \<Rightarrow> string \<Rightarrow> string \<Rightarrow> string \<Rightarrow> string \<times> goerr option" where
  "appendKnownHost lib env host key file =
     (case ke_read env of
        Some err \<Rightarrow> (file, Some err)
      | None \<Rightarrow>
        if maxKnownHostsSize < length (appended lib host key file) then
          (file, Some (ErrText (''known_hosts exceeds '' @ decimal maxKnownHostsSize @ '' bytes'')))
        else write_known env (appended lib host key file) file)"

definition is_target :: "string \<Rightarrow> string \<Rightarrow> bool" where
  "is_target target line \<longleftrightarrow> TrimRight line [CHR 0x0D] = target"

definition knownHostLinePresent :: "kh_lib \<Rightarrow> kh_env \<Rightarrow> string \<Rightarrow> string \<Rightarrow> string \<Rightarrow> goerr + bool" where
  "knownHostLinePresent lib env host key file =
     (case ke_reread env of
        Some err \<Rightarrow> Inl err
      | None \<Rightarrow> Inr (list_ex (is_target (kl_line lib host key)) (Split1 file newline)))"

text \<open>The lines without the first one that is the target.\<close>

fun drop_target :: "string \<Rightarrow> string list \<Rightarrow> string list" where
  "drop_target target [] = []"
| "drop_target target (l # ls) = (if is_target target l then ls else l # drop_target target ls)"

text \<open>\<open>pending\<close> is \<open>None\<close> for a nil key.\<close>

definition removeKnownHost :: "kh_lib \<Rightarrow> kh_env \<Rightarrow> pending_key option \<Rightarrow> string \<Rightarrow> string \<times> goerr option" where
  "removeKnownHost lib env pending file =
     (case pending of
        None \<Rightarrow> (file, None)
      | Some p \<Rightarrow>
        let target = kl_line lib (pkHost p) (pkKey p) in
        case ke_lock env of
          Some err \<Rightarrow> (file, Some err)
        | None \<Rightarrow>
          (case ke_read env of
             Some err \<Rightarrow> (file, Some err)
           | None \<Rightarrow>
             let lines = Split1 file newline in
             if \<not> list_ex (is_target target) lines then (file, None)
             else write_known env (Join (drop_target target lines) [newline]) file))"

section \<open>Verification\<close>

definition mismatch_err :: "string \<Rightarrow> goerr" where
  "mismatch_err text = Wrapped (sentinel_text ErrHostKeyMismatch @ '': '' @ text) [Sentinel ErrHostKeyMismatch]"

definition refuse_enrollment :: "unicode_db \<Rightarrow> string \<Rightarrow> string \<Rightarrow> string \<Rightarrow> goerr" where
  "refuse_enrollment db host fp expected =
     mismatch_err (''host '' @ Quote db host @ '' presented '' @ fp @ '', not the independently verified '' @
       expected @ ''; refusing enrollment'')"

text \<open>
  \<open>onAccept\<close> is the action for an accepted unknown key: absent, or present with the error it returns.
  The result is the file, the key handed to \<open>onAccept\<close> and the error.
\<close>

definition verifyHostKeyLocked ::
    "unicode_db \<Rightarrow> kh_lib \<Rightarrow> kh_env \<Rightarrow> string \<Rightarrow> bool \<Rightarrow> string \<Rightarrow> (pending_key \<Rightarrow> goerr option) option
      \<Rightarrow> string \<Rightarrow> string \<Rightarrow> string \<Rightarrow> string \<Rightarrow> string \<times> pending_key option \<times> goerr option" where
  "verifyHostKeyLocked db lib env path acceptNew expected onAccept host remote key file =
     (case knownhosts_New lib env file of
        Inl err \<Rightarrow> (file, None, Some (errorf ''read known_hosts'' err))
      | Inr base \<Rightarrow>
        let fp = kl_fp lib key in
        (case base host remote key of
           None \<Rightarrow>
             if expected \<noteq> [] \<and> fp \<noteq> expected then (file, None, Some (refuse_enrollment db host fp expected))
             else (file, None, None)
         | Some verr \<Rightarrow>
           (case key_error_of verr of
              None \<Rightarrow> (file, None, Some verr)
            | Some want \<Rightarrow>
              if want = [] then
                if \<not> acceptNew then
                  (file, None, Some (mismatch_err (''unknown host '' @ Quote db host @ '' presented '' @ fp @
                    ''; verify the fingerprint, then enroll it with the password-free status command and --accept-new-host-key'')))
                else if expected \<noteq> [] \<and> fp \<noteq> expected then
                  (file, None, Some (refuse_enrollment db host fp expected))
                else (case onAccept of
                    Some action \<Rightarrow>
                      let p = \<lparr>pkHost = host, pkRemote = remote, pkKey = key\<rparr> in (file, Some p, action p)
                  | None \<Rightarrow>
                      (case appendKnownHost lib env host key file of
                         (file', Some aerr) \<Rightarrow>
                           (file', None, Some (errorf (''failed to record host key for '' @ host) aerr))
                       | (file', None) \<Rightarrow> (file', None, None)))
              else (file, None, Some (mismatch_err (''host key for '' @ host @
                     '' has CHANGED: possible man-in-the-middle (presented '' @ fp @ ''; expected ['' @
                     Join want '' '' @ '']). If this is expected (e.g. an OS reinstall), remove the entry from '' @
                     path @ '' and retry''))))))"

definition withKnownHostsLock :: "kh_env \<Rightarrow> string \<Rightarrow> (string \<Rightarrow> string \<times> 'a \<times> goerr option) \<Rightarrow> 'a \<Rightarrow> string \<times> 'a \<times> goerr option" where
  "withKnownHostsLock env file fn none =
     (case ke_lock env of Some err \<Rightarrow> (file, none, Some err) | None \<Rightarrow> fn file)"

text \<open>
  The callback made by \<open>hostKeyCallbackFuncContext\<close>, from the environment and the file at the time of
  the call; making it prepares the files and parses the content once.
\<close>

definition hostKeyCallbackFunc ::
    "unicode_db \<Rightarrow> kh_lib \<Rightarrow> kh_env \<Rightarrow> string \<Rightarrow> bool \<Rightarrow> string \<Rightarrow> (pending_key \<Rightarrow> goerr option) option \<Rightarrow> string
      \<Rightarrow> goerr + (kh_env \<Rightarrow> string \<Rightarrow> string \<Rightarrow> string \<Rightarrow> string \<Rightarrow> string \<times> pending_key option \<times> goerr option)" where
  "hostKeyCallbackFunc db lib env path acceptNew expected onAccept file =
     (case ke_prepare env of
        Some err \<Rightarrow> Inl err
      | None \<Rightarrow>
        (case knownhosts_New lib env file of
           Inl err \<Rightarrow> Inl err
         | Inr _ \<Rightarrow> Inr (\<lambda>env' host remote key file'.
             withKnownHostsLock env' file'
               (verifyHostKeyLocked db lib env' path acceptNew expected onAccept host remote key) None)))"

section \<open>Pinning a verified key\<close>

text \<open>The file, whether this call appended the line, and the error.\<close>

definition commitPendingHostKey ::
    "kh_lib \<Rightarrow> kh_env \<Rightarrow> pending_key option \<Rightarrow> string \<Rightarrow> string \<times> bool \<times> goerr option" where
  "commitPendingHostKey lib env pending file =
     (case pending of
        None \<Rightarrow> (file, False, None)
      | Some p \<Rightarrow>
        withKnownHostsLock env file (\<lambda>file.
          case knownhosts_New lib env file of
            Inl err \<Rightarrow> (file, False, Some (errorf ''read known_hosts'' err))
          | Inr base \<Rightarrow>
            (case base (pkHost p) (pkRemote p) (pkKey p) of
               None \<Rightarrow> (file, False, None)
             | Some verr \<Rightarrow>
               if key_error_of verr = Some [] then
                 (case appendKnownHost lib env (pkHost p) (pkKey p) file of
                    (file', Some aerr) \<Rightarrow>
                      let failed = errorf (''failed to record host key for '' @ pkHost p) aerr in
                      (case knownHostLinePresent lib env (pkHost p) (pkKey p) file' of
                         Inl ierr \<Rightarrow> (file', False, err_join [failed, errorf ''reconcile known_hosts write'' ierr])
                       | Inr present \<Rightarrow> (file', present, Some failed))
                  | (file', None) \<Rightarrow> (file', True, None))
               else (file, False, Some (Wrapped (sentinel_text ErrHostKeyMismatch @ '': host key for '' @ pkHost p @
                       '' changed while it was being enrolled; nothing was pinned: '' @ err_msg verr)
                       [Sentinel ErrHostKeyMismatch, verr])))) False)"

section \<open>The client\<close>

text \<open>
  \<open>loadSigners\<close>: \<open>ae_read\<close> reads an identity file, \<open>ae_parse\<close> gives the public key of a private key
  (or the error, and whether it is a missing passphrase), \<open>ae_agent\<close> holds the keys of the agent.
\<close>

record agent_env =
  ag_home :: "string option"
  ag_regular :: "string \<Rightarrow> bool"
  ag_read :: "string \<Rightarrow> goerr + string"
  ag_parse :: "string \<Rightarrow> (goerr \<times> bool) + string"
  ag_agent :: "string list"

definition defaultIdentityNames :: "string list" where
  "defaultIdentityNames = [''id_ed25519'', ''id_ecdsa'', ''id_ecdsa_sk'', ''id_ed25519_sk'', ''id_rsa'']"

definition discoverDefaultIdentityFiles :: "agent_env \<Rightarrow> string \<Rightarrow> string list" where
  "discoverDefaultIdentityFiles env home =
     filter (ag_regular env) (map (Join2 (Join2 home ''.ssh'')) defaultIdentityNames)"

fun load_identities :: "unicode_db \<Rightarrow> agent_env \<Rightarrow> bool \<Rightarrow> string list \<Rightarrow> goerr + string list" where
  "load_identities db env explicit [] = Inr []"
| "load_identities db env explicit (f # fs) =
     (let path = Clean f in
      case ag_read env path of
        Inl err \<Rightarrow>
          if explicit then Inl (errorf (''load identity '' @ Quote db path) (errorf ''read identity'' err))
          else load_identities db env explicit fs
      | Inr data \<Rightarrow>
        (case ag_parse env data of
           Inl (err, encrypted) \<Rightarrow>
             if \<not> explicit then load_identities db env explicit fs
             else if encrypted then Inl (ErrText (''identity '' @ Quote db path @
                    '' is encrypted; add it to ssh-agent, then retry without --identity''))
             else Inl (errorf (''parse identity '' @ Quote db path) err)
         | Inr signer \<Rightarrow>
           (case load_identities db env explicit fs of
              Inl err \<Rightarrow> Inl err
            | Inr signers \<Rightarrow> Inr (signer # signers))))"

fun unique_signers :: "string list \<Rightarrow> string list \<Rightarrow> string list" where
  "unique_signers seen [] = []"
| "unique_signers seen (k # ks) =
     (if k \<in> set seen then unique_signers seen ks else k # unique_signers (k # seen) ks)"

definition loadSigners :: "unicode_db \<Rightarrow> agent_env \<Rightarrow> string list \<Rightarrow> goerr + string list" where
  "loadSigners db env identityFiles =
     (let explicit = identityFiles \<noteq> [];
          files = (if explicit then identityFiles
                   else case ag_home env of
                     None \<Rightarrow> [] | Some home \<Rightarrow> if home = [] then [] else discoverDefaultIdentityFiles env home) in
      case load_identities db env explicit files of
        Inl err \<Rightarrow> Inl err
      | Inr signers \<Rightarrow> Inr (unique_signers [] (signers @ ag_agent env)))"

text \<open>
  What \<open>newSSHClient\<close> sets: the dial timeout, the keys, and how host keys are verified, \<open>None\<close> for not
  at all. \<open>dir\<close> is the outcome of \<open>appDataDir\<close>.
\<close>

record client_setup =
  csDialTimeout :: duration
  csSigners :: "string list"
  csVerify :: "(kh_env \<Rightarrow> string \<Rightarrow> string \<Rightarrow> string \<Rightarrow> string \<Rightarrow> string \<times> pending_key option \<times> goerr option) option"

definition newSSHClient ::
    "unicode_db \<Rightarrow> kh_lib \<Rightarrow> kh_env \<Rightarrow> agent_env \<Rightarrow> goerr + string \<Rightarrow> bool \<Rightarrow> bool \<Rightarrow> string list \<Rightarrow> duration
      \<Rightarrow> string \<Rightarrow> goerr + client_setup" where
  "newSSHClient db lib env aenv dir insecure acceptNew identityFiles timeout file =
     (if insecure \<and> acceptNew then
        Inl (ErrText ''--insecure-host-key and --accept-new-host-key cannot be used together'')
      else
        let dial = (if timeout \<le> 0 then defaultDialTimeout else timeout) in
        case loadSigners db aenv identityFiles of
          Inl err \<Rightarrow> Inl err
        | Inr signers \<Rightarrow>
          if insecure then Inr \<lparr>csDialTimeout = dial, csSigners = signers, csVerify = None\<rparr>
          else (case dir of
              Inl err \<Rightarrow> Inl err
            | Inr d \<Rightarrow>
              (case hostKeyCallbackFunc db lib env (Join2 d ''known_hosts'') acceptNew [] None file of
                 Inl err \<Rightarrow> Inl (errorf ''failed to set up host-key verification'' err)
               | Inr cb \<Rightarrow> Inr \<lparr>csDialTimeout = dial, csSigners = signers, csVerify = Some cb\<rparr>)))"

end
