(* ===== verification/Hostkey_Facts.thy ===== *)
theory Hostkey_Facts
  imports Hostkey
begin

text \<open>
  What host-key verification promises: an accepted key is one the file already trusts or one accepted
  under every rule; a changed key is refused and nothing is written; pinning and unpinning a key give
  back the file.
\<close>

section \<open>A concrete library\<close>

text \<open>A file of lines \<open>host key\<close>.\<close>

definition demo_lib :: kh_lib where
  "demo_lib = \<lparr>kl_new = (\<lambda>_. None),
     kl_check = (\<lambda>file host remote key.
       let lines = Split1 file newline in
       if list_ex (is_target (host @ '' '' @ key)) lines then None
       else Some (Foreign \<lparr>fe_text = ''knownhosts: key mismatch'', fe_refused = False, fe_net = None,
              fe_key_error = Some (filter (\<lambda>l. HasPrefix l (host @ '' '')) lines)\<rparr>)),
     kl_line = (\<lambda>host key. host @ '' '' @ key), kl_fp = (\<lambda>key. ''SHA256:'' @ key)\<rparr>"

definition demo_kenv :: kh_env where
  "demo_kenv = \<lparr>ke_prepare = None, ke_lock = None, ke_open = None, ke_read = None, ke_reread = None, ke_write = SaveOk\<rparr>"

definition demo_pending :: pending_key where
  "demo_pending = \<lparr>pkHost = ''mac'', pkRemote = ''10.0.0.5:22'', pkKey = ''K''\<rparr>"

section \<open>Verification\<close>

lemma mismatch_is [simp]: "err_is (mismatch_err t) ErrHostKeyMismatch" "err_is (refuse_enrollment db h f e) ErrHostKeyMismatch"
  by (simp_all add: mismatch_err_def refuse_enrollment_def)

lemma appendKnownHost_cases:
  assumes "appendKnownHost lib env host key file = (file', err)"
  shows "(err = None \<longrightarrow> file' = appended lib host key file) \<and> (file' = file \<or> file' = appended lib host key file)"
  using assms by (auto simp: appendKnownHost_def write_known_def split: option.splits if_splits save_outcome.splits)

lemma host_key_verdict:
  assumes "verifyHostKeyLocked db lib env path acceptNew expected onAccept host remote key file = (file', p, err)"
  shows "(err = None \<longrightarrow> (expected = [] \<or> kl_fp lib key = expected) \<and>
      (kl_check lib file host remote key = None \<and> file' = file \<and> p = None \<or>
       acceptNew \<and> (\<exists>verr. kl_check lib file host remote key = Some verr \<and> key_error_of verr = Some []) \<and>
       (if onAccept = None then file' = appended lib host key file \<and> p = None
        else file' = file \<and> p = Some \<lparr>pkHost = host, pkRemote = remote, pkKey = key\<rparr>)))
    \<and> (\<forall>verr w ws. knownhosts_New lib env file = Inr (kl_check lib file) \<and> kl_check lib file host remote key = Some verr
        \<and> key_error_of verr = Some (w # ws) \<longrightarrow>
        file' = file \<and> p = None \<and> (\<exists>e. err = Some e \<and> err_is e ErrHostKeyMismatch))
    \<and> (\<not> acceptNew \<longrightarrow> file' = file \<and> p = None)"
proof -
  consider (unread) e where "knownhosts_New lib env file = Inl e"
    | (read) "knownhosts_New lib env file = Inr (kl_check lib file)"
    by (cases "ke_open env"; cases "kl_new lib file") (auto simp: knownhosts_New_def)
  then show ?thesis
  proof cases
    case unread
    with assms show ?thesis by (auto simp: verifyHostKeyLocked_def)
  next
    case read
    note v = assms [unfolded verifyHostKeyLocked_def read sum.case Let_def]
    show ?thesis
    proof (cases "kl_check lib file host remote key")
      case None
      with v show ?thesis by (auto split: if_splits)
    next
      case (Some verr)
      note v2 = v [unfolded Some option.case]
      show ?thesis
      proof (cases "key_error_of verr")
        case None
        with v2 Some show ?thesis by auto
      next
        case want: (Some want)
        note v3 = v2 [unfolded want option.case]
        show ?thesis
        proof (cases "want = []")
          case False
          with v3 Some want show ?thesis by auto
        next
          case True
          obtain file2 aerr where a: "appendKnownHost lib env host key file = (file2, aerr)" by (meson surj_pair)
          note app = appendKnownHost_cases [OF a]
          show ?thesis
            using v3 Some want True app by (cases aerr; cases onAccept) (auto simp: a split: if_splits)
        qed
      qed
    qed
  qed
qed


text \<open>C7. A presented host key is accepted only if the known_hosts file already trusts it, or if it is unknown (not changed), accepting new keys was asked for, and it is then recorded by exactly one appended line or handed over for later pinning; in both cases it has the fingerprint that was asked for, if one was. A key that differs from the pinned one is always refused as a host-key mismatch with the file untouched, and without the permission to accept new keys the file never changes.\<close>

theorem host_key_verification:
  assumes "verifyHostKeyLocked db lib env path acceptNew expected onAccept host remote key file = (file', p, err)"
  shows "(err = None \<longrightarrow> (expected = [] \<or> kl_fp lib key = expected) \<and>
      (kl_check lib file host remote key = None \<and> file' = file \<and> p = None \<or>
       acceptNew \<and> (\<exists>verr. kl_check lib file host remote key = Some verr \<and> key_error_of verr = Some []) \<and>
       (if onAccept = None then file' = appended lib host key file \<and> p = None
        else file' = file \<and> p = Some \<lparr>pkHost = host, pkRemote = remote, pkKey = key\<rparr>)))
    \<and> (\<forall>verr w ws. knownhosts_New lib env file = Inr (kl_check lib file) \<and> kl_check lib file host remote key = Some verr
        \<and> key_error_of verr = Some (w # ws) \<longrightarrow>
        file' = file \<and> p = None \<and> (\<exists>e. err = Some e \<and> err_is e ErrHostKeyMismatch))
    \<and> (\<not> acceptNew \<longrightarrow> file' = file \<and> p = None)"
  using assms by (rule host_key_verdict)

theorem host_key_verification_witness:
  "verifyHostKeyLocked ascii_only_db demo_lib demo_kenv ''known_hosts'' True [] None ''mac'' ''10.0.0.5:22'' ''L'' ''mac K''
     = (''mac K'', None, snd (snd (verifyHostKeyLocked ascii_only_db demo_lib demo_kenv ''known_hosts'' True [] None
         ''mac'' ''10.0.0.5:22'' ''L'' ''mac K'')))
   \<and> snd (snd (verifyHostKeyLocked ascii_only_db demo_lib demo_kenv ''known_hosts'' True [] None
         ''mac'' ''10.0.0.5:22'' ''L'' ''mac K'')) \<noteq> None"
proof -
  obtain f p e where r: "verifyHostKeyLocked ascii_only_db demo_lib demo_kenv ''known_hosts'' True [] None
      ''mac'' ''10.0.0.5:22'' ''L'' ''mac K'' = (f, p, e)" by (metis prod_cases3)
  have "knownhosts_New demo_lib demo_kenv ''mac K'' = Inr (kl_check demo_lib ''mac K'')"
    by (simp add: knownhosts_New_def demo_lib_def demo_kenv_def)
  moreover have "kl_check demo_lib ''mac K'' ''mac'' ''10.0.0.5:22'' ''L'' = Some (Foreign \<lparr>fe_text = ''knownhosts: key mismatch'',
      fe_refused = False, fe_net = None, fe_key_error = Some [''mac K'']\<rparr>)" by code_simp
  ultimately show ?thesis using host_key_verification [OF r] by (auto simp: r)
qed

section \<open>Lines\<close>

lemma Split1_app: "Split1 (a @ c # b) c = Split1 a c @ Split1 b c"
proof (induction a)
  case (Cons x a)
  then show ?case by (cases "Split1 a c") (auto dest: Split1_Nil_iff [THEN notE])
qed simp

lemma Join_Split1: "Join (Split1 s c) [c] = s"
proof (induction s c rule: Split1.induct)
  case (2 x xs c)
  obtain y ys where y: "Split1 xs c = y # ys" by (meson Split1_Nil_iff neq_Nil_conv)
  with 2 show ?case by (cases ys) auto
qed simp

text \<open>The content that a line is appended to.\<close>

definition terminated :: "string \<Rightarrow> string" where
  "terminated file = (if file \<noteq> [] \<and> last file \<noteq> newline then file @ [newline] else file)"

lemma appended_terminated: "appended lib host key file = terminated file @ kl_line lib host key @ [newline]"
  by (simp add: appended_def terminated_def)

lemma terminated_cases: "terminated file = [] \<or> (\<exists>ys. terminated file = ys @ [newline])"
  by (auto simp: terminated_def) (metis append_butlast_last_id)

lemma terminated_lines: "list_ex P (Split1 (terminated file) newline) \<longleftrightarrow>
    list_ex P (Split1 file newline) \<or> terminated file \<noteq> file \<and> P []"
  using Split1_app [of "file" newline "[]"] by (auto simp: terminated_def)

lemma drop_target_append: "\<not> list_ex (is_target t) xs \<Longrightarrow> drop_target t (xs @ ys) = xs @ drop_target t ys"
  by (induction xs) auto

text \<open>Removing a line that was appended and was not there before.\<close>

lemma remove_appended:
  assumes line: "newline \<notin> set line" "is_target line line" "line \<noteq> []"
    and new: "\<not> list_ex (is_target line) (Split1 file newline)"
  shows "list_ex (is_target line) (Split1 (terminated file @ line @ [newline]) newline)"
    "Join (drop_target line (Split1 (terminated file @ line @ [newline]) newline)) [newline] = terminated file"
proof -
  have empty: "\<not> is_target line []" using line(3) by (simp add: is_target_def TrimRight_def)
  have old: "\<not> list_ex (is_target line) (Split1 (terminated file) newline)"
    using new empty by (simp add: terminated_lines)
  have one: "Split1 (line @ [newline]) newline = [line, []]" using Split1_append [OF line(1), of "[]"] by simp
  from terminated_cases [of "file"]
  show "list_ex (is_target line) (Split1 (terminated file @ line @ [newline]) newline)"
    "Join (drop_target line (Split1 (terminated file @ line @ [newline]) newline)) [newline] = terminated file"
  proof (atomize (full), elim disjE exE)
    assume "terminated file = []"
    then show "list_ex (is_target line) (Split1 (terminated file @ line @ [newline]) newline) \<and>
        Join (drop_target line (Split1 (terminated file @ line @ [newline]) newline)) [newline] = terminated file"
      using one line(2) by simp
  next
    fix ys assume ys: "terminated file = ys @ [newline]"
    have sp: "Split1 (terminated file @ line @ [newline]) newline = Split1 ys newline @ [line, []]"
      using Split1_app [of ys newline "line @ [newline]"] one ys by simp
    have base: "Split1 (terminated file) newline = Split1 ys newline @ [[]]"
      using Split1_app [of ys newline "[]"] ys by simp
    then have "drop_target line (Split1 ys newline @ [line, []]) = Split1 (terminated file) newline"
      using old line(2) by (simp add: drop_target_append)
    then show "list_ex (is_target line) (Split1 (terminated file @ line @ [newline]) newline) \<and>
        Join (drop_target line (Split1 (terminated file @ line @ [newline]) newline)) [newline] = terminated file"
      using sp line(2) Join_Split1 by simp
  qed
qed

section \<open>Pinning and unpinning\<close>

lemma commit_cases:
  assumes "commitPendingHostKey lib env (Some p) file = (file', inserted, err)"
  shows "(file' = file \<or> file' = appended lib (pkHost p) (pkKey p) file)
    \<and> (inserted \<longrightarrow> kl_check lib file (pkHost p) (pkRemote p) (pkKey p) \<noteq> None \<and>
         (file' = appended lib (pkHost p) (pkKey p) file \<or>
          list_ex (is_target (kl_line lib (pkHost p) (pkKey p))) (Split1 file newline)))
    \<and> (err = None \<and> \<not> inserted \<longrightarrow> file' = file \<and> kl_check lib file (pkHost p) (pkRemote p) (pkKey p) = None)
    \<and> (err = None \<and> inserted \<longrightarrow> file' = appended lib (pkHost p) (pkKey p) file)"
proof (cases "ke_lock env = None \<and> knownhosts_New lib env file = Inr (kl_check lib file)")
  case False
  then show ?thesis using assms
    by (cases "ke_lock env"; cases "ke_open env"; cases "kl_new lib file")
      (auto simp: commitPendingHostKey_def withKnownHostsLock_def knownhosts_New_def)
next
  case True
  note c = assms [unfolded commitPendingHostKey_def withKnownHostsLock_def]
  show ?thesis
  proof (cases "kl_check lib file (pkHost p) (pkRemote p) (pkKey p)")
    case None
    with c True show ?thesis by auto
  next
    case (Some verr)
    obtain file2 aerr where a: "appendKnownHost lib env (pkHost p) (pkKey p) file = (file2, aerr)" by (meson surj_pair)
    note app = appendKnownHost_cases [OF a]
    show ?thesis
    proof (cases "key_error_of verr = Some []")
      case False
      with c True Some show ?thesis by auto
    next
      case key: True
      show ?thesis
      proof (cases aerr)
        case None
        with c True Some key a app show ?thesis by auto
      next
        case aerr: (Some ae)
        with c True Some key a app show ?thesis
          by (auto simp: knownHostLinePresent_def err_join_def Let_def split: option.splits)
      qed
    qed
  qed
qed

lemma remove_undoes:
  assumes line: "newline \<notin> set (kl_line lib (pkHost p) (pkKey p))" "kl_line lib (pkHost p) (pkKey p) \<noteq> []"
      "last (kl_line lib (pkHost p) (pkKey p)) \<noteq> CHR 0x0D"
    and new: "\<not> list_ex (is_target (kl_line lib (pkHost p) (pkKey p))) (Split1 file newline)"
    and env': "ke_lock env' = None" "ke_read env' = None" "ke_write env' = SaveOk"
  shows "removeKnownHost lib env' (Some p) (appended lib (pkHost p) (pkKey p) file) = (terminated file, None)"
proof -
  let ?line = "kl_line lib (pkHost p) (pkKey p)"
  have "is_target ?line ?line"
    using line(2,3) by (cases ?line rule: rev_cases) (simp_all add: is_target_def TrimRight_def)
  note rem = remove_appended [OF line(1) this line(2) new]
  show ?thesis using rem env' by (simp add: removeKnownHost_def appended_terminated write_known_def)
qed

text \<open>Rolling an enrollment back restores trust exactly: when pinning a verified key reports that it inserted the line (even when the write itself failed) and no such line was there before, removing it succeeds and leaves the file byte for byte as it was, except for a final newline if the file lacked one; when pinning reports no insertion and no error, the file was not touched and the library already trusted the key.\<close>

theorem pin_rollback:
  assumes commit: "commitPendingHostKey lib env (Some p) file = (file', inserted, err)"
    and line: "newline \<notin> set (kl_line lib (pkHost p) (pkKey p))" "kl_line lib (pkHost p) (pkKey p) \<noteq> []"
      "last (kl_line lib (pkHost p) (pkKey p)) \<noteq> CHR 0x0D"
    and new: "\<not> list_ex (is_target (kl_line lib (pkHost p) (pkKey p))) (Split1 file newline)"
    and env': "ke_lock env' = None" "ke_read env' = None" "ke_write env' = SaveOk"
  shows "(inserted \<longrightarrow> file' = appended lib (pkHost p) (pkKey p) file \<and>
      removeKnownHost lib env' (Some p) file' = (terminated file, None))
    \<and> (\<not> inserted \<and> err = None \<longrightarrow> file' = file \<and> kl_check lib file (pkHost p) (pkRemote p) (pkKey p) = None)"
  using commit_cases [OF commit] remove_undoes [OF line new env'] new by auto

theorem pin_rollback_witness:
  "removeKnownHost demo_lib demo_kenv (Some demo_pending)
     (fst (commitPendingHostKey demo_lib demo_kenv (Some demo_pending) ''nas Q'')) = (''nas Q'' @ [newline], None)"
proof -
  obtain f i e where c: "commitPendingHostKey demo_lib demo_kenv (Some demo_pending) ''nas Q'' = (f, i, e)"
    by (metis prod_cases3)
  have line: "kl_line demo_lib (pkHost demo_pending) (pkKey demo_pending) = ''mac K''"
    by (simp add: demo_lib_def demo_pending_def)
  have "fst (snd (commitPendingHostKey demo_lib demo_kenv (Some demo_pending) ''nas Q''))"
    by (simp add: commitPendingHostKey_def withKnownHostsLock_def knownhosts_New_def appendKnownHost_def
        write_known_def appended_def maxKnownHostsSize_def demo_lib_def demo_kenv_def demo_pending_def HasPrefix_def is_target_def
        TrimRight_def)
  moreover have "\<not> list_ex (is_target ''mac K'') (Split1 ''nas Q'' newline)" by code_simp
  ultimately show ?thesis using pin_rollback [OF c, of demo_kenv] c
    by (auto simp: line demo_kenv_def terminated_def)
qed

section \<open>Trust on first use\<close>

text \<open>Trust on first use, once: if the library honours an appended line (it trusts that key for that host and reports any other key of the host as changed), then after an unknown key has been accepted and recorded, the same key is accepted without any permission, and every other key for the host is refused as a mismatch with the file untouched, even when accepting new keys is allowed.\<close>

theorem trust_on_first_use:
  assumes first: "verifyHostKeyLocked db lib env path True expected None host remote key file = (file', p, None)"
    and unknown: "kl_check lib file host remote key \<noteq> None"
    and honoured: "kl_new lib (appended lib host key file) = None"
      "kl_check lib (appended lib host key file) host remote key = None"
      "\<And>other. other \<noteq> key \<Longrightarrow> \<exists>verr w ws. kl_check lib (appended lib host key file) host remote other = Some verr
         \<and> key_error_of verr = Some (w # ws)"
    and env': "ke_open env' = None"
  shows "verifyHostKeyLocked db lib env' path False [] None host remote key file' = (file', None, None)
    \<and> (other \<noteq> key \<longrightarrow> (\<exists>e. verifyHostKeyLocked db lib env' path acceptNew [] None host remote other file'
        = (file', None, Some e) \<and> err_is e ErrHostKeyMismatch))"
proof -
  have file': "file' = appended lib host key file" using host_key_verdict [OF first] unknown by auto
  then have read: "knownhosts_New lib env' file' = Inr (kl_check lib file')"
    using honoured(1) env' by (simp add: knownhosts_New_def)
  have "verifyHostKeyLocked db lib env' path False [] None host remote key file' = (file', None, None)"
    using read honoured(2) file' by (simp add: verifyHostKeyLocked_def Let_def)
  moreover have "\<exists>e. verifyHostKeyLocked db lib env' path acceptNew [] None host remote other file'
        = (file', None, Some e) \<and> err_is e ErrHostKeyMismatch" if "other \<noteq> key"
    using read honoured(3) [OF that] file' by (auto simp: verifyHostKeyLocked_def Let_def)
  ultimately show ?thesis by blast
qed

theorem trust_on_first_use_witness:
  "\<exists>e. verifyHostKeyLocked ascii_only_db demo_lib demo_kenv ''known_hosts'' True [] None ''mac'' ''10.0.0.5:22'' ''L''
      (''mac K'' @ [newline]) = (''mac K'' @ [newline], None, Some e) \<and> err_is e ErrHostKeyMismatch"
proof -
  have app: "appended demo_lib ''mac'' ''K'' [] = ''mac K'' @ [newline]" by (simp add: appended_def demo_lib_def)
  have first: "verifyHostKeyLocked ascii_only_db demo_lib demo_kenv ''known_hosts'' True [] None ''mac'' ''10.0.0.5:22'' ''K'' []
      = (''mac K'' @ [newline], None, None)"
    by (simp add: verifyHostKeyLocked_def knownhosts_New_def appendKnownHost_def write_known_def appended_def
        maxKnownHostsSize_def demo_lib_def demo_kenv_def HasPrefix_def is_target_def TrimRight_def)
  have "\<exists>verr w ws. kl_check demo_lib (''mac K'' @ [newline]) ''mac'' ''10.0.0.5:22'' other = Some verr
      \<and> key_error_of verr = Some (w # ws)" if "other \<noteq> ''K''" for other
    using that by (simp add: demo_lib_def HasPrefix_def is_target_def TrimRight_def)
  moreover have "kl_check demo_lib (''mac K'' @ [newline]) ''mac'' ''10.0.0.5:22'' ''K'' = None"
    "kl_new demo_lib (''mac K'' @ [newline]) = None" "kl_check demo_lib [] ''mac'' ''10.0.0.5:22'' ''K'' \<noteq> None"
    "ke_open demo_kenv = None"
    by (simp_all add: demo_lib_def demo_kenv_def is_target_def TrimRight_def)
  ultimately show ?thesis
    using trust_on_first_use [OF first, of demo_kenv "''L''" True] app by simp
qed

section \<open>The client\<close>

text \<open>Verification is off only on explicit request, and that request excludes accepting new keys.\<close>

lemma newSSHClient_verifies:
  assumes "newSSHClient db lib env aenv dir insecure acceptNew ids timeout file = Inr c"
  shows "csVerify c = None \<longleftrightarrow> insecure" "\<not> (insecure \<and> acceptNew)" "0 < csDialTimeout c"
  using assms
  by (auto simp: newSSHClient_def Let_def defaultDialTimeout_def second_def split: if_splits sum.splits)

text \<open>A key is offered at most once, identity files before the keys of the agent.\<close>

lemma unique_signers_set: "set (unique_signers seen ks) = set ks - set seen"
  by (induction seen ks rule: unique_signers.induct) auto

lemma unique_signers_distinct: "distinct (unique_signers seen ks)"
  by (induction seen ks rule: unique_signers.induct) (auto simp: unique_signers_set)

lemma loadSigners_keys:
  assumes "loadSigners db env ids = Inr ks"
  shows "distinct ks \<and> set (ag_agent env) \<subseteq> set ks"
  using assms by (auto simp: loadSigners_def Let_def unique_signers_set unique_signers_distinct split: sum.splits)

end
