(* ===== verification/Scan.thy ===== *)
theory Scan
  imports Hostkey
begin

text \<open>
  The active scan (\<open>cmd/fv-ssh-unlock/scan.go\<close>): which addresses a list of IPv4 blocks stands for, the
  password-free probe of one address, the identification line read from a connection, the pool of
  workers, and the names of configured devices whose pinned key a server presents. An IPv4 address is
  its number, below \<open>2 ^ 32\<close>.
\<close>

section \<open>Options\<close>

definition maxScanAddresses :: nat where "maxScanAddresses = 4096"
definition defaultScanUser :: string where "defaultScanUser = ''fv-ssh-probe''"

definition validateScanUser :: "string \<Rightarrow> goerr option" where
  "validateScanUser user =
     (if user = [] \<or> TrimSpace user \<noteq> user \<or> 256 < length user then
        Some (ErrText ''--user must be a non-empty SSH username of at most 256 bytes with no surrounding whitespace'')
      else if list_ex is_control (runes user) then
        Some (ErrText ''--user must not contain control characters'')
      else None)"

text \<open>The checks of the command before it expands the blocks.\<close>

definition scan_options_err :: "string list \<Rightarrow> int \<Rightarrow> duration \<Rightarrow> int \<Rightarrow> string \<Rightarrow> goerr option" where
  "scan_options_err cidrs port timeout concurrency user =
     (if cidrs = [] then Some (ErrText ''at least one --cidr is required'')
      else if port < 1 \<or> 65535 < port then Some (ErrText ''--port must be between 1 and 65535'')
      else if timeout \<le> 0 then Some (ErrText ''--timeout must be greater than zero'')
      else if concurrency < 1 \<or> maxScanConcurrency < concurrency then
        Some (ErrText (''--concurrency must be between 1 and '' @ decimal_int maxScanConcurrency))
      else validateScanUser user)"

section \<open>Prefixes\<close>

text \<open>\<open>netip.ParsePrefix\<close>: the address before the last slash and the bits behind it.\<close>

datatype ip_prefix = Prefix4 nat nat | Prefix6

definition ip4_number :: "nat list \<Rightarrow> nat" where
  "ip4_number octets = foldl (\<lambda>v k. v * 256 + k) 0 octets"

definition parse_bits :: "string \<Rightarrow> nat option" where
  "parse_bits s =
     (if s = [] \<or> 1 < length s \<and> \<not> (is_digit (hd s) \<and> hd s \<noteq> CHR ''0'') \<or> \<not> list_all is_digit s then None
      else Some (foldl (\<lambda>v c. v * 10 + digit_val c) 0 s))"

definition ParsePrefix :: "string \<Rightarrow> ip_prefix option" where
  "ParsePrefix s =
     (if CHR ''/'' \<notin> set s then None
      else
        let bitsStr = rev (takeWhile (\<lambda>c. c \<noteq> CHR ''/'') (rev s));
            ip = take (length s - length bitsStr - 1) s in
        if \<not> ParseAddr_ok ip then None
        else case parse_bits bitsStr of
          None \<Rightarrow> None
        | Some bits \<Rightarrow>
          (case parseIPv4 ip of
             Some octets \<Rightarrow> if 32 < bits then None else Some (Prefix4 (ip4_number octets) bits)
           | None \<Rightarrow> if CHR ''%'' \<in> set ip \<or> 128 < bits then None else Some Prefix6))"

definition Masked :: "nat \<Rightarrow> nat \<Rightarrow> nat" where
  "Masked a bits = a - a mod 2 ^ (32 - bits)"

definition prefix_Contains :: "nat \<Rightarrow> nat \<Rightarrow> nat \<Rightarrow> bool" where
  "prefix_Contains net bits a \<longleftrightarrow> a div 2 ^ (32 - bits) = net div 2 ^ (32 - bits)"

text \<open>The loop over \<open>addr.Next()\<close>, which is invalid after the last address.\<close>

function enum_prefix :: "nat \<Rightarrow> nat \<Rightarrow> nat \<Rightarrow> nat list" where
  "enum_prefix net bits a =
     (if a < 2 ^ 32 \<and> prefix_Contains net bits a then a # enum_prefix net bits (Suc a) else [])"
  by pat_completeness auto
termination by (relation "measure (\<lambda>(net, bits, a). 2 ^ 32 - a)") auto

declare enum_prefix.simps [simp del]

definition usable_addresses :: "nat \<Rightarrow> nat \<Rightarrow> nat list" where
  "usable_addresses net bits =
     (let all = enum_prefix net bits net in
      if bits \<le> 30 \<and> 2 \<le> length all then butlast (tl all) else all)"

fun add_unique :: "nat list \<Rightarrow> nat list \<Rightarrow> goerr + nat list" where
  "add_unique [] found = Inr found"
| "add_unique (a # as) found =
     (let found' = (if a \<in> set found then found else found @ [a]) in
      if maxScanAddresses < length found' then
        Inl (ErrText (''combined --cidr inputs exceed the '' @ decimal maxScanAddresses @ ''-address limit''))
      else add_unique as found')"

text \<open>\<open>perr\<close> is the error of \<open>netip.ParsePrefix\<close> on a text it refuses.\<close>

fun expand_loop :: "unicode_db \<Rightarrow> (string \<Rightarrow> goerr) \<Rightarrow> string list \<Rightarrow> nat list \<Rightarrow> goerr + nat list" where
  "expand_loop db perr [] found = Inr found"
| "expand_loop db perr (input # inputs) found =
     (case ParsePrefix (TrimSpace input) of
        None \<Rightarrow> Inl (errorf (''invalid --cidr '' @ Quote db input) (perr (TrimSpace input)))
      | Some Prefix6 \<Rightarrow> Inl (ErrText (''--cidr '' @ Quote db input @
          '' is not IPv4; exhaustive IPv6 scanning is not supported''))
      | Some (Prefix4 a bits) \<Rightarrow>
          if 12 < 32 - bits then
            Inl (ErrText (''--cidr '' @ Quote db input @ '' contains more than '' @ decimal maxScanAddresses @
              '' addresses; use a /20 or smaller range''))
          else case add_unique (usable_addresses (Masked a bits) bits) found of
            Inl err \<Rightarrow> Inl err
          | Inr found' \<Rightarrow> expand_loop db perr inputs found')"

definition expandScanCIDRs :: "unicode_db \<Rightarrow> (string \<Rightarrow> goerr) \<Rightarrow> string list \<Rightarrow> goerr + nat list" where
  "expandScanCIDRs db perr inputs =
     (case expand_loop db perr inputs [] of
        Inl err \<Rightarrow> Inl err
      | Inr found \<Rightarrow>
        if found = [] then Inl (ErrText ''the requested CIDR contains no usable addresses'')
        else Inr (sort found))"

section \<open>The identification line\<close>

definition softwareVersion :: "string \<Rightarrow> string" where
  "softwareVersion identification =
     (let s = TrimSpace identification in
      if HasPrefix s ''SSH-2.0-'' then TrimPrefix s ''SSH-2.0-'' else s)"

record capture_conn =
  ccPrefix :: string
  ccVersion :: string

definition captureLimit :: nat where "captureLimit = 8192"

text \<open>The first complete line that is an identification.\<close>

definition ssh_line :: "string \<Rightarrow> string option" where
  "ssh_line text = List.find (\<lambda>l. HasPrefix l ''SSH-'') (map TrimSpace (butlast (Split1 text newline)))"

definition capture :: "string \<Rightarrow> capture_conn \<Rightarrow> capture_conn" where
  "capture p c =
     (if ccVersion c \<noteq> [] \<or> captureLimit \<le> length (ccPrefix c) then c
      else
        let text = ccPrefix c @ take (captureLimit - length (ccPrefix c)) p in
        case ssh_line text of
          None \<Rightarrow> c\<lparr>ccPrefix := text\<rparr>
        | Some line \<Rightarrow> c\<lparr>ccPrefix := text, ccVersion := softwareVersion line\<rparr>)"

definition new_capture :: capture_conn where
  "new_capture = \<lparr>ccPrefix = [], ccVersion = []\<rparr>"

section \<open>The probe of one address\<close>

record scan_finding =
  sfAddress :: nat
  sfPort :: int
  sfVersion :: string
  sfKeyType :: string
  sfFingerprint :: string
  sfMatch :: string
  sfEvidence :: string
  sfDetail :: string

datatype scan_event = ScanBanner string | ScanChallenge string "string list" "bool list"

record scan_trace =
  stText :: string
  stPrompt :: bool

text \<open>
  What a server does with a probe: the key it presents, the messages that reach the callbacks, the
  bytes read, the version of an established connection, and the error of the handshake. \<open>None\<close> is a
  port that does not answer.
\<close>

record scan_server =
  ssKey :: "(string \<times> string) option"
  ssEvents :: "scan_event list"
  ssChunks :: "string list"
  ssVersion :: "string option"
  ssError :: "goerr option"

definition errScanProbeStop :: goerr where
  "errScanProbeStop = ErrText ''scan probe: not answering authentication challenge''"

definition trace_add :: "string \<Rightarrow> scan_trace \<Rightarrow> scan_trace" where
  "trace_add v t = (if v = [] then t else t\<lparr>stText := stText t @ v @ [newline]\<rparr>)"

definition scan_callback :: "unicode_db \<Rightarrow> scan_event \<Rightarrow> scan_trace \<Rightarrow> scan_trace \<times> reply" where
  "scan_callback db ev t =
     (case ev of
        ScanBanner msg \<Rightarrow> (trace_add msg t, Proceed)
      | ScanChallenge instruction questions echos \<Rightarrow>
        let t1 = fold trace_add questions (trace_add instruction t) in
        (if length questions = 1 \<and> length echos = 1 \<and> \<not> hd echos \<and>
            EqualFold db (TrimSpace (hd questions)) ''Password:''
         then t1\<lparr>stPrompt := True\<rparr> else t1, Abort errScanProbeStop))"

fun scan_run :: "unicode_db \<Rightarrow> scan_event list \<Rightarrow> scan_trace \<Rightarrow> scan_trace \<times> reply list" where
  "scan_run db [] t = (t, [])"
| "scan_run db (ev # evs) t =
     (let (t1, r) = scan_callback db ev t; (t2, rs) = scan_run db evs t1 in (t2, r # rs))"

definition scan_evidence :: "unicode_db \<Rightarrow> scan_trace \<Rightarrow> string \<Rightarrow> string \<Rightarrow> string" where
  "scan_evidence db t ver fingerprint =
     (if IsFileVaultLockedBanner db (stText t) then ''FileVault locked banner''
      else if stPrompt t then ''Password prompt; state indeterminate''
      else if ver \<noteq> [] \<or> fingerprint \<noteq> [] then ''SSH; no FileVault banner''
      else ''TCP open; no SSH identification'')"

definition probeScanTarget ::
    "unicode_db \<Rightarrow> (nat \<Rightarrow> scan_server option) \<Rightarrow> nat \<Rightarrow> int \<Rightarrow> (scan_finding \<times> reply list) option" where
  "probeScanTarget db net address port =
     (case net address of
        None \<Rightarrow> None
      | Some srv \<Rightarrow>
        let (t, replies) = scan_run db (ssEvents srv) \<lparr>stText = [], stPrompt = False\<rparr>;
            v0 = (case ssVersion srv of None \<Rightarrow> [] | Some v \<Rightarrow> softwareVersion v);
            ver = (if v0 = [] then ccVersion (fold capture (ssChunks srv) new_capture) else v0);
            fp = (case ssKey srv of None \<Rightarrow> [] | Some (_, f) \<Rightarrow> f) in
        Some (\<lparr>sfAddress = address, sfPort = port, sfVersion = ver,
                sfKeyType = (case ssKey srv of None \<Rightarrow> [] | Some (k, _) \<Rightarrow> k), sfFingerprint = fp,
                sfMatch = ''-'', sfEvidence = scan_evidence db t ver fp,
                sfDetail = (case ssError srv of None \<Rightarrow> [] | Some err \<Rightarrow> err_msg err)\<rparr>, replies))"

section \<open>The pool of workers\<close>

definition scan_finding_of ::
    "unicode_db \<Rightarrow> (nat \<Rightarrow> scan_server option) \<Rightarrow> int \<Rightarrow> string list gomap \<Rightarrow> nat \<Rightarrow> scan_finding option" where
  "scan_finding_of db net port pinned address =
     (case probeScanTarget db net address port of
        None \<Rightarrow> None
      | Some (f, _) \<Rightarrow>
        (case map_of pinned (sfFingerprint f) of
           Some names \<Rightarrow> if names \<noteq> [] then Some (f\<lparr>sfMatch := Join names '',''\<rparr>) else Some f
         | None \<Rightarrow> Some f))"

text \<open>
  The goroutines of \<open>collectActiveScan\<close>: the feeder hands the addresses over one by one through the channel
  \<open>jobs\<close>, which has no buffer, until it has none left or sees the context ended, and closes the channel; a
  worker takes an address, probes it, and sends what it found into the channel \<open>findings\<close>, of capacity
  \<open>cap\<close>; it ends when \<open>jobs\<close> is closed; when all have ended, \<open>findings\<close> is closed; the caller receives until
  then. Each rule is one communication or one probe, in any order; the context can end at any time, and a
  probe behind that may find anything. \<open>plDone\<close> records the addresses that were probed.
\<close>

datatype scan_worker = Receiving | Probing nat | Sending scan_finding | Ended

record scan_pool =
  plFeed :: "nat list"
  plFeeding :: bool
  plWorkers :: "scan_worker list"
  plBuffer :: "scan_finding list"
  plClosed :: bool
  plFound :: "scan_finding list"
  plCtx :: "goerr option"
  plDone :: "nat list"

definition scan_start :: "int \<Rightarrow> nat list \<Rightarrow> goerr option \<Rightarrow> scan_pool" where
  "scan_start concurrency addresses ctxErr =
     \<lparr>plFeed = addresses, plFeeding = True,
      plWorkers = replicate (nat (min concurrency (int (length addresses)))) Receiving,
      plBuffer = [], plClosed = False, plFound = [], plCtx = ctxErr, plDone = []\<rparr>"

inductive scan_step :: "(nat \<Rightarrow> scan_finding option) \<Rightarrow> nat \<Rightarrow> scan_pool \<Rightarrow> scan_pool \<Rightarrow> bool"
  for probe :: "nat \<Rightarrow> scan_finding option" and cap :: nat where
  hand_over: "plFeeding s \<Longrightarrow> plFeed s = a # rest \<Longrightarrow> i < length (plWorkers s) \<Longrightarrow> plWorkers s ! i = Receiving \<Longrightarrow>
    scan_step probe cap s (s\<lparr>plFeed := rest, plWorkers := (plWorkers s)[i := Probing a]\<rparr>)"
| feed_cancelled: "plFeeding s \<Longrightarrow> plCtx s \<noteq> None \<Longrightarrow> scan_step probe cap s (s\<lparr>plFeeding := False\<rparr>)"
| feed_done: "plFeeding s \<Longrightarrow> plFeed s = [] \<Longrightarrow> scan_step probe cap s (s\<lparr>plFeeding := False\<rparr>)"
| probed: "i < length (plWorkers s) \<Longrightarrow> plWorkers s ! i = Probing a \<Longrightarrow> r = probe a \<or> plCtx s \<noteq> None \<Longrightarrow>
    scan_step probe cap s (s\<lparr>plWorkers := (plWorkers s)[i := (case r of None \<Rightarrow> Receiving | Some f \<Rightarrow> Sending f)],
      plDone := plDone s @ [a]\<rparr>)"
| send: "i < length (plWorkers s) \<Longrightarrow> plWorkers s ! i = Sending f \<Longrightarrow> length (plBuffer s) < cap \<Longrightarrow>
    scan_step probe cap s (s\<lparr>plWorkers := (plWorkers s)[i := Receiving], plBuffer := plBuffer s @ [f]\<rparr>)"
| receive: "plBuffer s = f # rest \<Longrightarrow> scan_step probe cap s (s\<lparr>plBuffer := rest, plFound := plFound s @ [f]\<rparr>)"
| worker_ends: "i < length (plWorkers s) \<Longrightarrow> plWorkers s ! i = Receiving \<Longrightarrow> \<not> plFeeding s \<Longrightarrow>
    scan_step probe cap s (s\<lparr>plWorkers := (plWorkers s)[i := Ended]\<rparr>)"
| close_findings: "\<not> plClosed s \<Longrightarrow> \<forall>w \<in> set (plWorkers s). w = Ended \<Longrightarrow> scan_step probe cap s (s\<lparr>plClosed := True\<rparr>)"
| context_ends: "plCtx s = None \<Longrightarrow> scan_step probe cap s (s\<lparr>plCtx := Some err\<rparr>)"

definition scan_finished :: "scan_pool \<Rightarrow> bool" where
  "scan_finished s \<longleftrightarrow> plClosed s \<and> plBuffer s = []"

definition scan_result :: "scan_pool \<Rightarrow> goerr + scan_finding list" where
  "scan_result s = (case plCtx s of Some err \<Rightarrow> Inl err | None \<Rightarrow> Inr (sort_key sfAddress (plFound s)))"

text \<open>
  What \<open>collectActiveScan\<close> returns, as a function; \<open>scan_schedule_independent\<close> shows that every run of the pool
  returns it.
\<close>

definition collectActiveScan ::
    "unicode_db \<Rightarrow> (nat \<Rightarrow> scan_server option) \<Rightarrow> int \<Rightarrow> string list gomap \<Rightarrow> goerr option \<Rightarrow> nat list
      \<Rightarrow> goerr + scan_finding list" where
  "collectActiveScan db net port pinned ctxErr addresses =
     (case ctxErr of
        Some err \<Rightarrow> Inl err
      | None \<Rightarrow> Inr (sort_key sfAddress (List.map_filter (scan_finding_of db net port pinned) addresses)))"

section \<open>Pinned targets\<close>

text \<open>
  \<open>norm_host\<close> is \<open>knownhosts.Normalize\<close>, \<open>parse_key\<close> the fingerprint of the key that
  \<open>ssh.ParseAuthorizedKey\<close> finds.
\<close>

definition endpoint_names :: "unicode_db \<Rightarrow> (string \<Rightarrow> string) \<Rightarrow> cdevice list \<Rightarrow> string \<Rightarrow> string list" where
  "endpoint_names db norm_host devs endpoint =
     map cName (filter (\<lambda>d. ToLower db (norm_host (deviceEndpoint d)) = endpoint) devs)"

definition pinned_line ::
    "unicode_db \<Rightarrow> (string \<Rightarrow> string) \<Rightarrow> (string \<Rightarrow> string option) \<Rightarrow> cdevice list \<Rightarrow> string
      \<Rightarrow> (string \<times> string list) option" where
  "pinned_line db norm_host parse_key devs raw =
     (let line = TrimSpace raw; fields = Fields line in
      if line = [] \<or> HasPrefix line ''#'' then None
      else if length fields < 3 \<or> HasPrefix (hd fields) ''@'' then None
      else case parse_key (Join (tl fields) '' '') of
        None \<Rightarrow> None
      | Some fp \<Rightarrow>
        let names = concat (map (\<lambda>host. endpoint_names db norm_host devs (ToLower db host))
                      (Split1 (hd fields) (CHR '',''))) in
        if names = [] then None else Some (fp, names))"

fun add_match :: "string list \<Rightarrow> string list \<Rightarrow> string list" where
  "add_match [] found = found"
| "add_match (n # ns) found = add_match ns (if n \<in> set found then found else found @ [n])"

fun pinned_matches :: "(string \<times> string list) option list \<Rightarrow> string list gomap \<Rightarrow> string list gomap" where
  "pinned_matches [] m = m"
| "pinned_matches (None # ls) m = pinned_matches ls m"
| "pinned_matches (Some (fp, names) # ls) m =
     pinned_matches ls (AList.update fp (add_match names (case map_of m fp of None \<Rightarrow> [] | Some v \<Rightarrow> v)) m)"

definition matchPinnedTargetNames ::
    "unicode_db \<Rightarrow> (string \<Rightarrow> string) \<Rightarrow> (string \<Rightarrow> string option) \<Rightarrow> string \<Rightarrow> cdevice list \<Rightarrow> string list gomap" where
  "matchPinnedTargetNames db norm_host parse_key data devs =
     map (\<lambda>(fp, names). (fp, sort names))
       (pinned_matches (map (pinned_line db norm_host parse_key devs) (Split1 data newline)) [])"

definition loadPinnedTargetNames ::
    "unicode_db \<Rightarrow> (string \<Rightarrow> string) \<Rightarrow> (string \<Rightarrow> string option) \<Rightarrow> goerr + cdevice list \<Rightarrow> goerr + string
      \<Rightarrow> goerr + string list gomap" where
  "loadPinnedTargetNames db norm_host parse_key loaded content =
     (case loaded of
        Inl err \<Rightarrow> Inl err
      | Inr devs \<Rightarrow>
        (case content of
           Inl err \<Rightarrow> if err_is err NotExist then Inr [] else Inl err
         | Inr data \<Rightarrow> Inr (matchPinnedTargetNames db norm_host parse_key data devs)))"

end
