(* ===== verification/Scan_Facts.thy ===== *)
theory Scan_Facts
  imports Scan
begin

text \<open>
  What the scan promises: it visits exactly the usable hosts of the requested blocks, reads the
  identification line whatever the fragments of the connection, never answers a challenge, reports the
  same findings in whatever order the workers deliver them, and names a device only for a key pinned
  to its endpoint.
\<close>

section \<open>Blocks\<close>

text \<open>The hosts of a block: for a conventional prefix neither the network nor the broadcast address.\<close>

definition block_hosts :: "nat \<Rightarrow> nat \<Rightarrow> nat set" where
  "block_hosts a bits =
     (let size = 2 ^ (32 - bits); net = a div size * size in
      if bits \<le> 30 then {net<..<net + size - 1} else {net..<net + size})"

lemma ipv4_scan_octets:
  assumes "ipv4_scan dot octets v n s = Some r" "length octets \<le> 3" "v \<le> 255" "\<forall>k \<in> set octets. k \<le> 255"
  shows "length r = 4 \<and> (\<forall>k \<in> set r. k \<le> 255)"
  using assms
proof (induction dot octets v n s rule: ipv4_scan.induct)
  case (1 dot octets v n)
  from 1(1) have "octets @ [v] = r" "\<not> length octets < 3" by (simp_all split: if_splits)
  with 1 show ?case by auto
next
  case (2 dot octets v n c s)
  show ?case
  proof (cases "is_digit c")
    case True
    with "2.prems"(1) have "\<not> (n = 1 \<and> v = 0)" "\<not> v * 10 + digit_val c > 255"
      "ipv4_scan False octets (v * 10 + digit_val c) (Suc n) s = Some r" by (simp_all add: Let_def split: if_splits)
    with True "2.IH"(1) "2.prems" show ?thesis by simp
  next
    case False
    with "2.prems" have "c = CHR ''.''" "\<not> (dot \<or> s = [])" "length octets \<noteq> 3"
      "ipv4_scan True (octets @ [v]) 0 0 s = Some r" by (simp_all split: if_splits)
    with False "2.IH"(2) "2.prems" show ?thesis by simp
  qed
qed

lemma ip4_number_bound:
  assumes "length octets = 4" "\<forall>k \<in> set octets. k \<le> 255"
  shows "ip4_number octets < 2 ^ 32"
proof -
  obtain p q r t where o: "octets = [p, q, r, t]" using assms(1) by (auto simp: numeral_eq_Suc length_Suc_conv)
  with assms(2) have "p \<le> 255" "q \<le> 255" "r \<le> 255" "t \<le> 255" by simp_all
  then show ?thesis by (simp add: o ip4_number_def)
qed

lemma ParsePrefix_bound:
  assumes "ParsePrefix s = Some (Prefix4 a bits)"
  shows "a < 2 ^ 32 \<and> bits \<le> 32"
proof -
  from assms obtain octets t where "parseIPv4 t = Some octets" "a = ip4_number octets" "bits \<le> 32"
    by (auto simp: ParsePrefix_def Let_def split: if_splits option.splits)
  then show ?thesis using ipv4_scan_octets [of True "[]" 0 0 t octets] ip4_number_bound
    by (auto simp: parseIPv4_def split: if_splits)
qed

lemma Masked_eq: "Masked a bits = a div 2 ^ (32 - bits) * 2 ^ (32 - bits)"
  by (simp add: Masked_def minus_mod_eq_div_mult)

lemma enum_prefix_eq:
  assumes "net = q * 2 ^ (32 - bits)" "net + 2 ^ (32 - bits) \<le> 2 ^ 32" "net \<le> a" "a \<le> net + 2 ^ (32 - bits)"
  shows "enum_prefix net bits a = [a..<net + 2 ^ (32 - bits)]"
  using assms
proof (induction net bits a rule: enum_prefix.induct)
  case (1 net bits a)
  let ?s = "2 ^ (32 - bits) :: nat"
  have "a div ?s = q \<longleftrightarrow> a < net + ?s"
  proof
    assume "a div ?s = q"
    then show "a < net + ?s" using "1.prems"(1) div_mult_mod_eq [of a ?s] mod_less_divisor [of ?s a]
      by (metis add_less_cancel_left zero_less_numeral zero_less_power)
  next
    assume "a < net + ?s"
    then show "a div ?s = q" using "1.prems"(1,3) by (intro div_nat_eqI) (simp_all add: mult.commute)
  qed
  then have "prefix_Contains net bits a \<longleftrightarrow> a < net + ?s" using "1.prems"(1) by (simp add: prefix_Contains_def)
  moreover have "a < 2 ^ 32" if "a < net + ?s" using "1.prems" that by simp
  ultimately have step: "enum_prefix net bits a = (if a < net + ?s then a # enum_prefix net bits (Suc a) else [])"
    and "a < 2 ^ 32 \<and> prefix_Contains net bits a \<longleftrightarrow> a < net + ?s"
    by (subst enum_prefix.simps, auto)
  with 1 show ?case by (auto simp: upt_conv_Cons)
qed

lemma butlast_upt: "butlast [m..<n] = [m..<n - 1]"
  by (cases n) (simp_all add: butlast_append)

lemma usable_addresses_hosts:
  assumes "a < 2 ^ 32" "bits \<le> 32"
  shows "set (usable_addresses (Masked a bits) bits) = block_hosts a bits" (is ?set)
    "distinct (usable_addresses (Masked a bits) bits)" (is ?dist)
proof -
  let ?s = "2 ^ (32 - bits) :: nat"
  let ?n = "a div ?s * ?s"
  have pow: "(2::nat) ^ 32 = 2 ^ bits * ?s" using assms(2) by (simp flip: power_add)
  then have "a div ?s < 2 ^ bits" using assms(1) by (simp add: less_mult_imp_div_less)
  then have "Suc (a div ?s) * ?s \<le> 2 ^ bits * ?s" by (intro mult_right_mono) auto
  then have fit: "?n + ?s \<le> 2 ^ 32" unfolding pow by simp
  have enum: "enum_prefix (Masked a bits) bits (Masked a bits) = [?n..<?n + ?s]"
    using enum_prefix_eq [OF refl fit] by (simp add: Masked_eq)
  show ?dist
    by (simp add: usable_addresses_def enum Let_def distinct_butlast distinct_tl)
  show ?set
  proof (cases "bits \<le> 30")
    case True
    then have big: "4 \<le> ?s" using power_increasing [of 2 "32 - bits" "2::nat"] by simp
    then have "butlast (tl [?n..<?n + ?s]) = [Suc ?n..<?n + ?s - 1]" by (simp add: butlast_upt)
    with True big show ?thesis by (auto simp: usable_addresses_def enum block_hosts_def Let_def)
  next
    case False
    then show ?thesis by (auto simp: usable_addresses_def enum block_hosts_def Let_def)
  qed
qed

text \<open>The loop over the blocks.\<close>

definition block_ok :: "string \<Rightarrow> bool" where
  "block_ok input \<longleftrightarrow> (\<exists>a bits. ParsePrefix (TrimSpace input) = Some (Prefix4 a bits) \<and> 20 \<le> bits)"

definition requested_hosts :: "string list \<Rightarrow> nat set" where
  "requested_hosts inputs =
     (\<Union>input \<in> set inputs. case ParsePrefix (TrimSpace input) of
        Some (Prefix4 a bits) \<Rightarrow> block_hosts a bits | _ \<Rightarrow> {})"

lemma requested_hosts_simps [simp]:
  "requested_hosts [] = {}"
  "requested_hosts (input # inputs) =
     (case ParsePrefix (TrimSpace input) of Some (Prefix4 a bits) \<Rightarrow> block_hosts a bits | _ \<Rightarrow> {}) \<union> requested_hosts inputs"
  by (simp_all add: requested_hosts_def)

lemma finite_block_hosts [simp]: "finite (block_hosts a bits)"
  by (simp add: block_hosts_def Let_def)

lemma finite_requested_hosts [simp]: "finite (requested_hosts inputs)"
  by (auto simp: requested_hosts_def split: option.splits ip_prefix.splits)

lemma add_unique_result:
  assumes "distinct found" "length found \<le> maxScanAddresses"
  shows "case add_unique as found of
      Inr r \<Rightarrow> distinct r \<and> length r \<le> maxScanAddresses \<and> set r = set as \<union> set found
    | Inl _ \<Rightarrow> maxScanAddresses < card (set as \<union> set found)"
  using assms
proof (induction as found rule: add_unique.induct)
  case (2 a as found)
  let ?f = "if a \<in> set found then found else found @ [a]"
  have f: "set ?f = insert a (set found)" "distinct ?f" using "2.prems"(1) by auto
  show ?case
  proof (cases "maxScanAddresses < length ?f")
    case True
    have "card (set ?f) \<le> card (set (a # as) \<union> set found)" by (intro card_mono) auto
    with True have "maxScanAddresses < card (set (a # as) \<union> set found)" using distinct_card [OF f(2)] by linarith
    with True show ?thesis by (simp only: add_unique.simps Let_def if_True sum.case)
  next
    case False
    then have "add_unique (a # as) found = add_unique as ?f" by (simp only: add_unique.simps Let_def if_False)
    moreover have "set as \<union> set ?f = set (a # as) \<union> set found" by auto
    ultimately show ?thesis using "2.IH" [OF refl False f(2)] False by (simp only: not_less)
  qed
qed simp

lemma expand_refuses:
  "(\<exists>e. expand_loop db perr (input # inputs) found = Inl e) \<and> \<not> block_ok input
   \<or> (\<exists>a bits. ParsePrefix (TrimSpace input) = Some (Prefix4 a bits) \<and> 20 \<le> bits)"
proof (cases "ParsePrefix (TrimSpace input)")
  case (Some r)
  then show ?thesis by (cases r) (auto simp: block_ok_def)
qed (simp add: block_ok_def)

lemma expand_block:
  assumes "ParsePrefix (TrimSpace input) = Some (Prefix4 a bits)" "20 \<le> bits"
  shows "expand_loop db perr (input # inputs) found =
    (case add_unique (usable_addresses (Masked a bits) bits) found of
       Inl e \<Rightarrow> Inl e | Inr found' \<Rightarrow> expand_loop db perr inputs found')"
proof -
  from assms(2) have "\<not> 12 < 32 - bits" by simp
  with assms(1) show ?thesis by (simp del: not_less)
qed

lemma expand_loop_result:
  assumes "distinct found" "length found \<le> maxScanAddresses"
  shows "case expand_loop db perr inputs found of
      Inr r \<Rightarrow> distinct r \<and> length r \<le> maxScanAddresses \<and> set r = requested_hosts inputs \<union> set found \<and> list_all block_ok inputs
    | Inl _ \<Rightarrow> \<not> list_all block_ok inputs \<or> maxScanAddresses < card (requested_hosts inputs \<union> set found)"
  using assms
proof (induction inputs arbitrary: found)
  case (Cons input inputs)
  consider (bad) e where "expand_loop db perr (input # inputs) found = Inl e" "\<not> block_ok input"
    | (block) a bits where "ParsePrefix (TrimSpace input) = Some (Prefix4 a bits)" "20 \<le> bits"
    using expand_refuses by blast
  then show ?case
  proof cases
    case block
    let ?us = "usable_addresses (Masked a bits) bits"
    note us = usable_addresses_hosts(1) [of a bits]
    from block have ok: "block_ok input" "set ?us = block_hosts a bits"
      using ParsePrefix_bound us by (auto simp: block_ok_def)
    note au = add_unique_result [OF Cons.prems, of ?us]
    show ?thesis
    proof (cases "add_unique ?us found")
      case (Inl e)
      have "card (set ?us \<union> set found) \<le> card (requested_hosts (input # inputs) \<union> set found)"
        using block ok by (intro card_mono) auto
      with Inl au show ?thesis by (simp add: expand_block [OF block] del: expand_loop.simps)
    next
      case (Inr r)
      with au have r: "distinct r" "length r \<le> maxScanAddresses" "set r = set ?us \<union> set found" by auto
      have "requested_hosts inputs \<union> set r = requested_hosts (input # inputs) \<union> set found"
        using block ok r(3) by auto
      with Cons.IH [OF r(1,2)] Inr ok show ?thesis
        by (simp add: expand_block [OF block] del: expand_loop.simps requested_hosts_simps split: sum.splits)
    qed
  qed (simp del: expand_loop.simps)
qed simp

text \<open>C36. The scan visits exactly what was asked for: expanding a list of CIDR blocks succeeds if and only if every text is an IPv4 block of at most 4096 addresses (a /20 or smaller), the blocks together have at least one and at most 4096 usable hosts, and then the result is the strictly ascending list of precisely those hosts, where a block of prefix length at most 30 contributes neither its network nor its broadcast address.\<close>

theorem scan_addresses_exact:
  "case expandScanCIDRs db perr inputs of
     Inr as \<Rightarrow> as = sorted_list_of_set (requested_hosts inputs) \<and> list_all block_ok inputs
       \<and> requested_hosts inputs \<noteq> {} \<and> card (requested_hosts inputs) \<le> maxScanAddresses
   | Inl _ \<Rightarrow> \<not> (list_all block_ok inputs
       \<and> requested_hosts inputs \<noteq> {} \<and> card (requested_hosts inputs) \<le> maxScanAddresses)"
proof (cases "expand_loop db perr inputs []")
  case (Inl e)
  then have "expandScanCIDRs db perr inputs = Inl e" by (simp add: expandScanCIDRs_def)
  with Inl show ?thesis using expand_loop_result [of "[]" inputs db perr] by (auto simp: not_le)
next
  case (Inr r)
  then have r: "distinct r" "length r \<le> maxScanAddresses" "set r = requested_hosts inputs" "list_all block_ok inputs"
    using expand_loop_result [of "[]" inputs db perr] by simp_all
  have card: "card (requested_hosts inputs) \<le> maxScanAddresses" using r(2) distinct_card [OF r(1)] by (simp add: r(3))
  show ?thesis
  proof (cases "r = []")
    case True
    with r Inr show ?thesis by (simp add: expandScanCIDRs_def)
  next
    case False
    with Inr have res: "expandScanCIDRs db perr inputs = Inr (sort r)" by (simp add: expandScanCIDRs_def)
    from False r(3) have "requested_hosts inputs \<noteq> {}" by auto
    moreover have "sort r = sorted_list_of_set (requested_hosts inputs)"
      using r(1) by (simp add: sorted_list_of_set_sort_remdups distinct_remdups_id flip: r(3))
    ultimately show ?thesis using card r(4) by (simp add: res)
  qed
qed

section \<open>The identification line\<close>

lemma Split1_prefix: "\<exists>ws. butlast (Split1 (t @ u) c) = butlast (Split1 t c) @ ws"
proof (induction t)
  case (Cons x t)
  obtain y ys where y: "Split1 t c = y # ys" by (meson Split1_Nil_iff neq_Nil_conv)
  obtain z zs where z: "Split1 (t @ u) c = z # zs" by (meson Split1_Nil_iff neq_Nil_conv)
  from Cons show ?case
    by (auto simp: y z)
qed simp

lemma find_append: "List.find P xs = Some x \<Longrightarrow> List.find P (xs @ ys) = Some x"
  by (induction xs) auto

lemma ssh_line_mono: "ssh_line t = Some l \<Longrightarrow> ssh_line (t @ u) = Some l"
proof -
  obtain ws where "butlast (Split1 (t @ u) newline) = butlast (Split1 t newline) @ ws"
    using Split1_prefix by blast
  moreover assume "ssh_line t = Some l"
  ultimately show ?thesis by (simp add: ssh_line_def find_append)
qed

text \<open>The version that a stretch of text identifies.\<close>

definition identified :: "string \<Rightarrow> string" where
  "identified text = (case ssh_line text of None \<Rightarrow> [] | Some l \<Rightarrow> softwareVersion l)"

lemma identified_mono: "identified t \<noteq> [] \<Longrightarrow> identified (t @ u) = identified t"
  by (auto simp: identified_def ssh_line_mono split: option.splits)

definition captured :: "string \<Rightarrow> capture_conn \<Rightarrow> bool" where
  "captured text c \<longleftrightarrow> ccVersion c = identified (take captureLimit text) \<and>
     (ccVersion c = [] \<longrightarrow> ccPrefix c = take captureLimit text)"

lemma capture_step: "captured text c \<Longrightarrow> captured (text @ p) (capture p c)"
proof (cases "ccVersion c \<noteq> [] \<or> captureLimit \<le> length (ccPrefix c)")
  case True
  assume c: "captured text c"
  show ?thesis
  proof (cases "captureLimit \<le> length text")
    case True
    with c \<open>ccVersion c \<noteq> [] \<or> captureLimit \<le> length (ccPrefix c)\<close> show ?thesis by (simp add: captured_def capture_def)
  next
    case False
    with True c have "ccVersion c \<noteq> []" by (auto simp: captured_def)
    with True c show ?thesis by (simp add: captured_def capture_def identified_mono)
  qed
next
  case False
  moreover assume "captured text c"
  moreover from this False have "take captureLimit (text @ p) = ccPrefix c @ take (captureLimit - length (ccPrefix c)) p"
    by (auto simp: captured_def)
  ultimately show ?thesis
    by (auto simp: captured_def capture_def identified_def Let_def split: option.splits)
qed

lemma capture_fold: "captured sofar c \<Longrightarrow> captured (sofar @ concat ps) (fold capture ps c)"
proof (induction ps arbitrary: sofar c)
  case (Cons p ps)
  from Cons.IH [OF capture_step [OF Cons.prems]] show ?case by simp
qed simp

lemma new_captured: "captured [] new_capture"
  by (simp add: captured_def new_capture_def identified_def ssh_line_def)

text \<open>The identification captured from a connection does not depend on how the network cuts the stream: after any sequence of reads it is the software version of the first complete line beginning with SSH- among the first 8192 bytes of the concatenated stream, and empty exactly if those bytes hold no such line (or the line carries no version); a line whose end has not arrived is never classified.\<close>

theorem identification_fragmentation:
  "ccVersion (fold capture ps new_capture) = identified (take captureLimit (concat ps))"
  using capture_fold [OF new_captured] by (simp add: captured_def)

section \<open>The probe\<close>

lemma scan_callback_reply: "snd (scan_callback db ev t) \<in> {Proceed, Abort errScanProbeStop}"
  by (cases ev) (simp_all add: scan_callback_def Let_def)

lemma scan_run_replies: "set (snd (scan_run db evs t)) \<subseteq> {Proceed, Abort errScanProbeStop}"
proof (induction evs arbitrary: t)
  case (Cons ev evs)
  then show ?case using scan_callback_reply [of db ev t]
    by (cases "scan_callback db ev t"; cases "scan_run db evs (fst (scan_callback db ev t))") (metis fst_conv insert_subset list.simps(15) scan_run.simps(2) case_prod_conv snd_conv Let_def)
qed simp

lemma probe_replies:
  assumes "probeScanTarget db net a port = Some (f, rs)"
  shows "set rs \<subseteq> {Proceed, Abort errScanProbeStop}"
proof -
  obtain srv where "net a = Some srv" using assms by (cases "net a") (simp_all add: probeScanTarget_def)
  with assms have "rs = snd (scan_run db (ssEvents srv) \<lparr>stText = [], stPrompt = False\<rparr>)"
    by (simp add: probeScanTarget_def Let_def split: prod.splits)
  then show ?thesis using scan_run_replies by simp
qed

section \<open>The pool\<close>

lemma finding_address: "scan_finding_of db net port pinned a = Some f \<Longrightarrow> sfAddress f = a \<and> sfPort f = port"
  by (auto simp: scan_finding_of_def probeScanTarget_def Let_def split: option.splits prod.splits if_splits)

lemma finding_open: "scan_finding_of db net port pinned a = None \<longleftrightarrow> net a = None"
  by (auto simp: scan_finding_of_def probeScanTarget_def Let_def split: option.splits prod.splits)

lemma map_filter_mset: "mset xs = mset ys \<Longrightarrow> mset (List.map_filter f xs) = mset (List.map_filter f ys)"
  by (simp add: List.map_filter_def)

lemma map_filter_image: "set (List.map_filter f xs) = {y. \<exists>x \<in> set xs. f x = Some y}"
  by (force simp: List.map_filter_def)

lemma open_addresses:
  "sfAddress ` set (List.map_filter (scan_finding_of db net port pinned) addresses) = {a \<in> set addresses. net a \<noteq> None}"
    (is "sfAddress ` ?found = ?open")
proof (intro subset_antisym subsetI)
  fix a assume "a \<in> sfAddress ` ?found"
  then obtain f x where "sfAddress f = a" "x \<in> set addresses" "scan_finding_of db net port pinned x = Some f"
    unfolding map_filter_image by blast
  then show "a \<in> ?open" using finding_address finding_open [of db net port pinned x] by force
next
  fix a assume a: "a \<in> ?open"
  then obtain f where f: "scan_finding_of db net port pinned a = Some f"
    using finding_open [of db net port pinned a] by auto
  with a have "f \<in> ?found" unfolding map_filter_image by (auto intro: bexI [of _ a])
  moreover have "a = sfAddress f" using finding_address [OF f] by simp
  ultimately show "a \<in> sfAddress ` ?found" by (rule rev_image_eqI)
qed

lemma findings_distinct:
  "distinct order \<Longrightarrow> distinct (map sfAddress (List.map_filter (scan_finding_of db net port pinned) order))"
proof (induction order)
  case (Cons a order)
  then show ?case
    by (cases "scan_finding_of db net port pinned a") (auto simp: map_filter_image dest!: finding_address)
qed simp




section \<open>Pinned targets\<close>

text \<open>The devices a known_hosts content pins to a key.\<close>

definition pins :: "unicode_db \<Rightarrow> (string \<Rightarrow> string) \<Rightarrow> (string \<Rightarrow> string option) \<Rightarrow> string \<Rightarrow> string \<Rightarrow> cdevice \<Rightarrow> bool" where
  "pins db norm_host parse_key fp line d \<longleftrightarrow>
     (let fields = Fields (TrimSpace line) in
      3 \<le> length fields \<and> \<not> HasPrefix (TrimSpace line) ''#'' \<and> \<not> HasPrefix (hd fields) ''@'' \<and>
      parse_key (Join (tl fields) '' '') = Some fp \<and>
      ToLower db (norm_host (deviceEndpoint d)) \<in> ToLower db ` set (Split1 (hd fields) (CHR '','')))"

definition pinned_devices ::
    "unicode_db \<Rightarrow> (string \<Rightarrow> string) \<Rightarrow> (string \<Rightarrow> string option) \<Rightarrow> string \<Rightarrow> cdevice list \<Rightarrow> string \<Rightarrow> string set" where
  "pinned_devices db norm_host parse_key data devs fp =
     {cName d |d line. d \<in> set devs \<and> line \<in> set (Split1 data newline) \<and> pins db norm_host parse_key fp line d}"

definition line_names :: "string \<Rightarrow> (string \<times> string list) option list \<Rightarrow> string set" where
  "line_names fp ls = {n. \<exists>ns. Some (fp, ns) \<in> set ls \<and> n \<in> set ns}"

lemma add_match_set: "set (add_match ns found) = set ns \<union> set found" "distinct found \<Longrightarrow> distinct (add_match ns found)"
  by (induction ns found rule: add_match.induct) auto

lemma add_match_Nil: "add_match ns found = [] \<longleftrightarrow> ns = [] \<and> found = []"
  using add_match_set(1) [of ns found] by (metis set_empty Un_empty)

definition matched :: "string list gomap \<Rightarrow> string \<Rightarrow> string list" where
  "matched m fp = (case map_of m fp of None \<Rightarrow> [] | Some v \<Rightarrow> v)"

lemma pinned_matches_set:
  "set (matched (pinned_matches ls m) fp) = line_names fp ls \<union> set (matched m fp)"
proof (induction ls m rule: pinned_matches.induct)
  case (3 fp' names ls m)
  then show ?case
    by (auto simp: line_names_def matched_def update_conv' add_match_set split: option.splits)
qed (auto simp: line_names_def)

lemma pinned_matches_distinct:
  assumes "\<And>fp. distinct (matched m fp)"
  shows "distinct (matched (pinned_matches ls m) fp)"
  using assms
proof (induction ls m rule: pinned_matches.induct)
  case (3 fp' names ls m)
  show ?case
  proof (simp only: pinned_matches.simps, rule "3.IH")
    show "distinct (matched (AList.update fp' (add_match names (case map_of m fp' of None \<Rightarrow> [] | Some v \<Rightarrow> v)) m) fp)" for fp
      using "3.prems" [of fp] "3.prems" [of fp'] by (simp add: matched_def update_conv' add_match_set)
  qed
qed simp_all

lemma pinned_matches_nonempty:
  assumes "\<And>fp ns. Some (fp, ns) \<in> set ls \<Longrightarrow> ns \<noteq> []" "\<And>fp. map_of m fp \<noteq> Some []"
  shows "map_of (pinned_matches ls m) fp \<noteq> Some []"
  using assms
proof (induction ls m rule: pinned_matches.induct)
  case (3 fp' names ls m)
  show ?case
  proof (simp only: pinned_matches.simps, rule "3.IH")
    show "ns \<noteq> []" if "Some (fp, ns) \<in> set ls" for fp ns using "3.prems"(1) that by auto
    show "map_of (AList.update fp' (add_match names (case map_of m fp' of None \<Rightarrow> [] | Some v \<Rightarrow> v)) m) fp \<noteq> Some []" for fp
      using "3.prems"(1) [of fp' names] "3.prems"(2) [of fp] by (simp add: update_conv' add_match_Nil)
  qed
qed auto

lemma names_of_hosts:
  "set (concat (map (\<lambda>host. endpoint_names db norm_host devs (ToLower db host)) hosts)) =
     {cName d |d. d \<in> set devs \<and> ToLower db (norm_host (deviceEndpoint d)) \<in> ToLower db ` set hosts}"
  by (induction hosts) (auto simp: endpoint_names_def)

lemma pinned_line_iff:
  assumes "pinned_line db norm_host parse_key devs raw = Some (fp, ns)"
  shows "ns \<noteq> [] \<and> set ns = {cName d |d. d \<in> set devs \<and> pins db norm_host parse_key fp raw d}"
proof -
  let ?fields = "Fields (TrimSpace raw)"
  have ns: "ns = concat (map (\<lambda>host. endpoint_names db norm_host devs (ToLower db host)) (Split1 (hd ?fields) (CHR '','')))"
      "ns \<noteq> []" and ok: "\<not> length ?fields < 3" "\<not> HasPrefix (TrimSpace raw) ''#''" "\<not> HasPrefix (hd ?fields) ''@''"
      "parse_key (Join (tl ?fields) '' '') = Some fp"
    using assms by (simp_all add: pinned_line_def Let_def del: concat_eq_Nil_conv split: if_splits option.splits)
  show ?thesis using ns(2) ok by (simp add: pins_def Let_def not_less ns(1) names_of_hosts del: set_concat)
qed

lemma pins_pinned_line:
  assumes "pins db norm_host parse_key fp raw d" "d \<in> set devs"
  shows "\<exists>ns. pinned_line db norm_host parse_key devs raw = Some (fp, ns)"
proof -
  let ?fields = "Fields (TrimSpace raw)"
  let ?ns = "concat (map (\<lambda>host. endpoint_names db norm_host devs (ToLower db host)) (Split1 (hd ?fields) (CHR '','')))"
  from assms(1) obtain host where h: "host \<in> set (Split1 (hd ?fields) (CHR '',''))"
    "ToLower db (norm_host (deviceEndpoint d)) = ToLower db host" by (auto simp: pins_def Let_def)
  with assms(2) have "cName d \<in> set ?ns" by (auto simp: endpoint_names_def)
  then have "?ns \<noteq> []" by force
  moreover have "TrimSpace raw \<noteq> []" "\<not> length ?fields < 3"
    using assms(1) by (auto simp: pins_def Let_def Fields_def)
  ultimately show ?thesis using assms(1) by (simp add: pinned_line_def pins_def Let_def)
qed

lemma line_names_devices:
  "line_names fp (map (pinned_line db norm_host parse_key devs) (Split1 data newline)) =
     pinned_devices db norm_host parse_key data devs fp" (is "?l = ?r")
proof (intro subset_antisym subsetI)
  fix n assume "n \<in> ?l"
  then obtain raw ns where "raw \<in> set (Split1 data newline)" "n \<in> set ns"
    "pinned_line db norm_host parse_key devs raw = Some (fp, ns)" by (fastforce simp: line_names_def)
  then show "n \<in> ?r" using pinned_line_iff [of db norm_host parse_key devs raw fp ns] by (auto simp: pinned_devices_def)
next
  fix n assume "n \<in> ?r"
  then obtain d raw where d: "n = cName d" "d \<in> set devs" "raw \<in> set (Split1 data newline)"
    "pins db norm_host parse_key fp raw d" by (auto simp: pinned_devices_def)
  obtain ns where ns: "pinned_line db norm_host parse_key devs raw = Some (fp, ns)"
    using pins_pinned_line [OF d(4,2)] by blast
  with d have "n \<in> set ns" using pinned_line_iff [OF ns] by auto
  moreover have "Some (fp, ns) \<in> set (map (pinned_line db norm_host parse_key devs) (Split1 data newline))"
    using ns d(3) by (metis image_eqI list.set_map)
  ultimately show "n \<in> ?l" by (auto simp: line_names_def)
qed

text \<open>A scan names a configured device for a presented key exactly if the known_hosts file holds an ordinary line (no comment, no marker) with that key whose host list contains the device's normalized endpoint, compared without case; the names of one key come sorted and without repetition, and a key that no such line pins has no entry.\<close>

theorem scan_match_exact:
  "map_of (matchPinnedTargetNames db norm_host parse_key data devs) fp =
     (if pinned_devices db norm_host parse_key data devs fp = {} then None
      else Some (sorted_list_of_set (pinned_devices db norm_host parse_key data devs fp)))"
proof -
  let ?ls = "map (pinned_line db norm_host parse_key devs) (Split1 data newline)"
  let ?m = "pinned_matches ?ls []"
  have ne: "map_of ?m fp \<noteq> Some []"
    by (rule pinned_matches_nonempty) (auto dest!: pinned_line_iff [OF sym])
  have names: "set (matched ?m fp) = pinned_devices db norm_host parse_key data devs fp"
    by (simp add: pinned_matches_set line_names_devices) (simp add: matched_def)
  have dist: "distinct (matched ?m fp)" by (rule pinned_matches_distinct) (simp add: matched_def)
  show ?thesis
  proof (cases "map_of ?m fp")
    case None
    with names have "pinned_devices db norm_host parse_key data devs fp = {}" by (simp add: matched_def)
    with None show ?thesis by (simp add: matchPinnedTargetNames_def map_of_map)
  next
    case (Some ns)
    with ne names dist have "ns \<noteq> []" "set ns = pinned_devices db norm_host parse_key data devs fp" "distinct ns"
      by (auto simp: matched_def)
    then have "pinned_devices db norm_host parse_key data devs fp \<noteq> {}"
      "sort ns = sorted_list_of_set (pinned_devices db norm_host parse_key data devs fp)"
      using sorted_list_of_set_sort_remdups [of ns] by (auto simp: distinct_remdups_id)
    with Some show ?thesis by (simp add: matchPinnedTargetNames_def map_of_map)
  qed
qed

end
