(* ===== verification/Api.thy ===== *)
theory Api
  imports Scan Candidates
begin

text \<open>
  The control API of the daemon (\<open>cmd/fv-ssh-unlock/daemon.go\<close>): the handlers, and the enrollment of
  a candidate with its two checks around an unlocked probe, its commit in three stores and its
  rollback. The state joins the configuration file, the file \<open>known_hosts\<close>, the adapter, the engine,
  the inbox and the reservations; the outcome of every call outside is in the environment of the
  request.
\<close>

section \<open>State\<close>

record api_state =
  asConfig :: "string option"     \<comment> \<open>content of the configuration file\<close>
  asKnown :: string               \<comment> \<open>content of \<open>known_hosts\<close>\<close>
  asAdapter :: daemon_adapter
  asEngine :: engine
  asInbox :: inbox
  asEnrolling :: "string list"    \<comment> \<open>candidates whose enrollment is in flight\<close>

text \<open>One call of the configuration store: its lock, its read, its write.\<close>

record store_call =
  sc_lock :: "goerr option"
  sc_read :: "goerr option"
  sc_write :: save_outcome

record config_codec =
  cc_decode :: "string \<Rightarrow> goerr + (cdevice list \<times> decode_tail)"
  cc_encode :: "cdevice list \<Rightarrow> goerr + string"

definition store_env :: "config_codec \<Rightarrow> store_call \<Rightarrow> string option \<Rightarrow> config_env" where
  "store_env codec call content =
     \<lparr>cf_lock = sc_lock call,
      cf_read = (case sc_read call of
          Some err \<Rightarrow> Inl err
        | None \<Rightarrow> (case content of None \<Rightarrow> Inl (Sentinel NotExist) | Some c \<Rightarrow> Inr c)),
      cf_decode = cc_decode codec, cf_encode = cc_encode codec,
      cf_write = (\<lambda>_. case sc_write call of SaveOk \<Rightarrow> None | SaveFailed err _ \<Rightarrow> Some err)\<rparr>"

definition content_after :: "store_call \<Rightarrow> config_outcome \<Rightarrow> string option \<Rightarrow> string option" where
  "content_after call out content =
     (case coWritten out of
        None \<Rightarrow> content
      | Some b \<Rightarrow> (case sc_write call of SaveFailed _ False \<Rightarrow> content | _ \<Rightarrow> Some b))"

section \<open>Requests and responses\<close>

record enroll_request =
  rqName :: string
  rqHost :: string
  rqUser :: string
  rqPort :: int
  rqFingerprint :: string
  rqCredentialSource :: string
  rqCredentialRef :: string
  rqAutoUnlock :: bool

datatype api_response =
    RespError nat goerr
  | RespDevice "device_snapshot option" "goerr option"
  | RespChanged
  | RespCandidate candidate
  | RespEnrolled cdevice candidate

text \<open>The body that \<open>writeAPIError\<close> sends.\<close>

definition writeAPIError :: "unicode_db \<Rightarrow> goerr \<Rightarrow> string" where
  "writeAPIError db err = terminalSafeInline db (err_msg err)"

text \<open>
  \<open>decodeAPIJSON\<close>: the media type, the first value and whether a second read ends the body; the
  decoder reads at most 64 KiB and refuses unknown fields.
\<close>

definition decodeAPIJSON :: "unicode_db \<Rightarrow> string \<Rightarrow> goerr + (enroll_request \<times> decode_tail) \<Rightarrow> goerr + enroll_request" where
  "decodeAPIJSON db contentType decoded =
     (if ToLower db (TrimSpace (hd (Split1 contentType (CHR '';'')))) \<noteq> ''application/json'' then
        Inl (ErrText ''Content-Type must be application/json'')
      else case decoded of
        Inl err \<Rightarrow> Inl err
      | Inr (rq, tail) \<Rightarrow> if tail = NotEOF then Inl (ErrText ''request contains trailing data'') else Inr rq)"

definition candidateByID :: "cand_snapshot \<Rightarrow> string \<Rightarrow> candidate option" where
  "candidateByID snap cid = List.find (\<lambda>c. cdID c = cid) (csCandidates snap)"

section \<open>Simple handlers\<close>

definition handlePoll :: "unicode_db \<Rightarrow> poll_env \<Rightarrow> string \<Rightarrow> api_state \<Rightarrow> api_state \<times> api_response \<times> call list" where
  "handlePoll db env name s =
     (case Poll db env name (asEngine s) of
        (e, snap, err, calls) \<Rightarrow>
          (s\<lparr>asEngine := e\<rparr>,
           case (snap, err) of
             (None, Some cause) \<Rightarrow> RespError 404 cause
           | _ \<Rightarrow> RespDevice snap err, calls))"

definition handleClearLatch :: "saver \<Rightarrow> string \<Rightarrow> api_state \<Rightarrow> api_state \<times> api_response" where
  "handleClearLatch sv name s =
     (case ClearLatch sv name (asEngine s) of
        (e, Some err) \<Rightarrow> (s\<lparr>asEngine := e\<rparr>, RespError 400 err)
      | (e, None) \<Rightarrow> (s\<lparr>asEngine := e\<rparr>, RespChanged))"

definition managed_err :: "candidate \<Rightarrow> goerr" where
  "managed_err c = ErrText (''candidate is already managed as '' @ Join (cdConfiguredNames c) '', '')"

definition handleIgnore :: "cand_saver \<Rightarrow> time \<Rightarrow> string \<Rightarrow> api_state \<Rightarrow> api_state \<times> api_response" where
  "handleIgnore sv now cid s =
     (case candidateByID (Snapshot_inbox now (asInbox s)) cid of
        None \<Rightarrow> (s, RespError 404 (ErrText ''candidate not found''))
      | Some current \<Rightarrow>
        if cdConfiguredNames current \<noteq> [] then (s, RespError 409 (managed_err current))
        else if cdState current = CandIgnored then (s, RespError 409 (ErrText ''candidate is already ignored''))
        else (case Ignore sv now cid (asInbox s) of
            (b, Inl err) \<Rightarrow> (s\<lparr>asInbox := b\<rparr>, RespError 400 err)
          | (b, Inr c) \<Rightarrow> (s\<lparr>asInbox := b\<rparr>, RespCandidate c)))"

definition handleRestore :: "cand_saver \<Rightarrow> time \<Rightarrow> string \<Rightarrow> api_state \<Rightarrow> api_state \<times> api_response" where
  "handleRestore sv now cid s =
     (case Restore sv now cid (asInbox s) of
        (b, Inl err) \<Rightarrow> (s\<lparr>asInbox := b\<rparr>, RespError 400 err)
      | (b, Inr c) \<Rightarrow> (s\<lparr>asInbox := b\<rparr>, RespCandidate c))"

section \<open>The checks of an enrollment\<close>

text \<open>An error carries the status of its response (\<open>apiStatusError\<close>).\<close>

definition enroll_source :: "unicode_db \<Rightarrow> enroll_request \<Rightarrow> string" where
  "enroll_source db rq =
     (let source = ToLower db (TrimSpace (rqCredentialSource rq)) in if source = [] then ProviderRuntime else source)"

definition enroll_device :: "unicode_db \<Rightarrow> enroll_request \<Rightarrow> cdevice" where
  "enroll_device db rq =
     \<lparr>cName = rqName rq, cHost = rqHost rq, cUser = rqUser rq,
      cPort = (if rqPort rq = 0 then 22 else rqPort rq), cCred = ID (rqName rq),
      cCredentialSource = enroll_source db rq, cCredentialRef = rqCredentialRef rq,
      cSuccessMessage = defaultSuccessMessage, cMACAddress = [], cAutoUnlock = rqAutoUnlock rq\<rparr>"

definition validateEnrollment ::
    "unicode_db \<Rightarrow> config_codec \<Rightarrow> cred_env \<Rightarrow> store_call \<Rightarrow> time \<Rightarrow> string \<Rightarrow> enroll_request \<Rightarrow> api_state
      \<Rightarrow> (nat \<times> goerr) + (candidate \<times> cdevice)" where
  "validateEnrollment db codec cenv load now cid rq s =
     (case candidateByID (Snapshot_inbox now (asInbox s)) cid of
        None \<Rightarrow> Inl (404, ErrText ''candidate not found'')
      | Some c \<Rightarrow>
        if cdState c = CandIgnored then Inl (409, ErrText ''candidate is ignored; restore it before enrollment'')
        else if cdConfiguredNames c \<noteq> [] then Inl (409, managed_err c)
        else if cdFingerprint c = [] \<or> rqFingerprint rq \<noteq> cdFingerprint c then
          Inl (400, ErrText ''the independently verified fingerprint must exactly match the current candidate fingerprint'')
        else if enroll_source db rq = ProviderKeyring then
          Inl (400, ErrText (''candidate enrollment cannot create a keyring credential; use a pre-provisioned file '' @
            ''reference, runtime for manual unlock, or config add for a known device''))
        else
          let d = enroll_device db rq in
          case ValidateDevice db d of
            Some err \<Rightarrow> Inl (400, err)
          | None \<Rightarrow>
            (case Store_Load db (store_env codec load (asConfig s)) of
               Inl err \<Rightarrow> Inl (500, err)
             | Inr devs \<Rightarrow>
               (case validateDevices db (devs @ [d]) of
                  Some err \<Rightarrow> Inl (409, err)
                | None \<Rightarrow>
                  (case assessDaemonDevice db cenv d of
                     Some err \<Rightarrow> Inl (400, err)
                   | None \<Rightarrow> Inr (c, d)))))"

definition beginEnrollment ::
    "unicode_db \<Rightarrow> config_codec \<Rightarrow> cred_env \<Rightarrow> store_call \<Rightarrow> time \<Rightarrow> string \<Rightarrow> enroll_request \<Rightarrow> api_state
      \<Rightarrow> api_state \<times> ((nat \<times> goerr) + (candidate \<times> cdevice))" where
  "beginEnrollment db codec cenv load now cid rq s =
     (if cid \<in> set (asEnrolling s) then
        (s, Inl (409, ErrText ''an enrollment for this candidate is already in progress''))
      else case validateEnrollment db codec cenv load now cid rq s of
        Inl err \<Rightarrow> (s, Inl err)
      | Inr (c, d) \<Rightarrow> (s\<lparr>asEnrolling := cid # asEnrolling s\<rparr>, Inr (c, d)))"

definition endEnrollment :: "string \<Rightarrow> api_state \<Rightarrow> api_state" where
  "endEnrollment cid s = s\<lparr>asEnrolling := removeAll cid (asEnrolling s)\<rparr>"

section \<open>The probe\<close>

text \<open>
  The server behind an endpoint: the remote address and the key it presents (\<open>None\<close> if the key
  exchange is not reached) and, for each verdict of the host-key callback, the handshake under a
  budget.
\<close>

record ssh_peer =
  pe_key :: "(string \<times> string) option"
  pe_net :: "goerr option \<Rightarrow> ssh_net"

record probe_env =
  pv_path :: "goerr + string"     \<comment> \<open>\<open>knownHostsPath\<close>\<close>
  pv_make :: kh_env               \<comment> \<open>when the callback is made\<close>
  pv_call :: kh_env               \<comment> \<open>when it is called\<close>
  pv_agent :: agent_env
  pv_peer :: ssh_peer

definition probeExpectedHostKey ::
    "unicode_db \<Rightarrow> kh_lib \<Rightarrow> probe_env \<Rightarrow> string list \<Rightarrow> cdevice \<Rightarrow> string \<Rightarrow> duration \<Rightarrow> string
      \<Rightarrow> string \<times> (goerr + pending_key option)" where
  "probeExpectedHostKey db lib env identities d fingerprint probeTimeout file =
     (case pv_path env of
        Inl err \<Rightarrow> (file, Inl err)
      | Inr path \<Rightarrow>
        (case hostKeyCallbackFunc db lib (pv_make env) path True fingerprint (Some (\<lambda>_. None)) file of
           Inl err \<Rightarrow> (file, Inl err)
         | Inr callback \<Rightarrow>
           (case loadSigners db (pv_agent env) identities of
              Inl err \<Rightarrow> (file, Inl err)
            | Inr signers \<Rightarrow>
              let endpoint = deviceEndpoint d;
                  budget = (if probeTimeout \<le> 0 then defaultProbeTimeout else probeTimeout);
                  (file', pending, verdict) = (case pe_key (pv_peer env) of
                      None \<Rightarrow> (file, None, None)
                    | Some (remote, key) \<Rightarrow> callback (pv_call env) endpoint remote key file);
                  ((_, _, probeErr), _) = CheckStatus db (pe_net (pv_peer env) verdict) endpoint (cUser d) budget in
              if probeErr \<noteq> None \<and> \<not> opt_is probeErr ErrIndeterminate then (file', Inl (the probeErr))
              else (file', Inr pending))))"

section \<open>Rollback\<close>

record rollback_env =
  rb_path :: "goerr + string"
  rb_known :: kh_env
  rb_store :: store_call

text \<open>\<open>pinned\<close> is \<open>None\<close> if the request has not recorded a key.\<close>

definition rollbackEnrollment ::
    "unicode_db \<Rightarrow> config_codec \<Rightarrow> kh_lib \<Rightarrow> rollback_env \<Rightarrow> cdevice \<Rightarrow> pending_key option \<Rightarrow> api_state
      \<Rightarrow> api_state \<times> goerr option" where
  "rollbackEnrollment db codec lib env d pinned s =
     (let (known', errs1) =
            (case pinned of
               None \<Rightarrow> (asKnown s, [])
             | Some p \<Rightarrow>
               (case rb_path env of
                  Inl err \<Rightarrow> (asKnown s, [errorf ''locate known_hosts'' err])
                | Inr _ \<Rightarrow>
                  (case removeKnownHost lib (rb_known env) (Some p) (asKnown s) of
                     (file, Some err) \<Rightarrow> (file, [errorf ''unpin host key'' err])
                   | (file, None) \<Rightarrow> (file, []))));
          out = RemoveIfUnchangedContext db (store_env codec (rb_store env) (asConfig s)) d;
          errs2 = (case coErr out of None \<Rightarrow> [] | Some err \<Rightarrow> [errorf ''remove configuration entry'' err]) in
      (s\<lparr>asAdapter := adapter_removeDevice (cName d) (asAdapter s), asKnown := known',
         asConfig := content_after (rb_store env) out (asConfig s)\<rparr>,
       err_join (errs1 @ errs2)))"

definition failEnrollment ::
    "unicode_db \<Rightarrow> config_codec \<Rightarrow> kh_lib \<Rightarrow> rollback_env \<Rightarrow> nat \<Rightarrow> cdevice \<Rightarrow> pending_key option \<Rightarrow> goerr \<Rightarrow> api_state
      \<Rightarrow> api_state \<times> api_response" where
  "failEnrollment db codec lib env status d pinned cause s =
     (case rollbackEnrollment db codec lib env d pinned s of
        (s', Some rerr) \<Rightarrow>
          (s', RespError status (the (err_join [cause, errorf ''enrollment rollback did not complete'' rerr])))
      | (s', None) \<Rightarrow> (s', RespError status cause))"

section \<open>The commit\<close>

record commit_env =
  cm_ctx_locked :: "goerr option"   \<comment> \<open>\<open>r.Context().Err()\<close> behind the lock\<close>
  cm_now :: time
  cm_cred :: cred_env
  cm_load :: store_call
  cm_add :: store_call
  cm_ctx_added :: "goerr option"
  cm_path :: "goerr + string"
  cm_pin :: kh_env
  cm_ctx_pinned :: "goerr option"
  cm_saver :: saver
  cm_mark :: cand_saver
  cm_pinned_load :: store_call      \<comment> \<open>\<open>loadPinnedTargetNames\<close> of the refresh\<close>
  cm_pinned_read :: "goerr option"
  cm_refresh :: cand_saver
  cm_rollback :: rollback_env

text \<open>\<open>norm_host\<close> and \<open>parse_key\<close> as in \<open>loadPinnedTargetNames\<close>.\<close>

definition refreshConfiguredCandidates ::
    "unicode_db \<Rightarrow> (string \<Rightarrow> string) \<Rightarrow> (string \<Rightarrow> string option) \<Rightarrow> cand_saver \<Rightarrow> time \<Rightarrow> goerr + cdevice list
      \<Rightarrow> goerr + string \<Rightarrow> inbox \<Rightarrow> inbox \<times> goerr option" where
  "refreshConfiguredCandidates db norm_host parse_key sv now loaded content b =
     (case loadPinnedTargetNames db norm_host parse_key loaded content of
        Inl err \<Rightarrow> (b, Some (errorf ''load configured host fingerprints'' err))
      | Inr pinned \<Rightarrow>
        ReplaceConfiguredFingerprints db sv now
          (map (\<lambda>(fp, names). \<lparr>cfFingerprint = fp, cfDeviceNames = names\<rparr>) pinned) b)"

definition finish_enrollment ::
    "unicode_db \<Rightarrow> config_codec \<Rightarrow> (string \<Rightarrow> string) \<Rightarrow> (string \<Rightarrow> string option) \<Rightarrow> commit_env \<Rightarrow> candidate \<Rightarrow> cdevice
      \<Rightarrow> api_state \<Rightarrow> api_state \<times> api_response" where
  "finish_enrollment db codec norm_host parse_key env c d s =
     (let (b1, marked) = MarkVerified (cm_mark env) (cm_now env) (cdID c) (asInbox s);
          verified = (case marked of Inl _ \<Rightarrow> c | Inr updated \<Rightarrow> updated);
          loaded = Store_Load db (store_env codec (cm_pinned_load env) (asConfig s));
          content = (case cm_pinned_read env of Some err \<Rightarrow> Inl err | None \<Rightarrow> Inr (asKnown s));
          (b2, _) = refreshConfiguredCandidates db norm_host parse_key (cm_refresh env) (cm_now env) loaded content b1 in
      (s\<lparr>asInbox := b2\<rparr>, RespEnrolled d verified))"

text \<open>From the pinning on; the device is in the configuration and in the adapter.\<close>

definition pin_enrollment ::
    "unicode_db \<Rightarrow> config_codec \<Rightarrow> kh_lib \<Rightarrow> (string \<Rightarrow> string) \<Rightarrow> (string \<Rightarrow> string option) \<Rightarrow> commit_env
      \<Rightarrow> candidate \<Rightarrow> cdevice \<Rightarrow> pending_key option \<Rightarrow> api_state \<Rightarrow> api_state \<times> api_response" where
  "pin_enrollment db codec lib norm_host parse_key env c d pending s =
     (let fail = failEnrollment db codec lib (cm_rollback env) in
      case cm_path env of
        Inl err \<Rightarrow> fail 500 d None err s
      | Inr _ \<Rightarrow>
        let (known', inserted, perr) = commitPendingHostKey lib (cm_pin env) pending (asKnown s);
            s1 = s\<lparr>asKnown := known'\<rparr>;
            owned = (if inserted then pending else None) in
        case perr of
          Some err \<Rightarrow> fail 502 d owned err s1
        | None \<Rightarrow>
          (case cm_ctx_pinned env of
             Some err \<Rightarrow> fail 408 d owned err s1
           | None \<Rightarrow>
             (case AddDevice db (cm_saver env) (toMonitorDevice d) (asEngine s1) of
                (e, Some err) \<Rightarrow> fail 500 d owned err (s1\<lparr>asEngine := e\<rparr>)
              | (e, None) \<Rightarrow> finish_enrollment db codec norm_host parse_key env c d (s1\<lparr>asEngine := e\<rparr>))))"

text \<open>The part of \<open>handleEnroll\<close> that holds the lock after the probe.\<close>

definition commit_enrollment ::
    "unicode_db \<Rightarrow> config_codec \<Rightarrow> kh_lib \<Rightarrow> (string \<Rightarrow> string) \<Rightarrow> (string \<Rightarrow> string option) \<Rightarrow> commit_env
      \<Rightarrow> string \<Rightarrow> enroll_request \<Rightarrow> candidate \<Rightarrow> cdevice \<Rightarrow> pending_key option \<Rightarrow> api_state \<Rightarrow> api_state \<times> api_response" where
  "commit_enrollment db codec lib norm_host parse_key env cid rq c d pending s =
     (case cm_ctx_locked env of
        Some err \<Rightarrow> (s, RespError 408 err)
      | None \<Rightarrow>
        (case validateEnrollment db codec (cm_cred env) (cm_load env) (cm_now env) cid rq s of
           Inl (status, err) \<Rightarrow> (s, RespError status err)
         | Inr (c', d') \<Rightarrow>
           if cdFingerprint c' \<noteq> cdFingerprint c \<or> d' \<noteq> d then
             (s, RespError 409 (ErrText (''candidate or device details changed during enrollment; '' @
                ''nothing was trusted or configured'')))
           else
             let out = AddContext db (store_env codec (cm_add env) (asConfig s)) d;
                 s1 = s\<lparr>asConfig := content_after (cm_add env) out (asConfig s)\<rparr> in
             case coErr out of
               Some err \<Rightarrow>
                 if err_is err Canceled \<or> err_is err DeadlineExceeded then (s1, RespError 408 err)
                 else (s1, RespError 409 err)
             | None \<Rightarrow>
               (case cm_ctx_added env of
                  Some err \<Rightarrow> failEnrollment db codec lib (cm_rollback env) 408 d None err s1
                | None \<Rightarrow>
                  pin_enrollment db codec lib norm_host parse_key env c d pending
                    (s1\<lparr>asAdapter := adapter_addDevice d (asAdapter s1)\<rparr>))))"

text \<open>
  The handler: \<open>during0\<close> and \<open>during1\<close> are what other requests and processes do to the state while the
  request does not hold the lock, before and after the probe reads \<open>known_hosts\<close>.
\<close>

record enroll_env =
  ev_decoded :: "goerr + enroll_request"
  ev_cred :: cred_env
  ev_load :: store_call
  ev_now :: time
  ev_probe :: probe_env
  ev_ctx_probed :: "goerr option"
  ev_commit :: commit_env

definition handleEnroll ::
    "unicode_db \<Rightarrow> config_codec \<Rightarrow> kh_lib \<Rightarrow> (string \<Rightarrow> string) \<Rightarrow> (string \<Rightarrow> string option) \<Rightarrow> string list \<Rightarrow> duration
      \<Rightarrow> enroll_env \<Rightarrow> string \<Rightarrow> (api_state \<Rightarrow> api_state) \<Rightarrow> (api_state \<Rightarrow> api_state) \<Rightarrow> api_state
      \<Rightarrow> api_state \<times> api_response" where
  "handleEnroll db codec lib norm_host parse_key identities probeTimeout env cid during0 during1 s =
     (case ev_decoded env of
        Inl err \<Rightarrow> (s, RespError 400 err)
      | Inr rq \<Rightarrow>
        (case beginEnrollment db codec (ev_cred env) (ev_load env) (ev_now env) cid rq s of
           (s1, Inl (status, err)) \<Rightarrow> (s1, RespError status err)
         | (s1, Inr (c, d)) \<Rightarrow>
           let s2 = during0 s1;
               (known', probed) = probeExpectedHostKey db lib (ev_probe env) identities d (cdFingerprint c)
                                    probeTimeout (asKnown s2);
               s3 = during1 (s2\<lparr>asKnown := known'\<rparr>);
               (s4, resp) =
                 (case probed of
                    Inl err \<Rightarrow> (s3, RespError 502 err)
                  | Inr pending \<Rightarrow>
                    (case ev_ctx_probed env of
                       Some err \<Rightarrow> (s3, RespError 408 err)
                     | None \<Rightarrow> commit_enrollment db codec lib norm_host parse_key (ev_commit env) cid rq c d pending s3)) in
           (endEnrollment cid s4, resp)))"

end
