(* ===== verification/Api_Facts.thy ===== *)
theory Api_Facts
  imports Api Config_Facts Hostkey_Facts Candidates_Facts Credentials_Facts Monitor_Invariant
begin

text \<open>
  What an enrollment promises: a device is created only for a server that proved the key the operator
  verified, and a refused enrollment leaves configuration, trust, adapter, engine and inbox as they
  were.
\<close>

section \<open>The probe\<close>

text \<open>
  The SSH library authenticates only behind an accepted host key: without a key, or with a key that
  the callback refused, no authentication callback runs and the handshake ends with an error, which
  is none of this program's own verdicts.
\<close>

definition peer_honest :: "ssh_peer \<Rightarrow> bool" where
  "peer_honest peer \<longleftrightarrow> (\<forall>verdict host user budget. pe_key peer = None \<or> verdict \<noteq> None \<longrightarrow>
     (let hs = pe_net peer verdict host user budget in
      hs_events hs = [] \<and> (hs_dial hs \<noteq> None \<or> hs_conn hs \<noteq> None) \<and> \<not> opt_is (hs_dial hs) ErrIndeterminate
      \<and> \<not> opt_is (hs_conn hs) ErrIndeterminate \<and> \<not> opt_is (hs_ctx hs) ErrIndeterminate))"

lemma lockedSeen_Nil [simp]: "\<not> lockedSeen db []"
  by (simp add: lockedSeen_def normalizeBanner_def lockedPhrase_def ToLower_def Fields_def runes_def encode_runes_def
      utf8_segments.simps [of "[]"])

lemma dialError_is: "dialError err = Some de \<Longrightarrow> \<not> err_is err ErrIndeterminate \<Longrightarrow> \<not> err_is de ErrIndeterminate"
  by (auto simp: dialError_def split: if_splits)

lemma silent_handshake_fails:
  assumes "hs_events hs = []" "hs_dial hs \<noteq> None \<or> hs_conn hs \<noteq> None" "\<not> opt_is (hs_dial hs) ErrIndeterminate"
    "\<not> opt_is (hs_conn hs) ErrIndeterminate" "\<not> opt_is (hs_ctx hs) ErrIndeterminate"
  shows "\<exists>err. snd (snd (fst (ProbeStatus db hs host))) = Some err \<and> \<not> err_is err ErrIndeterminate"
proof -
  obtain err where h: "handshake hs (clientConfig db [] [] False) (new_trace None) = (new_trace None, [], Some err)"
    and err: "\<not> err_is err ErrIndeterminate"
    using assms by (cases "hs_dial hs"; cases "hs_conn hs"; cases "hs_ctx hs")
      (auto simp: handshake_def dialError_is split: option.splits)
  have "banner (new_trace None) = []" "\<not> passwordPrompted (new_trace None)" by (simp_all add: new_trace_def)
  with err show ?thesis
    by (cases "dialError err") (auto simp: ProbeStatus_def h hostKeyErr_def dialError_is)
qed

lemma peer_fails:
  assumes "peer_honest peer" "pe_key peer = None \<or> verdict \<noteq> None"
    and "CheckStatus db (pe_net peer verdict) host user budget = ((st, out, perr), replies)"
  shows "\<exists>err. perr = Some err \<and> \<not> err_is err ErrIndeterminate"
proof -
  let ?hs = "pe_net peer verdict host user budget"
  have "hs_events ?hs = []" "hs_dial ?hs \<noteq> None \<or> hs_conn ?hs \<noteq> None" "\<not> opt_is (hs_dial ?hs) ErrIndeterminate"
    "\<not> opt_is (hs_conn ?hs) ErrIndeterminate" "\<not> opt_is (hs_ctx ?hs) ErrIndeterminate"
    using assms(1,2) unfolding peer_honest_def Let_def by blast+
  from silent_handshake_fails [OF this, of db host] assms(3) show ?thesis by (simp add: CheckStatus_def)
qed

lemma callback_verdict:
  assumes "hostKeyCallbackFunc db lib env path True fp (Some (\<lambda>_. None)) file = Inr cb"
    and "cb env' host remote key file' = (file2, p, verdict)"
  shows "file2 = file' \<and> (verdict = None \<longrightarrow> (fp = [] \<or> kl_fp lib key = fp) \<and>
    (p = None \<and> kl_check lib file' host remote key = None \<or> p = Some \<lparr>pkHost = host, pkRemote = remote, pkKey = key\<rparr>))"
proof (cases "ke_lock env'")
  case (Some e)
  with assms show ?thesis
    by (auto simp: hostKeyCallbackFunc_def withKnownHostsLock_def split: option.splits sum.splits)
next
  case None
  with assms have v: "verifyHostKeyLocked db lib env' path True fp (Some (\<lambda>_. None)) host remote key file' = (file2, p, verdict)"
    by (auto simp: hostKeyCallbackFunc_def withKnownHostsLock_def split: option.splits sum.splits)
  then have "file2 = file'"
    by (auto simp: verifyHostKeyLocked_def Let_def split: option.splits sum.splits if_splits prod.splits)
  with host_key_verdict [OF v] show ?thesis by auto
qed

text \<open>The probe never writes, and succeeds only on the expected key.\<close>

lemma probe_unfold:
  assumes "probeExpectedHostKey db lib env ids d fp budget file = (file', Inr pending)"
  obtains path cb verdict st out perr replies where
    "hostKeyCallbackFunc db lib (pv_make env) path True fp (Some (\<lambda>_. None)) file = Inr cb"
    "(case pe_key (pv_peer env) of None \<Rightarrow> (file, None, None)
      | Some (remote, key) \<Rightarrow> cb (pv_call env) (deviceEndpoint d) remote key file) = (file', pending, verdict)"
    "CheckStatus db (pe_net (pv_peer env) verdict) (deviceEndpoint d) (cUser d)
       (if budget \<le> 0 then defaultProbeTimeout else budget) = ((st, out, perr), replies)"
    "perr = None \<or> opt_is perr ErrIndeterminate"
  using assms unfolding probeExpectedHostKey_def Let_def
  by (cases "pv_path env"; simp split: sum.splits prod.splits if_splits)

lemma probe_keeps_file:
  assumes "probeExpectedHostKey db lib env ids d fp budget file = (file', r)"
  shows "file' = file"
proof (cases "pv_path env")
  case (Inr path)
  show ?thesis
  proof (cases "hostKeyCallbackFunc db lib (pv_make env) path True fp (Some (\<lambda>_. None)) file")
    case cb: (Inr cb)
    have "fst (cb (pv_call env) host remote key file) = file" for host remote key
      using callback_verdict [OF cb] by (metis prod_cases3 fst_conv)
    with assms Inr cb show ?thesis
      by (auto simp: probeExpectedHostKey_def Let_def split: sum.splits option.splits prod.splits if_splits) (metis fst_conv)+
  qed (use assms Inr in \<open>simp add: probeExpectedHostKey_def\<close>)
qed (use assms in \<open>simp add: probeExpectedHostKey_def\<close>)

lemma probe_proves_key:
  assumes "probeExpectedHostKey db lib env ids d fp budget file = (file', Inr pending)"
    and "peer_honest (pv_peer env)" "fp \<noteq> []"
  shows "\<exists>remote key. pe_key (pv_peer env) = Some (remote, key) \<and> kl_fp lib key = fp \<and>
    (pending = None \<and> kl_check lib file (deviceEndpoint d) remote key = None \<or>
     pending = Some \<lparr>pkHost = deviceEndpoint d, pkRemote = remote, pkKey = key\<rparr>)"
proof -
  obtain path cb verdict st out perr replies where
    cb: "hostKeyCallbackFunc db lib (pv_make env) path True fp (Some (\<lambda>_. None)) file = Inr cb" and
    call: "(case pe_key (pv_peer env) of None \<Rightarrow> (file, None, None)
      | Some (remote, key) \<Rightarrow> cb (pv_call env) (deviceEndpoint d) remote key file) = (file', pending, verdict)" and
    probe: "CheckStatus db (pe_net (pv_peer env) verdict) (deviceEndpoint d) (cUser d)
       (if budget \<le> 0 then defaultProbeTimeout else budget) = ((st, out, perr), replies)" and
    perr: "perr = None \<or> opt_is perr ErrIndeterminate"
    using assms(1) by (rule probe_unfold)
  have "\<not> (pe_key (pv_peer env) = None \<or> verdict \<noteq> None)"
    using peer_fails [OF assms(2) _ probe] perr by fastforce
  then obtain remote key where key: "pe_key (pv_peer env) = Some (remote, key)" and v: "verdict = None" by auto
  have "cb (pv_call env) (deviceEndpoint d) remote key file = (file', pending, None)" using call key v by simp
  from callback_verdict [OF cb this] key assms(3) show ?thesis by auto
qed

section \<open>The configuration file\<close>

definition codec_ok :: "config_codec \<Rightarrow> bool" where
  "codec_ok codec \<longleftrightarrow> (\<forall>devs b. cc_encode codec devs = Inr b \<longrightarrow> cc_decode codec b = Inr (devs, AtEOF))"

definition quiet_call :: store_call where
  "quiet_call = \<lparr>sc_lock = None, sc_read = None, sc_write = SaveOk\<rparr>"

lemma quiet_call_sel [simp]: "sc_lock quiet_call = None" "sc_read quiet_call = None" "sc_write quiet_call = SaveOk"
  by (simp_all add: quiet_call_def)

lemma store_env_sel [simp]:
  "cf_lock (store_env codec call content) = sc_lock call"
  "cf_encode (store_env codec call content) = cc_encode codec"
  "cf_write (store_env codec call content) b = (case sc_write call of SaveOk \<Rightarrow> None | SaveFailed err _ \<Rightarrow> Some err)"
  by (simp_all add: store_env_def)

text \<open>The inventory in a content.\<close>

definition inventory :: "unicode_db \<Rightarrow> config_codec \<Rightarrow> string option \<Rightarrow> goerr + cdevice list" where
  "inventory db codec content = Store_Load db (store_env codec quiet_call content)"

lemma inventory_eq: "sc_read call = None \<Longrightarrow> Store_Load db (store_env codec call content) = inventory db codec content"
  by (cases content) (simp_all add: inventory_def Store_Load_def store_env_def quiet_call_def)

lemma inventory_written:
  assumes "codec_ok codec" "cc_encode codec devs = Inr b" "validateDevices db devs = None"
  shows "inventory db codec (Some b) = Inr devs"
  using assms by (simp add: inventory_def Store_Load_def store_env_def quiet_call_def codec_ok_def)

text \<open>A transaction that writes.\<close>

lemma mutate_quiet:
  assumes "inventory db codec content = Inr devs" "modify devs = Inr next_devs" "validateDevices db next_devs = None"
    "cc_encode codec next_devs = Inr b" "length b \<le> maxConfigSize"
    "sc_lock call = None" "sc_read call = None" "sc_write call = SaveOk"
  shows "coErr (mutate db (store_env codec call content) modify None) = None"
    "content_after call (mutate db (store_env codec call content) modify None) content = Some b"
  using assms
  by (simp_all add: mutate_def inventory_eq save_def content_after_def)

lemma AddContext_result:
  assumes "coErr (AddContext db (store_env codec call content) d) = None" "codec_ok codec" "sc_read call = None"
  shows "\<exists>devs b. inventory db codec content = Inr devs \<and> cName d \<notin> cName ` set devs
    \<and> validateDevices db (devs @ [d]) = None \<and> content_after call (AddContext db (store_env codec call content) d) content = Some b
    \<and> inventory db codec (Some b) = Inr (devs @ [d])"
proof -
  have no: "\<not> err_is err ErrNoMutation" if "add_device_fn d devs = Inl err" for devs err
    using that by (auto simp: add_device_fn_def split: if_splits)
  have "coErr (mutate db (store_env codec call content) (add_device_fn d) None) = None"
    using assms(1) by (simp add: AddContext_def addPrepared_def)
  then obtain devs next_devs b where m: "Store_Load db (store_env codec call content) = Inr devs"
    "add_device_fn d devs = Inr next_devs" "validateDevices db next_devs = None"
    "cf_encode (store_env codec call content) next_devs = Inr b"
    "coWritten (mutate db (store_env codec call content) (add_device_fn d) None) = Some b"
    using no by (rule mutate_cases)
  then have inv: "inventory db codec content = Inr devs" "next_devs = devs @ [d]" "cName d \<notin> cName ` set devs"
    "cc_encode codec (devs @ [d]) = Inr b"
    using assms(3) by (auto simp: inventory_eq add_device_fn_def list_ex_iff split: if_splits)
  have "cf_write (store_env codec call content) b = None"
    using assms(1) m inv(2) by (auto simp: AddContext_def addPrepared_def mutate_def save_def
        split: option.splits sum.splits if_splits)
  then have "sc_write call = SaveOk" by (auto split: save_outcome.splits)
  then have "content_after call (AddContext db (store_env codec call content) d) content = Some b"
    using m(5) by (simp add: content_after_def AddContext_def addPrepared_def)
  with inv m(3) inventory_written [OF assms(2) inv(4)] show ?thesis by auto
qed

lemma AddContext_refused:
  assumes "coErr (AddContext db (store_env codec call content) d) = Some err" "\<And>e. sc_write call \<noteq> SaveFailed e True"
  shows "content_after call (AddContext db (store_env codec call content) d) content = content"
  using assms
  by (auto simp: content_after_def AddContext_def addPrepared_def mutate_def save_def
      split: option.splits sum.splits if_splits save_outcome.splits bool.splits)

lemma remove_added: "cName d \<notin> cName ` set devs \<Longrightarrow> remove_if_unchanged_fn d (devs @ [d]) = Inr devs"
  by (induction devs) auto

section \<open>Rolling back\<close>

definition rollback_ok :: "rollback_env \<Rightarrow> bool" where
  "rollback_ok env \<longleftrightarrow> (\<exists>path. rb_path env = Inr path) \<and> rb_store env = quiet_call
     \<and> ke_lock (rb_known env) = None \<and> ke_read (rb_known env) = None \<and> ke_write (rb_known env) = SaveOk"

text \<open>
  The \<open>knownhosts\<close> package writes one line without line breaks, and calls a host unknown (a \<open>KeyError\<close>
  that wants no key) only if no line of the file is for it; in particular not the one it writes itself.
\<close>

definition lib_ok :: "kh_lib \<Rightarrow> pending_key \<Rightarrow> bool" where
  "lib_ok lib p \<longleftrightarrow> (let line = kl_line lib (pkHost p) (pkKey p) in
     newline \<notin> set line \<and> line \<noteq> [] \<and> last line \<noteq> CHR 0x0D
     \<and> (\<forall>file verr. kl_check lib file (pkHost p) (pkRemote p) (pkKey p) = Some verr \<and> key_error_of verr = Some [] \<longrightarrow>
          \<not> list_ex (is_target line) (Split1 file newline)))"

definition pending_ok :: "kh_lib \<Rightarrow> pending_key option \<Rightarrow> bool" where
  "pending_ok lib pending \<longleftrightarrow> (case pending of None \<Rightarrow> True | Some p \<Rightarrow> lib_ok lib p)"

lemma lib_ok_line:
  assumes "lib_ok lib p"
  shows "newline \<notin> set (kl_line lib (pkHost p) (pkKey p))" "kl_line lib (pkHost p) (pkKey p) \<noteq> []"
    "last (kl_line lib (pkHost p) (pkKey p)) \<noteq> CHR 0x0D"
    "kl_check lib file (pkHost p) (pkRemote p) (pkKey p) = Some verr \<Longrightarrow> key_error_of verr = Some [] \<Longrightarrow>
       \<not> list_ex (is_target (kl_line lib (pkHost p) (pkKey p))) (Split1 file newline)"
  using assms unfolding lib_ok_def Let_def by blast+

text \<open>What a request that owns \<open>pinned\<close> has to take back from a known_hosts that was \<open>file\<close>.\<close>

definition owns :: "kh_lib \<Rightarrow> string \<Rightarrow> pending_key option \<Rightarrow> string \<Rightarrow> bool" where
  "owns lib file pinned file' \<longleftrightarrow>
     (case pinned of
        None \<Rightarrow> file' = file
      | Some p \<Rightarrow> file' = appended lib (pkHost p) (pkKey p) file
          \<and> \<not> list_ex (is_target (kl_line lib (pkHost p) (pkKey p))) (Split1 file newline))"

lemma owns_undone:
  assumes "owns lib file pinned file'" "pending_ok lib pinned" "ke_lock env = None" "ke_read env = None" "ke_write env = SaveOk"
  shows "\<exists>file2. removeKnownHost lib env pinned file' = (file2, None) \<and> file2 \<in> {file, terminated file}"
proof (cases pinned)
  case None
  with assms(1) show ?thesis by (simp add: owns_def removeKnownHost_def)
next
  case (Some p)
  have "removeKnownHost lib env (Some p) (appended lib (pkHost p) (pkKey p) file) = (terminated file, None)"
    using assms Some lib_ok_line [of lib p] by (intro remove_undoes) (auto simp: pending_ok_def owns_def)
  with assms(1) Some show ?thesis by (simp add: owns_def)
qed

lemma fail_restores:
  assumes "failEnrollment db codec lib env status d pinned cause s = (s', resp)" "rollback_ok env" "pending_ok lib pinned" "codec_ok codec"
    and known: "owns lib file pinned (asKnown s)"
    and config: "inventory db codec (asConfig s) = Inr (devs @ [d])" "cName d \<notin> cName ` set devs"
      "validateDevices db devs = None" "cc_encode codec devs = Inr b" "length b \<le> maxConfigSize"
  shows "resp = RespError status cause \<and> inventory db codec (asConfig s') = Inr devs \<and> asKnown s' \<in> {file, terminated file}
    \<and> asAdapter s' = adapter_removeDevice (cName d) (asAdapter s) \<and> asEngine s' = asEngine s \<and> asInbox s' = asInbox s"
proof -
  let ?out = "mutate db (store_env codec quiet_call (asConfig s)) (remove_if_unchanged_fn d) None"
  note m = mutate_quiet [where modify = "remove_if_unchanged_fn d", OF config(1) remove_added [OF config(2)] config(3-5), of quiet_call]
  have out: "coErr ?out = None" "content_after quiet_call ?out (asConfig s) = Some b"
    using m by (simp_all add: quiet_call_def)
  obtain path where rb: "rb_path env = Inr path" "rb_store env = quiet_call" "ke_lock (rb_known env) = None"
    "ke_read (rb_known env) = None" "ke_write (rb_known env) = SaveOk" using assms(2) by (auto simp: rollback_ok_def)
  obtain file2 where f: "removeKnownHost lib (rb_known env) pinned (asKnown s) = (file2, None)" "file2 \<in> {file, terminated file}"
    using owns_undone [OF known assms(3) rb(3-5)] by blast
  have "rollbackEnrollment db codec lib env d pinned s =
      (s\<lparr>asAdapter := adapter_removeDevice (cName d) (asAdapter s), asKnown := file2, asConfig := Some b\<rparr>, None)"
    using out f(1) rb by (cases pinned) (auto simp: rollbackEnrollment_def RemoveIfUnchangedContext_def Let_def err_join_def
        removeKnownHost_def)
  with assms(1) f(2) inventory_written [OF assms(4) config(4,3)] show ?thesis by (auto simp: failEnrollment_def)
qed

section \<open>The commit\<close>

lemma AddDevice_refused:
  assumes "AddDevice db sv d e = (e', Some err)"
  shows "devices e' = devices e"
proof -
  have "AList.delete (dName d) (AList.update (dName d) m ds) = ds" if "map_of ds (dName d) = None" for m ds
    using that by (induction ds) (auto simp: AList.delete_eq split: if_splits)
  with assms show ?thesis
    by (auto simp: AddDevice_def Let_def now_of_def persistLocked_def split: option.splits if_splits save_outcome.splits prod.splits)
qed

lemma adapter_add_remove:
  assumes "map_of (adDevices a) (cName d) = None" "map_of (adEndpointDown a) (cName d) = None"
  shows "adapter_removeDevice (cName d) (adapter_addDevice d a) = a" "adapter_removeDevice (cName d) a = a"
proof -
  have del: "AList.delete k ds = ds" "AList.delete k (AList.update k v ds) = ds" if "map_of ds k = None" for k v and ds :: "(string \<times> 'v) list"
    using that by (induction ds) (auto simp: AList.delete_eq split: if_splits)
  show "adapter_removeDevice (cName d) (adapter_addDevice d a) = a" "adapter_removeDevice (cName d) a = a"
    using assms by (simp_all add: adapter_removeDevice_def adapter_addDevice_def del)
qed

text \<open>The file is written only for a host that the library calls unknown.\<close>

lemma commit_unknown:
  assumes "commitPendingHostKey lib env (Some p) file = (file', inserted, err)" "inserted \<or> file' \<noteq> file"
  shows "\<exists>verr. kl_check lib file (pkHost p) (pkRemote p) (pkKey p) = Some verr \<and> key_error_of verr = Some []"
  using assms
  by (auto simp: commitPendingHostKey_def withKnownHostsLock_def knownhosts_New_def
      split: option.splits sum.splits if_splits)

lemma commit_owns:
  assumes "commitPendingHostKey lib env pending file = (file', inserted, err)" "pending_ok lib pending" "ke_reread env = None"
  shows "owns lib file (if inserted then pending else None) file'"
proof (cases pending)
  case (Some p)
  let ?line = "kl_line lib (pkHost p) (pkKey p)"
  have lib: "inserted \<or> file' \<noteq> file \<Longrightarrow> \<not> list_ex (is_target ?line) (Split1 file newline)"
    and line: "newline \<notin> set ?line" "?line \<noteq> []" "last ?line \<noteq> CHR 0x0D"
    using assms(2) Some lib_ok_line [of lib p] commit_unknown [OF assms(1) [unfolded Some]]
    by (auto simp: pending_ok_def)
  note c = commit_cases [OF assms(1) [unfolded Some]]
  have "file' = file" if "\<not> inserted"
  proof (rule ccontr)
    assume ne: "file' \<noteq> file"
    with c have app: "file' = appended lib (pkHost p) (pkKey p) file" by blast
    have "is_target ?line ?line" using line(2,3) by (cases ?line rule: rev_cases) (simp_all add: is_target_def TrimRight_def)
    from remove_appended(1) [OF line(1) this line(2)] lib ne have "list_ex (is_target ?line) (Split1 file' newline)"
      by (auto simp: app appended_terminated)
    with ne assms(1,3) Some that show False
      by (auto simp: commitPendingHostKey_def withKnownHostsLock_def knownHostLinePresent_def
          split: option.splits sum.splits prod.splits if_splits)
  qed
  with c lib Some show ?thesis by (auto simp: owns_def)
qed (use assms(1) in \<open>simp_all add: commitPendingHostKey_def owns_def\<close>)

lemma pin_failure_restores:
  assumes run: "pin_enrollment db codec lib nh pk env c d pending s = (s', RespError status err)"
    and ok: "rollback_ok (cm_rollback env)" "pending_ok lib pending" "codec_ok codec" "ke_reread (cm_pin env) = None"
    and config: "inventory db codec (asConfig s) = Inr (devs @ [d])" "cName d \<notin> cName ` set devs"
      "validateDevices db devs = None" "cc_encode codec devs = Inr b" "length b \<le> maxConfigSize"
  shows "inventory db codec (asConfig s') = Inr devs \<and> asKnown s' \<in> {asKnown s, terminated (asKnown s)}
    \<and> asAdapter s' = adapter_removeDevice (cName d) (asAdapter s) \<and> devices (asEngine s') = devices (asEngine s)
    \<and> asInbox s' = asInbox s"
proof (cases "cm_path env")
  case (Inl e)
  with run have "failEnrollment db codec lib (cm_rollback env) 500 d None e s = (s', RespError status err)"
    by (simp add: pin_enrollment_def)
  from fail_restores [OF this ok(1) _ ok(3) _ config, of "asKnown s"] show ?thesis by (auto simp: owns_def pending_ok_def)
next
  case (Inr path)
  obtain known inserted perr where c: "commitPendingHostKey lib (cm_pin env) pending (asKnown s) = (known, inserted, perr)"
    by (metis prod_cases3)
  let ?s1 = "s\<lparr>asKnown := known\<rparr>"
  let ?owned = "if inserted then pending else None"
  note own = commit_owns [OF c ok(2,4)]
  obtain st cause e where f: "failEnrollment db codec lib (cm_rollback env) st d ?owned cause (?s1\<lparr>asEngine := e\<rparr>)
      = (s', RespError status err)" "devices e = devices (asEngine s)"
  proof (cases "perr = None \<and> cm_ctx_pinned env = None")
    case False
    with run Inr c that [of _ _ "asEngine s"] show ?thesis
      by (auto simp: pin_enrollment_def Let_def split: option.splits)
  next
    case True
    obtain e aerr where a: "AddDevice db (cm_saver env) (toMonitorDevice d) (asEngine s) = (e, aerr)" by (meson surj_pair)
    show ?thesis
    proof (cases aerr)
      case None
      with run Inr c True a show ?thesis by (simp add: pin_enrollment_def finish_enrollment_def Let_def split: prod.splits)
    next
      case (Some ae)
      with run Inr c True a that AddDevice_refused [OF a [unfolded Some]] show ?thesis
        by (simp add: pin_enrollment_def Let_def)
    qed
  qed
  have "pending_ok lib ?owned" using ok(2) by (simp add: pending_ok_def)
  from fail_restores [OF f(1) ok(1) this ok(3) _ _ config(2-5), of "asKnown s"] own config(1) f(2) show ?thesis by simp
qed

text \<open>The ways through the locked part.\<close>

lemma commit_paths:
  assumes "commit_enrollment db codec lib nh pk env cid rq c d pending s = (s', resp)"
  obtains (early) status err where "s' = s" "resp = RespError status err"
    | (add) status err out where "out = AddContext db (store_env codec (cm_add env) (asConfig s)) d" "coErr out = Some err"
        "s' = s\<lparr>asConfig := content_after (cm_add env) out (asConfig s)\<rparr>" "resp = RespError status err"
    | (ctx) err out where "out = AddContext db (store_env codec (cm_add env) (asConfig s)) d" "coErr out = None"
        "failEnrollment db codec lib (cm_rollback env) 408 d None err
           (s\<lparr>asConfig := content_after (cm_add env) out (asConfig s)\<rparr>) = (s', resp)"
    | (pin) out c' where "out = AddContext db (store_env codec (cm_add env) (asConfig s)) d" "coErr out = None"
        "pin_enrollment db codec lib nh pk env c d pending
           (s\<lparr>asConfig := content_after (cm_add env) out (asConfig s), asAdapter := adapter_addDevice d (asAdapter s)\<rparr>) = (s', resp)"
        "validateEnrollment db codec (cm_cred env) (cm_load env) (cm_now env) cid rq s = Inr (c', d)"
        "cdFingerprint c' = cdFingerprint c"
proof (cases "cm_ctx_locked env")
  case (Some e)
  with assms early show ?thesis by (auto simp: commit_enrollment_def)
next
  case locked: None
  note r1 = assms [unfolded commit_enrollment_def locked option.case]
  show ?thesis
  proof (cases "validateEnrollment db codec (cm_cred env) (cm_load env) (cm_now env) cid rq s")
    case (Inl e)
    with r1 early show ?thesis by (cases e) auto
  next
    case (Inr v)
    obtain c' d' where v: "v = (c', d')" by (cases v)
    show ?thesis
    proof (cases "cdFingerprint c' \<noteq> cdFingerprint c \<or> d' \<noteq> d")
      case True
      with r1 Inr v early show ?thesis by auto
    next
      case False
      let ?out = "AddContext db (store_env codec (cm_add env) (asConfig s)) d"
      show ?thesis
      proof (cases "coErr ?out")
        case (Some e)
        with r1 Inr v False add [OF refl Some] show ?thesis by (auto simp: Let_def split: if_splits)
      next
        case None
        with r1 Inr v False ctx [OF refl None] pin [OF refl None] show ?thesis by (cases "cm_ctx_added env") (auto simp: Let_def)
      qed
    qed
  qed
qed


section \<open>Success\<close>

lemma validateEnrollment_ok:
  assumes "validateEnrollment db codec cenv load now cid rq s = Inr (c, d)"
  shows "d = enroll_device db rq" "rqFingerprint rq = cdFingerprint c" "cdFingerprint c \<noteq> []"
    "assessDaemonDevice db cenv d = None" "cdState c \<noteq> CandIgnored" "cdConfiguredNames c = []"
  using assms
  by (simp_all add: validateEnrollment_def Let_def split: option.splits if_splits sum.splits)

lemma AddDevice_accepted:
  assumes "AddDevice db sv d e = (e', None)"
  shows "map_of (devices e') (dName d) \<noteq> None"
  using assms
  by (auto simp: AddDevice_def Let_def now_of_pair persistLocked_def startDeviceLocked_def update_conv'
      split: option.splits if_splits save_outcome.splits prod.splits)

lemma pin_success:
  assumes "pin_enrollment db codec lib nh pk env c d pending s = (s', RespEnrolled d' v)"
  shows "d' = d \<and> asConfig s' = asConfig s \<and> asAdapter s' = asAdapter s \<and> asEnrolling s' = asEnrolling s
    \<and> map_of (devices (asEngine s')) (cName d) \<noteq> None
    \<and> (\<exists>inserted. commitPendingHostKey lib (cm_pin env) pending (asKnown s) = (asKnown s', inserted, None))"
proof -
  have fail: "snd (failEnrollment db codec lib rb st d p cause s2) \<noteq> RespEnrolled d' v" for rb st p cause s2
    by (auto simp: failEnrollment_def split: prod.splits option.splits)
  obtain known inserted perr where c: "commitPendingHostKey lib (cm_pin env) pending (asKnown s) = (known, inserted, perr)"
    by (metis prod_cases3)
  obtain e aerr where a: "AddDevice db (cm_saver env) (toMonitorDevice d) (asEngine s) = (e, aerr)" by (meson surj_pair)
  have ok: "perr = None \<and> aerr = None \<and> finish_enrollment db codec nh pk env c d (s\<lparr>asKnown := known, asEngine := e\<rparr>)
      = (s', RespEnrolled d' v)"
    using assms fail
    by (cases "cm_path env"; cases perr; cases "cm_ctx_pinned env"; cases aerr)
      (auto simp: pin_enrollment_def c a Let_def dest!: arg_cong [where f = snd])
  then have "d' = d \<and> asConfig s' = asConfig s \<and> asAdapter s' = asAdapter s \<and> asEnrolling s' = asEnrolling s
      \<and> asEngine s' = e \<and> asKnown s' = known"
    by (auto simp: finish_enrollment_def Let_def split: prod.splits)
  with ok c a AddDevice_accepted [of db "cm_saver env" "toMonitorDevice d" "asEngine s" e] show ?thesis
    by (auto simp: toMonitorDevice_def)
qed

lemma commit_success:
  assumes "commit_enrollment db codec lib nh pk env cid rq c d pending s = (s', RespEnrolled d' v)"
    and "codec_ok codec" "sc_read (cm_add env) = None"
  shows "d' = d \<and> d = enroll_device db rq \<and> rqFingerprint rq = cdFingerprint c
    \<and> assessDaemonDevice db (cm_cred env) d = None
    \<and> (\<exists>devs. inventory db codec (asConfig s') = Inr (devs @ [d]))
    \<and> map_of (adDevices (asAdapter s')) (cName d) = Some d \<and> map_of (devices (asEngine s')) (cName d) \<noteq> None
    \<and> (\<exists>inserted. commitPendingHostKey lib (cm_pin env) pending (asKnown s) = (asKnown s', inserted, None))"
  using assms(1)
proof (cases rule: commit_paths)
  case (ctx err out)
  then show ?thesis by (auto simp: failEnrollment_def split: prod.splits option.splits)
next
  case (pin out c')
  from AddContext_result [OF pin(2) [unfolded pin(1)] assms(2,3)] pin_success [OF pin(3)] validateEnrollment_ok [OF pin(4)]
    pin(1,5) show ?thesis by (auto simp: adapter_addDevice_def update_conv')
qed auto

text \<open>What the preflight means for a device with automatic unlock.\<close>

lemma preflight_unattended:
  assumes "assessDaemonDevice db cenv d = None" "cAutoUnlock d"
  shows "effective_source d \<noteq> ProviderRuntime \<and> (\<exists>store. credentialStoreForDevice db d False = Inr store
    \<and> raAvailable (provider_Assess db cenv (psProvider store) (psReference store))
    \<and> raSecure (provider_Assess db cenv (psProvider store) (psReference store)))"
  using assms by (auto simp: assessDaemonDevice_def Let_def split: if_splits sum.splits)

text \<open>The state behind the reservation.\<close>

abbreviation reserved :: "string \<Rightarrow> api_state \<Rightarrow> api_state" where
  "reserved cid s \<equiv> s\<lparr>asEnrolling := cid # asEnrolling s\<rparr>"

lemma handleEnroll_success:
  assumes "handleEnroll db codec lib nh pk ids budget env cid during0 during1 s = (s', RespEnrolled d v)"
  obtains rq c d0 s2 pending where "ev_decoded env = Inr rq"
    "validateEnrollment db codec (ev_cred env) (ev_load env) (ev_now env) cid rq s = Inr (c, d0)" "cid \<notin> set (asEnrolling s)"
    "probeExpectedHostKey db lib (ev_probe env) ids d0 (cdFingerprint c) budget (asKnown (during0 (reserved cid s)))
       = (asKnown (during0 (reserved cid s)), Inr pending)"
    "commit_enrollment db codec lib nh pk (ev_commit env) cid rq c d0 pending (during1 (during0 (reserved cid s)))
       = (s2, RespEnrolled d v)"
    "s' = endEnrollment cid s2"
proof -
  obtain rq where rq: "ev_decoded env = Inr rq" using assms by (cases "ev_decoded env") (auto simp: handleEnroll_def)
  note r1 = assms [unfolded handleEnroll_def rq sum.case beginEnrollment_def]
  have fresh: "cid \<notin> set (asEnrolling s)" using r1 by auto
  obtain c d0 where v: "validateEnrollment db codec (ev_cred env) (ev_load env) (ev_now env) cid rq s = Inr (c, d0)"
    using r1 fresh by (auto split: sum.splits)
  let ?s2 = "during0 (reserved cid s)"
  obtain known probed where p: "probeExpectedHostKey db lib (ev_probe env) ids d0 (cdFingerprint c) budget (asKnown ?s2) = (known, probed)"
    by (meson surj_pair)
  have known: "known = asKnown ?s2" using probe_keeps_file [OF p] .
  obtain pending where pending: "probed = Inr pending" "ev_ctx_probed env = None"
    using r1 fresh v p by (auto simp: Let_def split: sum.splits option.splits)
  obtain s2 resp where c: "commit_enrollment db codec lib nh pk (ev_commit env) cid rq c d0 pending (during1 ?s2) = (s2, resp)"
    by (meson surj_pair)
  have "s' = endEnrollment cid s2" "resp = RespEnrolled d v"
    using r1 fresh v p known pending c by (auto simp: Let_def)
  with that rq fresh v p known pending c show ?thesis by blast
qed


section \<open>A concrete enrollment\<close>

definition demo_rq :: enroll_request where
  "demo_rq = \<lparr>rqName = ''mini'', rqHost = ''10.0.0.5'', rqUser = ''admin'', rqPort = 0, rqFingerprint = demo_fp,
     rqCredentialSource = [], rqCredentialRef = [], rqAutoUnlock = False\<rparr>"

definition demo_added :: cdevice where
  "demo_added = enroll_device ascii_only_db demo_rq"

text \<open>A codec for the inventories that occur.\<close>

definition demo_codec :: config_codec where
  "demo_codec = \<lparr>cc_decode = (\<lambda>s. if s = ''[]'' then Inr ([], AtEOF) else if s = ''[mini]'' then Inr ([demo_added], AtEOF)
       else Inl (ErrText ''invalid'')),
     cc_encode = (\<lambda>devs. if devs = [] then Inr ''[]'' else if devs = [demo_added] then Inr ''[mini]'' else Inl (ErrText ''unsupported''))\<rparr>"

definition demo_api :: api_state where
  "demo_api = \<lparr>asConfig = None, asKnown = [], asAdapter = newDaemonAdapter True [] 0 0, asEngine = demo_engine,
     asInbox = demo_inbox, asEnrolling = []\<rparr>"

definition demo_peer :: ssh_peer where
  "demo_peer = \<lparr>pe_key = Some (''10.0.0.5:22'', drop 7 demo_fp),
     pe_net = (\<lambda>verdict _ _ _. \<lparr>hs_dial = None, hs_events = [], hs_conn = map_option (\<lambda>_. ErrText ''ssh: handshake failed'') verdict,
       hs_ctx = None\<rparr>)\<rparr>"

definition demo_probe :: probe_env where
  "demo_probe = \<lparr>pv_path = Inr ''known_hosts'', pv_make = demo_kenv, pv_call = demo_kenv,
     pv_agent = \<lparr>ag_home = None, ag_regular = (\<lambda>_. False), ag_read = (\<lambda>_. Inl (Sentinel NotExist)),
       ag_parse = Inr, ag_agent = []\<rparr>, pv_peer = demo_peer\<rparr>"

text \<open>\<open>cancel\<close> is the error of the context behind the pinning.\<close>

definition demo_commit :: "goerr option \<Rightarrow> commit_env" where
  "demo_commit cancel = \<lparr>cm_ctx_locked = None, cm_now = 2000, cm_cred = demo_cred_env, cm_load = quiet_call, cm_add = quiet_call,
     cm_ctx_added = None, cm_path = Inr ''known_hosts'', cm_pin = demo_kenv, cm_ctx_pinned = cancel, cm_saver = (\<lambda>_. SaveOk),
     cm_mark = (\<lambda>_. SaveOk), cm_pinned_load = quiet_call, cm_pinned_read = None, cm_refresh = (\<lambda>_. SaveOk),
     cm_rollback = \<lparr>rb_path = Inr ''known_hosts'', rb_known = demo_kenv, rb_store = quiet_call\<rparr>\<rparr>"

definition demo_enroll_env :: enroll_env where
  "demo_enroll_env = \<lparr>ev_decoded = Inr demo_rq, ev_cred = demo_cred_env, ev_load = quiet_call, ev_now = 2000,
     ev_probe = demo_probe, ev_ctx_probed = None, ev_commit = demo_commit None\<rparr>"

definition demo_key :: pending_key where
  "demo_key = \<lparr>pkHost = deviceEndpoint demo_added, pkRemote = ''10.0.0.5:22'', pkKey = drop 7 demo_fp\<rparr>"

lemma demo_rq_source: "enroll_source ascii_only_db demo_rq = ProviderRuntime" "ProviderRuntime \<noteq> ProviderKeyring"
  "ProviderRuntime \<noteq> ProviderFile" "ProviderRuntime \<noteq> []"
  by code_simp+

lemma demo_added_facts: "cName demo_added = ''mini''" "cHost demo_added = ''10.0.0.5''" "cUser demo_added = ''admin''"
  "cPort demo_added = 22" "cCred demo_added = ''fvu-mini''" "cCredentialSource demo_added = ProviderRuntime"
  "cCredentialRef demo_added = []" "cSuccessMessage demo_added = defaultSuccessMessage" "cMACAddress demo_added = []"
  "\<not> cAutoUnlock demo_added"
  by (simp_all add: demo_added_def enroll_device_def demo_rq_source) (simp_all add: demo_rq_def ID_def)

lemma demo_plain:
  "validatePlain ascii_only_db f ''mini'' 128 = None" "validatePlain ascii_only_db f ''10.0.0.5'' 253 = None"
  "validatePlain ascii_only_db f ''admin'' 256 = None" "validatePlain ascii_only_db f ''fvu-mini'' 256 = None"
  by (simp_all add: validatePlain_def TrimSpace_def is_space_def runes_def ascii_only_db_def is_control_def)

lemma demo_added_valid: "ValidateDevice ascii_only_db demo_added = None"
  by (simp add: ValidateDevice_def demo_added_facts demo_plain demo_rq_source ID_def defaultSuccessMessage_def HasPrefix_def)

lemma demo_added_inventory: "validateDevices ascii_only_db [demo_added] = None"
  by (simp add: validateDevices_def validate_from_None demo_added_valid)

lemma demo_endpoint: "deviceEndpoint demo_added = ''10.0.0.5:22''"
  by (simp add: deviceEndpoint_def demo_added_facts) code_simp

lemma demo_codec_ok: "codec_ok demo_codec"
  by (auto simp: codec_ok_def demo_codec_def split: if_splits)

lemma demo_inventory:
  "inventory ascii_only_db demo_codec None = Inr []"
  by (simp add: inventory_def Store_Load_def store_env_def quiet_call_def)

lemma demo_validate:
  assumes "asConfig s = None" "asInbox s = demo_inbox"
  shows "validateEnrollment ascii_only_db demo_codec demo_cred_env quiet_call 2000 (demo_id CHR ''1'') demo_rq s
    = Inr (demo_candidate, demo_added)"
proof -
  have find: "candidateByID (Snapshot_inbox 2000 demo_inbox) (demo_id CHR ''1'') = Some demo_candidate"
    by (simp add: candidateByID_def Snapshot_inbox_def demo_inbox_entries) (simp add: demo_candidate_def)
  have cand: "cdState demo_candidate = CandIdentityPending" "cdConfiguredNames demo_candidate = []"
    "cdFingerprint demo_candidate = demo_fp" "rqFingerprint demo_rq = demo_fp"
    by (simp_all add: demo_candidate_def demo_rq_def)
  have load: "Store_Load ascii_only_db (store_env demo_codec quiet_call None) = Inr []"
    using demo_inventory by (simp add: inventory_def)
  show ?thesis
    by (simp add: validateEnrollment_def assms find cand demo_fp_nonempty demo_rq_source load demo_added_valid demo_added_inventory Let_def
        assessDaemonDevice_def demo_added_facts flip: demo_added_def)
qed

lemma demo_add:
  "AddContext ascii_only_db (store_env demo_codec quiet_call None) demo_added = \<lparr>coPrepared = False, coWritten = Some ''[mini]'', coErr = None\<rparr>"
proof -
  have load: "Store_Load ascii_only_db (store_env demo_codec quiet_call None) = Inr []"
    using demo_inventory by (simp add: inventory_def)
  have "cc_encode demo_codec [demo_added] = Inr ''[mini]''" by (simp add: demo_codec_def)
  then show ?thesis
    by (simp add: AddContext_def addPrepared_def mutate_def load add_device_fn_def demo_added_inventory save_def maxConfigSize_def)
qed

lemma demo_pin:
  "commitPendingHostKey demo_lib demo_kenv (Some demo_key) [] = (appended demo_lib (pkHost demo_key) (pkKey demo_key) [], True, None)"
  by (simp add: commitPendingHostKey_def withKnownHostsLock_def knownhosts_New_def appendKnownHost_def
      write_known_def appended_def maxKnownHostsSize_def demo_lib_def demo_kenv_def demo_key_def demo_endpoint demo_fp_def
      is_target_def TrimRight_def HasPrefix_def)

lemma demo_key_ok: "pending_ok demo_lib (Some demo_key)"
  by (auto simp: pending_ok_def lib_ok_def demo_lib_def demo_key_def demo_endpoint demo_fp_def Let_def)

lemma failEnrollment_error: "\<exists>s' e. failEnrollment db codec lib env st d p cause s = (s', RespError st e)"
  by (auto simp: failEnrollment_def split: prod.splits option.splits)


lemma demo_peer_honest: "peer_honest demo_peer"
  by (auto simp: peer_honest_def demo_peer_def Let_def)

lemma demo_probe_result:
  "probeExpectedHostKey ascii_only_db demo_lib demo_probe [] demo_added demo_fp 0 [] = ([], Inr (Some demo_key))"
proof -
  have "loadSigners ascii_only_db (pv_agent demo_probe) [] = Inr []" by (simp add: loadSigners_def demo_probe_def)
  moreover have "hostKeyCallbackFunc ascii_only_db demo_lib demo_kenv ''known_hosts'' True demo_fp (Some (\<lambda>_. None)) [] = Inr
      (\<lambda>env' host remote key file'. withKnownHostsLock env' file'
         (verifyHostKeyLocked ascii_only_db demo_lib env' ''known_hosts'' True demo_fp (Some (\<lambda>_. None)) host remote key) None)"
    by (simp add: hostKeyCallbackFunc_def knownhosts_New_def demo_kenv_def demo_lib_def)
  moreover have "verifyHostKeyLocked ascii_only_db demo_lib demo_kenv ''known_hosts'' True demo_fp (Some (\<lambda>_. None))
      (deviceEndpoint demo_added) ''10.0.0.5:22'' (drop 7 demo_fp) [] = ([], Some demo_key, None)"
    by (simp add: verifyHostKeyLocked_def knownhosts_New_def demo_kenv_def demo_lib_def demo_key_def demo_endpoint demo_fp_def
        is_target_def TrimRight_def HasPrefix_def Let_def)
  ultimately show ?thesis
    by (simp add: probeExpectedHostKey_def demo_probe_def demo_peer_def withKnownHostsLock_def CheckStatus_def ProbeStatus_def
        handshake_def Let_def) (simp add: demo_kenv_def)
qed

lemma finish_enrollment_enrolled: "\<exists>s' v. finish_enrollment db codec nh pk env c d s = (s', RespEnrolled d v)"
  by (simp add: finish_enrollment_def Let_def split: prod.splits)


section \<open>A write that fails behind the replacement\<close>

text \<open>C40. The one failure that is not rolled back: when writing the configuration reports an error although the new file is already in place (the flush of the directory behind the rename failed), the enrollment answers with that error and stops without a rollback, so the device stays in the configuration while neither the adapter, nor the engine, nor known_hosts has it.\<close>

theorem enrollment_write_kept:
  assumes run: "commit_enrollment db codec lib nh pk env cid rq c d pending s = (s', resp)"
    and check: "cm_ctx_locked env = None" "cdFingerprint c' = cdFingerprint c"
      "validateEnrollment db codec (cm_cred env) (cm_load env) (cm_now env) cid rq s = Inr (c', d)"
    and store: "codec_ok codec" "sc_lock (cm_add env) = None" "sc_read (cm_add env) = None" "sc_write (cm_add env) = SaveFailed e True"
    and config: "inventory db codec (asConfig s) = Inr devs" "cName d \<notin> cName ` set devs" "validateDevices db (devs @ [d]) = None"
      "cc_encode codec (devs @ [d]) = Inr b" "length b \<le> maxConfigSize"
  shows "(\<exists>status. resp = RespError status e) \<and> inventory db codec (asConfig s') = Inr (devs @ [d])
    \<and> asAdapter s' = asAdapter s \<and> asEngine s' = asEngine s \<and> asKnown s' = asKnown s"
proof -
  let ?out = "AddContext db (store_env codec (cm_add env) (asConfig s)) d"
  have "add_device_fn d devs = Inr (devs @ [d])" using config(2) unfolding add_device_fn_def list_ex_iff
    by (metis (no_types, lifting) image_eqI)
  then have out: "coErr ?out = Some e" "content_after (cm_add env) ?out (asConfig s) = Some b"
    using store(2-4) config(3-5)
    by (simp_all add: AddContext_def addPrepared_def mutate_def inventory_eq config(1) save_def content_after_def)
  then have "s' = s\<lparr>asConfig := Some b\<rparr> \<and> (\<exists>status. resp = RespError status e)"
    using run check by (auto simp: commit_enrollment_def Let_def split: if_splits)
  with inventory_written [OF store(1) config(4,3)] show ?thesis by auto
qed

theorem enrollment_write_kept_witness:
  "\<exists>s' status. commit_enrollment ascii_only_db demo_codec demo_lib id Some
       ((demo_commit None)\<lparr>cm_add := \<lparr>sc_lock = None, sc_read = None, sc_write = SaveFailed (ErrText ''sync'') True\<rparr>\<rparr>)
       (demo_id CHR ''1'') demo_rq demo_candidate demo_added (Some demo_key) demo_api = (s', RespError status (ErrText ''sync''))
     \<and> inventory ascii_only_db demo_codec (asConfig s') = Inr [demo_added] \<and> asAdapter s' = asAdapter demo_api"
proof -
  let ?env = "(demo_commit None)\<lparr>cm_add := \<lparr>sc_lock = None, sc_read = None, sc_write = SaveFailed (ErrText ''sync'') True\<rparr>\<rparr>"
  obtain s' resp where run: "commit_enrollment ascii_only_db demo_codec demo_lib id Some ?env
       (demo_id CHR ''1'') demo_rq demo_candidate demo_added (Some demo_key) demo_api = (s', resp)" by (meson surj_pair)
  have "validateEnrollment ascii_only_db demo_codec (cm_cred ?env) (cm_load ?env) (cm_now ?env) (demo_id CHR ''1'') demo_rq demo_api
      = Inr (demo_candidate, demo_added)"
    using demo_validate [of demo_api] by (simp add: demo_commit_def demo_api_def)
  from enrollment_write_kept [OF run _ refl this demo_codec_ok, of "ErrText ''sync''" "[]" "''[mini]''"] run show ?thesis
    using demo_inventory demo_added_inventory
    by (auto simp: demo_commit_def demo_api_def demo_codec_def maxConfigSize_def)
qed

end
