(* ===== verification/Discover.thy ===== *)
theory Discover
  imports Scan Candidates
begin

text \<open>
  Bonjour discovery (\<open>cmd/fv-ssh-unlock/discover.go\<close>) and what the daemon makes of a round of
  discovery or of an active scan (\<open>daemon.go\<close>). The mDNS library is the list of entries it delivers;
  an address is its text with the verdicts of \<open>net.IP\<close> that the code asks for.
\<close>

section \<open>Entries\<close>

record net_ip =
  ipText :: string
  ipUnspecified :: bool
  ipLinkLocal :: bool

text \<open>A nil address is \<open>None\<close>.\<close>

record service_entry =
  seHostName :: string
  seInstance :: string
  sePort :: int
  seAddrIPv4 :: "net_ip option list"
  seAddrIPv6 :: "net_ip option list"

record found_device =
  fdInstance :: string
  fdHostname :: string
  fdPort :: int
  fdAddrs :: "string list"

section \<open>DNS escapes\<close>

fun unescapeDNS :: "string \<Rightarrow> string" where
  "unescapeDNS [] = []"
| "unescapeDNS [c] = [c]"
| "unescapeDNS (c # x # s) =
     (if c \<noteq> CHR 0x5C then c # unescapeDNS (x # s)
      else case s of
        y # z # rest \<Rightarrow>
          if is_digit x \<and> is_digit y \<and> is_digit z \<and> digit_val x * 100 + digit_val y * 10 + digit_val z \<le> 255
          then char_of (digit_val x * 100 + digit_val y * 10 + digit_val z) # unescapeDNS rest
          else x # unescapeDNS s
      | _ \<Rightarrow> x # unescapeDNS s)"

section \<open>Merging\<close>

text \<open>\<open>sortAddrs\<close>; the texts come from \<open>ip.String()\<close>, which prints IPv4 addresses in dotted form.\<close>

definition sortAddrs :: "string list \<Rightarrow> string list" where
  "sortAddrs addrs = sort_key (\<lambda>a. (parseIPv4 a = None, a)) addrs"

definition named_addrs :: "net_ip option list \<Rightarrow> string list" where
  "named_addrs ips = map (ipText \<circ> the) (filter (\<lambda>ip. ip \<noteq> None \<and> \<not> ipUnspecified (the ip)) ips)"

definition usable_addrs :: "service_entry \<Rightarrow> string list" where
  "usable_addrs e = named_addrs (seAddrIPv4 e) @
     map (ipText \<circ> the)
       (filter (\<lambda>ip. ip \<noteq> None \<and> \<not> ipUnspecified (the ip) \<and> \<not> ipLinkLocal (the ip)) (seAddrIPv6 e))"

definition entry_host :: "service_entry \<Rightarrow> string" where
  "entry_host e = TrimSuffix (TrimSpace (seHostName e)) ''.''"

definition entry_key :: "unicode_db \<Rightarrow> service_entry \<Rightarrow> string" where
  "entry_key db e =
     (let key = ToLower db (entry_host e);
          addresses = sortAddrs (named_addrs (seAddrIPv4 e) @ named_addrs (seAddrIPv6 e)) in
      if key \<noteq> [] then key
      else if addresses \<noteq> [] then ''endpoint:'' @ Join addresses '','' @ '':'' @ decimal_int (sePort e)
      else [])"

definition add_addr :: "string \<Rightarrow> string list \<Rightarrow> string list" where
  "add_addr a addrs = (if a \<in> set addrs then addrs else addrs @ [a])"

definition merge_device :: "service_entry \<Rightarrow> found_device \<Rightarrow> found_device" where
  "merge_device e d =
     (let name = unescapeDNS (TrimSpace (seInstance e)) in
      \<lparr>fdInstance = (if name \<noteq> [] then name else fdInstance d),
       fdHostname = (if entry_host e \<noteq> [] then entry_host e else fdHostname d),
       fdPort = (if sePort e \<noteq> 0 then sePort e else fdPort d),
       fdAddrs = fold add_addr (usable_addrs e) (fdAddrs d)\<rparr>)"

definition no_device :: found_device where
  "no_device = \<lparr>fdInstance = [], fdHostname = [], fdPort = 0, fdAddrs = []\<rparr>"

definition merge_entry :: "unicode_db \<Rightarrow> service_entry \<Rightarrow> found_device gomap \<Rightarrow> found_device gomap" where
  "merge_entry db e found =
     (let key = entry_key db e in
      if key = [] then found
      else AList.update key (merge_device e (case map_of found key of None \<Rightarrow> no_device | Some d \<Rightarrow> d)) found)"

section \<open>Browsing\<close>

text \<open>
  A round is the entries the services delivered, in the order in which they were merged (\<open>None\<close> for
  nil), and the first error of a service, if one failed. The list of rounds ends when the context does.
\<close>

record browse_round =
  brEntries :: "service_entry option list"
  brError :: "goerr option"

definition browseRound :: "unicode_db \<Rightarrow> service_entry option list \<Rightarrow> found_device gomap \<Rightarrow> found_device gomap" where
  "browseRound db es found = fold (\<lambda>e m. case e of None \<Rightarrow> m | Some s \<Rightarrow> merge_entry db s m) es found"

fun browse_loop ::
    "unicode_db \<Rightarrow> browse_round list \<Rightarrow> nat \<Rightarrow> goerr option \<Rightarrow> found_device gomap
      \<Rightarrow> goerr + (found_device gomap \<times> nat)" where
  "browse_loop db [] rounds firstErr found = Inr (found, rounds)"
| "browse_loop db (r # rs) rounds firstErr found =
     (let found' = browseRound db (brEntries r) found;
          firstErr' = (case firstErr of None \<Rightarrow> brError r | Some _ \<Rightarrow> firstErr);
          n = Suc rounds in
      case firstErr' of
        Some err \<Rightarrow>
          if n = 1 \<and> found' = [] then Inl (errorf ''failed to browse for services'' err)
          else browse_loop db rs n firstErr' found'
      | None \<Rightarrow> browse_loop db rs n firstErr' found')"

definition collectBonjourDevices :: "unicode_db \<Rightarrow> browse_round list \<Rightarrow> goerr + (found_device gomap \<times> nat)" where
  "collectBonjourDevices db rounds = browse_loop db rounds 0 None []"

section \<open>Interfaces\<close>

text \<open>An address of an interface: nil or of another kind (\<open>None\<close>), or whether it has an IPv4 form that is
  neither loopback nor link-local.\<close>

record net_iface =
  ifName :: string
  ifUp :: bool
  ifMulticast :: bool
  ifLoopback :: bool
  ifPointToPoint :: bool
  ifAddrs :: "goerr + (bool option) list"

definition hasRoutableIPv4 :: "net_iface \<Rightarrow> bool" where
  "hasRoutableIPv4 i = (case ifAddrs i of Inl _ \<Rightarrow> False | Inr as \<Rightarrow> Some True \<in> set as)"

definition lan_iface :: "net_iface \<Rightarrow> bool" where
  "lan_iface i \<longleftrightarrow> ifUp i \<and> ifMulticast i \<and> \<not> ifLoopback i \<and> \<not> ifPointToPoint i
     \<and> \<not> HasPrefix (ifName i) ''awdl'' \<and> \<not> HasPrefix (ifName i) ''llw'' \<and> hasRoutableIPv4 i"

definition lanInterfaces :: "goerr + net_iface list \<Rightarrow> string \<Rightarrow> net_iface list" where
  "lanInterfaces all only =
     (case all of
        Inl _ \<Rightarrow> []
      | Inr is \<Rightarrow> if only \<noteq> [] then filter (\<lambda>i. ifName i = only) is else filter lan_iface is)"

section \<open>The report\<close>

definition deviceLabel :: "found_device \<Rightarrow> string" where
  "deviceLabel d = (if fdInstance d \<noteq> [] then fdInstance d else fdHostname d)"

definition device_order :: "found_device gomap \<Rightarrow> found_device gomap" where
  "device_order found = sort_key (\<lambda>(key, d). (deviceLabel d, key)) found"

text \<open>The rows of \<open>printDevices\<close>: label, host name, port (empty for none) and addresses.\<close>

definition printDevices :: "unicode_db \<Rightarrow> found_device gomap \<Rightarrow> (string \<times> string \<times> string \<times> string) list" where
  "printDevices db found =
     map (\<lambda>(key, d). (terminalSafeInline db (deviceLabel d), terminalSafeInline db (fdHostname d),
            (if fdPort d \<noteq> 0 then decimal_int (fdPort d) else []), Join (sortAddrs (fdAddrs d)) '', ''))
       (device_order found)"

section \<open>Rounds of the daemon\<close>

text \<open>The observations of a Bonjour round, one per address; \<open>observedAt\<close> is the time behind the browse.\<close>

definition device_observations :: "time \<Rightarrow> found_device \<Rightarrow> observation list" where
  "device_observations observedAt d =
     (let ob = (\<lambda>address. \<lparr>obSource = ''bonjour'', obObservedAt = observedAt, obName = fdInstance d,
            obHostname = fdHostname d, obAddress = address, obPort = fdPort d, obFingerprint = [], obKeyType = [],
            obEvidence = []\<rparr>) in
      if fdAddrs d = [] then [ob []] else map ob (fdAddrs d))"

definition discoverCandidates ::
    "unicode_db \<Rightarrow> (string \<Rightarrow> goerr + string) \<Rightarrow> cand_saver \<Rightarrow> time \<Rightarrow> (nat \<Rightarrow> goerr + string) \<Rightarrow> goerr + net_iface list \<Rightarrow> string
      \<Rightarrow> browse_round list \<Rightarrow> time \<Rightarrow> inbox \<Rightarrow> inbox \<times> (goerr + ingest_result list)" where
  "discoverCandidates db addr sv now fresh ifaces only rounds observedAt b =
     (if only \<noteq> [] \<and> lanInterfaces ifaces only = [] then
        (b, Inl (ErrText (''interface '' @ Quote db only @ '' not found'')))
      else case collectBonjourDevices db rounds of
        Inl err \<Rightarrow> (b, Inl err)
      | Inr (found, _) \<Rightarrow>
        let obs = concat (map (device_observations observedAt \<circ> snd) found) in
        if obs \<noteq> [] then IngestMany db addr sv now fresh obs b else (b, Inr []))"

text \<open>A round of the active scan.\<close>

definition ip4_text :: "nat \<Rightarrow> string" where
  "ip4_text a = Join (map decimal [a div 256 ^ 3 mod 256, a div 256 ^ 2 mod 256, a div 256 mod 256, a mod 256]) ''.''"

definition scan_observation :: "time \<Rightarrow> scan_finding \<Rightarrow> observation" where
  "scan_observation observedAt f =
     \<lparr>obSource = ''active-scan'', obObservedAt = observedAt, obName = [], obHostname = [], obAddress = ip4_text (sfAddress f),
      obPort = sfPort f, obFingerprint = sfFingerprint f, obKeyType = sfKeyType f, obEvidence = sfEvidence f\<rparr>"

definition scanCandidates ::
    "unicode_db \<Rightarrow> (string \<Rightarrow> goerr + string) \<Rightarrow> cand_saver \<Rightarrow> time \<Rightarrow> (nat \<Rightarrow> goerr + string) \<Rightarrow> (string \<Rightarrow> goerr)
      \<Rightarrow> (nat \<Rightarrow> scan_server option) \<Rightarrow> string list \<Rightarrow> goerr + string list gomap \<Rightarrow> goerr option \<Rightarrow> time \<Rightarrow> inbox
      \<Rightarrow> inbox \<times> (goerr + ingest_result list)" where
  "scanCandidates db addr sv now fresh perr net cidrs pinnedNames ctxErr observedAt b =
     (case expandScanCIDRs db perr cidrs of
        Inl err \<Rightarrow> (b, Inl err)
      | Inr addresses \<Rightarrow>
        (case pinnedNames of
           Inl err \<Rightarrow> (b, Inl err)
         | Inr pinned \<Rightarrow>
           (case collectActiveScan db net 22 pinned ctxErr addresses of
              Inl err \<Rightarrow> (b, Inl err)
            | Inr findings \<Rightarrow>
              let obs = map (scan_observation observedAt) findings in
              if obs \<noteq> [] then IngestMany db addr sv now fresh obs b else (b, Inr []))))"

end
