(* ===== verification/Discover_Facts.thy ===== *)
theory Discover_Facts
  imports Discover
begin

text \<open>
  What discovery promises: the label of a service is decoded, announcements are collected without
  loss by the identity of their host, and a round enters the inbox as a whole or not at all.
\<close>

section \<open>DNS escapes\<close>

text \<open>
  The presentation format of a label: a byte stands for itself, for itself behind a backslash, or as
  three decimal digits behind a backslash.
\<close>

datatype dns_piece = PlainByte char | EscapedByte char | DecimalByte char

definition digit_char :: "nat \<Rightarrow> char" where
  "digit_char n = char_of (48 + n)"

fun piece_text :: "dns_piece \<Rightarrow> string" where
  "piece_text (PlainByte c) = [c]"
| "piece_text (EscapedByte c) = [CHR 0x5C, c]"
| "piece_text (DecimalByte c) =
     (let n = (of_char c :: nat) in [CHR 0x5C, digit_char (n div 100), digit_char (n div 10 mod 10), digit_char (n mod 10)])"

fun piece_byte :: "dns_piece \<Rightarrow> char" where
  "piece_byte (PlainByte c) = c"
| "piece_byte (EscapedByte c) = c"
| "piece_byte (DecimalByte c) = c"

fun piece_ok :: "dns_piece \<Rightarrow> bool" where
  "piece_ok (PlainByte c) = (c \<noteq> CHR 0x5C)"
| "piece_ok (EscapedByte c) = (\<not> is_digit c)"
| "piece_ok (DecimalByte c) = True"

lemma digit_char_facts: "n < 10 \<Longrightarrow> is_digit (digit_char n) \<and> digit_val (digit_char n) = n"
  by (simp add: digit_char_def is_digit_def digit_val_def)

lemma unescape_plain: "c \<noteq> CHR 0x5C \<Longrightarrow> unescapeDNS (c # s) = c # unescapeDNS s"
  by (cases s) auto

lemma unescape_escaped: "\<not> is_digit c \<Longrightarrow> unescapeDNS (CHR 0x5C # c # s) = c # unescapeDNS s"
  by (auto split: list.splits)

lemma unescape_decimal:
  "unescapeDNS (piece_text (DecimalByte c) @ s) = c # unescapeDNS s"
proof -
  let ?n = "of_char c :: nat"
  have n: "?n < 256" by simp
  then have d: "?n div 100 < 10" "?n div 10 mod 10 < 10" "?n mod 10 < 10"
    using less_mult_imp_div_less [of ?n 10 100] less_trans [of ?n 256 1000] by simp_all
  have "?n div 10 * 10 + ?n mod 10 = ?n" "?n div 100 * 10 + ?n div 10 mod 10 = ?n div 10"
    using div_mult_mod_eq [of "?n div 10" 10] by (simp_all flip: div_mult2_eq)
  then have sum: "?n div 100 * 100 + ?n div 10 mod 10 * 10 + ?n mod 10 = ?n" by linarith
  have "?n \<le> 255" using n by linarith
  then show ?thesis using digit_char_facts [OF d(1)] digit_char_facts [OF d(2)] digit_char_facts [OF d(3)]
    by (simp add: Let_def sum)
qed

text \<open>Decoding a service name inverts the DNS presentation format: for every way of writing a byte string with plain bytes, backslash-escaped bytes (a digit only in the decimal form) and three-digit decimal escapes, in any mixture, the decoder gives back exactly those bytes.\<close>

theorem unescape_round_trip:
  assumes "list_all piece_ok ps"
  shows "unescapeDNS (concat (map piece_text ps)) = map piece_byte ps"
  using assms
proof (induction ps)
  case (Cons p ps)
  then show ?case
  proof (cases p)
    case (PlainByte c)
    with Cons show ?thesis by (simp add: unescape_plain)
  next
    case (EscapedByte c)
    with Cons show ?thesis by (simp add: unescape_escaped del: unescapeDNS.simps)
  next
    case (DecimalByte c)
    with Cons unescape_decimal [of c "concat (map piece_text ps)"] show ?thesis by (simp del: unescapeDNS.simps piece_text.simps)
  qed
qed simp

theorem unescape_round_trip_witness:
  "unescapeDNS (concat (map piece_text [PlainByte (CHR ''M''), EscapedByte (CHR '' ''), DecimalByte (CHR 0x5C), DecimalByte (CHR ''9'')]))
     = [CHR ''M'', CHR '' '', CHR 0x5C, CHR ''9'']"
  using unescape_round_trip [of "[PlainByte (CHR ''M''), EscapedByte (CHR '' ''), DecimalByte (CHR 0x5C), DecimalByte (CHR ''9'')]"]
  by (simp add: is_digit_def del: unescapeDNS.simps)

section \<open>Collecting\<close>

lemma fold_add_addr: "set (fold add_addr xs addrs) = set xs \<union> set addrs"
  "distinct addrs \<Longrightarrow> distinct (fold add_addr xs addrs)"
  by (induction xs arbitrary: addrs) (auto simp: add_addr_def)

text \<open>The row of a key for the entries \<open>es\<close>.\<close>

definition entries_of :: "unicode_db \<Rightarrow> string \<Rightarrow> service_entry list \<Rightarrow> service_entry list" where
  "entries_of db key es = filter (\<lambda>e. entry_key db e = key) es"

definition row_ok :: "unicode_db \<Rightarrow> string \<Rightarrow> service_entry list \<Rightarrow> found_device option \<Rightarrow> bool" where
  "row_ok db key es row \<longleftrightarrow>
     (case row of
        None \<Rightarrow> entries_of db key es = []
      | Some d \<Rightarrow> entries_of db key es \<noteq> [] \<and> distinct (fdAddrs d)
          \<and> set (fdAddrs d) = set (concat (map usable_addrs (entries_of db key es)))
          \<and> ToLower db (fdHostname d) \<in> {[], key})"

lemma entry_host_key: "entry_key db e \<noteq> [] \<Longrightarrow> ToLower db (entry_host e) \<in> {[], entry_key db e}"
  by (simp add: entry_key_def Let_def)

lemma ToLower_Nil [simp]: "ToLower db [] = []"
  by (simp add: ToLower_def runes_def encode_runes_def utf8_segments.simps [of "[]"])

lemma row_other: "entry_key db e \<noteq> key \<Longrightarrow> row_ok db key (es @ [e]) row = row_ok db key es row"
  by (cases row) (simp_all add: row_ok_def entries_of_def)

lemma row_merge:
  assumes "entry_key db e = key" "key \<noteq> []" "row_ok db key es row"
  shows "row_ok db key (es @ [e]) (Some (merge_device e (case row of None \<Rightarrow> no_device | Some d \<Rightarrow> d)))"
proof -
  let ?old = "case row of None \<Rightarrow> no_device | Some d \<Rightarrow> d"
  have old: "distinct (fdAddrs ?old)" "ToLower db (fdHostname ?old) \<in> {[], key}"
    "set (fdAddrs ?old) = set (concat (map usable_addrs (entries_of db key es)))"
    using assms(3) by (cases row; simp add: row_ok_def no_device_def)+
  have "ToLower db (entry_host e) \<in> {[], key}" using entry_host_key assms(1,2) by blast
  with old assms(1) show ?thesis
    by (simp add: row_ok_def entries_of_def merge_device_def Let_def fold_add_addr Un_commute)
qed

definition collected :: "unicode_db \<Rightarrow> service_entry list \<Rightarrow> found_device gomap \<Rightarrow> bool" where
  "collected db es found \<longleftrightarrow> wf_map found \<and> (\<forall>key. key \<noteq> [] \<longrightarrow> row_ok db key es (map_of found key))"

lemma collected_merge:
  assumes "collected db es found"
  shows "collected db (es @ [e]) (merge_entry db e found)"
proof -
  have "row_ok db key (es @ [e]) (map_of (merge_entry db e found) key)" if "key \<noteq> []" for key
    using assms that row_merge [of db e key es "map_of found key"] row_other [of db e key]
    by (cases "entry_key db e = key") (auto simp: merge_entry_def Let_def update_conv' collected_def)
  moreover have "wf_map (merge_entry db e found)" using assms by (simp add: merge_entry_def Let_def collected_def)
  ultimately show ?thesis by (simp add: collected_def)
qed

definition delivered :: "service_entry option list \<Rightarrow> service_entry list" where
  "delivered es = map the (filter (\<lambda>e. e \<noteq> None) es)"

lemma collected_round:
  assumes "collected db es found"
  shows "collected db (es @ delivered rs) (browseRound db rs found)"
  using assms
proof (induction rs arbitrary: es found)
  case (Cons r rs)
  show ?case
  proof (cases r)
    case None
    with Cons show ?thesis by (simp add: browseRound_def delivered_def)
  next
    case (Some e)
    with Cons.IH [OF collected_merge [OF Cons.prems], of e] show ?thesis by (simp add: browseRound_def delivered_def)
  qed
qed (simp add: browseRound_def delivered_def)

lemma collected_loop:
  assumes "browse_loop db rs n firstErr found = Inr (found', n')" "collected db es found"
  shows "collected db (es @ concat (map (delivered \<circ> brEntries) rs)) found' \<and> n' = n + length rs"
  using assms
proof (induction rs arbitrary: n firstErr found es)
  case (Cons r rs)
  obtain err' where "browse_loop db rs (Suc n) err' (browseRound db (brEntries r) found) = Inr (found', n')"
    using Cons.prems(1) by (auto simp: Let_def split: option.splits if_splits)
  from Cons.IH [OF this collected_round [OF Cons.prems(2)]] show ?case by simp
qed simp

text \<open>Discovery neither loses nor confuses hosts: when the browse rounds end, there is exactly one row for every identity (the host name without case, or the announced addresses with the port where no host name is known) that some delivered entry has, in whatever order, round or service type the entries arrived; a row holds, without repetition, exactly the usable addresses of all entries of that identity, and a host name shown in it is that identity.\<close>

theorem discovery_exact:
  assumes "collectBonjourDevices db rounds = Inr (found, n)" "key \<noteq> []"
  shows "n = length rounds \<and> distinct (map fst found)
    \<and> (case map_of found key of
         None \<Rightarrow> entries_of db key (concat (map (delivered \<circ> brEntries) rounds)) = []
       | Some d \<Rightarrow> entries_of db key (concat (map (delivered \<circ> brEntries) rounds)) \<noteq> [] \<and> distinct (fdAddrs d)
           \<and> set (fdAddrs d) = set (concat (map usable_addrs (entries_of db key (concat (map (delivered \<circ> brEntries) rounds)))))
           \<and> ToLower db (fdHostname d) \<in> {[], key})"
proof -
  have "collected db [] []" by (simp add: collected_def row_ok_def entries_of_def)
  from collected_loop [OF assms(1) [unfolded collectBonjourDevices_def] this] assms(2) show ?thesis
    by (simp add: collected_def wf_map_def row_ok_def)
qed

definition demo_entry :: "string \<Rightarrow> string \<Rightarrow> service_entry" where
  "demo_entry name address = \<lparr>seHostName = ''mini.local.'', seInstance = name, sePort = 22,
     seAddrIPv4 = [Some \<lparr>ipText = address, ipUnspecified = False, ipLinkLocal = False\<rparr>], seAddrIPv6 = [None]\<rparr>"

definition demo_rounds :: "browse_round list" where
  "demo_rounds = [\<lparr>brEntries = [Some (demo_entry ''Mini'' ''10.0.0.5''), None], brError = None\<rparr>,
     \<lparr>brEntries = [Some (demo_entry ''Mini'' ''10.0.0.6'')], brError = None\<rparr>]"

lemma demo_lower: "ToLower ascii_only_db ''mini.local'' = ''mini.local''"
  by (simp add: ToLower_ascii lower_char_id)

lemma demo_bell: "char_of (7 :: nat) = CHR 0x07"
  by code_simp

lemma demo_trimmed: "TrimSpace ''mini.local.'' = ''mini.local.''"
  by (simp add: TrimSpace_def is_space_def)

lemma demo_label: "TrimSpace ''Mini'' = ''Mini''"
  by (simp add: TrimSpace_def is_space_def)

lemma demo_escaped: "TrimSpace (CHR 0x5C # ''007Mini'') = CHR 0x5C # ''007Mini''"
  by (simp add: TrimSpace_def is_space_def)

lemma demo_suffix: "TrimSuffix ''mini.local.'' ''.'' = ''mini.local''"
  by code_simp

lemmas demo_strings = demo_lower demo_trimmed demo_label demo_escaped demo_suffix demo_bell

lemma demo_entry_facts: "entry_host (demo_entry name a) = ''mini.local''" "entry_key ascii_only_db (demo_entry name a) = ''mini.local''"
  "usable_addrs (demo_entry name a) = [a]" "sePort (demo_entry name a) = 22" "seInstance (demo_entry name a) = name"
proof -
  show host: "entry_host (demo_entry name a) = ''mini.local''" by (simp add: entry_host_def demo_entry_def demo_strings)
  show "entry_key ascii_only_db (demo_entry name a) = ''mini.local''" by (simp add: entry_key_def host demo_strings)
qed (simp_all add: usable_addrs_def named_addrs_def demo_entry_def)

lemma demo_rounds_result:
  "collectBonjourDevices ascii_only_db demo_rounds =
     Inr ([(''mini.local'', \<lparr>fdInstance = ''Mini'', fdHostname = ''mini.local'', fdPort = 22, fdAddrs = [''10.0.0.5'', ''10.0.0.6'']\<rparr>)], 2)"
  by (simp add: collectBonjourDevices_def demo_rounds_def browseRound_def merge_entry_def merge_device_def demo_entry_facts
      demo_strings no_device_def add_addr_def Let_def is_digit_def
      digit_val_def)

theorem discovery_exact_witness:
  "set (concat (map usable_addrs (entries_of ascii_only_db ''mini.local'' (concat (map (delivered \<circ> brEntries) demo_rounds)))))
     = {''10.0.0.5'', ''10.0.0.6''}"
proof -
  have row: "map_of [(''mini.local'', d)] ''mini.local'' = Some d" for d :: found_device by simp
  have "''mini.local'' \<noteq> []" by simp
  note r = discovery_exact [OF demo_rounds_result this, unfolded row option.case]
  have "set (fdAddrs \<lparr>fdInstance = ''Mini'', fdHostname = ''mini.local'', fdPort = 22, fdAddrs = [''10.0.0.5'', ''10.0.0.6'']\<rparr>)
      = {''10.0.0.5'', ''10.0.0.6''}" by simp
  with r show ?thesis by (elim conjE) (simp only:)
qed

section \<open>Rounds of the daemon\<close>

lemma bad_name_refused:
  assumes "normalizePlain db ''name'' (obName ob) 256 = Inl err" "obName ob \<noteq> []"
  shows "\<exists>e. normalizeObservation db addr now ob = Inl e"
proof -
  have "normalize_opt (\<lambda>v. normalizePlain db ''name'' v 256) (obName ob) = Inl err"
    using assms by (simp add: normalize_opt_def)
  then show ?thesis
    by (cases "normalizePlain db ''source'' (obSource ob) 64"; simp add: normalizeObservation_def)
qed

lemma normalize_all_refused:
  assumes "ob \<in> set obs" "normalizeObservation db addr now ob = Inl e"
  shows "\<exists>e. normalize_all db addr now i obs = Inl e"
  using assms
proof (induction obs arbitrary: i)
  case (Cons o1 obs)
  show ?case
  proof (cases "o1 = ob")
    case False
    with Cons obtain e' where "normalize_all db addr now (Suc i) obs = Inl e'" by auto
    then show ?thesis by (cases "normalizeObservation db addr now o1") simp_all
  qed (simp add: Cons.prems(2))
qed simp

text \<open>C39. A Bonjour round is all or nothing, down to a single announcement: if just one of the collected services carries a name that the inbox does not accept (longer than 256 bytes, only blanks, or with a control or formatting character), the whole round is refused with an error and the inbox is unchanged, so no other service of that round is recorded either.\<close>

theorem bonjour_round_refused:
  assumes "collectBonjourDevices db rounds = Inr (found, n)" "(key, d) \<in> set found" "fdInstance d \<noteq> []"
    and "normalizePlain db ''name'' (fdInstance d) 256 = Inl err"
  shows "\<exists>e. discoverCandidates db addr sv now fresh ifaces only rounds observedAt b = (b, Inl e)"
proof -
  let ?obs = "concat (map (device_observations observedAt \<circ> snd) found)"
  let ?ob = "hd (device_observations observedAt d)"
  have "device_observations observedAt d \<noteq> []" by (simp add: device_observations_def Let_def)
  then have "?ob \<in> set (device_observations observedAt d)" by simp
  then have mem: "?ob \<in> set ?obs" using assms(2) by (auto intro!: bexI [of _ "(key, d)"])
  have name: "obName ?ob = fdInstance d" by (cases "fdAddrs d") (simp_all add: device_observations_def Let_def)
  obtain e1 where "normalizeObservation db addr now ?ob = Inl e1"
    using bad_name_refused [of db ?ob err addr now] assms(3,4) name by auto
  then obtain e2 where "normalize_all db addr now 0 ?obs = Inl e2" using normalize_all_refused [OF mem] by blast
  moreover have "?obs \<noteq> []" using mem by force
  ultimately have "IngestMany db addr sv now fresh ?obs b = (b, Inl e2)" by (simp only: IngestMany_def if_False sum.case)
  with \<open>?obs \<noteq> []\<close> assms(1) show ?thesis
    by (cases "only \<noteq> [] \<and> lanInterfaces ifaces only = []") (simp_all only: discoverCandidates_def if_True if_False sum.case
        prod.case Let_def not_False_eq_True simp_thms prod.inject sum.inject)
qed

theorem bonjour_round_refused_witness:
  "\<exists>e. discoverCandidates ascii_only_db Inr (\<lambda>_. SaveOk) 1000 (\<lambda>_. Inr []) (Inr []) []
      [\<lparr>brEntries = [Some (demo_entry (CHR 0x5C # ''007Mini'') ''10.0.0.5'')], brError = None\<rparr>] 1000 (newInbox ''inbox.json'' \<lparr>coTTL = 0, coMaxCandidates = 1, coMaxEvents = 0\<rparr>)
    = (newInbox ''inbox.json'' \<lparr>coTTL = 0, coMaxCandidates = 1, coMaxEvents = 0\<rparr>, Inl e)"
proof -
  have found: "collectBonjourDevices ascii_only_db [\<lparr>brEntries = [Some (demo_entry (CHR 0x5C # ''007Mini'') ''10.0.0.5'')], brError = None\<rparr>]
    = Inr ([(''mini.local'', \<lparr>fdInstance = CHR 0x07 # ''Mini'', fdHostname = ''mini.local'', fdPort = 22, fdAddrs = [''10.0.0.5'']\<rparr>)], 1)"
    by (simp add: collectBonjourDevices_def browseRound_def merge_entry_def merge_device_def demo_entry_facts
      demo_strings no_device_def add_addr_def Let_def is_digit_def
      digit_val_def)
  have "\<exists>err. normalizePlain ascii_only_db ''name'' (CHR 0x07 # ''Mini'') 256 = Inl err"
    by (simp add: normalizePlain_def TrimSpace_def is_space_def runes_def ascii_only_db_def is_control_def Let_def)
  then obtain err where err: "normalizePlain ascii_only_db ''name'' (CHR 0x07 # ''Mini'') 256 = Inl err" by blast
  show ?thesis by (rule bonjour_round_refused [OF found list.set_intros(1), where err = err]) (simp_all add: err)
qed

end
