(* ===== verification/Securefs.thy ===== *)
theory Securefs
  imports Monitor_Engine Go_Paths
begin

text \<open>
  Private files (\<open>internal/securefs\<close>, on Unix): the directory check, opening and reading a file whose
  path others may change at the same time, atomic replacement, and locks. A file system is a table of
  inodes and the links that name them; a path is its own link, the directories on the way are not
  represented. Between the system calls of a read anything may happen to it; the outcome of every
  system call that can fail is an argument. What a crash loses is represented too: content that was
  written and not flushed, and changes of links since the directory was last flushed. That \<open>Stat_t\<close> is missing from the result of a \<open>stat\<close> is not
  represented: on Unix it never is.
\<close>

section \<open>Files\<close>

datatype node_kind = RegularFile | Directory | SymbolicLink | SocketNode | OtherNode

record inode =
  ikind :: node_kind
  iperm :: nat
  iuid :: nat
  idata :: string

text \<open>
  \<open>fsDirty\<close> are the inodes whose content was written and not flushed since, \<open>fsPast\<close> the tables of links
  since the last flush of a directory, the newest first.
\<close>

record fs =
  fsTable :: "nat \<Rightarrow> inode"
  fsLinks :: "nat gomap"
  fsNext :: nat
  fsDirty :: "nat list"
  fsPast :: "nat gomap list"

text \<open>\<open>os.Lstat\<close>: the inode and its number, which \<open>os.SameFile\<close> compares.\<close>

definition node_at :: "fs \<Rightarrow> string \<Rightarrow> (nat \<times> inode) option" where
  "node_at f path = map_option (\<lambda>i. (i, fsTable f i)) (map_of (fsLinks f) path)"

definition set_node :: "nat \<Rightarrow> inode \<Rightarrow> fs \<Rightarrow> fs" where
  "set_node i n f = f\<lparr>fsTable := (fsTable f)(i := n)\<rparr>"

definition relink :: "nat gomap \<Rightarrow> fs \<Rightarrow> fs" where
  "relink links f = f\<lparr>fsLinks := links, fsPast := fsLinks f # fsPast f\<rparr>"

definition create_node :: "string \<Rightarrow> inode \<Rightarrow> fs \<Rightarrow> fs" where
  "create_node path n f =
     (relink (AList.update path (fsNext f) (fsLinks f)) f)\<lparr>fsTable := (fsTable f)(fsNext f := n), fsNext := Suc (fsNext f)\<rparr>"

definition unlink :: "string \<Rightarrow> fs \<Rightarrow> fs" where
  "unlink path f = (if map_of (fsLinks f) path = None then f else relink (AList.delete path (fsLinks f)) f)"

definition rename :: "string \<Rightarrow> string \<Rightarrow> fs \<Rightarrow> fs" where
  "rename old new f =
     (case map_of (fsLinks f) old of
        None \<Rightarrow> f
      | Some i \<Rightarrow> relink (AList.update new i (AList.delete old (fsLinks f))) f)"

definition write_node :: "nat \<Rightarrow> string \<Rightarrow> fs \<Rightarrow> fs" where
  "write_node i data f = (set_node i ((fsTable f i)\<lparr>idata := data\<rparr>) f)\<lparr>fsDirty := i # fsDirty f\<rparr>"

text \<open>\<open>fsync\<close> of a file, and of a directory.\<close>

definition sync_node :: "nat \<Rightarrow> fs \<Rightarrow> fs" where
  "sync_node i f = f\<lparr>fsDirty := removeAll i (fsDirty f)\<rparr>"

definition sync_links :: "fs \<Rightarrow> fs" where
  "sync_links f = f\<lparr>fsPast := []\<rparr>"

text \<open>
  What may be found behind a crash: changes of links reach the disk in the order they are made, so the
  links are those of one of the tables since the last flush; the content of an inode that was
  not flushed can be anything.
\<close>

definition crash_links :: "fs \<Rightarrow> nat gomap list" where
  "crash_links f = fsLinks f # fsPast f"

definition crash :: "fs \<Rightarrow> fs \<Rightarrow> bool" where
  "crash f g \<longleftrightarrow> fsLinks g \<in> set (crash_links f) \<and> (\<forall>i. i \<notin> set (fsDirty f) \<longrightarrow> fsTable g i = fsTable f i)"

section \<open>Permissions\<close>

definition FileMode :: nat where "FileMode = 384"

text \<open>The low six bits, \<open>0o077\<close>, are those of group and others.\<close>

definition octal4 :: "nat \<Rightarrow> string" where
  "octal4 n = map (\<lambda>k. char_of (48 + n div 8 ^ k mod 8)) [3, 2, 1, 0]"

definition VerifyPrivatePermissions :: "inode \<Rightarrow> goerr option" where
  "VerifyPrivatePermissions n =
     (if iperm n mod 64 \<noteq> 0 then
        Some (ErrText (''permissions are '' @ octal4 (iperm n) @ ''; expected no group or other access''))
      else None)"

definition verifyPrivateFile :: "nat \<Rightarrow> inode \<Rightarrow> goerr option" where
  "verifyPrivateFile euid n =
     (case VerifyPrivatePermissions n of
        Some err \<Rightarrow> Some err
      | None \<Rightarrow>
        if iuid n \<noteq> euid then
          Some (ErrText (''owner uid is '' @ decimal (iuid n) @ ''; expected current uid '' @ decimal euid))
        else None)"

definition verifyPrivateDirectory :: "nat \<Rightarrow> string \<Rightarrow> inode \<Rightarrow> goerr option" where
  "verifyPrivateDirectory euid purpose n =
     (if iperm n mod 64 \<noteq> 0 then
        Some (ErrText (purpose @ '' directory must not be accessible by group or other users''))
      else if iuid n \<noteq> euid then
        Some (ErrText (purpose @ '' directory owner uid is '' @ decimal (iuid n) @ ''; expected current uid '' @ decimal euid))
      else None)"

text \<open>\<open>chmod_err\<close> is the error of \<open>file.Chmod\<close>, \<open>stat_err\<close> that of \<open>file.Stat\<close> in the verification behind it.\<close>

definition securePrivateFile :: "nat \<Rightarrow> goerr option \<Rightarrow> goerr option \<Rightarrow> nat \<Rightarrow> fs \<Rightarrow> fs \<times> goerr option" where
  "securePrivateFile euid chmod_err stat_err i f =
     (case chmod_err of
        Some err \<Rightarrow> (f, Some err)
      | None \<Rightarrow>
        let n = (fsTable f i)\<lparr>iperm := FileMode\<rparr> in
        (set_node i n f, case stat_err of Some err \<Rightarrow> Some err | None \<Rightarrow> verifyPrivateFile euid n))"

section \<open>Directories\<close>

definition Dir :: "string \<Rightarrow> string" where
  "Dir path = Clean (rev (dropWhile (\<lambda>c. c \<noteq> CHR ''/'') (rev path)))"

record dir_env =
  de_lstat :: "goerr option"
  de_mkdir :: "goerr option"
  de_relstat :: "goerr option"

definition dir_verdict :: "nat \<Rightarrow> string \<Rightarrow> string \<Rightarrow> fs \<Rightarrow> goerr option" where
  "dir_verdict euid purpose clean f =
     (case node_at f clean of
        None \<Rightarrow> Some (Sentinel NotExist)
      | Some (_, n) \<Rightarrow>
        if ikind n \<noteq> Directory then Some (ErrText (purpose @ '' directory is not a secure directory: '' @ clean))
        else verifyPrivateDirectory euid purpose n)"

definition EnsurePrivateDirectory :: "nat \<Rightarrow> dir_env \<Rightarrow> string \<Rightarrow> string \<Rightarrow> fs \<Rightarrow> fs \<times> goerr option" where
  "EnsurePrivateDirectory euid env path purpose f =
     (let clean = Clean path in
      case de_lstat env of
        Some err \<Rightarrow> (f, Some err)
      | None \<Rightarrow>
        if node_at f clean = None then
          (case de_mkdir env of
             Some err \<Rightarrow> (f, Some err)
           | None \<Rightarrow>
             let f1 = create_node clean \<lparr>ikind = Directory, iperm = 448, iuid = euid, idata = []\<rparr> f in
             (case de_relstat env of
                Some err \<Rightarrow> (f1, Some err)
              | None \<Rightarrow> (f1, dir_verdict euid purpose clean f1)))
        else (f, dir_verdict euid purpose clean f))"

section \<open>Opening and reading\<close>

text \<open>What fails, and what others do between the calls: behind the open, the \<open>fstat\<close> and the \<open>lstat\<close>.\<close>

record open_env =
  oe_open :: "goerr option"
  oe_loop :: goerr           \<comment> \<open>the error of opening a symbolic link with \<open>O_NOFOLLOW\<close>\<close>
  oe_stat :: "goerr option"
  oe_lstat :: "goerr option"
  oe_chmod :: "goerr option"
  oe_restat :: "goerr option"
  oe_opened :: "fs \<Rightarrow> fs"
  oe_statted :: "fs \<Rightarrow> fs"
  oe_lstatted :: "fs \<Rightarrow> fs"

definition openFileNoFollow :: "nat \<Rightarrow> open_env \<Rightarrow> string \<Rightarrow> bool \<Rightarrow> fs \<Rightarrow> fs \<times> (goerr + nat)" where
  "openFileNoFollow euid env path create f =
     (case oe_open env of
        Some err \<Rightarrow> (f, Inl err)
      | None \<Rightarrow>
        (case node_at f path of
           None \<Rightarrow>
             if create then (create_node path \<lparr>ikind = RegularFile, iperm = FileMode, iuid = euid, idata = []\<rparr> f, Inr (fsNext f))
             else (f, Inl (Sentinel NotExist))
         | Some (i, n) \<Rightarrow> if ikind n = SymbolicLink then (f, Inl (oe_loop env)) else (f, Inr i)))"

definition not_stable :: "string \<Rightarrow> string \<Rightarrow> goerr" where
  "not_stable purpose path = ErrText (purpose @ '' is not a stable regular file: '' @ path)"

definition openChecked :: "nat \<Rightarrow> open_env \<Rightarrow> string \<Rightarrow> string \<Rightarrow> bool \<Rightarrow> bool \<Rightarrow> fs \<Rightarrow> fs \<times> (goerr + nat)" where
  "openChecked euid env path purpose create repairMode f =
     (case openFileNoFollow euid env path create f of
        (f1, Inl err) \<Rightarrow>
          let f2 = oe_opened env f1 in
          (f2, Inl (case (oe_lstat env, node_at f2 path) of
              (None, Some (_, linked)) \<Rightarrow> if ikind linked \<noteq> RegularFile then not_stable purpose path else err
            | _ \<Rightarrow> err))
      | (f1, Inr i) \<Rightarrow>
        let f2 = oe_opened env f1 in
        case oe_stat env of
          Some err \<Rightarrow> (f2, Inl err)
        | None \<Rightarrow>
          let opened = fsTable f2 i; f3 = oe_statted env f2 in
          (case (oe_lstat env, node_at f3 path) of
             (Some err, _) \<Rightarrow> (f3, Inl err)
           | (None, None) \<Rightarrow> (f3, Inl (Sentinel NotExist))
           | (None, Some (j, linked)) \<Rightarrow>
             if ikind opened \<noteq> RegularFile \<or> ikind linked \<noteq> RegularFile \<or> i \<noteq> j then (f3, Inl (not_stable purpose path))
             else if repairMode then
               (case securePrivateFile euid (oe_chmod env) (oe_restat env) i (oe_lstatted env f3) of
                  (f4, Some err) \<Rightarrow> (f4, Inl err)
                | (f4, None) \<Rightarrow> (f4, Inr i))
             else (oe_lstatted env f3, Inr i)))"

definition OpenStable :: "nat \<Rightarrow> open_env \<Rightarrow> string \<Rightarrow> string \<Rightarrow> fs \<Rightarrow> fs \<times> (goerr + nat)" where
  "OpenStable euid env path purpose f = openChecked euid env path purpose False False f"

definition OpenPrivate :: "nat \<Rightarrow> open_env \<Rightarrow> string \<Rightarrow> string \<Rightarrow> bool \<Rightarrow> fs \<Rightarrow> fs \<times> (goerr + nat)" where
  "OpenPrivate euid env path purpose create f = openChecked euid env path purpose create True f"

record read_env =
  re_open :: open_env
  re_stat :: "goerr option"
  re_verify_stat :: "goerr option"
  re_read :: "goerr option"
  re_statted :: "fs \<Rightarrow> fs"
  re_verified :: "fs \<Rightarrow> fs"

definition ReadPrivate :: "nat \<Rightarrow> read_env \<Rightarrow> string \<Rightarrow> string \<Rightarrow> int \<Rightarrow> fs \<Rightarrow> fs \<times> (goerr + string)" where
  "ReadPrivate euid env path purpose maximum f =
     (let too_big = ErrText (purpose @ '' exceeds '' @ decimal_int maximum @ '' bytes'') in
      if maximum < 0 then (f, Inl (ErrText (purpose @ '' maximum size must not be negative'')))
      else case OpenStable euid (re_open env) path purpose f of
        (f1, Inl err) \<Rightarrow> (f1, Inl err)
      | (f1, Inr i) \<Rightarrow>
        (case re_stat env of
           Some err \<Rightarrow> (f1, Inl err)
         | None \<Rightarrow>
           if maximum < int (length (idata (fsTable f1 i))) then (f1, Inl too_big)
           else
             let f2 = re_statted env f1 in
             case (case re_verify_stat env of Some err \<Rightarrow> Some err | None \<Rightarrow> verifyPrivateFile euid (fsTable f2 i)) of
               Some err \<Rightarrow> (f2, Inl (errorf (''insecure '' @ purpose @ '' file '' @ path) err))
             | None \<Rightarrow>
               let f3 = re_verified env f2; data = take (nat (s64 (maximum + 1))) (idata (fsTable f3 i)) in
               (case re_read env of
                  Some err \<Rightarrow> (f3, Inl err)
                | None \<Rightarrow> if maximum < int (length data) then (f3, Inl too_big) else (f3, Inr data))))"

section \<open>Replacing\<close>

record write_env =
  we_dir :: dir_env
  we_lstat :: "goerr option"
  we_create :: "goerr + string"   \<comment> \<open>the name of the temporary file\<close>
  we_chmod :: "goerr option"
  we_stat :: "goerr option"
  we_written :: nat               \<comment> \<open>the bytes written when the write fails\<close>
  we_write :: "goerr option"
  we_sync :: "goerr option"
  we_close :: "goerr option"
  we_rename :: "goerr option"
  we_opendir :: "goerr option"
  we_dirsync :: "goerr option"
  we_remove :: "goerr option"     \<comment> \<open>of removing the temporary file, which the code ignores\<close>

definition ReplaceFile :: "write_env \<Rightarrow> string \<Rightarrow> string \<Rightarrow> fs \<Rightarrow> fs list \<times> goerr option" where
  "ReplaceFile env old new f =
     (case we_rename env of
        Some err \<Rightarrow> ([f], Some err)
      | None \<Rightarrow>
        let f1 = rename old new f in
        (case we_opendir env of
           Some err \<Rightarrow> ([f1], Some err)
         | None \<Rightarrow> (case we_dirsync env of Some err \<Rightarrow> ([f1], Some err) | None \<Rightarrow> ([f1, sync_links f1], None))))"

text \<open>The steps on the temporary file: the states they pass, in order, and the error.\<close>

definition write_steps :: "nat \<Rightarrow> write_env \<Rightarrow> string \<Rightarrow> string \<Rightarrow> nat \<Rightarrow> string \<Rightarrow> fs \<Rightarrow> fs list \<times> goerr option" where
  "write_steps euid env path tmp i data f =
     (case securePrivateFile euid (we_chmod env) (we_stat env) i f of
        (f1, Some err) \<Rightarrow> ([f1], Some err)
      | (f1, None) \<Rightarrow>
        (case we_write env of
           Some err \<Rightarrow> ([f1, write_node i (take (we_written env) data) f1], Some err)
         | None \<Rightarrow>
           let f2 = write_node i data f1 in
           (case we_sync env of
              Some err \<Rightarrow> ([f1, f2], Some err)
            | None \<Rightarrow>
              let f3 = sync_node i f2 in
              (case we_close env of
                 Some err \<Rightarrow> ([f1, f2, f3], Some err)
               | None \<Rightarrow> (case ReplaceFile env tmp path f3 of (states, err) \<Rightarrow> (f1 # f2 # f3 # states, err))))))"

definition remove_temporary :: "write_env \<Rightarrow> string \<Rightarrow> fs \<Rightarrow> fs" where
  "remove_temporary env tmp f = (if we_remove env = None then unlink tmp f else f)"

text \<open>All states that the file system passes, the last one behind the deferred removal of the temporary file.\<close>

definition WritePrivate :: "nat \<Rightarrow> write_env \<Rightarrow> string \<Rightarrow> string \<Rightarrow> string \<Rightarrow> fs \<Rightarrow> fs list \<times> goerr option" where
  "WritePrivate euid env path purpose data f =
     (case EnsurePrivateDirectory euid (we_dir env) (Dir path) purpose f of
        (f1, Some err) \<Rightarrow> ([f1], Some err)
      | (f1, None) \<Rightarrow>
        (case we_lstat env of
           Some err \<Rightarrow> ([f1], Some err)
         | None \<Rightarrow>
           if (case node_at f1 path of None \<Rightarrow> False | Some (_, n) \<Rightarrow> ikind n \<noteq> RegularFile) then
             ([f1], Some (ErrText (purpose @ '' is not a regular file: '' @ path)))
           else (case we_create env of
               Inl err \<Rightarrow> ([f1], Some err)
             | Inr tmp \<Rightarrow>
               let i = fsNext f1;
                   f2 = create_node tmp \<lparr>ikind = RegularFile, iperm = FileMode, iuid = euid, idata = []\<rparr> f1;
                   (states, err) = write_steps euid env path tmp i data f2 in
               (f1 # f2 # states @ [remove_temporary env tmp (last states)], err))))"

section \<open>Locks\<close>

text \<open>
  The context of a wait is given; the program never passes \<open>nil\<close>. One turn of the loop: the lock is granted, it is held elsewhere (with the error of the context if that
  ends the wait), or the call fails. The list of turns is as long as others hold the lock; \<open>None\<close> is a
  wait that has not ended.
\<close>

datatype flock_turn = FlockGranted | FlockBusy "goerr option" | FlockFailed goerr

fun lockFileContext :: "flock_turn list \<Rightarrow> goerr option option" where
  "lockFileContext [] = None"
| "lockFileContext (FlockGranted # ts) = Some None"
| "lockFileContext (FlockFailed err # ts) = Some (Some err)"
| "lockFileContext (FlockBusy (Some err) # ts) = Some (Some err)"
| "lockFileContext (FlockBusy None # ts) = lockFileContext ts"

definition AcquireLockContext ::
    "nat \<Rightarrow> dir_env \<Rightarrow> open_env \<Rightarrow> flock_turn list \<Rightarrow> string \<Rightarrow> string \<Rightarrow> fs \<Rightarrow> fs \<times> (goerr + nat) option" where
  "AcquireLockContext euid denv oenv turns path purpose f =
     (case EnsurePrivateDirectory euid denv (Dir path) purpose f of
        (f1, Some err) \<Rightarrow> (f1, Some (Inl err))
      | (f1, None) \<Rightarrow>
        (case OpenPrivate euid oenv path purpose True f1 of
           (f2, Inl err) \<Rightarrow> (f2, Some (Inl err))
         | (f2, Inr i) \<Rightarrow>
           (f2, map_option (\<lambda>r. case r of
               Some err \<Rightarrow> Inl (errorf (''lock '' @ purpose) err) | None \<Rightarrow> Inr i) (lockFileContext turns))))"

text \<open>\<open>busy\<close> is the error of the attempt, if another process holds the lock.\<close>

definition TryAcquireLock ::
    "nat \<Rightarrow> dir_env \<Rightarrow> open_env \<Rightarrow> goerr option \<Rightarrow> string \<Rightarrow> string \<Rightarrow> fs \<Rightarrow> fs \<times> (goerr + nat)" where
  "TryAcquireLock euid denv oenv busy path purpose f =
     (case EnsurePrivateDirectory euid denv (Dir path) purpose f of
        (f1, Some err) \<Rightarrow> (f1, Inl err)
      | (f1, None) \<Rightarrow>
        (case OpenPrivate euid oenv path purpose True f1 of
           (f2, Inl err) \<Rightarrow> (f2, Inl err)
         | (f2, Inr i) \<Rightarrow>
           (f2, case busy of
              None \<Rightarrow> Inr i
            | Some cause \<Rightarrow>
              Inl (Wrapped (sentinel_text ErrLockUnavailable @ '': '' @ purpose @ '' ('' @ err_msg cause @ '')'')
                [Sentinel ErrLockUnavailable, cause]))))"

end
