(* ===== verification/Securefs_Facts.thy ===== *)
theory Securefs_Facts
  imports Securefs
begin

text \<open>
  What private files promise: a replacement is seen whole or not at all, also behind a crash, which loses
  what was not flushed, and is what every store of the program assumes of a write; a read that succeeds returns the private file
  that the path named, whatever other accounts do at the same time.
\<close>

section \<open>What is kept\<close>

text \<open>The content that a path shows.\<close>

definition shown :: "fs \<Rightarrow> string \<Rightarrow> string option" where
  "shown f path = map_option (idata \<circ> snd) (node_at f path)"

definition wf_fs :: "fs \<Rightarrow> bool" where
  "wf_fs f \<longleftrightarrow> (\<forall>links \<in> set (crash_links f). \<forall>path i. map_of links path = Some i \<longrightarrow> i < fsNext f)
     \<and> (\<forall>i \<in> set (fsDirty f). i < fsNext f)"

lemma wf_fsD: "wf_fs f \<Longrightarrow> map_of (fsLinks f) path = Some i \<Longrightarrow> i < fsNext f"
  by (simp add: wf_fs_def crash_links_def)

lemma fsLinks_crash_links [simp]: "fsLinks f \<in> set (crash_links f)"
  by (simp add: crash_links_def)

lemma crash_links_relink [simp]: "crash_links (relink links f) = links # crash_links f"
  by (simp add: crash_links_def relink_def)

lemma relink_simps [simp]: "fsTable (relink links f) = fsTable f" "fsDirty (relink links f) = fsDirty f"
  "fsLinks (relink links f) = links" "fsNext (relink links f) = fsNext f"
  by (simp_all add: relink_def)

lemma create_node_simps [simp]:
  "fsTable (create_node path n f) = (fsTable f)(fsNext f := n)" "fsDirty (create_node path n f) = fsDirty f"
  "fsLinks (create_node path n f) = AList.update path (fsNext f) (fsLinks f)"
  "crash_links (create_node path n f) = AList.update path (fsNext f) (fsLinks f) # crash_links f"
  "fsNext (create_node path n f) = Suc (fsNext f)"
  by (simp_all add: create_node_def crash_links_def relink_def)

lemma set_node_simps [simp]:
  "fsTable (set_node i n f) = (fsTable f)(i := n)" "fsDirty (set_node i n f) = fsDirty f"
  "fsLinks (set_node i n f) = fsLinks f" "crash_links (set_node i n f) = crash_links f"
  by (simp_all add: set_node_def crash_links_def)

lemma write_node_simps [simp]:
  "fsTable (write_node i data f) = (fsTable f)(i := (fsTable f i)\<lparr>idata := data\<rparr>)" "fsDirty (write_node i data f) = i # fsDirty f"
  "fsLinks (write_node i data f) = fsLinks f" "crash_links (write_node i data f) = crash_links f"
  by (simp_all add: write_node_def set_node_def crash_links_def)

lemma sync_simps [simp]:
  "fsTable (sync_node i f) = fsTable f" "fsDirty (sync_node i f) = removeAll i (fsDirty f)"
  "fsLinks (sync_node i f) = fsLinks f" "crash_links (sync_node i f) = crash_links f"
  "fsTable (sync_links f) = fsTable f" "fsDirty (sync_links f) = fsDirty f"
  "fsLinks (sync_links f) = fsLinks f" "crash_links (sync_links f) = [fsLinks f]"
  by (simp_all add: sync_node_def sync_links_def crash_links_def)

lemma wf_create: "wf_fs f \<Longrightarrow> wf_fs (create_node path n f)"
  using wf_fsD [of f] by (auto simp: wf_fs_def update_conv' less_Suc_eq split: if_splits)

lemma wf_unlink: "wf_fs f \<Longrightarrow> wf_fs (unlink path f)"
  using wf_fsD [of f] by (auto simp: wf_fs_def unlink_def delete_conv' split: if_splits)

text \<open>What \<open>path\<close> shows has reached the disk: no crash can change it.\<close>

definition on_disk :: "fs \<Rightarrow> string \<Rightarrow> bool" where
  "on_disk f path \<longleftrightarrow> list_all (\<lambda>links. map_of links path = map_of (fsLinks f) path) (crash_links f)
     \<and> (case map_of (fsLinks f) path of None \<Rightarrow> True | Some i \<Rightarrow> i \<notin> set (fsDirty f))"

lemma on_diskD:
  assumes "on_disk f path"
  shows "links \<in> set (crash_links f) \<Longrightarrow> map_of links path = map_of (fsLinks f) path"
    "map_of (fsLinks f) path = Some i \<Longrightarrow> i \<notin> set (fsDirty f)"
proof -
  show "links \<in> set (crash_links f) \<Longrightarrow> map_of links path = map_of (fsLinks f) path"
    using assms unfolding on_disk_def list_all_iff by blast
  show "map_of (fsLinks f) path = Some i \<Longrightarrow> i \<notin> set (fsDirty f)"
    using assms by (simp add: on_disk_def)
qed

lemma on_disk_crash:
  assumes "on_disk f path" "crash f c"
  shows "shown c path = shown f path"
proof -
  have l: "map_of (fsLinks c) path = map_of (fsLinks f) path" using on_diskD(1) [OF assms(1)] assms(2) unfolding crash_def by blast
  have "fsTable c i = fsTable f i" if "map_of (fsLinks f) path = Some i" for i
    using on_diskD(2) [OF assms(1) that] assms(2) by (simp add: crash_def)
  with l show ?thesis by (cases "map_of (fsLinks f) path") (simp_all add: shown_def node_at_def)
qed

text \<open>
  \<open>g\<close> came from \<open>f\<close> by changes of the names \<open>X\<close> and of inodes that \<open>f\<close> did not have. The first part
  is about the links in use, the second about those a crash may bring back.
\<close>

definition keeps :: "string set \<Rightarrow> fs \<Rightarrow> fs \<Rightarrow> bool" where
  "keeps X f g \<longleftrightarrow> (\<forall>p. p \<notin> X \<longrightarrow> map_of (fsLinks g) p = map_of (fsLinks f) p)
     \<and> (\<forall>links \<in> set (crash_links g). \<forall>p. p \<notin> X \<and> on_disk f p \<longrightarrow> map_of links p = map_of (fsLinks f) p)
     \<and> (\<forall>i < fsNext f. fsTable g i = fsTable f i \<and> (i \<in> set (fsDirty g) \<longrightarrow> i \<in> set (fsDirty f)))"

lemma keeps_refl: "keeps X f f"
  by (auto simp: keeps_def dest: on_diskD(1))

lemma keeps_mono: "keeps X f g \<Longrightarrow> X \<subseteq> Y \<Longrightarrow> keeps Y f g"
  by (fastforce simp: keeps_def)

lemma keeps_relink:
  "keeps X f g \<Longrightarrow> (\<And>p. p \<notin> X \<Longrightarrow> map_of links p = map_of (fsLinks g) p) \<Longrightarrow> keeps X f (relink links g)"
  by (auto simp: keeps_def)

lemma keeps_create: "keeps X f g \<Longrightarrow> path \<in> X \<Longrightarrow> fsNext f \<le> fsNext g \<Longrightarrow> keeps X f (create_node path n g)"
  by (auto simp: keeps_def update_conv')

lemma keeps_unlink: "keeps X f g \<Longrightarrow> path \<in> X \<Longrightarrow> keeps X f (unlink path g)"
  unfolding unlink_def by (cases "map_of (fsLinks g) path") (auto simp: delete_conv' intro: keeps_relink)

lemma keeps_inode:
  assumes "keeps X f g" "fsNext f \<le> i"
  shows "keeps X f (set_node i n g)" "keeps X f (write_node i data g)" "keeps X f (sync_node i g)"
  using assms by (auto simp: keeps_def)

lemma keeps_sync_links: "keeps X f g \<Longrightarrow> keeps X f (sync_links g)"
  by (auto simp: keeps_def)

lemma keeps_shown:
  assumes "wf_fs f" "keeps X f g" "p \<notin> X"
  shows "shown g p = shown f p"
  using assms wf_fsD [of f p] by (cases "map_of (fsLinks f) p") (auto simp: keeps_def shown_def node_at_def)

lemma keeps_crash:
  assumes "wf_fs f" "keeps X f g" "crash g c" "p \<notin> X" "on_disk f p"
  shows "shown c p = shown f p"
proof -
  have l: "map_of (fsLinks c) p = map_of (fsLinks f) p" using assms by (auto simp: keeps_def crash_def)
  show ?thesis
  proof (cases "map_of (fsLinks f) p")
    case (Some i)
    then have "i < fsNext f" "i \<notin> set (fsDirty f)" using wf_fsD [OF assms(1)] on_diskD(2) [OF assms(5)] by auto
    then have "fsTable c i = fsTable f i" using assms(2,3) by (auto simp: keeps_def crash_def)
    with l Some show ?thesis by (simp add: shown_def node_at_def)
  qed (use l in \<open>simp add: shown_def node_at_def\<close>)
qed

section \<open>Replacing\<close>

text \<open>
  The new content is in place: the path has its inode, which is flushed, and a crash brings back
  either that or the old link.
\<close>

definition installed :: "string set \<Rightarrow> string \<Rightarrow> string \<Rightarrow> fs \<Rightarrow> fs \<Rightarrow> bool" where
  "installed X path data f g \<longleftrightarrow> keeps (insert path X) f g
     \<and> (\<exists>i. i \<notin> set (fsDirty g) \<and> idata (fsTable g i) = data \<and> map_of (fsLinks g) path = Some i
          \<and> (\<forall>links \<in> set (crash_links g). on_disk f path \<longrightarrow>
               map_of links path = map_of (fsLinks f) path \<or> map_of links path = Some i))"

definition settled :: "string set \<Rightarrow> string \<Rightarrow> string \<Rightarrow> fs \<Rightarrow> fs \<Rightarrow> bool" where
  "settled X path data f g \<longleftrightarrow> keeps X f g \<or> installed X path data f g"

lemma settled_shown:
  assumes "wf_fs f" "settled X path data f g" "path \<notin> X"
  shows "shown g path \<in> {shown f path, Some data}" "p \<notin> insert path X \<Longrightarrow> shown g p = shown f p"
proof -
  show "shown g path \<in> {shown f path, Some data}"
    using assms keeps_shown [OF assms(1)] by (auto simp: settled_def installed_def) (auto simp: shown_def node_at_def)
  show "shown g p = shown f p" if "p \<notin> insert path X"
    using assms(2) that keeps_shown [OF assms(1)] by (auto simp: settled_def installed_def)
qed

lemma settled_crash:
  assumes "wf_fs f" "settled X path data f g" "path \<notin> X" "crash g c"
  shows "on_disk f path \<Longrightarrow> shown c path \<in> {shown f path, Some data}"
    "p \<notin> insert path X \<Longrightarrow> on_disk f p \<Longrightarrow> shown c p = shown f p"
proof -
  show "shown c p = shown f p" if "p \<notin> insert path X" "on_disk f p"
    using assms(2) that keeps_crash [OF assms(1) _ assms(4)] by (auto simp: settled_def installed_def)
  assume od: "on_disk f path"
  show "shown c path \<in> {shown f path, Some data}"
  proof (cases "keeps X f g")
    case True
    then show ?thesis using keeps_crash [OF assms(1) _ assms(4)] assms(3) od by blast
  next
    case False
    then obtain i where k: "keeps (insert path X) f g" and i: "i \<notin> set (fsDirty g)" "idata (fsTable g i) = data"
      "\<forall>links \<in> set (crash_links g). map_of links path = map_of (fsLinks f) path \<or> map_of links path = Some i"
      using assms(2) od by (auto simp: settled_def installed_def)
    from i(3) assms(4) have "map_of (fsLinks c) path = map_of (fsLinks f) path \<or> map_of (fsLinks c) path = Some i"
      by (auto simp: crash_def)
    then show ?thesis
    proof
      assume l: "map_of (fsLinks c) path = Some i"
      have "fsTable c i = fsTable g i" using assms(4) i(1) by (simp add: crash_def)
      with l i(2) show ?thesis by (simp add: shown_def node_at_def)
    next
      assume l: "map_of (fsLinks c) path = map_of (fsLinks f) path"
      have "fsTable c j = fsTable f j" if "map_of (fsLinks f) path = Some j" for j
      proof -
        have "j < fsNext f" "j \<notin> set (fsDirty f)" using that wf_fsD [OF assms(1)] on_diskD(2) [OF od] by auto
        then show ?thesis using k assms(4) by (auto simp: keeps_def crash_def)
      qed
      with l have "shown c path = shown f path"
        by (cases "map_of (fsLinks f) path") (auto simp: shown_def node_at_def)
      then show ?thesis by simp
    qed
  qed
qed

lemma settled_unlink:
  assumes "settled X path data f g" "tmp \<in> X" "path \<notin> X"
  shows "settled X path data f (unlink tmp g)"
proof (cases "keeps X f g")
  case True
  then show ?thesis using keeps_unlink [OF _ assms(2)] by (simp add: settled_def)
next
  case False
  then have i: "installed X path data f g" using assms(1) by (simp add: settled_def)
  moreover have "keeps (insert path X) f (unlink tmp g)" using i keeps_unlink assms(2) by (simp add: installed_def)
  moreover have "tmp \<noteq> path" using assms by blast
  ultimately have "installed X path data f (unlink tmp g)"
    by (auto simp: installed_def unlink_def delete_conv')
  then show ?thesis by (simp add: settled_def)
qed

lemma installed_rename:
  assumes k: "keeps X f g" and tmp: "map_of (fsLinks g) tmp = Some i" "tmp \<in> X" "path \<notin> X"
    and i: "i \<notin> set (fsDirty g)" "idata (fsTable g i) = data"
  shows "installed X path data f (rename tmp path g)"
proof -
  have "keeps (insert path X) f (rename tmp path g)"
    unfolding rename_def tmp(1) option.case
    by (rule keeps_relink [OF keeps_mono [OF k]]) (use tmp in \<open>auto simp: update_conv' delete_conv'\<close>)
  moreover have "map_of links path = map_of (fsLinks f) path" if "links \<in> set (crash_links g)" "on_disk f path" for links
    using k that tmp(3) by (auto simp: keeps_def)
  ultimately show ?thesis using tmp i
    by (auto simp: installed_def rename_def update_conv' intro!: exI [of _ i])
qed

lemma installed_sync_links: "installed X path data f g \<Longrightarrow> installed X path data f (sync_links g)"
  unfolding installed_def by (auto simp: keeps_sync_links)

text \<open>A run on the temporary file, up to its removal.\<close>

definition complete :: "nat \<Rightarrow> string \<Rightarrow> string \<Rightarrow> nat \<Rightarrow> inode \<Rightarrow> fs \<Rightarrow> bool" where
  "complete euid path data i n g \<longleftrightarrow> node_at g path = Some (i, n\<lparr>iperm := FileMode, idata := data\<rparr>)
     \<and> crash_links g = [fsLinks g] \<and> i \<notin> set (fsDirty g)"

lemma complete_crash: "complete euid path data i n g \<Longrightarrow> crash g c \<Longrightarrow> shown c path = Some data"
  by (auto simp: complete_def crash_def shown_def node_at_def)

lemma ReplaceFile_settled:
  assumes "ReplaceFile env tmp path g = (states, err)" "keeps X f g" "map_of (fsLinks g) tmp = Some i" "tmp \<in> X" "path \<notin> X"
    "i \<notin> set (fsDirty g)" "idata (fsTable g i) = data"
  shows "\<forall>h \<in> set states. settled X path data f h" "states \<noteq> []"
    "err = None \<Longrightarrow> fsTable g i = n\<lparr>iperm := FileMode, idata := data\<rparr> \<Longrightarrow>
      complete euid path data i n (last states) \<and> map_of (fsLinks (last states)) tmp = None"
proof -
  have ins: "installed X path data f (rename tmp path g)"
    using assms by (intro installed_rename) simp_all
  have "tmp \<noteq> path" using assms(4,5) by blast
  then have com: "map_of (fsLinks (rename tmp path g)) tmp = None"
    "fsTable g i = n\<lparr>iperm := FileMode, idata := data\<rparr> \<Longrightarrow> complete euid path data i n (sync_links (rename tmp path g))"
    using assms(3,6) by (simp_all add: complete_def rename_def node_at_def update_conv' delete_conv')
  show "\<forall>h \<in> set states. settled X path data f h" "states \<noteq> []"
    using assms(1,2) ins installed_sync_links [OF ins]
    by (auto simp: ReplaceFile_def settled_def Let_def split: option.splits)
  show "complete euid path data i n (last states) \<and> map_of (fsLinks (last states)) tmp = None"
    if "err = None" "fsTable g i = n\<lparr>iperm := FileMode, idata := data\<rparr>"
    using assms(1) com that by (auto simp: ReplaceFile_def Let_def split: option.splits)
qed

lemma write_steps_settled:
  assumes run: "write_steps euid env path tmp i data g = (states, err)"
    and k: "keeps X f g" "fsNext f \<le> i" and tmp: "map_of (fsLinks g) tmp = Some i" "tmp \<in> X" "path \<notin> X"
  shows "\<forall>h \<in> set states. settled X path data f h" "states \<noteq> []"
    "err = None \<Longrightarrow> complete euid path data i (fsTable g i) (last states) \<and> map_of (fsLinks (last states)) tmp = None"
proof -
  obtain f1 serr where sec: "securePrivateFile euid (we_chmod env) (we_stat env) i g = (f1, serr)" by (meson surj_pair)
  have f1: "keeps X f f1" "map_of (fsLinks f1) tmp = Some i" "serr = None \<Longrightarrow> fsTable f1 i = (fsTable g i)\<lparr>iperm := FileMode\<rparr>"
    using sec k keeps_inode tmp(1) by (auto simp: securePrivateFile_def Let_def split: option.splits)
  let ?f3 = "sync_node i (write_node i data f1)"
  have k3: "keeps X f (write_node i x f1)" "keeps X f ?f3" for x using keeps_inode f1(1) k(2) by blast+
  obtain rest rerr where rep: "ReplaceFile env tmp path ?f3 = (rest, rerr)" by (meson surj_pair)
  have "map_of (fsLinks ?f3) tmp = Some i" "i \<notin> set (fsDirty ?f3)" "idata (fsTable ?f3 i) = data" using f1(2) by simp_all
  note r = ReplaceFile_settled [OF rep k3(2) this(1) tmp(2,3) this(2,3)]
  have last: "complete euid path data i (fsTable g i) (last rest) \<and> map_of (fsLinks (last rest)) tmp = None"
    if "serr = None" "rerr = None"
    using r(3) [OF that(2)] f1(3) [OF that(1)] by simp
  show "\<forall>h \<in> set states. settled X path data f h" "states \<noteq> []"
    "err = None \<Longrightarrow> complete euid path data i (fsTable g i) (last states) \<and> map_of (fsLinks (last states)) tmp = None"
    using run sec rep f1(1) k3 r(1,2) last
    by (auto simp: write_steps_def settled_def Let_def split: option.splits)
qed

section \<open>The write of a store\<close>

lemma write_paths:
  assumes "WritePrivate euid env path purpose data f = (states, err)"
  obtains (early) f1 derr e where "EnsurePrivateDirectory euid (we_dir env) (Dir path) purpose f = (f1, derr)"
      "states = [f1]" "err = Some e"
    | (full) f1 tmp f2 steps where "EnsurePrivateDirectory euid (we_dir env) (Dir path) purpose f = (f1, None)"
      "we_create env = Inr tmp" "f2 = create_node tmp \<lparr>ikind = RegularFile, iperm = FileMode, iuid = euid, idata = []\<rparr> f1"
      "write_steps euid env path tmp (fsNext f1) data f2 = (steps, err)"
      "states = f1 # f2 # steps @ [remove_temporary env tmp (last steps)]"
proof -
  obtain f1 derr where d: "EnsurePrivateDirectory euid (we_dir env) (Dir path) purpose f = (f1, derr)" by (meson surj_pair)
  note r = assms [unfolded WritePrivate_def d prod.case]
  show ?thesis
  proof (cases "derr = None \<and> we_lstat env = None \<and> (\<exists>tmp. we_create env = Inr tmp)
      \<and> \<not> (case node_at f1 path of None \<Rightarrow> False | Some (_, n) \<Rightarrow> ikind n \<noteq> RegularFile)")
    case True
    then obtain tmp where "we_create env = Inr tmp" by blast
    with True d r full [of f1 tmp] show ?thesis by (auto simp: Let_def split: prod.splits)
  next
    case False
    then have "\<exists>e. states = [f1] \<and> err = Some e"
      using r by (cases derr; cases "we_lstat env"; cases "we_create env") (simp_all split: if_splits, auto dest!: sym [of "Some _"])
    with early [OF d] show ?thesis by blast
  qed
qed

lemma ensure_keeps:
  assumes "EnsurePrivateDirectory euid env dir purpose f = (f1, err)" "Clean dir \<in> X"
  shows "keeps X f f1" "fsNext f \<le> fsNext f1" "wf_fs f \<Longrightarrow> wf_fs f1"
proof -
  have "f1 = f \<or> (\<exists>n. f1 = create_node (Clean dir) n f)"
    using assms by (auto simp: EnsurePrivateDirectory_def Let_def split: option.splits if_splits)
  then show "keeps X f f1" "fsNext f \<le> fsNext f1" "wf_fs f \<Longrightarrow> wf_fs f1"
    using keeps_refl [of X f] keeps_create [OF keeps_refl assms(2)] wf_create by (elim disjE exE; simp)+
qed

lemma full_run:
  assumes full: "EnsurePrivateDirectory euid (we_dir env) (Dir path) purpose f = (f1, None)"
      "f2 = create_node tmp \<lparr>ikind = RegularFile, iperm = FileMode, iuid = euid, idata = []\<rparr> f1"
      "write_steps euid env path tmp (fsNext f1) data f2 = (steps, err)"
      "states = f1 # f2 # steps @ [remove_temporary env tmp (last steps)]"
    and tmp: "tmp \<noteq> path" "path \<noteq> Clean (Dir path)"
  shows "\<forall>g \<in> set states. settled {tmp, Clean (Dir path)} path data f g"
    and "we_remove env = None \<Longrightarrow> shown (last states) tmp = None"
    and "err = None \<Longrightarrow> complete euid path data (fsNext f1)
       \<lparr>ikind = RegularFile, iperm = FileMode, iuid = euid, idata = []\<rparr> (last states)"
proof -
  let ?X = "{tmp, Clean (Dir path)}"
  have f1: "keeps ?X f f1" "fsNext f \<le> fsNext f1" using ensure_keeps(1,2) [OF full(1), of ?X] by simp_all
  have f2: "keeps ?X f f2" "map_of (fsLinks f2) tmp = Some (fsNext f1)"
    using keeps_create [OF f1(1) _ f1(2)] by (simp_all add: full(2) update_conv')
  have p: "path \<notin> ?X" using tmp by auto
  note steps = write_steps_settled [OF full(3) f2(1) f1(2) f2(2) _ p]
  have "settled ?X path data f (remove_temporary env tmp (last steps))"
    using steps(1,2) settled_unlink [OF _ _ p] by (auto simp: remove_temporary_def)
  then show "\<forall>g \<in> set states. settled ?X path data f g"
    using steps(1) f1(1) f2(1) full(4) by (auto simp: settled_def)
  show "shown (last states) tmp = None" if "we_remove env = None"
    using that by (simp add: full(4) remove_temporary_def shown_def node_at_def unlink_def delete_conv')
  show "complete euid path data (fsNext f1) \<lparr>ikind = RegularFile, iperm = FileMode, iuid = euid, idata = []\<rparr> (last states)"
    if "err = None"
    using steps(3) [OF _ that] by (simp add: full(2,4) remove_temporary_def unlink_def)
qed

lemma outcome_of_content:
  assumes "shown g path \<in> {shown f path, Some data}"
  shows "\<exists>landed. shown g path = (if landed then Some data else shown f path)"
  using assms by (cases "shown g path = Some data") (auto intro: exI [of _ True] exI [of _ False])


definition demo_dir :: inode where
  "demo_dir = \<lparr>ikind = Directory, iperm = 448, iuid = 501, idata = []\<rparr>"

definition demo_file :: "string \<Rightarrow> inode" where
  "demo_file content = \<lparr>ikind = RegularFile, iperm = 384, iuid = 501, idata = content\<rparr>"

definition demo_fs :: fs where
  "demo_fs = \<lparr>fsTable = (\<lambda>i. if i = 0 then demo_dir else demo_file ''old''), fsLinks = [(''/d'', 0), (''/d/f'', 1)], fsNext = 2,
     fsDirty = [], fsPast = []\<rparr>"

definition calm_dir :: dir_env where
  "calm_dir = \<lparr>de_lstat = None, de_mkdir = None, de_relstat = None\<rparr>"

definition demo_write :: "goerr option \<Rightarrow> write_env" where
  "demo_write dirsync = \<lparr>we_dir = calm_dir, we_lstat = None, we_create = Inr ''/d/.tmp'', we_chmod = None, we_stat = None,
     we_written = 0, we_write = None, we_sync = None, we_close = None, we_rename = None, we_opendir = None,
     we_dirsync = dirsync, we_remove = None\<rparr>"

lemma demo_write_run:
  "map (\<lambda>g. (shown g ''/d/f'', shown g ''/d/.tmp'', fsDirty g)) (fst (WritePrivate 501 (demo_write None) ''/d/f'' ''p'' ''new'' demo_fs))
     = [(Some ''old'', None, []), (Some ''old'', Some [], []), (Some ''old'', Some [], []), (Some ''old'', Some ''new'', [2]),
        (Some ''old'', Some ''new'', []), (Some ''new'', None, []), (Some ''new'', None, []), (Some ''new'', None, [])]"
  "snd (WritePrivate 501 (demo_write None) ''/d/f'' ''p'' ''new'' demo_fs) = None"
  "snd (WritePrivate 501 (demo_write (Some (ErrText ''sync''))) ''/d/f'' ''p'' ''new'' demo_fs) = Some (ErrText ''sync'')"
  "shown (last (fst (WritePrivate 501 (demo_write (Some (ErrText ''sync''))) ''/d/f'' ''p'' ''new'' demo_fs))) ''/d/f'' = Some ''new''"
  "shown demo_fs ''/d/f'' = Some ''old''" "on_disk demo_fs ''/d/f''"
  "Clean (Dir ''/d/f'') = ''/d''"
  by code_simp+

text \<open>The crash that finds the directory as it was before the call.\<close>

definition demo_crash :: fs where
  "demo_crash = (last (fst (WritePrivate 501 (demo_write (Some (ErrText ''sync''))) ''/d/f'' ''p'' ''new'' demo_fs)))
     \<lparr>fsLinks := fsLinks demo_fs\<rparr>"

lemma demo_crash_step:
  "crash (last (fst (WritePrivate 501 (demo_write (Some (ErrText ''sync''))) ''/d/f'' ''p'' ''new'' demo_fs))) demo_crash"
proof -
  have "fsLinks demo_fs \<in> set (crash_links
      (last (fst (WritePrivate 501 (demo_write (Some (ErrText ''sync''))) ''/d/f'' ''p'' ''new'' demo_fs))))" by code_simp
  then show ?thesis by (simp add: crash_def demo_crash_def)
qed

lemma demo_write_fresh:
  "wf_fs demo_fs" "''/d/f'' \<noteq> Clean (Dir ''/d/f'')"
  "we_create (demo_write e) = Inr tmp \<Longrightarrow> map_of (fsLinks demo_fs) tmp = None \<and> tmp \<noteq> ''/d/f'' \<and> tmp \<noteq> Clean (Dir ''/d/f'')"
  by (auto simp: wf_fs_def crash_links_def demo_fs_def demo_write_def demo_write_run(7) split: if_splits)


section \<open>Reading\<close>

text \<open>
  What another account can do between two calls: it cannot touch an inode that is private to this
  account, and it cannot make one.
\<close>

definition private_to :: "nat \<Rightarrow> inode \<Rightarrow> bool" where
  "private_to euid n \<longleftrightarrow> iperm n mod 64 = 0 \<and> iuid n = euid"

definition foreign :: "nat \<Rightarrow> (fs \<Rightarrow> fs) \<Rightarrow> bool" where
  "foreign euid step \<longleftrightarrow>
     (\<forall>f i. if private_to euid (fsTable f i) then fsTable (step f) i = fsTable f i
            else \<not> private_to euid (fsTable (step f) i))"

lemma verifyPrivateFile_iff: "verifyPrivateFile euid n = None \<longleftrightarrow> private_to euid n"
  by (simp add: verifyPrivateFile_def VerifyPrivatePermissions_def private_to_def)

lemma foreign_back: "foreign euid step \<Longrightarrow> private_to euid (fsTable (step f) i) \<Longrightarrow> fsTable (step f) i = fsTable f i"
  by (metis foreign_def)

lemma open_stable_paths:
  assumes "OpenStable euid env path purpose f = (f1, Inr i)"
  obtains n where "node_at f path = Some (i, n)" "ikind (fsTable (oe_opened env f) i) = RegularFile"
    "f1 = oe_lstatted env (oe_statted env (oe_opened env f))"
  using assms
  by (auto simp: OpenStable_def openChecked_def openFileNoFollow_def Let_def split: option.splits prod.splits if_splits)

text \<open>C30. A read of a private file cannot be swayed: whatever other accounts do to the path and to their own files between any two system calls, a read that succeeds returns exactly the content of the regular file that the path named when it was opened, that file belongs to this account with no access for group and others, and it is not longer than the limit, which is any below the largest 64-bit integer.\<close>

theorem read_private_unswayed:
  assumes run: "ReadPrivate euid env path purpose maximum f = (g, Inr data)" "maximum < max_int64"
    and others: "foreign euid (oe_opened (re_open env))" "foreign euid (oe_statted (re_open env))"
      "foreign euid (oe_lstatted (re_open env))" "foreign euid (re_statted env)" "foreign euid (re_verified env)"
  shows "\<exists>i n. node_at f path = Some (i, n) \<and> ikind n = RegularFile \<and> private_to euid n
     \<and> idata n = data \<and> int (length data) \<le> maximum"
proof -
  from run(1) obtain f1 i where op: "OpenStable euid (re_open env) path purpose f = (f1, Inr i)"
    and ver: "verifyPrivateFile euid (fsTable (re_statted env f1) i) = None"
    and data: "data = take (nat (s64 (maximum + 1))) (idata (fsTable (re_verified env (re_statted env f1)) i))"
      "0 \<le> maximum" "int (length data) \<le> maximum"
    by (auto simp: ReadPrivate_def Let_def split: if_splits prod.splits sum.splits option.splits)
  from op obtain n where n: "node_at f path = Some (i, n)" "ikind (fsTable (oe_opened (re_open env) f) i) = RegularFile"
    "f1 = oe_lstatted (re_open env) (oe_statted (re_open env) (oe_opened (re_open env) f))"
    by (rule open_stable_paths)
  have priv: "private_to euid (fsTable (re_statted env f1) i)" using ver verifyPrivateFile_iff by blast
  have "fsTable (re_statted env f1) i = fsTable f1 i" using others(4) priv by (rule foreign_back)
  moreover from this have "fsTable f1 i = fsTable (oe_statted (re_open env) (oe_opened (re_open env) f)) i"
    using foreign_back [OF others(3)] priv unfolding n(3) by simp
  moreover from this calculation have "\<dots> = fsTable (oe_opened (re_open env) f) i"
    using priv by (intro foreign_back [OF others(2)]) simp
  moreover from this calculation have "\<dots> = fsTable f i"
    using priv by (intro foreign_back [OF others(1)]) simp
  ultimately have "fsTable (re_statted env f1) i = n" "fsTable (oe_opened (re_open env) f) i = n" "private_to euid n"
    using priv n(1) by (auto simp: node_at_def)
  moreover have "fsTable (re_verified env (re_statted env f1)) i = fsTable (re_statted env f1) i"
    using others(5) priv by (simp add: foreign_def)
  moreover have "s64 (maximum + 1) = maximum + 1" using run(2) data(2) by (simp add: is_int64_def min_int64_def)
  moreover have "idata n = data" if "data = take (nat (maximum + 1)) (idata n)"
    using that data(2,3) by (auto simp: min_def split: if_splits)
  ultimately show ?thesis using n(1,2) data by auto
qed

text \<open>Another account replaces the link of the path by a file of its own behind the check.\<close>

definition swap_in :: "fs \<Rightarrow> fs" where
  "swap_in f = f\<lparr>fsLinks := AList.update ''/d/f'' 0 (fsLinks f)\<rparr>"

definition demo_open :: open_env where
  "demo_open = \<lparr>oe_open = None, oe_loop = ErrText ''loop'', oe_stat = None, oe_lstat = None, oe_chmod = None,
     oe_restat = None, oe_opened = id, oe_statted = id, oe_lstatted = swap_in\<rparr>"

definition demo_read :: read_env where
  "demo_read = \<lparr>re_open = demo_open, re_stat = None, re_verify_stat = None, re_read = None,
     re_statted = swap_in, re_verified = id\<rparr>"

lemma foreign_demo [simp]: "foreign euid id" "foreign euid swap_in"
  by (simp_all add: foreign_def swap_in_def)

theorem read_private_unswayed_witness:
  "snd (ReadPrivate 501 demo_read ''/d/f'' ''p'' 10 demo_fs) = Inr ''old''
   \<and> (\<exists>i n. node_at demo_fs ''/d/f'' = Some (i, n) \<and> ikind n = RegularFile \<and> private_to 501 n
     \<and> idata n = ''old'' \<and> int (length ''old'') \<le> 10)"
proof -
  have run: "snd (ReadPrivate 501 demo_read ''/d/f'' ''p'' 10 demo_fs) = Inr ''old''" by code_simp
  then have pair: "ReadPrivate 501 demo_read ''/d/f'' ''p'' 10 demo_fs
      = (fst (ReadPrivate 501 demo_read ''/d/f'' ''p'' 10 demo_fs), Inr ''old'')"
    by (metis prod.collapse)
  have "foreign 501 (oe_opened (re_open demo_read))" "foreign 501 (oe_statted (re_open demo_read))"
    "foreign 501 (oe_lstatted (re_open demo_read))" "foreign 501 (re_statted demo_read)" "foreign 501 (re_verified demo_read)"
    by (simp_all add: demo_read_def demo_open_def)
  from read_private_unswayed [OF pair _ this] run show ?thesis by (simp add: max_int64_def)
qed

section \<open>Waiting for a lock\<close>

text \<open>A wait ends as soon as one turn is granted, fails or sees the context ended, and not before.\<close>

lemma lockFileContext_ends: "lockFileContext turns = None \<longleftrightarrow> set turns \<subseteq> {FlockBusy None}"
  by (induction turns rule: lockFileContext.induct) auto

lemma lockFileContext_granted: "lockFileContext (replicate k (FlockBusy None) @ FlockGranted # ts) = Some None"
  by (induction k) auto

end
