(* ===== verification/Commands.thy ===== *)
theory Commands
  imports Api
begin

text \<open>
  The commands \<open>config add\<close>, \<open>config remove\<close>, \<open>unlock\<close> and \<open>status\<close> (\<open>cmd/fv-ssh-unlock/main.go\<close>), with
  the password prompt (\<open>internal/credentials/password.go\<close>). Flags are records; what a command reads
  from the terminal and the outcome of every call outside are arguments. Printing is not modelled.
\<close>

section \<open>Passwords\<close>

text \<open>
  Input that is no terminal is read up to a line feed, \<open>line\<close> with the error of \<open>ReadString\<close>; on a terminal
  the library reads \<open>hidden\<close>.
\<close>

definition ReadPassword :: "bool \<Rightarrow> string \<Rightarrow> goerr option \<Rightarrow> goerr + string \<Rightarrow> goerr + string" where
  "ReadPassword terminal line err hidden =
     (if \<not> terminal then
        (case err of
           Some e \<Rightarrow> if line = [] then Inl e else Inr (TrimRight line [CHR 0x0D, CHR 0x0A])
         | None \<Rightarrow> Inr (TrimRight line [CHR 0x0D, CHR 0x0A]))
      else hidden)"

definition ask_password :: "goerr + string \<Rightarrow> goerr + string" where
  "ask_password answer =
     (case answer of
        Inl err \<Rightarrow> Inl (errorf ''error reading password'' err)
      | Inr password \<Rightarrow> if password = [] then Inl (ErrText ''password must not be empty'') else Inr password)"

section \<open>Adding a device\<close>

record add_flags =
  afHost :: string
  afUser :: string
  afPort :: int
  afSuccessMessage :: string
  afCredentialSource :: string
  afCredentialFile :: string
  afAllowUnsafe :: bool
  afAutoUnlock :: bool

text \<open>The answers the command may read: the password, and the confirmation.\<close>

record terminal_input =
  ti_password :: "goerr + string"
  ti_confirm :: "read1 list"

definition prepareKeyring :: "unicode_db \<Rightarrow> cred_env \<Rightarrow> bool \<Rightarrow> terminal_input \<Rightarrow> goerr + (provider \<times> string)" where
  "prepareKeyring db env allowUnsafe input =
     (case Registry_Provider db (NewRegistry allowUnsafe) ProviderKeyring of
        Inl err \<Rightarrow> Inl err
      | Inr p \<Rightarrow>
        let report = provider_Report env p in
        if \<not> rpAvailable report then
          Inl (ErrText (''keyring credential provider is unavailable: '' @ rpDetails report))
        else case ask_password (ti_password input) of
          Inl err \<Rightarrow> Inl err
        | Inr password \<Rightarrow> Inr (p, password))"

text \<open>The source, the reference, and what is to be stored in the keyring.\<close>

type_synonym credential_choice = "string \<times> string \<times> (provider \<times> string) option"

definition keyring_choice :: "goerr + (provider \<times> string) \<Rightarrow> goerr + credential_choice" where
  "keyring_choice prepared =
     (case prepared of Inl err \<Rightarrow> Inl err | Inr pp \<Rightarrow> Inr (ProviderKeyring, [], Some pp))"

definition add_file_credential :: "unicode_db \<Rightarrow> cred_env \<Rightarrow> bool \<Rightarrow> string \<Rightarrow> goerr + credential_choice" where
  "add_file_credential db env allowUnsafe credentialFile =
     (case NormalizeFileReference db credentialFile of
        Inl err \<Rightarrow> Inl (errorf ''invalid --credential-file'' err)
      | Inr reference \<Rightarrow>
        (case Registry_Provider db (NewRegistry allowUnsafe) ProviderFile of
           Inl err \<Rightarrow> Inl err
         | Inr p \<Rightarrow>
           let assessment = provider_Assess db env p reference in
           if raAvailable assessment \<and> \<not> raSecure assessment \<and> \<not> allowUnsafe then
             Inl (Wrapped (sentinel_text ErrUnsafeCredentialStorage @ '': '' @ raDetails assessment @
               ''; provision the file through a verified service credential mount or pass --allow-unsafe-credential-storage for this command'')
               [Sentinel ErrUnsafeCredentialStorage])
           else Inr (ProviderFile, reference, None)))"

definition add_credential ::
    "unicode_db \<Rightarrow> cred_env \<Rightarrow> terminal_input \<Rightarrow> add_flags \<Rightarrow> string \<Rightarrow> goerr + credential_choice" where
  "add_credential db env input flags source =
     (let unsafe = afAllowUnsafe flags in
      if source = ProviderRuntime then Inr (ProviderRuntime, [], None)
      else if source = ProviderKeyring then keyring_choice (prepareKeyring db env unsafe input)
      else if source = ProviderFile then add_file_credential db env unsafe (afCredentialFile flags)
      else case Registry_Provider db (NewRegistry unsafe) ProviderKeyring of
        Inl err \<Rightarrow> Inl err
      | Inr p \<Rightarrow>
        if rpAvailable (provider_Report env p) then
          (case readYes db (ti_confirm input) of
             Inl err \<Rightarrow> Inl (errorf ''read confirmation'' err)
           | Inr confirmed \<Rightarrow>
             if confirmed then keyring_choice (prepareKeyring db env unsafe input)
             else Inr (ProviderRuntime, [], None))
        else Inr (ProviderRuntime, [], None))"

definition add_requested :: "unicode_db \<Rightarrow> add_flags \<Rightarrow> string" where
  "add_requested db flags =
     (let s = ToLower db (TrimSpace (afCredentialSource flags)) in if s = [] then ''auto'' else s)"

definition add_base :: "add_flags \<Rightarrow> string \<Rightarrow> cdevice" where
  "add_base flags name =
     \<lparr>cName = name, cHost = afHost flags, cUser = afUser flags, cPort = afPort flags, cCred = ID name,
      cCredentialSource = ProviderRuntime, cCredentialRef = [],
      cSuccessMessage = (if afSuccessMessage flags = [] then defaultSuccessMessage else afSuccessMessage flags),
      cMACAddress = [], cAutoUnlock = False\<rparr>"

definition add_name :: "add_flags \<Rightarrow> string list \<Rightarrow> string" where
  "add_name flags args = (case args of [] \<Rightarrow> afHost flags | a # _ \<Rightarrow> a)"

text \<open>The checks before anything is read or stored.\<close>

definition add_checks :: "unicode_db \<Rightarrow> add_flags \<Rightarrow> string \<Rightarrow> cdevice list \<Rightarrow> goerr option" where
  "add_checks db flags name devs =
     (let source = add_requested db flags; envName = EnvName db (ID name) in
      if list_ex (\<lambda>ex. cName ex = name) devs then Some (ErrText (''device already exists: '' @ name))
      else if afPort flags < 1 \<or> 65535 < afPort flags then Some (ErrText ''--port must be between 1 and 65535'')
      else case List.find (\<lambda>ex. EnvName db (deviceCredentialID ex) = envName) devs of
        Some ex \<Rightarrow> Some (ErrText (''device name '' @ Quote db name @ '' collides with '' @ Quote db (cName ex) @
            '' in environment variable '' @ envName))
      | None \<Rightarrow>
        if source \<notin> {''auto'', ProviderRuntime, ProviderKeyring, ProviderFile} then
          Some (ErrText ''--credential-source must be auto, runtime, keyring, or file'')
        else if source = ProviderFile \<and> afCredentialFile flags = [] then
          Some (ErrText ''--credential-file is required with --credential-source file'')
        else if source \<noteq> ProviderFile \<and> afCredentialFile flags \<noteq> [] then
          Some (ErrText ''--credential-file requires --credential-source file'')
        else ValidateDevice db (add_base flags name))"

text \<open>
  \<open>dir\<close> is the error of the configuration path, \<open>load\<close> the store when it is first read, \<open>commit\<close> the store
  during the transaction. The second result is what was put in the keyring.
\<close>

definition config_add ::
    "unicode_db \<Rightarrow> cred_env \<Rightarrow> terminal_input \<Rightarrow> goerr option \<Rightarrow> config_env \<Rightarrow> config_env \<Rightarrow> add_flags \<Rightarrow> string list
      \<Rightarrow> config_outcome \<times> (string \<times> string) option" where
  "config_add db env input dir load commit flags args =
     (if afUser flags = [] then (refused (ErrText ''--user flag is required''), None)
      else if afHost flags = [] then (refused (ErrText ''--host flag is required''), None)
      else
        let name = add_name flags args in
        case dir of
          Some err \<Rightarrow> (refused err, None)
        | None \<Rightarrow>
          (case Store_Load db load of
             Inl err \<Rightarrow> (refused err, None)
           | Inr devs \<Rightarrow>
             (case add_checks db flags name devs of
                Some err \<Rightarrow> (refused err, None)
              | None \<Rightarrow>
                (case add_credential db env input flags (add_requested db flags) of
                   Inl err \<Rightarrow> (refused err, None)
                 | Inr (source, reference, keyring) \<Rightarrow>
                   let d = (add_base flags name)\<lparr>cCredentialSource := source, cCredentialRef := reference,
                              cAutoUnlock := afAutoUnlock flags\<rparr> in
                   case ValidateDevice db d of
                     Some err \<Rightarrow> (refused err, None)
                   | None \<Rightarrow>
                     let stored = map_option (\<lambda>(p, password). map_option (errorf ''store password in keychain'')
                           (provider_Store env p (ID name) password)) keyring;
                         out = addPrepared db commit d stored in
                     (out, case keyring of
                         Some (p, password) \<Rightarrow> if coPrepared out \<and> stored = Some None then Some (ID name, password) else None
                       | None \<Rightarrow> None)))))"

section \<open>Removing devices\<close>

record remove_flags =
  rfAll :: bool
  rfYes :: bool

text \<open>
  The loop over the devices: \<open>call d\<close> is the store during the removal of \<open>d\<close>. It gives the content of the file,
  the keyring entries that are deleted and the names that could not be removed.
\<close>

fun remove_loop ::
    "unicode_db \<Rightarrow> cred_env \<Rightarrow> config_codec \<Rightarrow> (string \<Rightarrow> store_call) \<Rightarrow> cdevice list \<Rightarrow> string option
      \<Rightarrow> string option \<times> string list \<times> string list" where
  "remove_loop db env codec call [] content = (content, [], [])"
| "remove_loop db env codec call (d # ds) content =
     (let out = Remove db (store_env codec (call (cName d)) content) (cName d);
          content' = content_after (call (cName d)) out content;
          (final, deleted, failed) = remove_loop db env codec call ds content' in
      case coErr out of
        Some _ \<Rightarrow> (final, deleted, cName d # failed)
      | None \<Rightarrow> (final, (case deleteStoredCredential db env d of None \<Rightarrow> [] | Some r \<Rightarrow> [r]) @ deleted, failed))"

definition config_remove ::
    "unicode_db \<Rightarrow> cred_env \<Rightarrow> config_codec \<Rightarrow> goerr option \<Rightarrow> store_call \<Rightarrow> (string \<Rightarrow> store_call) \<Rightarrow> read1 list
      \<Rightarrow> remove_flags \<Rightarrow> string list \<Rightarrow> string option \<Rightarrow> string option \<times> string list \<times> goerr option" where
  "config_remove db env codec dir load call confirm flags args content =
     (if rfAll flags \<and> args \<noteq> [] then (content, [], Some (ErrText ''--all cannot be combined with device names''))
      else if \<not> rfAll flags \<and> args = [] then (content, [], Some (ErrText ''specify at least one device name or use --all''))
      else if rfYes flags \<and> \<not> rfAll flags then (content, [], Some (ErrText ''--yes can only be used with --all''))
      else case dir of
        Some err \<Rightarrow> (content, [], Some err)
      | None \<Rightarrow>
        (case Store_Load db (store_env codec load content) of
           Inl err \<Rightarrow> (content, [], Some err)
         | Inr devs \<Rightarrow>
           if rfAll flags then
             (if devs = [] then (content, [], None)
              else case (if rfYes flags then Inr True else readYes db confirm) of
                Inl err \<Rightarrow> (content, [], Some (errorf ''read confirmation'' err))
              | Inr confirmed \<Rightarrow>
                if \<not> confirmed then (content, [], None)
                else (case remove_loop db env codec call devs content of
                    (final, deleted, failed) \<Rightarrow>
                      (final, deleted, if failed = [] then None
                        else Some (ErrText (''removed '' @ decimal (length devs - length failed) @ '' of '' @
                               decimal (length devs) @ '' devices'')))))
           else (case selectConfiguredDevices db devs args of
               Inl err \<Rightarrow> (content, [], Some err)
             | Inr sel \<Rightarrow>
               (case remove_loop db env codec call sel content of
                  (final, deleted, failed) \<Rightarrow>
                    (final, deleted, if failed = [] then None
                      else Some (ErrText (''failed to remove '' @ decimal (length failed) @ '' of '' @
                             decimal (length sel) @ '' selected device(s): '' @ Join failed '', '')))))))"

section \<open>Unlocking devices\<close>

record unlock_flags =
  ufAll :: bool
  ufInsecure :: bool
  ufIdentities :: "string list"
  ufVerifyTimeout :: duration
  ufNoVerify :: bool
  ufAttempts :: int
  ufDelay :: duration
  ufAllowUnsafe :: bool

text \<open>
  What the network commands see: the data directory, the configuration, what the client is made of, the
  credentials, the password prompt; and for attempt \<open>i\<close> at a device the network, the context before and
  after the unlock, at its end and during the wait, and the verification.
\<close>

record command_env =
  cx_dir :: "goerr + string"
  cx_config :: config_env
  cx_lib :: kh_lib
  cx_kh :: kh_env
  cx_known :: string
  cx_agent :: agent_env
  cx_cred :: cred_env
  cx_prompt :: "goerr + string"
  cx_net :: "client_setup \<Rightarrow> string \<Rightarrow> int \<Rightarrow> ssh_net"
  cx_before :: "string \<Rightarrow> int \<Rightarrow> goerr option"
  cx_after :: "string \<Rightarrow> int \<Rightarrow> goerr option"
  cx_ctx :: "string \<Rightarrow> int \<Rightarrow> goerr option"
  cx_wait :: "string \<Rightarrow> int \<Rightarrow> goerr option"
  cx_verify :: "string \<Rightarrow> int \<Rightarrow> verify_options \<Rightarrow> bool \<times> goerr option"

text \<open>One attempt: \<open>UnlockMany\<close> with one device, whose store holds the password.\<close>

definition unlock_attempt ::
    "unicode_db \<Rightarrow> command_env \<Rightarrow> client_setup \<Rightarrow> cdevice \<Rightarrow> string \<Rightarrow> int \<Rightarrow> fv_result \<times> reply list" where
  "unlock_attempt db env client d password i =
     (let endpoint = deviceEndpoint d in
      Unlock (cx_before env (cName d) i) (staticStore_Get password)
        (\<lambda>pass. AnalyzePrompt db (cx_net env client (cName d) i endpoint (cUser d) (20 * second)) endpoint pass (success_message d))
        (cx_after env (cName d) i) endpoint)"

definition device_retry :: "unicode_db \<Rightarrow> command_env \<Rightarrow> client_setup \<Rightarrow> cdevice \<Rightarrow> string \<Rightarrow> retry_env" where
  "device_retry db env client d password =
     \<lparr>re_unlock = (\<lambda>i. fst (unlock_attempt db env client d password i)), re_ctx = cx_ctx env (cName d),
      re_verify = cx_verify env (cName d), re_wait = cx_wait env (cName d)\<rparr>"

text \<open>The credential of a device among \<open>n\<close>; \<open>None\<close> skips the device.\<close>

definition unlock_password :: "unicode_db \<Rightarrow> command_env \<Rightarrow> bool \<Rightarrow> nat \<Rightarrow> cdevice \<Rightarrow> goerr + string option" where
  "unlock_password db env allowUnsafe n d =
     (case credentialStoreForDevice db d allowUnsafe of
        Inl err \<Rightarrow> Inl (errorf (''configure credential provider for '' @ cName d) err)
      | Inr store \<Rightarrow>
        (case (case providerStore_Get db (cx_cred env) store of
                 Inl err \<Rightarrow> Inl err
               | Inr password \<Rightarrow> if password = [] then Inl (ErrText ''credential is empty'') else Inr password) of
           Inr password \<Rightarrow> Inr (Some password)
         | Inl err \<Rightarrow>
           if err_is err ErrUnsafeCredentialStorage \<or> cCredentialSource d = ProviderFile \<and> n = 1 then
             Inl (errorf (''retrieve credential for device '' @ Quote db (cName d)) err)
           else if n > 1 then Inr None
           else map_sum id Some (ask_password (cx_prompt env))))"

text \<open>
  The loop over the selected devices: the devices to which an unlock was made, with the password, and the
  error that ends it or whether one was unlocked and which failed.
\<close>

fun unlock_loop ::
    "unicode_db \<Rightarrow> command_env \<Rightarrow> bool \<Rightarrow> client_setup \<Rightarrow> retry_options \<Rightarrow> nat \<Rightarrow> cdevice list \<Rightarrow> bool \<Rightarrow> string list
      \<Rightarrow> (cdevice \<times> string) list \<times> (goerr + (bool \<times> string list))" where
  "unlock_loop db env unsafe client policy n [] success failed = ([], Inr (success, failed))"
| "unlock_loop db env unsafe client policy n (d # ds) success failed =
     (case unlock_password db env unsafe n d of
        Inl err \<Rightarrow> ([], Inl err)
      | Inr None \<Rightarrow> unlock_loop db env unsafe client policy n ds success (failed @ [cName d])
      | Inr (Some password) \<Rightarrow>
        let go = (\<lambda>s f. apfst (Cons (d, password)) (unlock_loop db env unsafe client policy n ds s f)) in
        (case fst (unlockDeviceWithRetry (device_retry db env client d password) policy) of
           Inl err \<Rightarrow> ([(d, password)], Inl err)
         | Inr (OutcomeUnlocked, _) \<Rightarrow> go True failed
         | Inr (OutcomeIncorrectPassword, _) \<Rightarrow>
           if n = 1 then ([(d, password)], Inl (ErrText (''failed to unlock device '' @ [CHR 0x27] @ cName d @ [CHR 0x27] @ '': incorrect password'')))
           else go success (failed @ [cName d])
         | Inr (OutcomeExhausted, lastError) \<Rightarrow>
           if lastError \<noteq> None \<and> n = 1 then ([(d, password)], Inl (the lastError))
           else go success (failed @ [cName d])))"

definition unlock_verdict :: "cdevice list \<Rightarrow> bool \<Rightarrow> string list \<Rightarrow> goerr option" where
  "unlock_verdict targets success failed =
     (if failed \<noteq> [] then
        Some (ErrText (''failed to unlock '' @ decimal (length failed) @ '' of '' @ decimal (length targets) @
          '' selected device(s): '' @ Join failed '', ''))
      else if \<not> success \<and> targets \<noteq> [] then
        Some (ErrText (if length targets = 1 then ''failed to unlock device '' @ [CHR 0x27] @ cName (hd targets) @ [CHR 0x27]
          else ''failed to unlock any of the specified devices''))
      else None)"

definition unlock_command ::
    "unicode_db \<Rightarrow> command_env \<Rightarrow> unlock_flags \<Rightarrow> string list \<Rightarrow> (cdevice \<times> string) list \<times> goerr option" where
  "unlock_command db env flags args =
     (if ufAll flags \<and> args \<noteq> [] then ([], Some (ErrText ''--all cannot be combined with device names''))
      else if \<not> ufAll flags \<and> args = [] then ([], Some (ErrText ''specify at least one device name or use --all''))
      else case cx_dir env of
        Inl err \<Rightarrow> ([], Some err)
      | Inr _ \<Rightarrow>
        (case Store_Load db (cx_config env) of
           Inl err \<Rightarrow> ([], Some err)
         | Inr devs \<Rightarrow>
           (case (if ufAll flags then Inr devs else selectConfiguredDevices db devs args) of
              Inl err \<Rightarrow> ([], Some err)
            | Inr targets \<Rightarrow>
              if targets = [] then ([], None)
              else if ufVerifyTimeout flags < 0 then ([], Some (ErrText ''--verify-timeout must not be negative''))
              else
                (case newSSHClient db (cx_lib env) (cx_kh env) (cx_agent env) (cx_dir env) (ufInsecure flags) False
                    (ufIdentities flags) defaultDialTimeout (cx_known env) of
                   Inl err \<Rightarrow> ([], Some err)
                 | Inr client \<Rightarrow>
                   if ufAttempts flags < 1 then ([], Some (ErrText ''--retry-attempts must be at least 1''))
                   else if ufDelay flags < 0 then ([], Some (ErrText ''--retry-delay must not be negative''))
                   else
                     let policy = \<lparr>maxAttempts = ufAttempts flags, retryDelay = ufDelay flags,
                           verifyWindow = (if ufNoVerify flags then 0 else ufVerifyTimeout flags)\<rparr> in
                     (case unlock_loop db env (ufAllowUnsafe flags) client policy (length targets) targets False [] of
                        (contacted, Inl err) \<Rightarrow> (contacted, Some err)
                      | (contacted, Inr (success, failed)) \<Rightarrow> (contacted, unlock_verdict targets success failed))))))"

section \<open>Checking devices\<close>

record status_flags =
  sfInsecure :: bool
  sfAcceptNew :: bool
  sfRequireKnown :: bool
  sfJSON :: bool
  sfIdentities :: "string list"

definition status_check :: "unicode_db \<Rightarrow> command_env \<Rightarrow> client_setup \<Rightarrow> cdevice \<Rightarrow> (status_report \<times> bool \<times> bool) \<times> reply list" where
  "status_check db env client d =
     (let ((st, _, perr), replies) = CheckStatus db (cx_net env client (cName d) 1) (deviceEndpoint d) (cUser d) (15 * second) in
      (status_of_device d st perr, replies))"

text \<open>
  The reports in order, what the client answered, and the error. \<open>json_err\<close> is the error of \<open>writeStatusJSON\<close>; the
  errors of printing lines are ignored by the code.
\<close>

definition status_command ::
    "unicode_db \<Rightarrow> command_env \<Rightarrow> goerr option \<Rightarrow> status_flags \<Rightarrow> string list
      \<Rightarrow> status_report list \<times> reply list \<times> goerr option" where
  "status_command db env json_err flags args =
     (case cx_dir env of
        Inl err \<Rightarrow> ([], [], Some err)
      | Inr _ \<Rightarrow>
        (case Store_Load db (cx_config env) of
           Inl err \<Rightarrow> ([], [], Some err)
         | Inr devs \<Rightarrow>
           (case (if args = [] then Inr devs else selectConfiguredDevices db devs args) of
              Inl err \<Rightarrow> ([], [], Some err)
            | Inr targets \<Rightarrow>
              if targets = [] then ([], [], if sfJSON flags then json_err else None)
              else if sfAcceptNew flags \<and> length args \<noteq> 1 then
                ([], [], Some (ErrText ''--accept-new-host-key requires exactly one named device''))
              else
                (case newSSHClient db (cx_lib env) (cx_kh env) (cx_agent env) (cx_dir env) (sfInsecure flags) (sfAcceptNew flags)
                    (sfIdentities flags) defaultDialTimeout (cx_known env) of
                   Inl err \<Rightarrow> ([], [], Some err)
                 | Inr client \<Rightarrow>
                   let checks = map (status_check db env client) targets;
                       names = (\<lambda>sel. map (\<lambda>c. srName (fst (fst c))) (filter (\<lambda>c. sel (snd (fst c))) checks));
                       failed = names fst; unknown = names snd in
                   (map (fst \<circ> fst) checks, concat (map snd checks),
                    if sfJSON flags \<and> json_err \<noteq> None then json_err
                    else if failed \<noteq> [] then
                      Some (ErrText (''status failed for '' @ decimal (length failed) @ '' device(s): '' @ Join failed '', ''))
                    else if sfRequireKnown flags \<and> unknown \<noteq> [] then
                      Some (ErrText (''status was indeterminate for '' @ decimal (length unknown) @ '' device(s): '' @ Join unknown '', ''))
                    else None)))))"

end
