(* ===== verification/Commands_Facts.thy ===== *)
theory Commands_Facts
  imports Commands Api_Facts Daemon_Facts
begin

text \<open>
  What the commands promise: the exit status of \<open>unlock\<close> is honest and a password goes to its own device
  only, \<open>status\<close> sends no secret, \<open>config add\<close> and \<open>config remove\<close> keep the configuration and the keyring
  consistent.
\<close>

section \<open>Unlocking devices\<close>

abbreviation device_result ::
    "unicode_db \<Rightarrow> command_env \<Rightarrow> client_setup \<Rightarrow> retry_options \<Rightarrow> cdevice \<Rightarrow> string \<Rightarrow> goerr + (unlock_outcome \<times> goerr option)" where
  "device_result db env client policy d password \<equiv> fst (unlockDeviceWithRetry (device_retry db env client d password) policy)"

lemma unlock_loop_spec:
  assumes "unlock_loop db env unsafe client policy n ds success failed = (contacted, r)"
  shows "\<forall>(d, pw) \<in> set contacted. d \<in> set ds \<and> unlock_password db env unsafe n d = Inr (Some pw)"
    and "contacted = before @ (d, pw) # behind \<Longrightarrow> device_result db env client policy d pw = Inl e \<Longrightarrow> behind = [] \<and> r = Inl e"
    and "r = Inr (s, []) \<Longrightarrow> failed = [] \<and> map fst contacted = ds
        \<and> (\<forall>(d, pw) \<in> set contacted. \<exists>e. device_result db env client policy d pw = Inr (OutcomeUnlocked, e))"
  using assms
proof (induction ds arbitrary: success failed contacted before)
  case (Cons x ds)
  note rec = Cons.IH
  { case 1 then show ?case
      using rec(1) by (fastforce simp: Let_def apfst_def map_prod_def split: sum.splits option.splits prod.splits unlock_outcome.splits if_splits) }
  { case 2 then show ?case
      by (auto simp: Let_def apfst_def map_prod_def Cons_eq_append_conv dest: rec(2) [OF refl]
          split: sum.splits option.splits prod.splits unlock_outcome.splits if_splits) }
  { case 3 then show ?case
      using rec(3) by (fastforce simp: Let_def apfst_def map_prod_def split: sum.splits option.splits prod.splits unlock_outcome.splits if_splits) }
qed auto

lemma unlock_password_source:
  assumes "unlock_password db env unsafe n d = Inr (Some pw)"
  shows "pw \<noteq> [] \<and> ((\<exists>store. credentialStoreForDevice db d unsafe = Inr store \<and> providerStore_Get db (cx_cred env) store = Inr pw)
    \<or> n \<le> 1 \<and> cx_prompt env = Inr pw)"
  using assms
  by (auto simp: unlock_password_def ask_password_def map_sum_def split: sum.splits if_splits)

lemma unlocked_evidence:
  assumes "device_result db env client policy d pw = Inr (OutcomeUnlocked, e)"
  shows "\<exists>k \<ge> 1. let res = fst (unlock_attempt db env client d pw k) in
    Status res \<in> {StatusUnlocked, StatusUnlockedRecently}
    \<or> opt_is (Error res) ErrUnlockOutcomeUnknown \<and> fst (cx_verify env (cName d) k (unacknowledged_verify (verifyWindow policy)))"
proof -
  obtain k where "unlockDeviceWithRetry (device_retry db env client d pw) policy = (Inr (OutcomeUnlocked, e), k)"
    using assms by (metis prod.collapse)
  then have k: "1 \<le> k" "retry_attempt (device_retry db env client d pw) policy k = Stop (Inr (OutcomeUnlocked, e))"
    using unlock_retry_from_last by (auto simp: unlockDeviceWithRetry_def)
  from retry_attempt_stop [OF k(2), of e] k(1) show ?thesis
    by (intro exI [of _ k]) (simp add: device_retry_def Let_def)
qed

lemma unlock_verdict_None: "unlock_verdict targets success failed = None \<Longrightarrow> failed = []"
  unfolding unlock_verdict_def by (rule ccontr) simp

text \<open>The targets that the arguments of a command select.\<close>

definition unlock_targets :: "unicode_db \<Rightarrow> command_env \<Rightarrow> unlock_flags \<Rightarrow> string list \<Rightarrow> goerr + cdevice list" where
  "unlock_targets db env flags args =
     (case Store_Load db (cx_config env) of
        Inl err \<Rightarrow> Inl err
      | Inr devs \<Rightarrow> if ufAll flags then Inr devs else selectConfiguredDevices db devs args)"

definition unlock_policy :: "unlock_flags \<Rightarrow> retry_options" where
  "unlock_policy flags = \<lparr>maxAttempts = ufAttempts flags, retryDelay = ufDelay flags,
     verifyWindow = (if ufNoVerify flags then 0 else ufVerifyTimeout flags)\<rparr>"

lemma unlock_command_cases:
  assumes "unlock_command db env flags args = (contacted, err)"
  obtains (early) e where "contacted = []" "err = Some e"
    | (idle) "contacted = []" "err = None" "unlock_targets db env flags args = Inr []"
    | (run) targets client r where "unlock_targets db env flags args = Inr targets" "targets \<noteq> []"
        "unlock_loop db env (ufAllowUnsafe flags) client (unlock_policy flags) (length targets) targets False [] = (contacted, r)"
        "err = (case r of Inl e \<Rightarrow> Some e | Inr (success, failed) \<Rightarrow> unlock_verdict targets success failed)"
proof (cases "unlock_targets db env flags args = Inr [] \<and> err = None \<or> (\<exists>e. contacted = [] \<and> err = Some e)")
  case True
  moreover have "contacted = []" if "unlock_targets db env flags args = Inr []"
    using assms that by (auto simp: unlock_command_def unlock_targets_def split: if_splits sum.splits)
  ultimately show ?thesis using early idle by blast
next
  case False
  with assms show ?thesis using run
    unfolding unlock_command_def unlock_targets_def unlock_policy_def Let_def
    by (auto split: if_splits sum.splits prod.splits) 
qed

text \<open>C10. The command \<open>unlock\<close> is honest and keeps passwords apart: it returns without an error only if every selected device was contacted and ended unlocked, by the acknowledgement of the device, by a login that proves it booted, or by a verification after an unacknowledged attempt; a device is sent only its own credential, or, if it is the only one, the answer to the prompt; and a fatal error, such as a changed host key, ends the command with that error before any further device is contacted.\<close>

theorem unlock_command_honest:
  assumes "unlock_command db env flags args = (contacted, err)"
  shows "\<exists>client.
      (err = None \<longrightarrow> unlock_targets db env flags args = Inr (map fst contacted)
        \<and> (\<forall>(d, pw) \<in> set contacted. \<exists>k \<ge> 1. let res = fst (unlock_attempt db env client d pw k) in
            Status res \<in> {StatusUnlocked, StatusUnlockedRecently}
            \<or> opt_is (Error res) ErrUnlockOutcomeUnknown
              \<and> fst (cx_verify env (cName d) k (unacknowledged_verify (verifyWindow (unlock_policy flags))))))
      \<and> (\<forall>(d, pw) \<in> set contacted. pw \<noteq> [] \<and> (\<exists>targets. unlock_targets db env flags args = Inr targets \<and> d \<in> set targets
          \<and> ((\<exists>store. credentialStoreForDevice db d (ufAllowUnsafe flags) = Inr store
                \<and> providerStore_Get db (cx_cred env) store = Inr pw)
             \<or> targets = [d] \<and> cx_prompt env = Inr pw)))
      \<and> (\<forall>before d pw behind e. contacted = before @ (d, pw) # behind
          \<and> device_result db env client (unlock_policy flags) d pw = Inl e \<longrightarrow> behind = [] \<and> err = Some e)"
  using assms
proof (cases rule: unlock_command_cases)
  case (run targets client r)
  note spec = unlock_loop_spec [OF run(3)]
  have single: "targets = [d]" if "d \<in> set targets" "length targets \<le> 1" for d
    using that by (cases targets) auto
  show ?thesis
  proof (intro exI [of _ client] conjI impI ballI allI)
    assume "err = None"
    with run(4) have "(case r of Inl e \<Rightarrow> Some e | Inr (success, failed) \<Rightarrow> unlock_verdict targets success failed) = None" by simp
    then obtain success where "r = Inr (success, [])"
      by (cases r) (auto dest: unlock_verdict_None)
    note all = spec(3) [OF this]
    then show "unlock_targets db env flags args = Inr (map fst contacted)" using run(1) by simp
    fix x assume "x \<in> set contacted"
    with all unlocked_evidence [where db = db and env = env and client = client and policy = "unlock_policy flags"]
    show "case x of (d, pw) \<Rightarrow> \<exists>k \<ge> 1. let res = fst (unlock_attempt db env client d pw k) in
            Status res \<in> {StatusUnlocked, StatusUnlockedRecently}
            \<or> opt_is (Error res) ErrUnlockOutcomeUnknown
              \<and> fst (cx_verify env (cName d) k (unacknowledged_verify (verifyWindow (unlock_policy flags))))"
      by blast
  next
    fix x assume "x \<in> set contacted"
    then obtain d pw where x: "x = (d, pw)" "d \<in> set targets"
        "unlock_password db env (ufAllowUnsafe flags) (length targets) d = Inr (Some pw)"
      using spec(1) by blast
    from unlock_password_source [OF x(3)] single [OF x(2)] x(1,2) run(1)
    show "case x of (d, pw) \<Rightarrow> pw \<noteq> [] \<and> (\<exists>targets. unlock_targets db env flags args = Inr targets \<and> d \<in> set targets
          \<and> ((\<exists>store. credentialStoreForDevice db d (ufAllowUnsafe flags) = Inr store
                \<and> providerStore_Get db (cx_cred env) store = Inr pw)
             \<or> targets = [d] \<and> cx_prompt env = Inr pw))"
      by auto
  next
    fix before d pw behind e
    assume "contacted = before @ (d, pw) # behind \<and> device_result db env client (unlock_policy flags) d pw = Inl e"
    with spec(2) [of before d pw behind e] run(4) show "behind = []" "err = Some e" by auto
  qed
qed auto

definition demo_command :: command_env where
  "demo_command = \<lparr>cx_dir = Inr ''/d'', cx_config = store_env demo_codec quiet_call (Some ''[mini]''), cx_lib = demo_lib,
     cx_kh = demo_kenv, cx_known = [], cx_agent = pv_agent demo_probe, cx_cred = demo_cred_env\<lparr>ce_getenv := (\<lambda>_. [])\<rparr>, cx_prompt = Inr ''pw'',
     cx_net = (\<lambda>_ _ _ _ _ _. \<lparr>hs_dial = None, hs_events = [], hs_conn = None, hs_ctx = None\<rparr>),
     cx_before = (\<lambda>_ _. None), cx_after = (\<lambda>_ _. None), cx_ctx = (\<lambda>_ _. None), cx_wait = (\<lambda>_ _. None),
     cx_verify = (\<lambda>_ _ _. (False, None))\<rparr>"

definition demo_unlock :: unlock_flags where
  "demo_unlock = \<lparr>ufAll = True, ufInsecure = True, ufIdentities = [], ufVerifyTimeout = 0, ufNoVerify = True,
     ufAttempts = 3, ufDelay = 0, ufAllowUnsafe = False\<rparr>"

definition demo_client :: client_setup where
  "demo_client = \<lparr>csDialTimeout = defaultDialTimeout, csSigners = [], csVerify = None\<rparr>"

lemma demo_command_sel: "cx_dir demo_command = Inr ''/d''" "cx_config demo_command = store_env demo_codec quiet_call (Some ''[mini]'')"
  "cx_agent demo_command = pv_agent demo_probe" "ce_getenv (cx_cred demo_command) = (\<lambda>_. [])" "cx_prompt demo_command = Inr ''pw''"
  "cx_net demo_command = (\<lambda>_ _ _ _ _ _. \<lparr>hs_dial = None, hs_events = [], hs_conn = None, hs_ctx = None\<rparr>)"
  "cx_before demo_command = (\<lambda>_ _. None)" "cx_after demo_command = (\<lambda>_ _. None)" "cx_ctx demo_command = (\<lambda>_ _. None)"
  by (simp_all add: demo_command_def)

lemma demo_load: "Store_Load ascii_only_db (store_env demo_codec quiet_call (Some ''[mini]'')) = Inr [demo_added]"
  by (simp add: Store_Load_def store_env_def demo_codec_def demo_added_inventory)

lemma demo_new_client: "newSSHClient db lib kh (pv_agent demo_probe) dir True False [] defaultDialTimeout known = Inr demo_client"
  by (simp add: newSSHClient_def demo_probe_def loadSigners_def demo_client_def defaultDialTimeout_def second_def)

lemma demo_runtime: "Registry_Provider ascii_only_db (NewRegistry unsafe) ProviderRuntime = Inr RuntimeProvider"
  by (simp add: Registry_Provider_def NewRegistry_def provider_names)

lemma demo_password: "unlock_password ascii_only_db demo_command False (Suc 0) demo_added = Inr (Some ''pw'')"
  by (simp add: unlock_password_def credentialStoreForDevice_def effective_source_def demo_added_facts demo_rq_source
      demo_runtime providerStore_Get_def deviceCredentialID_def demo_command_sel GetEnvironment_def Let_def ask_password_def)

lemma demo_attempt: "Status (fst (unlock_attempt ascii_only_db demo_command client demo_added ''pw'' i)) = StatusUnlockedRecently"
  by (simp add: unlock_attempt_def Let_def Unlock_def staticStore_Get_def AnalyzePrompt_def handshake_def demo_command_sel new_trace_def)

lemma demo_result: "device_result ascii_only_db demo_command client policy demo_added ''pw'' = Inr (OutcomeUnlocked, None)"
proof -
  have "retry_attempt (device_retry ascii_only_db demo_command client demo_added ''pw'') policy 1 = Stop (Inr (OutcomeUnlocked, None))"
    by (simp add: retry_attempt_def device_retry_def demo_attempt Let_def)
  then show ?thesis by (simp add: unlockDeviceWithRetry_def unlock_retry_from.simps)
qed

lemma demo_unlock_run: "unlock_command ascii_only_db demo_command demo_unlock [] = ([(demo_added, ''pw'')], None)"
  by (simp add: unlock_command_def demo_unlock_def demo_command_sel demo_load demo_new_client demo_password demo_result
      unlock_verdict_def Let_def)

theorem unlock_command_honest_witness:
  "\<exists>client k. Status (fst (unlock_attempt ascii_only_db demo_command client demo_added ''pw'' k)) \<in> {StatusUnlocked, StatusUnlockedRecently}
    \<and> unlock_targets ascii_only_db demo_command demo_unlock [] = Inr [demo_added]"
  using unlock_command_honest [OF demo_unlock_run] demo_attempt by (auto simp: Let_def)

section \<open>Checking devices\<close>

lemma submissions_concat: "submissions (concat rss) = sum_list (map submissions rss)"
  by (induction rss) (simp_all add: submissions_def)

lemma status_string_other: "status_string st \<noteq> ''error''" "status_string st \<noteq> ''indeterminate''"
  by (cases st; simp)+

lemma status_check_simps:
  "srName (fst (fst (status_check db env client d))) = cName d"
  "submissions (snd (status_check db env client d)) = 0"
  "srState (fst (fst (status_check db env client d))) = ''error'' \<longleftrightarrow> fst (snd (fst (status_check db env client d)))"
  "srState (fst (fst (status_check db env client d))) = ''indeterminate'' \<longleftrightarrow> snd (snd (fst (status_check db env client d)))"
  using ProbeStatus_submissions [OF prod.collapse [symmetric]]
  by (auto simp: status_check_def CheckStatus_def status_of_device_def Let_def case_prod_unfold status_string_other)

definition status_targets :: "unicode_db \<Rightarrow> command_env \<Rightarrow> string list \<Rightarrow> goerr + cdevice list" where
  "status_targets db env args =
     (case Store_Load db (cx_config env) of
        Inl err \<Rightarrow> Inl err
      | Inr devs \<Rightarrow> if args = [] then Inr devs else selectConfiguredDevices db devs args)"

lemma status_command_cases:
  assumes "status_command db env json_err flags args = (reports, replies, err)"
  obtains (early) e where "reports = []" "replies = []" "err = Some e"
    | (idle) "reports = []" "replies = []" "status_targets db env args = Inr []"
    | (run) targets client where "status_targets db env args = Inr targets" "targets \<noteq> []" "sfAcceptNew flags \<longrightarrow> length args = 1"
        "newSSHClient db (cx_lib env) (cx_kh env) (cx_agent env) (cx_dir env) (sfInsecure flags) (sfAcceptNew flags)
           (sfIdentities flags) defaultDialTimeout (cx_known env) = Inr client"
        "reports = map (\<lambda>d. fst (fst (status_check db env client d))) targets"
        "replies = concat (map (\<lambda>d. snd (status_check db env client d)) targets)"
        "err = None \<longleftrightarrow> (sfJSON flags \<longrightarrow> json_err = None)
           \<and> (\<forall>r \<in> set reports. srState r \<noteq> ''error'' \<and> (sfRequireKnown flags \<longrightarrow> srState r \<noteq> ''indeterminate''))"
proof (cases "(\<exists>e. reports = [] \<and> replies = [] \<and> err = Some e) \<or> status_targets db env args = Inr []")
  case True
  moreover have "reports = [] \<and> replies = []" if "status_targets db env args = Inr []"
    using assms that by (auto simp: status_command_def status_targets_def split: sum.splits if_splits)
  ultimately show ?thesis using early idle by blast
next
  case False
  with assms obtain targets client where r: "status_targets db env args = Inr targets" "targets \<noteq> []"
      "sfAcceptNew flags \<longrightarrow> length args = 1"
      "newSSHClient db (cx_lib env) (cx_kh env) (cx_agent env) (cx_dir env) (sfInsecure flags) (sfAcceptNew flags)
         (sfIdentities flags) defaultDialTimeout (cx_known env) = Inr client"
      "reports = map (\<lambda>d. fst (fst (status_check db env client d))) targets"
      "replies = concat (map (\<lambda>d. snd (status_check db env client d)) targets)"
      "err = None \<longleftrightarrow> (sfJSON flags \<longrightarrow> json_err = None)
         \<and> filter (\<lambda>c. fst (snd (fst c))) (map (status_check db env client) targets) = []
         \<and> (sfRequireKnown flags \<longrightarrow> filter (\<lambda>c. snd (snd (fst c))) (map (status_check db env client) targets) = [])"
    by (auto simp: status_command_def status_targets_def Let_def comp_def split: sum.splits if_splits)
  show ?thesis by (rule run [OF r(1-6)]) (auto simp: r(5,7) filter_empty_conv status_check_simps)
qed

text \<open>What a report says of its device, given the client.\<close>

definition report_true :: "unicode_db \<Rightarrow> command_env \<Rightarrow> client_setup \<Rightarrow> cdevice \<Rightarrow> status_report \<Rightarrow> bool" where
  "report_true db env client d r \<longleftrightarrow> srName r = cName d \<and> srEndpoint r = deviceEndpoint d \<and>
     (let (st, out, perr) = fst (CheckStatus db (cx_net env client (cName d) 1) (deviceEndpoint d) (cUser d) (15 * second)) in
      (srState r = ''locked'' \<longleftrightarrow> st = StatusLocked) \<and> (st = StatusLocked \<longrightarrow> lockedSeen db out)
      \<and> (srState r = ''booted'' \<longleftrightarrow> st = StatusUnlockedRecently))"

lemma status_check_true: "report_true db env client d (fst (fst (status_check db env client d)))"
proof -
  obtain st out perr rs where c: "CheckStatus db (cx_net env client (cName d) 1) (deviceEndpoint d) (cUser d) (15 * second)
      = ((st, out, perr), rs)" by (metis surj_pair)
  have "st = StatusLocked \<Longrightarrow> lockedSeen db out" using c ProbeStatus_locked by (auto simp: CheckStatus_def)
  then show ?thesis using c
    by (cases st) (auto simp: report_true_def status_check_def status_of_device_def Let_def)
qed


definition demo_status :: status_flags where
  "demo_status = \<lparr>sfInsecure = True, sfAcceptNew = False, sfRequireKnown = True, sfJSON = True, sfIdentities = []\<rparr>"

lemma demo_check: "fst (fst (status_check ascii_only_db demo_command client demo_added)) =
    \<lparr>srName = ''mini'', srEndpoint = ''10.0.0.5:22'', srState = ''booted'', srEvidence = ''normal macOS SSH accepted a public key'', srError = []\<rparr>"
  "snd (fst (status_check ascii_only_db demo_command client demo_added)) = (False, False)"
  by (simp_all add: status_check_def CheckStatus_def ProbeStatus_def handshake_def demo_command_sel new_trace_def
      status_of_device_def demo_endpoint demo_added_facts)


section \<open>Adding a device\<close>

lemma addPrepared_result:
  assumes "out = addPrepared db commit d prepare"
  shows "coPrepared out \<Longrightarrow> prepare \<noteq> None \<and> cf_lock commit = None
      \<and> (\<exists>devs. Store_Load db commit = Inr devs \<and> cName d \<notin> cName ` set devs)"
    and "coWritten out = Some b \<Longrightarrow> (\<exists>devs. Store_Load db commit = Inr devs \<and> cf_encode commit (devs @ [d]) = Inr b
        \<and> validateDevices db (devs @ [d]) = None) \<and> (\<forall>e. prepare \<noteq> Some (Some e)) \<and> (coPrepared out \<longleftrightarrow> prepare \<noteq> None)"
    and "coErr out = None \<Longrightarrow> coWritten out \<noteq> None"
proof -
  have no: "\<not> err_is err ErrNoMutation" if "add_device_fn d devs = Inl err" for devs err
    using that by (auto simp: add_device_fn_def split: if_splits)
  show "coPrepared out \<Longrightarrow> prepare \<noteq> None \<and> cf_lock commit = None
      \<and> (\<exists>devs. Store_Load db commit = Inr devs \<and> cName d \<notin> cName ` set devs)"
    using assms by (auto simp: addPrepared_def mutate_def add_device_fn_def list_ex_iff split: option.splits sum.splits if_splits prod.splits)
  show "coWritten out = Some b \<Longrightarrow> (\<exists>devs. Store_Load db commit = Inr devs \<and> cf_encode commit (devs @ [d]) = Inr b
        \<and> validateDevices db (devs @ [d]) = None) \<and> (\<forall>e. prepare \<noteq> Some (Some e)) \<and> (coPrepared out \<longleftrightarrow> prepare \<noteq> None)"
    using assms by (auto simp: addPrepared_def mutate_def add_device_fn_def save_def list_ex_iff
        split: option.splits sum.splits if_splits prod.splits)
  show "coErr out = None \<Longrightarrow> coWritten out \<noteq> None"
    using assms no by (auto simp: addPrepared_def elim!: mutate_cases)
qed

lemma add_credential_sound:
  assumes "add_credential db env input flags source = Inr (chosen, reference, keyring)"
  shows "chosen = ProviderKeyring \<longleftrightarrow> keyring \<noteq> None"
    "keyring = Some (p, pw) \<Longrightarrow> p = KeyringProvider \<and> pw \<noteq> [] \<and> ti_password input = Inr pw \<and> rpAvailable (keyringProviderReport env)"
    "chosen = ProviderFile \<Longrightarrow> \<not> afAllowUnsafe flags \<Longrightarrow> raAvailable (assessCredentialFile db env reference) \<Longrightarrow>
       raSecure (assessCredentialFile db env reference)"
  using assms
  by (auto simp: add_credential_def keyring_choice_def prepareKeyring_def add_file_credential_def ask_password_def Let_def
      Registry_Provider_def NewRegistry_def provider_names split: sum.splits if_splits)

lemma config_add_cases:
  assumes "config_add db env input dir load commit flags args = (out, stored)"
  obtains (early) e where "out = refused e" "stored = None"
    | (run) chosen reference keyring d where "add_credential db env input flags (add_requested db flags) = Inr (chosen, reference, keyring)"
        "d = (add_base flags (add_name flags args))\<lparr>cCredentialSource := chosen, cCredentialRef := reference, cAutoUnlock := afAutoUnlock flags\<rparr>"
        "ValidateDevice db d = None"
        "out = addPrepared db commit d (map_option (\<lambda>(p, pw). map_option (errorf ''store password in keychain'')
           (provider_Store env p (ID (add_name flags args)) pw)) keyring)"
        "stored = (case keyring of None \<Rightarrow> None | Some (p, pw) \<Rightarrow>
           if coPrepared out \<and> provider_Store env p (ID (add_name flags args)) pw = None then Some (ID (add_name flags args), pw) else None)"
  using assms that
  unfolding config_add_def Let_def
  by (auto split: if_splits option.splits sum.splits prod.splits)

text \<open>C33. The command \<open>config add\<close> keeps the keyring and the configuration consistent: a password is put in the keyring only if the operator entered it, the keyring is available and the new device is not yet configured, under the lock of the configuration; the configuration is then written only with the valid new device appended, with the keyring as its source exactly if the password is stored there, with a credential file that was found insecure only if the command allows it, and with automatic unlocking never from the environment; success means that it was written.\<close>

theorem config_add_consistent:
  assumes "config_add db env input dir load commit flags args = (out, stored)"
  shows "(\<forall>c pw. stored = Some (c, pw) \<longrightarrow> c = ID (add_name flags args) \<and> pw \<noteq> [] \<and> ti_password input = Inr pw
        \<and> rpAvailable (keyringProviderReport env) \<and> cf_lock commit = None
        \<and> (\<exists>devs. Store_Load db commit = Inr devs \<and> add_name flags args \<notin> cName ` set devs))
    \<and> (\<forall>b. coWritten out = Some b \<longrightarrow> (\<exists>devs d. Store_Load db commit = Inr devs \<and> cf_encode commit (devs @ [d]) = Inr b
        \<and> validateDevices db (devs @ [d]) = None \<and> cName d = add_name flags args \<and> cHost d = afHost flags
        \<and> (cCredentialSource d = ProviderKeyring \<longleftrightarrow> stored \<noteq> None)
        \<and> (cCredentialSource d = ProviderFile \<and> \<not> afAllowUnsafe flags
            \<and> raAvailable (assessCredentialFile db env (cCredentialRef d)) \<longrightarrow> raSecure (assessCredentialFile db env (cCredentialRef d)))
        \<and> (cAutoUnlock d \<longrightarrow> cCredentialSource d \<noteq> ProviderRuntime)))
    \<and> (coErr out = None \<longrightarrow> coWritten out \<noteq> None)"
  using assms
proof (cases rule: config_add_cases)
  case (run chosen reference keyring d)
  note cred = add_credential_sound [OF run(1)] and added = addPrepared_result [OF run(4)]
  have d: "cName d = add_name flags args" "cHost d = afHost flags" "cCredentialSource d = chosen" "cCredentialRef d = reference"
    by (simp_all add: run(2) add_base_def)
  have auto: "cAutoUnlock d \<Longrightarrow> chosen \<noteq> ProviderRuntime"
    using ValidateDevice_auto [OF run(3)] d(3) by (auto simp: effective_source_def provider_names)
  show ?thesis
  proof (intro conjI allI impI)
    fix c pw assume "stored = Some (c, pw)"
    then obtain p where k: "keyring = Some (p, pw)" "c = ID (add_name flags args)" "coPrepared out"
      using run(5) by (auto split: option.splits if_splits)
    with cred(2) [OF k(1)] added(1) [OF k(3)] d(1)
    show "c = ID (add_name flags args)" "pw \<noteq> []" "ti_password input = Inr pw" "rpAvailable (keyringProviderReport env)"
      "cf_lock commit = None" "\<exists>devs. Store_Load db commit = Inr devs \<and> add_name flags args \<notin> cName ` set devs" by auto
  next
    fix b assume b: "coWritten out = Some b"
    have "chosen = ProviderKeyring \<longleftrightarrow> stored \<noteq> None"
      using cred(1) added(2) [OF b] run(5) by (auto split: option.splits)
    with added(2) [OF b] d cred(3) auto
    show "\<exists>devs d. Store_Load db commit = Inr devs \<and> cf_encode commit (devs @ [d]) = Inr b
        \<and> validateDevices db (devs @ [d]) = None \<and> cName d = add_name flags args \<and> cHost d = afHost flags
        \<and> (cCredentialSource d = ProviderKeyring \<longleftrightarrow> stored \<noteq> None)
        \<and> (cCredentialSource d = ProviderFile \<and> \<not> afAllowUnsafe flags
            \<and> raAvailable (assessCredentialFile db env (cCredentialRef d)) \<longrightarrow> raSecure (assessCredentialFile db env (cCredentialRef d)))
        \<and> (cAutoUnlock d \<longrightarrow> cCredentialSource d \<noteq> ProviderRuntime)" by blast
  next
    assume "coErr out = None"
    then show "coWritten out \<noteq> None" by (rule added(3))
  qed
qed auto

definition demo_add_flags :: add_flags where
  "demo_add_flags = \<lparr>afHost = ''10.0.0.5'', afUser = ''admin'', afPort = 22, afSuccessMessage = [], afCredentialSource = ''keyring'',
     afCredentialFile = [], afAllowUnsafe = False, afAutoUnlock = True\<rparr>"

definition demo_commit_env :: config_env where
  "demo_commit_env = \<lparr>cf_lock = None, cf_read = Inl (Sentinel NotExist), cf_decode = (\<lambda>_. Inl (ErrText [])),
     cf_encode = (\<lambda>devs. Inr (concat (map cName devs))), cf_write = (\<lambda>_. None)\<rparr>"

lemma demo_keyring_device: "(add_base demo_add_flags ''mini'')\<lparr>cCredentialSource := ProviderKeyring, cCredentialRef := [],
    cAutoUnlock := True\<rparr> = demo_added\<lparr>cCredentialSource := ProviderKeyring, cAutoUnlock := True\<rparr>"
  "ValidateDevice ascii_only_db (add_base demo_add_flags ''mini'') = None"
  using demo_added_valid
  by (simp_all add: add_base_def demo_add_flags_def demo_added_def enroll_device_def demo_rq_source) (simp_all add: demo_rq_def)

lemma demo_keyring_valid: "ValidateDevice ascii_only_db (demo_added\<lparr>cCredentialSource := ProviderKeyring, cAutoUnlock := True\<rparr>) = None"
  "validateDevices ascii_only_db [demo_added\<lparr>cCredentialSource := ProviderKeyring, cAutoUnlock := True\<rparr>] = None"
proof -
  show *: "ValidateDevice ascii_only_db (demo_added\<lparr>cCredentialSource := ProviderKeyring, cAutoUnlock := True\<rparr>) = None"
    by (simp add: ValidateDevice_def demo_added_facts demo_plain ID_def defaultSuccessMessage_def HasPrefix_def
        effective_source_def provider_names)
  show "validateDevices ascii_only_db [demo_added\<lparr>cCredentialSource := ProviderKeyring, cAutoUnlock := True\<rparr>] = None"
    using * by (simp add: validateDevices_def validate_from_None)
qed

lemma demo_add_run:
  "config_add ascii_only_db (demo_cred_env\<lparr>ce_keyring_tag := True, ce_goos := ''windows''\<rparr>)
     \<lparr>ti_password = Inr ''pw'', ti_confirm = []\<rparr> None demo_commit_env demo_commit_env demo_add_flags [''mini'']
   = (\<lparr>coPrepared = True, coWritten = Some ''mini'', coErr = None\<rparr>, Some (''fvu-mini'', ''pw''))"
proof -
  have req: "add_requested ascii_only_db demo_add_flags = ProviderKeyring"
    by (simp add: add_requested_def demo_add_flags_def ToLower_ascii ascii_only_db_ascii TrimSpace_def is_space_def ProviderKeyring_def lower_char_id)
  have load: "Store_Load ascii_only_db demo_commit_env = Inr []" by (simp add: Store_Load_def demo_commit_env_def)
  have sel: "cf_lock demo_commit_env = None" "cf_encode demo_commit_env devs = Inr (concat (map cName devs))" "cf_write demo_commit_env c = None" for devs c
    by (simp_all add: demo_commit_env_def)
  have cred: "add_credential ascii_only_db (demo_cred_env\<lparr>ce_keyring_tag := True, ce_goos := ''windows''\<rparr>)
      \<lparr>ti_password = Inr ''pw'', ti_confirm = []\<rparr> demo_add_flags ProviderKeyring = Inr (ProviderKeyring, [], Some (KeyringProvider, ''pw''))"
    by (simp add: add_credential_def keyring_choice_def prepareKeyring_def ask_password_def Registry_Provider_def NewRegistry_def
        provider_names keyringProviderReport_def)
  have flags: "afUser demo_add_flags \<noteq> []" "afHost demo_add_flags \<noteq> []" "afPort demo_add_flags = 22" "afCredentialFile demo_add_flags = []"
    "afAutoUnlock demo_add_flags"
    by (simp_all add: demo_add_flags_def)
  have checks: "add_checks ascii_only_db demo_add_flags ''mini'' [] = None"
    using demo_keyring_device(2) by (simp add: add_checks_def req flags provider_names Let_def)
  have "mutate ascii_only_db demo_commit_env (add_device_fn (demo_added\<lparr>cCredentialSource := ProviderKeyring, cAutoUnlock := True\<rparr>)) (Some None)
      = \<lparr>coPrepared = True, coWritten = Some ''mini'', coErr = None\<rparr>"
    by (simp add: mutate_def load sel add_device_fn_def demo_keyring_valid save_def demo_added_facts maxConfigSize_def)
  then show ?thesis
    by (simp add: config_add_def flags add_name_def load checks req cred demo_keyring_device demo_keyring_valid Let_def
        addPrepared_def keyringProviderReport_def keyring_Set_def) (simp add: demo_cred_env_def ID_def)
qed

theorem config_add_consistent_witness:
  "\<exists>devs d. Store_Load ascii_only_db demo_commit_env = Inr devs \<and> cf_encode demo_commit_env (devs @ [d]) = Inr ''mini''
    \<and> validateDevices ascii_only_db (devs @ [d]) = None \<and> cName d = ''mini'' \<and> cCredentialSource d = ProviderKeyring"
  using config_add_consistent [OF demo_add_run] by (simp add: add_name_def) blast

section \<open>Removing devices\<close>

lemma Remove_step:
  assumes "inventory db codec content = Inr devs" "codec_ok codec" "out = Remove db (store_env codec call content) name"
  shows "\<exists>G \<subseteq> {name}. inventory db codec (content_after call out content) = Inr (filter (\<lambda>d. cName d \<notin> G) devs)
    \<and> (coErr out = None \<longrightarrow> G = {name})"
proof (cases "sc_read call")
  case None
  let ?rest = "filter (\<lambda>d. cName d \<noteq> name) devs"
  note load = inventory_eq [OF None, of db codec content, unfolded assms(1)]
  show ?thesis
  proof (cases "coWritten out")
    case None
    then have "coErr out \<noteq> None"
      using assms(3) load by (auto simp: Remove_def mutate_def remove_fn_def save_def split: option.splits if_splits sum.splits)
    with None assms(1) show ?thesis by (intro exI [of _ "{}"]) (simp add: content_after_def)
  next
    case (Some b)
    then have b: "cc_encode codec ?rest = Inr b" "validateDevices db ?rest = None"
      "coErr out = (case sc_write call of SaveOk \<Rightarrow> None | SaveFailed err _ \<Rightarrow> Some err)"
      using assms(3) load by (auto simp: Remove_def mutate_def remove_fn_def save_def split: option.splits if_splits sum.splits)
    note written = inventory_written [OF assms(2) b(1,2)]
    show ?thesis
    proof (cases "\<exists>err. sc_write call = SaveFailed err False")
      case True
      with Some b(3) assms(1) show ?thesis by (intro exI [of _ "{}"]) (auto simp: content_after_def)
    next
      case False
      with Some have "content_after call out content = Some b"
        by (auto simp: content_after_def split: save_outcome.splits bool.splits)
      with written show ?thesis by (intro exI [of _ "{name}"]) simp
    qed
  qed
next
  case (Some err)
  then have "coErr out \<noteq> None \<and> coWritten out = None"
    using assms(3) by (auto simp: Remove_def mutate_def remove_fn_def Store_Load_def store_env_def split: option.splits if_splits)
  with assms(1) show ?thesis by (intro exI [of _ "{}"]) (simp add: content_after_def)
qed

lemma remove_loop_spec:
  assumes "inventory db codec content = Inr devs" "codec_ok codec" "remove_loop db env codec call ds content = (final, deleted, failed)"
  shows "\<exists>G. inventory db codec final = Inr (filter (\<lambda>d. cName d \<notin> G) devs) \<and> G \<subseteq> cName ` set ds \<and> cName ` set ds \<subseteq> G \<union> set failed
    \<and> (\<forall>r \<in> set deleted. \<exists>d \<in> set ds. cName d \<in> G \<and> deleteStoredCredential db env d = Some r)"
  using assms(1,3)
proof (induction ds arbitrary: content devs final deleted failed)
  case Nil
  then show ?case by (intro exI [of _ "{}"]) auto
next
  case (Cons d ds)
  let ?out = "Remove db (store_env codec (call (cName d)) content) (cName d)"
  let ?content = "content_after (call (cName d)) ?out content"
  obtain G where G: "G \<subseteq> {cName d}" "inventory db codec ?content = Inr (filter (\<lambda>x. cName x \<notin> G) devs)"
    "coErr ?out = None \<longrightarrow> G = {cName d}"
    using Remove_step [OF Cons.prems(1) assms(2) refl, where call = "call (cName d)" and name = "cName d"]
    by (elim exE conjE) (rule that)
  obtain del fl where rec: "remove_loop db env codec call ds ?content = (final, del, fl)"
    and now: "case coErr ?out of Some _ \<Rightarrow> deleted = del \<and> failed = cName d # fl
      | None \<Rightarrow> deleted = (case deleteStoredCredential db env d of None \<Rightarrow> [] | Some r \<Rightarrow> [r]) @ del \<and> failed = fl"
    using Cons.prems(2) by (auto simp: Let_def split: prod.splits option.splits)
  obtain H where H: "inventory db codec final = Inr (filter (\<lambda>x. cName x \<notin> H) (filter (\<lambda>x. cName x \<notin> G) devs))"
    "H \<subseteq> cName ` set ds" "cName ` set ds \<subseteq> H \<union> set fl"
    "\<forall>r \<in> set del. \<exists>x \<in> set ds. cName x \<in> H \<and> deleteStoredCredential db env x = Some r"
    using Cons.IH [OF G(2) rec] by blast
  have "inventory db codec final = Inr (filter (\<lambda>x. cName x \<notin> G \<union> H) devs)"
    using H(1) by (simp add: filter_filter conj_commute)
  with G(1,3) H(2-4) now show ?case
    by (intro exI [of _ "G \<union> H"]) (auto split: option.splits)
qed

text \<open>The devices that a removal is asked for, if it is confirmed.\<close>

definition remove_asked :: "unicode_db \<Rightarrow> remove_flags \<Rightarrow> read1 list \<Rightarrow> string list \<Rightarrow> cdevice list \<Rightarrow> string set" where
  "remove_asked db flags confirm args devs =
     (if rfAll flags then (if rfYes flags \<or> readYes db confirm = Inr True then cName ` set devs else {}) else set args)"

lemma config_remove_cases:
  assumes "config_remove db env codec dir load call confirm flags args content = (final, deleted, err)"
    "sc_read load = None" "inventory db codec content = Inr devs"
  obtains (unchanged) "final = content" "deleted = []" "err = None \<Longrightarrow> remove_asked db flags confirm args devs = {}"
    | (run) sel failed where "remove_loop db env codec call sel content = (final, deleted, failed)"
        "cName ` set sel = remove_asked db flags confirm args devs" "err = None \<longleftrightarrow> failed = []"
proof -
  have load: "Store_Load db (store_env codec load content) = Inr devs" using assms(2,3) by (simp add: inventory_eq)
  have names: "cName ` set sel = set args" if "selectConfiguredDevices db devs args = Inr sel" for sel
    using that select_from_spec [OF validateDevices_iff_names [OF Store_Load_valid [OF load]], of db "[]" args sel]
    by (auto simp: selectConfiguredDevices_def simp flip: set_map)
  have "final = content \<and> deleted = [] \<and> (err = None \<longrightarrow> remove_asked db flags confirm args devs = {})
      \<or> (\<exists>sel failed. remove_loop db env codec call sel content = (final, deleted, failed)
          \<and> cName ` set sel = remove_asked db flags confirm args devs \<and> (err = None \<longleftrightarrow> failed = []))"
  proof (cases "rfAll flags")
    case True
    obtain f' d' fl where l: "remove_loop db env codec call devs content = (f', d', fl)" by (metis surj_pair)
    from True assms(1) show ?thesis
      by (simp add: config_remove_def remove_asked_def load l split: if_splits option.splits sum.splits) (use l in blast)+
  next
    case False
    show ?thesis
    proof (cases "selectConfiguredDevices db devs args")
      case (Inr sel)
      obtain f' d' fl where l: "remove_loop db env codec call sel content = (f', d', fl)" by (metis surj_pair)
      from False Inr assms(1) names [OF Inr] show ?thesis
        by (simp add: config_remove_def remove_asked_def load l split: if_splits option.splits) (use l in blast)+
    qed (use False assms(1) load in \<open>auto simp: config_remove_def split: if_splits option.splits\<close>)
  qed
  with unchanged run show ?thesis by blast
qed

text \<open>The command \<open>config remove\<close> removes what was asked and nothing else: the configuration afterwards is the old one without some of the devices that the arguments name, or of all devices if \<open>--all\<close> was given and confirmed; on success it is without all of them; and a keyring entry is deleted only for a device that is gone from the configuration.\<close>

theorem config_remove_exact:
  assumes "config_remove db env codec dir load call confirm flags args content = (final, deleted, err)"
    "codec_ok codec" "sc_read load = None" "inventory db codec content = Inr devs"
  shows "\<exists>G \<subseteq> remove_asked db flags confirm args devs. inventory db codec final = Inr (filter (\<lambda>d. cName d \<notin> G) devs)
    \<and> (err = None \<longrightarrow> G = remove_asked db flags confirm args devs)
    \<and> (\<forall>r \<in> set deleted. \<exists>d. cName d \<in> G \<and> deleteStoredCredential db env d = Some r)"
  using assms(1,3,4)
proof (cases rule: config_remove_cases)
  case unchanged
  with assms(4) show ?thesis by (intro exI [of _ "{}"]) auto
next
  case (run sel failed)
  from remove_loop_spec [OF assms(4,2) run(1)] obtain G where
    "inventory db codec final = Inr (filter (\<lambda>d. cName d \<notin> G) devs)" "G \<subseteq> cName ` set sel" "cName ` set sel \<subseteq> G \<union> set failed"
    "\<forall>r \<in> set deleted. \<exists>d \<in> set sel. cName d \<in> G \<and> deleteStoredCredential db env d = Some r" by (elim exE conjE)
  with run(2,3) show ?thesis by (intro exI [of _ G]) auto
qed

theorem config_remove_exact_witness:
  "inventory ascii_only_db demo_codec (fst (config_remove ascii_only_db demo_cred_env demo_codec None quiet_call (\<lambda>_. quiet_call) []
     \<lparr>rfAll = False, rfYes = False\<rparr> [''mini''] (Some ''[mini]''))) = Inr []"
proof -
  let ?run = "config_remove ascii_only_db demo_cred_env demo_codec None quiet_call (\<lambda>_. quiet_call) []
     \<lparr>rfAll = False, rfYes = False\<rparr> [''mini''] (Some ''[mini]'')"
  have inv: "inventory ascii_only_db demo_codec (Some ''[mini]'') = Inr [demo_added]" unfolding inventory_def by (rule demo_load)
  have sel: "selectConfiguredDevices ascii_only_db [demo_added] [''mini''] = Inr [demo_added]"
    by (simp add: selectConfiguredDevices_def by_name_def demo_added_facts)
  have out: "Remove ascii_only_db (store_env demo_codec quiet_call (Some ''[mini]'')) ''mini'' = \<lparr>coPrepared = False, coWritten = Some ''[]'', coErr = None\<rparr>"
    by (simp add: Remove_def mutate_def demo_load remove_fn_def demo_added_facts validateDevices_def save_def)
      (simp add: demo_codec_def maxConfigSize_def)
  obtain final deleted err where run: "?run = (final, deleted, err)" by (metis surj_pair)
  then have "err = None"
    by (auto simp: config_remove_def demo_load sel out demo_added_facts Let_def split: option.splits)
  with config_remove_exact [OF run demo_codec_ok _ inv] run show ?thesis
    by (auto simp: remove_asked_def demo_added_facts)
qed

end
