(* ===== verification/Control.thy ===== *)
theory Control
  imports Securefs Daemon_Adapter
begin

text \<open>
  The control socket (\<open>internal/control/socket.go\<close>): creating and closing it over the file system of
  \<open>Securefs\<close>, and the bounded JSON client; and the command \<open>healthcheck\<close> (\<open>control_commands.go\<close>).
\<close>

section \<open>The listener\<close>

text \<open>
  The outcomes of the calls: \<open>ls_dial\<close> is the error of connecting to the socket that exists, \<open>None\<close> if
  somebody answers; \<open>ls_in_use\<close> the error of binding a path that exists; \<open>ls_umask\<close> are the permissions
  that the new socket gets from the process; \<open>ls_close\<close> and \<open>ls_cleanup\<close> the errors of removing it when
  its mode cannot be set. \<open>ls_dialed\<close> is what other processes do between the \<open>Lstat\<close> with its dial and the
  removal, \<open>ls_removed\<close> what they do before the new socket is bound.
\<close>

record listen_env =
  ls_dir :: dir_env
  ls_lstat :: "goerr option"
  ls_dial :: "goerr option"
  ls_dialed :: "fs \<Rightarrow> fs"
  ls_remove :: "goerr option"
  ls_removed :: "fs \<Rightarrow> fs"
  ls_listen :: "goerr option"
  ls_in_use :: goerr
  ls_umask :: nat
  ls_chmod :: "goerr option"
  ls_close :: "goerr option"
  ls_cleanup :: "goerr option"

text \<open>
  A failed dial is a \<open>net.OpError\<close>. \<open>os.IsNotExist\<close> does not look into it, so the second test of the
  code never holds and only a refused connection proves the socket stale.
\<close>

definition proven_stale :: "goerr \<Rightarrow> bool" where
  "proven_stale err = err_refused err"

text \<open>The first half of \<open>Listen\<close>: the way to a path that is free.\<close>

definition clear_stale :: "listen_env \<Rightarrow> string \<Rightarrow> fs \<Rightarrow> fs \<times> goerr option" where
  "clear_stale env path f =
     (case ls_lstat env of
        Some err \<Rightarrow> (f, Some err)
      | None \<Rightarrow>
        (case node_at f path of
           None \<Rightarrow> (f, None)
         | Some (_, n) \<Rightarrow>
           if ikind n \<noteq> SocketNode then
             (f, Some (ErrText (''refusing to replace non-socket control path: '' @ path)))
           else (case ls_dial env of
               None \<Rightarrow> (f, Some (ErrText (''control socket is already in use: '' @ path)))
             | Some err \<Rightarrow>
               if \<not> proven_stale err then
                 (f, Some (errorf (''refusing to replace control socket that cannot be proven stale: '' @ path) err))
               else
                 let f1 = ls_dialed env f in
                 (case ls_remove env of
                    Some rerr \<Rightarrow> (f1, Some rerr)
                  | None \<Rightarrow>
                    if node_at f1 path = None then (f1, Some (Sentinel NotExist)) else (unlink path f1, None)))))"

text \<open>
  The second half: binding, and setting the mode; \<open>listener.Close\<close> and \<open>os.Remove\<close> both try to take away
  a socket whose mode could not be set.
\<close>

definition open_socket :: "nat \<Rightarrow> listen_env \<Rightarrow> string \<Rightarrow> fs \<Rightarrow> fs \<times> goerr option" where
  "open_socket euid env path f =
     (case ls_listen env of
        Some err \<Rightarrow> (f, Some err)
      | None \<Rightarrow>
        if node_at f path \<noteq> None then (f, Some (ls_in_use env))
        else
          let f1 = create_node path \<lparr>ikind = SocketNode, iperm = ls_umask env, iuid = euid, idata = []\<rparr> f in
          (case ls_chmod env of
             Some err \<Rightarrow>
               let f2 = (if ls_close env = None then unlink path f1 else f1);
                   f3 = (if ls_cleanup env = None then unlink path f2 else f2) in
               (f3, Some err)
           | None \<Rightarrow> (set_node (fsNext f) ((fsTable f1 (fsNext f))\<lparr>iperm := FileMode\<rparr>) f1, None)))"

definition Listen :: "nat \<Rightarrow> listen_env \<Rightarrow> string \<Rightarrow> fs \<Rightarrow> fs \<times> goerr option" where
  "Listen euid env path f =
     (if \<not> IsAbs path then (f, Some (ErrText ''control socket path must be absolute''))
      else case EnsurePrivateDirectory euid (ls_dir env) (Dir path) ''control socket'' f of
        (f1, Some err) \<Rightarrow> (f1, Some err)
      | (f1, None) \<Rightarrow>
        (case clear_stale env path f1 of
           (f2, Some err) \<Rightarrow> (f2, Some err)
         | (f2, None) \<Rightarrow> open_socket euid env path (ls_removed env f2)))"

text \<open>\<open>close_err\<close> is the error of the listener itself, \<open>remove_err\<close> that of removing the path.\<close>

definition cleanupListener_Close :: "goerr option \<Rightarrow> goerr option \<Rightarrow> string \<Rightarrow> fs \<Rightarrow> fs \<times> goerr option" where
  "cleanupListener_Close close_err remove_err path f =
     (case remove_err of
        None \<Rightarrow> (unlink path f, close_err)
      | Some rerr \<Rightarrow>
        (f, if rerr \<noteq> Sentinel NotExist \<and> close_err = None then Some rerr else close_err))"

section \<open>The client\<close>

definition maxResponseSize :: nat where
  "maxResponseSize = 4 * 1048576"

record http_response =
  hrCode :: nat
  hrStatus :: string
  hrBody :: string
  hrReadErr :: "goerr option"

text \<open>
  \<open>encoded\<close> is the error of encoding the request, \<open>request\<close> that of building it, \<open>reply\<close> the outcome of sending
  it, \<open>decode\<close> the decoder, which refuses unknown fields and tells whether anything follows the value.
\<close>

definition DoJSON ::
    "goerr option \<Rightarrow> goerr option \<Rightarrow> goerr + http_response \<Rightarrow> (string \<Rightarrow> goerr + ('a \<times> decode_tail)) \<Rightarrow> string \<Rightarrow> goerr + 'a" where
  "DoJSON encoded request reply decode endpoint =
     (case encoded of
        Some err \<Rightarrow> Inl err
      | None \<Rightarrow>
        (case request of
           Some err \<Rightarrow> Inl err
         | None \<Rightarrow>
           (case reply of
              Inl err \<Rightarrow> Inl err
            | Inr resp \<Rightarrow>
              if hrCode resp < 200 \<or> 300 \<le> hrCode resp then
                Inl (ErrText (''control API '' @ endpoint @ '': '' @ hrStatus resp @ '': '' @ take 4096 (hrBody resp)))
              else
                let content = take (maxResponseSize + 1) (hrBody resp) in
                (case hrReadErr resp of
                   Some err \<Rightarrow> Inl err
                 | None \<Rightarrow>
                   if maxResponseSize < length content then
                     Inl (ErrText (''control API response exceeds '' @ decimal maxResponseSize @ '' bytes''))
                   else (case decode content of
                       Inl err \<Rightarrow> Inl err
                     | Inr (value, tail) \<Rightarrow>
                       if tail = NotEOF then Inl (ErrText ''control API response contains trailing data'')
                       else Inr value)))))"

definition GetJSON :: "goerr option \<Rightarrow> goerr + http_response \<Rightarrow> (string \<Rightarrow> goerr + ('a \<times> decode_tail)) \<Rightarrow> string \<Rightarrow> goerr + 'a" where
  "GetJSON request reply decode endpoint = DoJSON None request reply decode endpoint"

definition controlAPISchemaVersion :: int where
  "controlAPISchemaVersion = 1"

definition checkControlSchema :: "int \<Rightarrow> goerr option" where
  "checkControlSchema version =
     (if version \<noteq> controlAPISchemaVersion then Some (ErrText (''unsupported daemon API schema '' @ decimal_int version)) else None)"

section \<open>Health\<close>

record health_response =
  heSchema :: int
  heOK :: bool

definition socket_flag :: "(string \<Rightarrow> string) \<Rightarrow> goerr + string \<Rightarrow> string \<Rightarrow> goerr + string" where
  "socket_flag getenv dataDir flag =
     (case (if flag = [] then defaultControlSocket getenv dataDir else Inr flag) of
        Inl err \<Rightarrow> Inl err
      | Inr socket \<Rightarrow> if \<not> IsAbs socket then Inl (ErrText ''--socket must be an absolute path'') else Inr socket)"

text \<open>\<open>health socket\<close> is the answer of the daemon that listens there.\<close>

definition healthcheck ::
    "(string \<Rightarrow> string) \<Rightarrow> goerr + string \<Rightarrow> (string \<Rightarrow> goerr + health_response) \<Rightarrow> string \<Rightarrow> duration \<Rightarrow> goerr option" where
  "healthcheck getenv dataDir health flag timeout =
     (case socket_flag getenv dataDir flag of
        Inl err \<Rightarrow> Some err
      | Inr socket \<Rightarrow>
        if timeout \<le> 0 then Some (ErrText ''--timeout must be greater than zero'')
        else (case health socket of
            Inl err \<Rightarrow> Some err
          | Inr h \<Rightarrow>
            (case checkControlSchema (heSchema h) of
               Some err \<Rightarrow> Some err
             | None \<Rightarrow> if \<not> heOK h then Some (ErrText ''daemon reported unhealthy'') else None)))"

end
