(* ===== verification/Control_Facts.thy ===== *)
theory Control_Facts
  imports Control Securefs_Facts
begin

text \<open>
  What the control socket promises: a listener replaces nothing but a socket that nobody answers, and is
  reachable by this account only; a response is bounded and complete.
\<close>

section \<open>The listener\<close>

lemma node_create:
  "wf_fs f \<Longrightarrow> node_at (create_node path n f) p = (if p = path then Some (fsNext f, n) else node_at f p)"
  using wf_fsD [of f p] by (cases "map_of (fsLinks f) p") (auto simp: node_at_def update_conv')

lemma node_unlink: "node_at (unlink path f) p = (if p = path then None else node_at f p)"
  by (auto simp: node_at_def unlink_def delete_conv')

lemma ensure_node:
  assumes "EnsurePrivateDirectory euid env dir purpose f = (f1, err)" "wf_fs f"
  shows "p \<noteq> Clean dir \<Longrightarrow> node_at f1 p = node_at f p"
    and "err = None \<Longrightarrow> \<exists>j m. node_at f1 (Clean dir) = Some (j, m) \<and> ikind m = Directory \<and> private_to euid m"
  using assms
  by (auto simp: EnsurePrivateDirectory_def Let_def node_create dir_verdict_def verifyPrivateDirectory_def private_to_def
      split: option.splits if_splits)

text \<open>What others may do at the same time: they race for the same path and leave the rest alone.\<close>

definition racing :: "string \<Rightarrow> (fs \<Rightarrow> fs) \<Rightarrow> bool" where
  "racing path step \<longleftrightarrow> (\<forall>f. wf_fs f \<longrightarrow> wf_fs (step f) \<and> (\<forall>p. p \<noteq> path \<longrightarrow> node_at (step f) p = node_at f p))"

lemma clear_stale_node:
  assumes "clear_stale env path f = (g, err)" "wf_fs f" "racing path (ls_dialed env)"
  shows "wf_fs g" "p \<noteq> path \<Longrightarrow> node_at g p = node_at f p"
    and "err \<noteq> None \<Longrightarrow> g = f \<or> g = ls_dialed env f"
    and "g \<noteq> f \<Longrightarrow> \<exists>i n e. node_at f path = Some (i, n) \<and> ikind n = SocketNode \<and> ls_dial env = Some e \<and> err_refused e"
    and "err = None \<Longrightarrow> node_at g path = None"
    and "err = None \<Longrightarrow> node_at f path \<noteq> None \<Longrightarrow> g = unlink path (ls_dialed env f)"
    and "err = None \<Longrightarrow> node_at f path = Some (i, n) \<Longrightarrow> ikind n = SocketNode \<and> (\<exists>e. ls_dial env = Some e \<and> err_refused e)"
  using assms
  by (auto simp: clear_stale_def proven_stale_def Let_def racing_def node_unlink wf_unlink
      split: option.splits prod.splits if_splits)

lemma open_socket_node:
  assumes "open_socket euid env path f = (g, err)" "wf_fs f"
  shows "p \<noteq> path \<Longrightarrow> node_at g p = node_at f p"
    and "err \<noteq> None \<Longrightarrow> node_at g path = node_at f path
      \<or> ls_chmod env \<noteq> None \<and> ls_close env \<noteq> None \<and> ls_cleanup env \<noteq> None \<and> node_at f path = None"
    and "err = None \<Longrightarrow> node_at f path = None
      \<and> (\<exists>i n. node_at g path = Some (i, n) \<and> ikind n = SocketNode \<and> iperm n = FileMode \<and> iuid n = euid)"
proof -
  have set: "node_at (set_node (fsNext f) n (create_node path m f)) p = (if p = path then Some (fsNext f, n) else node_at f p)" for n m p
    using wf_fsD [OF assms(2), of p] by (cases "map_of (fsLinks f) p") (auto simp: node_at_def update_conv')
  show "p \<noteq> path \<Longrightarrow> node_at g p = node_at f p"
    "err \<noteq> None \<Longrightarrow> node_at g path = node_at f path
      \<or> ls_chmod env \<noteq> None \<and> ls_close env \<noteq> None \<and> ls_cleanup env \<noteq> None \<and> node_at f path = None"
    "err = None \<Longrightarrow> node_at f path = None
      \<and> (\<exists>i n. node_at g path = Some (i, n) \<and> ikind n = SocketNode \<and> iperm n = FileMode \<and> iuid n = euid)"
    using assms
    by (cases "node_at f path"; auto simp: open_socket_def Let_def set node_unlink node_create split: option.splits if_splits)+
qed

text \<open>The states of a run: behind the check of the directory, when the old socket is removed, and when the new one is bound.\<close>

definition listen_checked :: "nat \<Rightarrow> listen_env \<Rightarrow> string \<Rightarrow> fs \<Rightarrow> fs" where
  "listen_checked euid env path f = fst (EnsurePrivateDirectory euid (ls_dir env) (Dir path) ''control socket'' f)"

definition listen_bound :: "nat \<Rightarrow> listen_env \<Rightarrow> string \<Rightarrow> fs \<Rightarrow> fs" where
  "listen_bound euid env path f = ls_removed env (fst (clear_stale env path (listen_checked euid env path f)))"

text \<open>The ways through \<open>Listen\<close>.\<close>

lemma listen_cases:
  assumes "Listen euid env path f = (g, err)"
  obtains (relative) "g = f" "err \<noteq> None"
    | (directory) e where "EnsurePrivateDirectory euid (ls_dir env) (Dir path) ''control socket'' f = (g, e)" "err \<noteq> None"
    | (kept) f1 where "EnsurePrivateDirectory euid (ls_dir env) (Dir path) ''control socket'' f = (f1, None)"
        "clear_stale env path f1 = (g, err)" "err \<noteq> None"
    | (opened) f1 f2 where "EnsurePrivateDirectory euid (ls_dir env) (Dir path) ''control socket'' f = (f1, None)"
        "clear_stale env path f1 = (f2, None)" "open_socket euid env path (ls_removed env f2) = (g, err)"
  using assms
  by (auto simp: Listen_def dest!: sym [of "Some _"] split: if_splits prod.splits option.splits)


definition stale_fs :: fs where
  "stale_fs = \<lparr>fsTable = (\<lambda>i. if i = 0 then demo_dir else (demo_file [])\<lparr>ikind := SocketNode\<rparr>),
     fsLinks = [(''/d'', 0), (''/d/s'', 1)], fsNext = 2, fsDirty = [], fsPast = []\<rparr>"

definition refused_dial :: goerr where
  "refused_dial = Foreign \<lparr>fe_text = ''connect: connection refused'', fe_refused = True, fe_net = Some False, fe_key_error = None\<rparr>"

definition stale_env :: listen_env where
  "stale_env = \<lparr>ls_dir = calm_dir, ls_lstat = None, ls_dial = Some refused_dial, ls_dialed = id, ls_remove = None, ls_removed = id,
     ls_listen = None, ls_in_use = ErrText ''bind: address already in use'', ls_umask = 493, ls_chmod = None, ls_close = None,
     ls_cleanup = None\<rparr>"

text \<open>Another daemon that binds its socket.\<close>

definition other_daemon :: "fs \<Rightarrow> fs" where
  "other_daemon f = create_node ''/d/s'' \<lparr>ikind = SocketNode, iperm = 384, iuid = 501, idata = []\<rparr> f"

lemma racing_demo: "racing path id" "racing ''/d/s'' other_daemon"
  by (auto simp: racing_def other_daemon_def wf_create node_create)


end
