(* ===== verification/Dashboard.thy ===== *)
theory Dashboard
  imports Api Control
begin

text \<open>
  The terminal dashboard (\<open>cmd/fv-ssh-unlock/tui.go\<close>): reading lines from raw keys, the dialogs that send
  requests to the daemon, the event loop, and the cells that are shown. The bytes that arrive on the
  key channel are a list; a dialog that needs a key beyond its end has not returned, which is \<open>None\<close>.
  The answers of the daemon are arguments, as is the text of a point in time relative to now.
\<close>

section \<open>Standard library\<close>

text \<open>\<open>strconv.Atoi\<close>.\<close>

definition is_digit_char :: "char \<Rightarrow> bool" where
  "is_digit_char c \<longleftrightarrow> 48 \<le> byte c \<and> byte c \<le> 57"

definition digits_value :: "string \<Rightarrow> nat" where
  "digits_value = foldl (\<lambda>v c. v * 10 + (byte c - 48)) 0"

definition Atoi :: "string \<Rightarrow> int option" where
  "Atoi s =
     (let neg = (s \<noteq> [] \<and> hd s = CHR ''-'');
          digits = (if s \<noteq> [] \<and> hd s \<in> {CHR ''-'', CHR ''+''} then tl s else s);
          v = (if neg then - int (digits_value digits) else int (digits_value digits)) in
      if digits = [] \<or> \<not> list_all is_digit_char digits \<or> \<not> is_int64 v then None else Some v)"

text \<open>\<open>url.PathEscape\<close>.\<close>

definition path_unreserved :: "char \<Rightarrow> bool" where
  "path_unreserved c \<longleftrightarrow> 48 \<le> byte c \<and> byte c \<le> 57 \<or> 65 \<le> byte c \<and> byte c \<le> 90 \<or> 97 \<le> byte c \<and> byte c \<le> 122
     \<or> c \<in> set ''-_.~$&+:=@''"

definition PathEscape :: "string \<Rightarrow> string" where
  "PathEscape s = concat (map (\<lambda>c. if path_unreserved c then [c] else CHR ''%'' # hex_pad hex_upper 2 (byte c)) s)"

text \<open>\<open>url.PathUnescape\<close> of a text whose escapes are complete.\<close>

definition hex_value :: "char \<Rightarrow> nat" where
  "hex_value h = (case List.find (\<lambda>n. hex_digit hex_upper n = h) [0..<16] of Some n \<Rightarrow> n | None \<Rightarrow> 0)"

fun path_unescape :: "string \<Rightarrow> string" where
  "path_unescape [] = []"
| "path_unescape (c # s) =
     (if c = CHR ''%'' then
        (case s of h # l # t \<Rightarrow> char_of (hex_value h * 16 + hex_value l) # path_unescape t | _ \<Rightarrow> [])
      else c # path_unescape s)"

section \<open>Reading lines\<close>

definition cancelled :: goerr where
  "cancelled = ErrText ''cancelled''"

text \<open>Each byte is a rune of its own.\<close>

fun prompt_keys :: "unicode_db \<Rightarrow> rune list \<Rightarrow> char list \<Rightarrow> ((goerr + string) \<times> char list) option" where
  "prompt_keys db value [] = None"
| "prompt_keys db value (key # keys) =
     (if byte key \<in> {3, 27} then Some (Inl cancelled, keys)
      else if byte key \<in> {13, 10} then Some (Inr (encode_runes value), keys)
      else if byte key \<in> {8, 127} then prompt_keys db (butlast value) keys
      else if uc_print db (byte key) \<and> length value < 4096 then prompt_keys db (value @ [byte key]) keys
      else prompt_keys db value keys)"

definition promptRawLine :: "unicode_db \<Rightarrow> char list \<Rightarrow> ((goerr + string) \<times> char list) option" where
  "promptRawLine db keys = prompt_keys db [] keys"

definition promptRawLineDefault :: "unicode_db \<Rightarrow> string \<Rightarrow> char list \<Rightarrow> ((goerr + string) \<times> char list) option" where
  "promptRawLineDefault db defaultValue keys =
     map_option (apfst (map_sum id (\<lambda>value. if value = [] then defaultValue else value))) (promptRawLine db keys)"

definition promptIndex :: "unicode_db \<Rightarrow> nat \<Rightarrow> char list \<Rightarrow> ((goerr + nat) \<times> char list) option" where
  "promptIndex db n keys =
     map_option (apfst (\<lambda>r. case r of
         Inl err \<Rightarrow> Inl err
       | Inr value \<Rightarrow>
         (case Atoi value of
            None \<Rightarrow> Inl (ErrText ''selection is outside the displayed range'')
          | Some index \<Rightarrow>
            if index < 1 \<or> int n < index then Inl (ErrText ''selection is outside the displayed range'')
            else Inr (nat (index - 1))))) (promptRawLine db keys)"

section \<open>Candidates\<close>

definition candidateHostKeyPath :: "unicode_db \<Rightarrow> string \<Rightarrow> string" where
  "candidateHostKeyPath db keyType =
     (let t = ToLower db (TrimSpace keyType) in
      if t = ''ssh-ed25519'' then ''/etc/ssh/ssh_host_ed25519_key.pub''
      else if t \<in> {''ssh-rsa'', ''rsa-sha2-256'', ''rsa-sha2-512''} then ''/etc/ssh/ssh_host_rsa_key.pub''
      else if t \<in> {''ecdsa-sha2-nistp256'', ''ecdsa-sha2-nistp384'', ''ecdsa-sha2-nistp521''} then
        ''/etc/ssh/ssh_host_ecdsa_key.pub''
      else ''/etc/ssh/ssh_host_ed25519_key.pub'')"

definition candidateLocation :: "candidate \<Rightarrow> string" where
  "candidateLocation c =
     (case cdEndpoints c of
        e # _ \<Rightarrow> JoinHostPort (epAddress e) (epPort e)
      | [] \<Rightarrow> (case cdHostnames c of h # _ \<Rightarrow> h | [] \<Rightarrow> (case cdNames c of n # _ \<Rightarrow> n | [] \<Rightarrow> cdID c)))"

definition candidateDefaultEndpoint :: "candidate \<Rightarrow> string \<times> int" where
  "candidateDefaultEndpoint c =
     (case cdEndpoints c of
        e # _ \<Rightarrow> (epAddress e, epPort e)
      | [] \<Rightarrow> (case cdHostnames c of h # _ \<Rightarrow> (h, 22) | [] \<Rightarrow> ([], 22)))"

text \<open>\<open>letter_digit\<close> is the table of \<open>unicode.IsLetter\<close> and \<open>unicode.IsDigit\<close>.\<close>

definition clean_name :: "(rune \<Rightarrow> bool) \<Rightarrow> rune list \<Rightarrow> string" where
  "clean_name letter_digit rs =
     foldl (\<lambda>cleaned r.
        if letter_digit r \<or> r = 45 \<or> r = 95 then cleaned @ encode_rune r
        else if cleaned \<noteq> [] \<and> \<not> HasSuffix cleaned ''-'' then cleaned @ ''-''
        else cleaned) [] rs"

definition candidateDefaultName :: "unicode_db \<Rightarrow> (rune \<Rightarrow> bool) \<Rightarrow> candidate \<Rightarrow> string" where
  "candidateDefaultName db letter_digit c =
     (let value0 = (case cdNames c of
            n # _ \<Rightarrow> n
          | [] \<Rightarrow> (case cdHostnames c of h # _ \<Rightarrow> TrimSuffix h ''.local'' | [] \<Rightarrow> ''mac''));
          cleaned = clean_name letter_digit (runes (ToLower db (TrimSpace value0)));
          result = TrimRight (dropWhile (\<lambda>c. c = CHR ''-'') cleaned) ''-'' in
      if result = [] then ''mac'' else result)"

definition shortFingerprint :: "string \<Rightarrow> string" where
  "shortFingerprint fp =
     (if length fp \<le> 28 then fp
      else take 18 fp @ [CHR 0xE2, CHR 0x80, CHR 0xA6] @ drop (length fp - 7) fp)"

section \<open>Dialogs\<close>

datatype tui_request =
    ReqEnroll string enroll_request
  | ReqCandidate string string    \<comment> \<open>identifier, action\<close>
  | ReqDevice string string       \<comment> \<open>name, action\<close>

fun request_endpoint :: "tui_request \<Rightarrow> string" where
  "request_endpoint (ReqEnroll cid _) = ''/v1/candidates/'' @ PathEscape cid @ ''/enroll''"
| "request_endpoint (ReqCandidate cid action) = ''/v1/candidates/'' @ PathEscape cid @ ''/'' @ action"
| "request_endpoint (ReqDevice name action) = ''/v1/devices/'' @ PathEscape name @ ''/'' @ action"

text \<open>The answers: the schema of an enrollment, the candidate, schema with state and error of a poll, the schema of the rest.\<close>

record tui_env =
  te_enroll :: "tui_request \<Rightarrow> goerr + int"
  te_candidate :: "tui_request \<Rightarrow> goerr + candidate"
  te_poll :: "tui_request \<Rightarrow> goerr + (int \<times> dev_state \<times> string)"
  te_action :: "tui_request \<Rightarrow> goerr + int"

text \<open>A dialog ends with a message, the request it sent, and the keys that are left.\<close>

type_synonym dialog = "(string \<times> tui_request option \<times> char list) option"

definition ask :: "((goerr + 'a) \<times> char list) option \<Rightarrow> (goerr \<Rightarrow> string) \<Rightarrow> ('a \<Rightarrow> char list \<Rightarrow> dialog) \<Rightarrow> dialog" where
  "ask prompt on_err next_step =
     (case prompt of
        None \<Rightarrow> None
      | Some (Inl err, keys) \<Rightarrow> Some (on_err err, None, keys)
      | Some (Inr v, keys) \<Rightarrow> next_step v keys)"

definition say :: "string \<Rightarrow> char list \<Rightarrow> dialog" where
  "say message keys = Some (message, None, keys)"

definition send_enrollment :: "tui_env \<Rightarrow> string \<Rightarrow> enroll_request \<Rightarrow> char list \<Rightarrow> dialog" where
  "send_enrollment env cid rq keys =
     (let req = ReqEnroll cid rq in
      Some (case te_enroll env req of
          Inl err \<Rightarrow> ''Enrollment failed: '' @ err_msg err
        | Inr version \<Rightarrow>
          (case checkControlSchema version of
             Some err \<Rightarrow> ''Enrollment failed: '' @ err_msg err
           | None \<Rightarrow> ''Added '' @ rqName rq @ ''; monitoring starts immediately.''), Some req, keys))"

text \<open>The part behind the fingerprint.\<close>

definition ask_credential :: "unicode_db \<Rightarrow> bool \<Rightarrow> (string \<Rightarrow> string \<Rightarrow> char list \<Rightarrow> dialog) \<Rightarrow> char list \<Rightarrow> dialog" where
  "ask_credential db autoUnlock send keys =
     ask (promptRawLineDefault db (if autoUnlock then ProviderFile else ProviderRuntime) keys) err_msg (\<lambda>answer keys.
       let source = ToLower db (TrimSpace answer) in
       if source = ProviderKeyring then
         say (''Candidate enrollment cannot create a keyring credential; use a pre-provisioned file reference, '' @
              ''runtime for manual unlock, or config add for a known device.'') keys
       else
         let finish = (\<lambda>reference keys.
               if autoUnlock \<and> source = ProviderRuntime then
                 say ''Runtime/environment credentials cannot enable unattended automatic unlock.'' keys
               else send source reference keys);
             missing = ''A credential reference is required for the file provider.'' in
         if source = ProviderFile then
           ask (promptRawLine db keys) (\<lambda>_. missing) (\<lambda>reference keys.
             if reference = [] then say missing keys else finish reference keys)
         else finish [] keys)"

definition ask_device :: "unicode_db \<Rightarrow> (rune \<Rightarrow> bool) \<Rightarrow> tui_env \<Rightarrow> candidate \<Rightarrow> char list \<Rightarrow> dialog" where
  "ask_device db letter_digit env c keys =
     (let (hostDefault, portDefault) = candidateDefaultEndpoint c in
      ask (promptRawLineDefault db (candidateDefaultName db letter_digit c) keys) err_msg (\<lambda>name keys.
      ask (promptRawLineDefault db hostDefault keys) err_msg (\<lambda>host keys.
      ask (promptRawLineDefault db (decimal_int portDefault) keys) err_msg (\<lambda>portText keys.
      case Atoi portText of
        None \<Rightarrow> say ''Invalid SSH port.'' keys
      | Some port \<Rightarrow>
        ask (promptRawLine db keys) (\<lambda>_. ''A username is required.'') (\<lambda>user keys.
        if user = [] then say ''A username is required.'' keys
        else ask (promptRawLineDefault db ''no'' keys) err_msg (\<lambda>autoText keys.
          let autoUnlock = (EqualFold db autoText ''yes'' \<or> EqualFold db autoText ''y'') in
          ask_credential db autoUnlock (\<lambda>source reference keys.
            send_enrollment env (cdID c)
              \<lparr>rqName = name, rqHost = host, rqUser = user, rqPort = port, rqFingerprint = cdFingerprint c,
               rqCredentialSource = source, rqCredentialRef = reference, rqAutoUnlock = autoUnlock\<rparr> keys) keys))))))"

definition enrollCandidateFromTUI ::
    "unicode_db \<Rightarrow> (rune \<Rightarrow> bool) \<Rightarrow> tui_env \<Rightarrow> cand_snapshot \<Rightarrow> char list \<Rightarrow> dialog" where
  "enrollCandidateFromTUI db letter_digit env snap keys =
     (if csCandidates snap = [] then say ''No discovered candidates to add.'' keys
      else ask (promptIndex db (length (csCandidates snap)) keys) err_msg (\<lambda>index keys.
        let c = csCandidates snap ! index in
        if cdState c = CandIgnored then say ''Candidate is ignored; restore it before enrollment.'' keys
        else if cdConfiguredNames c \<noteq> [] then
          say (''Candidate is already managed as '' @ Join (cdConfiguredNames c) '', '' @ ''.'') keys
        else if cdFingerprint c = [] then
          say ''Candidate has no SSH fingerprint yet; wait for an authorized active scan before enrollment.'' keys
        else ask (promptRawLine db keys) err_msg (\<lambda>verified keys.
          if TrimSpace verified \<noteq> cdFingerprint c then
            say ''Fingerprint did not match; nothing was trusted or configured.'' keys
          else ask_device db letter_digit env c keys)))"

definition candidateActionFromTUI :: "unicode_db \<Rightarrow> tui_env \<Rightarrow> cand_snapshot \<Rightarrow> string \<Rightarrow> char list \<Rightarrow> dialog" where
  "candidateActionFromTUI db env snap action keys =
     (if csCandidates snap = [] then say ''No candidates available.'' keys
      else ask (promptIndex db (length (csCandidates snap)) keys) err_msg (\<lambda>index keys.
        let c = csCandidates snap ! index; req = ReqCandidate (cdID c) action in
        if action = ''ignore'' \<and> cdConfiguredNames c \<noteq> [] then
          say (''Candidate is already managed as '' @ Join (cdConfiguredNames c) '', '' @ ''; it was not ignored.'') keys
        else Some (case te_candidate env req of
            Inl err \<Rightarrow> action @ '' failed: '' @ err_msg err
          | Inr r \<Rightarrow> ''Candidate '' @ shortFingerprint (cdFingerprint r) @ '' is now '' @ Candidates.state_text (cdState r) @ ''.'',
          Some req, keys)))"

definition deviceActionFromTUI :: "unicode_db \<Rightarrow> tui_env \<Rightarrow> snapshot \<Rightarrow> string \<Rightarrow> char list \<Rightarrow> dialog" where
  "deviceActionFromTUI db env snap action keys =
     (if snapDevices snap = [] then say ''No managed devices available.'' keys
      else ask (promptIndex db (length (snapDevices snap)) keys) err_msg (\<lambda>index keys.
        let name = dName (snapDevice (snapDevices snap ! index)); req = ReqDevice name action in
        Some (if action = ''poll'' then
            (case te_poll env req of
               Inl err \<Rightarrow> ''poll failed: '' @ err_msg err
             | Inr (version, st, error_text) \<Rightarrow>
               (case checkControlSchema version of
                  Some err \<Rightarrow> ''poll failed: '' @ err_msg err
                | None \<Rightarrow> ''Poll completed for '' @ name @ '': '' @ Monitor_Types.state_text st @
                    (if error_text \<noteq> [] then '' ('' @ terminalSafeInline db error_text @ '').'' else ''.'')))
          else (case te_action env req of
              Inl err \<Rightarrow> action @ '' failed: '' @ err_msg err
            | Inr version \<Rightarrow>
              (case checkControlSchema version of
                 Some err \<Rightarrow> action @ '' failed: '' @ err_msg err
               | None \<Rightarrow> action @ '' completed for '' @ name @ ''.'')), Some req, keys)))"

section \<open>The event loop\<close>

record dashboard =
  dbDevices :: snapshot
  dbCandidates :: cand_snapshot

definition fetchDashboard :: "goerr + (int \<times> snapshot) \<Rightarrow> goerr + (int \<times> cand_snapshot) \<Rightarrow> goerr + dashboard" where
  "fetchDashboard devs cands =
     (case devs of
        Inl err \<Rightarrow> Inl err
      | Inr (version, d) \<Rightarrow>
        (case checkControlSchema version of
           Some err \<Rightarrow> Inl err
         | None \<Rightarrow>
           (case cands of
              Inl err \<Rightarrow> Inl err
            | Inr (cversion, c) \<Rightarrow>
              (case checkControlSchema cversion of
                 Some err \<Rightarrow> Inl err
               | None \<Rightarrow> Inr \<lparr>dbDevices = d, dbCandidates = c\<rparr>))))"

record tui_state =
  tsSnapshot :: dashboard
  tsMessage :: string

definition refreshNow :: "unicode_db \<Rightarrow> goerr + dashboard \<Rightarrow> tui_state \<Rightarrow> tui_state" where
  "refreshNow db latest st =
     (case latest of
        Inl err \<Rightarrow> st\<lparr>tsMessage := ''daemon: '' @ terminalSafeInline db (err_msg err)\<rparr>
      | Inr snap \<Rightarrow> st\<lparr>tsSnapshot := snap\<rparr>)"

text \<open>What the \<open>select\<close> of one turn takes: the end of the context, an error of the reader (\<open>None\<close>: end of input), the ticker, or a key.\<close>

datatype tui_event = TuiDone | TuiReadErr "goerr option" | TuiTick | TuiKey char

datatype tui_next = TuiExit "goerr option" | TuiWaiting | TuiNext tui_state "tui_request option" "char list"

text \<open>\<open>latest\<close> is what a refresh at the end of the turn fetches, \<open>keys\<close> are the bytes behind the event.\<close>

definition tui_turn ::
    "unicode_db \<Rightarrow> (rune \<Rightarrow> bool) \<Rightarrow> tui_env \<Rightarrow> goerr + dashboard \<Rightarrow> tui_event \<Rightarrow> char list \<Rightarrow> tui_state \<Rightarrow> tui_next" where
  "tui_turn db letter_digit env latest ev keys st0 =
     (let st = st0\<lparr>tsMessage := []\<rparr>; snap = tsSnapshot st;
          dialog = (\<lambda>d. case d of
              None \<Rightarrow> TuiWaiting
            | Some (message, req, rest) \<Rightarrow> TuiNext (refreshNow db latest (st\<lparr>tsMessage := message\<rparr>)) req rest) in
      case ev of
        TuiDone \<Rightarrow> TuiExit None
      | TuiReadErr err \<Rightarrow> TuiExit err
      | TuiTick \<Rightarrow> TuiNext (refreshNow db latest st) None keys
      | TuiKey key \<Rightarrow>
        if key = CHR ''q'' \<or> byte key = 3 then TuiExit None
        else if key = CHR ''r'' then TuiNext (refreshNow db latest st) None keys
        else if key = CHR ''a'' then dialog (enrollCandidateFromTUI db letter_digit env (dbCandidates snap) keys)
        else if key = CHR ''i'' then dialog (candidateActionFromTUI db env (dbCandidates snap) ''ignore'' keys)
        else if key = CHR ''p'' then dialog (deviceActionFromTUI db env (dbDevices snap) ''poll'' keys)
        else if key = CHR ''l'' then dialog (deviceActionFromTUI db env (dbDevices snap) ''clear-latch'' keys)
        else TuiNext st None keys)"

section \<open>What is shown\<close>

text \<open>The cells of \<open>renderDashboard\<close>; \<open>rel\<close> is \<open>relativeTime\<close>, \<open>wall\<close> the time of day.\<close>

definition device_cells :: "unicode_db \<Rightarrow> (time \<Rightarrow> string) \<Rightarrow> nat \<Rightarrow> device_snapshot \<Rightarrow> string list" where
  "device_cells db rel index d =
     [decimal (index + 1), terminalSafeInline db (dName (snapDevice d)),
      terminalSafeInline db (Monitor_Types.state_text (State (snapRecord d))), rel (LastCheckedAt (snapRecord d)),
      if dAutoUnlock (snapDevice d) then ''yes'' else ''no'',
      if time_is_zero (NextCheckAt (snapRecord d)) then ''-'' else rel (NextCheckAt (snapRecord d))]"

definition candidate_cells :: "unicode_db \<Rightarrow> (time \<Rightarrow> string) \<Rightarrow> nat \<Rightarrow> candidate \<Rightarrow> string list" where
  "candidate_cells db rel index c =
     [decimal (index + 1), terminalSafeInline db (candidateLocation c), terminalSafeInline db (Candidates.state_text (cdState c)),
      terminalSafeInline db (shortFingerprint (if cdFingerprint c = [] then ''pending active scan'' else cdFingerprint c)),
      rel (cdLastSeen c)]"

definition event_cells :: "unicode_db \<Rightarrow> (time \<Rightarrow> string) \<Rightarrow> event \<Rightarrow> string list" where
  "event_cells db wall ev =
     [wall (evTime ev), terminalSafeInline db (evDevice ev), terminalSafeInline db (Monitor_Types.state_text (evState ev)),
      terminalSafeInline db (evMessage ev)]"

definition renderDashboard ::
    "unicode_db \<Rightarrow> (time \<Rightarrow> string) \<Rightarrow> (time \<Rightarrow> string) \<Rightarrow> dashboard \<Rightarrow> string \<Rightarrow> string list list" where
  "renderDashboard db rel wall snap message =
     (let devices = snapDevices (dbDevices snap); cands = csCandidates (dbCandidates snap); events = snapEvents (dbDevices snap) in
      (if devices = [] then [[''-'', ''(no configured devices)'', ''-'', ''-'', ''-'', ''-'']]
       else map (\<lambda>(i, d). device_cells db rel i d) (enumerate 0 devices))
      @ (if cands = [] then [[''-'', ''(no candidates discovered)'', ''-'', ''-'', ''-'']]
         else map (\<lambda>(i, c). candidate_cells db rel i c) (enumerate 0 cands))
      @ map (event_cells db wall) (drop (length events - 6) events)
      @ (if message = [] then [] else [[terminalSafeInline db message]]))"

end
