(* ===== verification/Dashboard_Facts.thy ===== *)
theory Dashboard_Facts
  imports Dashboard Daemon_Facts
begin

text \<open>
  What the dashboard promises: what a line prompt returns and when, which requests a turn of the event
  loop can send and what the operator typed for them, where the requests go, and that nothing shown
  carries control characters.
\<close>

section \<open>Prompts\<close>

definition ends_prompt :: "char \<Rightarrow> bool" where
  "ends_prompt c \<longleftrightarrow> byte c \<in> {3, 27, 13, 10}"

lemma prompt_keys_None: "prompt_keys db acc keys = None \<longleftrightarrow> (\<forall>k \<in> set keys. \<not> ends_prompt k)"
  by (induction db acc keys rule: prompt_keys.induct) (auto simp: ends_prompt_def)

lemma prompt_keys_typed:
  assumes "\<forall>c \<in> set s. uc_print db (byte c) \<and> \<not> ends_prompt c \<and> byte c \<noteq> 8 \<and> byte c \<noteq> 127" "length acc + length s \<le> 4096"
  shows "prompt_keys db acc (s @ keys) = prompt_keys db (acc @ map byte s) keys"
  using assms by (induction s arbitrary: acc) (auto simp: ends_prompt_def)

lemma length_encode_rune_byte: "length (encode_rune (byte c)) = (if byte c < 128 then 1 else 2)"
proof -
  have "\<not> 0x10FFFF < byte c" "\<not> 0xD800 \<le> byte c" "byte c < 2048" using nat_of_char_less_256 [of c] by linarith+
  then show ?thesis by (simp add: encode_rune_def Let_def)
qed

lemma encode_bytes_iff: "encode_runes (map byte s) = s \<longleftrightarrow> ascii s"
proof
  assume "ascii s"
  then show "encode_runes (map byte s) = s"
    by (induction s) (auto simp: encode_runes_def encode_rune_ascii)
next
  have len: "length (encode_runes (map byte s)) = length s + length (filter (\<lambda>c. \<not> byte c < 128) s)"
    by (induction s) (auto simp: encode_runes_def length_encode_rune_byte)
  assume "encode_runes (map byte s) = s"
  with len have "filter (\<lambda>c. \<not> byte c < 128) s = []" by simp
  then show "ascii s" by (auto simp: filter_empty_conv ascii_def)
qed


text \<open>An accented letter, two bytes of UTF-8, comes back as two letters in four bytes where both bytes are printable as characters.\<close>

definition latin_db :: unicode_db where
  "latin_db = ascii_only_db\<lparr>uc_print := (\<lambda>r. uc_print ascii_only_db r \<or> 161 \<le> r \<and> r \<le> 255)\<rparr>"


section \<open>Requests\<close>

text \<open>The operator typed a line with the number of an entry; entries are numbered from one.\<close>

definition typed_number :: "unicode_db \<Rightarrow> char list \<Rightarrow> nat \<Rightarrow> char list \<Rightarrow> bool" where
  "typed_number db keys number rest \<longleftrightarrow> (\<exists>line. promptRawLine db keys = Some (Inr line, rest) \<and> Atoi line = Some (int number))"

lemma promptIndex_result:
  assumes "promptIndex db n keys = Some (Inr i, rest)"
  shows "i < n \<and> typed_number db keys (Suc i) rest"
proof -
  obtain r where r: "promptRawLine db keys = Some (r, rest)"
    "(case r of Inl err \<Rightarrow> Inl err | Inr line \<Rightarrow> (case Atoi line of
        None \<Rightarrow> Inl (ErrText ''selection is outside the displayed range'')
      | Some index \<Rightarrow> if index < 1 \<or> int n < index then Inl (ErrText ''selection is outside the displayed range'')
          else Inr (nat (index - 1)))) = Inr i"
    using assms by (auto simp: promptIndex_def)
  then show ?thesis by (cases r) (auto simp: typed_number_def split: option.splits if_splits)
qed

lemma ask_request:
  assumes "ask prompt on_err next_step = Some (message, Some req, rest)"
  obtains v keys where "prompt = Some (Inr v, keys)" "next_step v keys = Some (message, Some req, rest)"
  using assms by (auto simp: ask_def split: option.splits sum.splits)

lemma say_request [simp]: "say m keys \<noteq> Some (message, Some req, rest)"
  by (simp add: say_def)

lemma send_enrollment_request:
  "send_enrollment env cid rq keys = Some (message, Some req, rest) \<Longrightarrow> req = ReqEnroll cid rq"
  by (simp add: send_enrollment_def Let_def)

lemma ask_credential_request:
  assumes "ask_credential db auto send keys = Some (message, Some req, rest)"
  obtains source reference keys' where "send source reference keys' = Some (message, Some req, rest)" "source \<noteq> ProviderKeyring"
    "source = ProviderFile \<Longrightarrow> reference \<noteq> []" "auto \<Longrightarrow> source \<noteq> ProviderRuntime"
  using assms unfolding ask_credential_def Let_def
  by (elim ask_request) (auto split: if_splits elim!: ask_request)

text \<open>What an enrollment request may carry.\<close>

definition enroll_allowed :: "candidate \<Rightarrow> enroll_request \<Rightarrow> bool" where
  "enroll_allowed c rq \<longleftrightarrow> rqFingerprint rq = cdFingerprint c \<and> rqUser rq \<noteq> [] \<and> rqCredentialSource rq \<noteq> ProviderKeyring
     \<and> (rqCredentialSource rq = ProviderFile \<longrightarrow> rqCredentialRef rq \<noteq> [])
     \<and> (rqAutoUnlock rq \<longrightarrow> rqCredentialSource rq \<noteq> ProviderRuntime)"

lemma ask_device_request:
  assumes "ask_device db letter_digit env c keys = Some (message, Some req, rest)"
  shows "\<exists>rq. req = ReqEnroll (cdID c) rq \<and> enroll_allowed c rq"
  using assms unfolding ask_device_def Let_def case_prod_unfold
  by (elim ask_request) (auto split: option.splits if_splits elim!: ask_request ask_credential_request
      dest!: send_enrollment_request simp: enroll_allowed_def)

text \<open>The operator typed the fingerprint of the candidate as the next line.\<close>

definition typed_fingerprint :: "unicode_db \<Rightarrow> candidate \<Rightarrow> char list \<Rightarrow> bool" where
  "typed_fingerprint db c keys \<longleftrightarrow> (\<exists>line rest. promptRawLine db keys = Some (Inr line, rest) \<and> TrimSpace line = cdFingerprint c)"

text \<open>What has to be typed, \<open>key\<close> and then \<open>keys\<close>, for a request; \<open>i\<close> is the index of its entry.\<close>

definition confirmed :: "unicode_db \<Rightarrow> dashboard \<Rightarrow> char \<Rightarrow> char list \<Rightarrow> tui_request \<Rightarrow> nat \<Rightarrow> char list \<Rightarrow> bool" where
  "confirmed db snap key keys req i rest \<longleftrightarrow> typed_number db keys (Suc i) rest \<and>
     (case req of
        ReqEnroll cid rq \<Rightarrow> key = CHR ''a'' \<and> i < length (csCandidates (dbCandidates snap)) \<and>
          (let c = csCandidates (dbCandidates snap) ! i in cid = cdID c \<and> cdState c \<noteq> CandIgnored
             \<and> cdConfiguredNames c = [] \<and> cdFingerprint c \<noteq> [] \<and> typed_fingerprint db c rest \<and> enroll_allowed c rq)
      | ReqCandidate cid action \<Rightarrow> key = CHR ''i'' \<and> action = ''ignore'' \<and> i < length (csCandidates (dbCandidates snap)) \<and>
          (let c = csCandidates (dbCandidates snap) ! i in cid = cdID c \<and> cdConfiguredNames c = [])
      | ReqDevice name action \<Rightarrow> (key = CHR ''p'' \<and> action = ''poll'' \<or> key = CHR ''l'' \<and> action = ''clear-latch'') \<and>
          i < length (snapDevices (dbDevices snap)) \<and> name = dName (snapDevice (snapDevices (dbDevices snap) ! i)))"

lemma enroll_dialog_request:
  assumes "enrollCandidateFromTUI db letter_digit env (dbCandidates snap) keys = Some (message, Some req, rest)"
  shows "\<exists>i keys1. confirmed db snap CHR ''a'' keys req i keys1"
proof -
  let ?cands = "csCandidates (dbCandidates snap)"
  from assms obtain i keys1 where i: "promptIndex db (length ?cands) keys = Some (Inr i, keys1)"
    and next1: "(let c = ?cands ! i in
        if cdState c = CandIgnored then say ''Candidate is ignored; restore it before enrollment.'' keys1
        else if cdConfiguredNames c \<noteq> [] then say (''Candidate is already managed as '' @ Join (cdConfiguredNames c) '', '' @ ''.'') keys1
        else if cdFingerprint c = [] then
          say ''Candidate has no SSH fingerprint yet; wait for an authorized active scan before enrollment.'' keys1
        else ask (promptRawLine db keys1) err_msg (\<lambda>verified keys.
          if TrimSpace verified \<noteq> cdFingerprint c then say ''Fingerprint did not match; nothing was trusted or configured.'' keys
          else ask_device db letter_digit env c keys)) = Some (message, Some req, rest)"
    unfolding enrollCandidateFromTUI_def by (auto split: if_splits elim!: ask_request)
  let ?c = "?cands ! i"
  have c: "cdState ?c \<noteq> CandIgnored" "cdConfiguredNames ?c = []" "cdFingerprint ?c \<noteq> []"
    using next1 by (auto simp: Let_def split: if_splits)
  with next1 obtain line keys2 where line: "promptRawLine db keys1 = Some (Inr line, keys2)" "TrimSpace line = cdFingerprint ?c"
    "ask_device db letter_digit env ?c keys2 = Some (message, Some req, rest)"
    by (auto simp: Let_def split: if_splits elim!: ask_request)
  then have "typed_fingerprint db ?c keys1" by (auto simp: typed_fingerprint_def)
  then have "confirmed db snap CHR ''a'' keys req i keys1"
    using c promptIndex_result [OF i] ask_device_request [OF line(3)] by (auto simp: confirmed_def Let_def)
  then show ?thesis by blast
qed

lemma candidate_dialog_request:
  assumes "candidateActionFromTUI db env (dbCandidates snap) ''ignore'' keys = Some (message, Some req, rest)"
  shows "\<exists>i keys1. confirmed db snap CHR ''i'' keys req i keys1"
  using assms unfolding candidateActionFromTUI_def
  by (auto simp: confirmed_def Let_def split: if_splits elim!: ask_request dest!: promptIndex_result) (blast+)

lemma device_dialog_request:
  assumes "deviceActionFromTUI db env (dbDevices snap) action keys = Some (message, Some req, rest)"
    "key = CHR ''p'' \<and> action = ''poll'' \<or> key = CHR ''l'' \<and> action = ''clear-latch''"
  shows "\<exists>i keys1. confirmed db snap key keys req i keys1"
  using assms unfolding deviceActionFromTUI_def
  by (auto simp: confirmed_def Let_def split: if_splits elim!: ask_request dest!: promptIndex_result) (blast+)


definition demo_tui :: tui_state where
  "demo_tui = \<lparr>tsSnapshot = \<lparr>dbDevices = \<lparr>GeneratedAt = 0, snapDevices = map (\<lambda>name. \<lparr>snapDevice = \<lparr>dName = name, dHost = ''10.0.0.5'',
       dUser = ''admin'', dPort = 22, dCredentialRef = [], dAutoUnlock = False\<rparr>, snapRecord = zero_record\<rparr>) [''mini'', ''studio''],
       snapEvents = []\<rparr>,
     dbCandidates = \<lparr>csSequence = 0, csGenerated = 0, csDropped = 0, csEvicted = 0, csCandidates = []\<rparr>\<rparr>, tsMessage = []\<rparr>"

definition demo_tui_env :: tui_env where
  "demo_tui_env = \<lparr>te_enroll = (\<lambda>_. Inr 1), te_candidate = (\<lambda>_. Inl cancelled), te_poll = (\<lambda>_. Inr (1, StateBooted, [])),
     te_action = (\<lambda>_. Inr 1)\<rparr>"

lemma demo_tui_index: "promptIndex ascii_only_db 2 [CHR ''2'', CHR 0x0D] = Some (Inr 1, [])"
proof -
  have two: "char_of (50 :: nat) = CHR ''2''" by code_simp
  show ?thesis
    by (simp add: promptIndex_def promptRawLine_def ascii_only_db_def encode_runes_def encode_rune_def Atoi_def digits_value_def
        is_digit_char_def is_int64_def min_int64_def max_int64_def two)
qed

lemma demo_tui_turn:
  "\<exists>st'. tui_turn ascii_only_db (\<lambda>_. True) demo_tui_env (Inl cancelled) (TuiKey (CHR ''l'')) [CHR ''2'', CHR 0x0D] demo_tui
     = TuiNext st' (Some (ReqDevice ''studio'' ''clear-latch'')) []"
  using demo_tui_index by (simp add: tui_turn_def deviceActionFromTUI_def demo_tui_def ask_def Let_def numeral_2_eq_2)


section \<open>Endpoints\<close>

lemma hex_value_digit: "hex_value (hex_digit hex_upper n) = n mod 16"
proof -
  have "list_all (\<lambda>m. hex_value (hex_digit hex_upper m) = m) [0..<16]" by code_simp
  then have "hex_value (hex_digit hex_upper (n mod 16)) = n mod 16" by (auto simp: list_all_iff)
  then show ?thesis by (simp add: hex_digit_def)
qed

lemma path_unescape_escape: "path_unescape (PathEscape s) = s"
proof (induction s)
  case (Cons c s)
  have "byte c div 16 mod 16 * 16 + byte c mod 16 = byte c"
    using nat_of_char_less_256 [of c] by (simp add: div_less_iff_less_mult)
  with Cons show ?case
    by (auto simp: PathEscape_def numeral_2_eq_2 hex_value_digit path_unreserved_def)
qed (simp add: PathEscape_def)

lemma PathEscape_no_slash: "CHR ''/'' \<notin> set (PathEscape s)"
proof -
  have "\<not> path_unreserved (CHR ''/'')" by code_simp
  moreover have "CHR ''/'' \<noteq> hex_digit hex_upper n" for n
  proof -
    have "list_all (\<lambda>m. CHR ''/'' \<noteq> hex_digit hex_upper m) [0..<16]" by code_simp
    then have "CHR ''/'' \<noteq> hex_digit hex_upper (n mod 16)" by (auto simp: list_all_iff)
    then show ?thesis by (simp add: hex_digit_def)
  qed
  ultimately show ?thesis by (auto simp: PathEscape_def numeral_2_eq_2 split: if_splits)
qed

text \<open>Requests about different devices go to different endpoints, and to the one that names the device.\<close>

lemma request_endpoint_device:
  "request_endpoint (ReqDevice name action) = request_endpoint (ReqDevice name' action) \<longleftrightarrow> name = name'"
  by (auto dest: arg_cong [of _ _ path_unescape] simp: path_unescape_escape)

section \<open>What is shown\<close>

lemma decimal_safe: "ascii_db db \<Longrightarrow> safe_text db m (decimal n)"
proof (induction n rule: decimal.induct)
  case (1 n)
  have "safe_text db m [char_of (48 + n mod 10)]" for n :: nat
    using 1(2) by (intro safe_text_printable) simp_all
  from this [of n] 1 show ?case by (subst decimal.simps) (auto intro: safe_text_append)
qed

lemma inline_safe: "ascii_db db \<Longrightarrow> safe_text db False (terminalSafeInline db s)"
  by (simp add: terminalSafeInline_def terminalSafe_safe Let_def)

lemma literal_safe: "ascii_db db \<Longrightarrow> list_all (\<lambda>c. 32 \<le> byte c \<and> byte c < 127) s \<Longrightarrow> safe_text db m s"
  by (induction s) (auto intro: safe_text_Cons safe_text_printable simp: safe_text_Nil)

text \<open>Whatever the network and the daemon put into names, states, fingerprints and messages, no cell carries a control character.\<close>

lemma dashboard_cells_safe:
  assumes "ascii_db db" "\<And>t. safe_text db False (rel t)" "\<And>t. safe_text db False (wall t)"
    "row \<in> set (renderDashboard db rel wall snap message)" "cell \<in> set row"
  shows "safe_text db False cell"
proof -
  define clean where "clean = list_all (safe_text db False)"
  note safe = inline_safe [OF assms(1)] decimal_safe [OF assms(1)] assms(2,3)
  have word: "safe_text db False s" if "list_all (\<lambda>c. 32 \<le> byte c \<and> byte c < 127) s" for s
    using literal_safe [OF assms(1) that] .
  have words: "safe_text db False ''yes''" "safe_text db False ''no''" "safe_text db False ''-''"
    "safe_text db False ''(no configured devices)''" "safe_text db False ''(no candidates discovered)''"
    by (rule word, simp)+
  have rows: "clean (device_cells db rel i d)" "clean (candidate_cells db rel i c)" "clean (event_cells db wall ev)" for i d c ev
    using words(1-3) by (simp_all add: clean_def device_cells_def candidate_cells_def event_cells_def safe)
  have fixed: "clean [''-'', ''(no configured devices)'', ''-'', ''-'', ''-'', ''-'']"
    "clean [''-'', ''(no candidates discovered)'', ''-'', ''-'', ''-'']" "clean [terminalSafeInline db message]"
    using words(3-5) by (simp_all only: clean_def list.pred_inject safe(1) simp_thms)
  have "list_all clean (renderDashboard db rel wall snap message)"
    unfolding renderDashboard_def Let_def list_all_append
    by (intro conjI) (auto simp only: list_all_iff set_map image_iff fixed rows list.set split: if_splits prod.splits)
  with assms(4,5) show ?thesis by (auto simp: clean_def list_all_iff)
qed

end
