(* ===== verification/Daemon_Run.thy ===== *)
theory Daemon_Run
  imports Api Discover Control
begin

text \<open>
  The life of the daemon (\<open>runDaemon\<close> and the candidate rounds of \<open>daemon.go\<close>): what is opened in which
  order, the single pass of \<open>--once\<close>, the periodic rounds with their log records, and the end, as a step
  relation in which the components, the requests in flight, the caller's context and the main goroutine
  take steps in any order.
\<close>

section \<open>Starting\<close>

text \<open>What the start reads, in the order of the code.\<close>

record daemon_env =
  dn_dir :: "goerr + string"
  dn_private :: "goerr option"
  dn_lock :: "goerr + unit"
  dn_config :: config_env
  dn_cred :: cred_env
  dn_lib :: kh_lib
  dn_kh :: kh_env
  dn_agent :: agent_env
  dn_known :: string
  dn_state :: "goerr + persistent_state"
  dn_clock :: "nat \<Rightarrow> time"
  dn_addr :: "string \<Rightarrow> goerr + string"
  dn_candidates :: "goerr + disk_state option"
  dn_norm_host :: "string \<Rightarrow> string"
  dn_parse_key :: "string \<Rightarrow> string option"
  dn_saver :: cand_saver
  dn_now :: time
  dn_pinned :: "goerr + cdevice list"
  dn_known_read :: "goerr + string"

record daemon_parts =
  dpConfigured :: "cdevice list"
  dpAdapter :: daemon_adapter
  dpEngine :: engine
  dpInbox :: inbox

text \<open>The first device that the preflight refuses.\<close>

fun preflight :: "unicode_db \<Rightarrow> cred_env \<Rightarrow> cdevice list \<Rightarrow> goerr option" where
  "preflight db cenv [] = None"
| "preflight db cenv (d # ds) =
     (case assessDaemonDevice db cenv d of
        Some err \<Rightarrow> Some (errorf (''automatic unlock preflight for '' @ Quote db (cName d)) err)
      | None \<Rightarrow> preflight db cenv ds)"

definition open_parts :: "unicode_db \<Rightarrow> daemon_env \<Rightarrow> daemon_options \<Rightarrow> string \<Rightarrow> cdevice list \<Rightarrow> goerr + daemon_parts" where
  "open_parts db env o1 dataDir devs =
     (let adapter = newDaemonAdapter True devs (doProbeTimeout o1) (doUnlockTimeout o1) in
      case New db (toMonitorDevices devs) True True (Some (dn_state env)) (monitorOpts o1) (dn_clock env) of
        Inl err \<Rightarrow> Inl err
      | Inr mon \<Rightarrow>
        (case Open db (dn_addr env) (Join2 dataDir ''candidates.json'') \<lparr>coTTL = 0, coMaxCandidates = 0, coMaxEvents = 0\<rparr>
            (dn_candidates env) of
           Inl err \<Rightarrow> Inl err
         | Inr b \<Rightarrow>
           (case refreshConfiguredCandidates db (dn_norm_host env) (dn_parse_key env) (dn_saver env) (dn_now env)
               (dn_pinned env) (dn_known_read env) b of
              (_, Some err) \<Rightarrow> Inl err
            | (b1, None) \<Rightarrow> Inr \<lparr>dpConfigured = devs, dpAdapter = adapter, dpEngine = mon, dpInbox = b1\<rparr>)))"

definition runDaemon_open :: "unicode_db \<Rightarrow> daemon_env \<Rightarrow> daemon_options \<Rightarrow> goerr + daemon_parts" where
  "runDaemon_open db env o1 =
     (case dn_dir env of
        Inl err \<Rightarrow> Inl err
      | Inr dataDir \<Rightarrow>
        (case dn_private env of
           Some err \<Rightarrow> Inl err
         | None \<Rightarrow>
           (case acquireDaemonLock (dn_lock env) of
              Inl err \<Rightarrow> Inl err
            | Inr _ \<Rightarrow>
              (case Store_Load db (dn_config env) of
                 Inl err \<Rightarrow> Inl err
               | Inr devs \<Rightarrow>
                 (case preflight db (dn_cred env) devs of
                    Some err \<Rightarrow> Inl err
                  | None \<Rightarrow>
                    (case newSSHClient db (dn_lib env) (dn_kh env) (dn_agent env) (dn_dir env) False False (doIdentityFiles o1)
                        (max (doProbeTimeout o1) (doUnlockTimeout o1)) (dn_known env) of
                       Inl err \<Rightarrow> Inl err
                     | Inr _ \<Rightarrow> open_parts db env o1 dataDir devs))))))"

text \<open>The pass of \<open>--once\<close>; \<open>written\<close> is the error of writing the snapshot.\<close>

definition runDaemon_once ::
    "unicode_db \<Rightarrow> (string \<Rightarrow> poll_env) \<Rightarrow> string list \<Rightarrow> goerr option \<Rightarrow> engine \<Rightarrow> engine \<times> goerr option" where
  "runDaemon_once db polls order written mon =
     (let (e1, errs) = RunOnce db polls order mon in
      (e1, case written of
         Some err \<Rightarrow> Some err
       | None \<Rightarrow>
         if errs \<noteq> [] then
           Some (ErrText (''one-pass monitor completed with errors for '' @ decimal (length errs) @ '' device(s)''))
         else None))"

section \<open>Rounds\<close>

text \<open>\<open>stamp\<close> is the text of a time in \<open>RFC3339Nano\<close>.\<close>

definition dropped_record :: "unicode_db \<Rightarrow> (time \<Rightarrow> string) \<Rightarrow> string \<Rightarrow> observation \<Rightarrow> log_record" where
  "dropped_record db stamp source ob =
     (let safe = terminalSafeInline db in
      \<lparr>lrLevel = LevelWarn, lrMessage = ''SSH host candidate dropped at inbox capacity'',
       lrAttrs = [(''event'', ''candidate.dropped''), (''source'', safe source),
           (''reason'', ''candidate inbox is full of operator-reviewed entries''),
           (''observed_at'', safe (stamp (obObservedAt ob)))]
         @ (if obAddress ob \<noteq> [] then [(''endpoint'', safe (JoinHostPort (obAddress ob) (obPort ob)))] else [])
         @ (if obHostname ob \<noteq> [] then [(''hostname'', safe (obHostname ob))] else [])
         @ (if obFingerprint ob \<noteq> [] then [(''fingerprint'', safe (obFingerprint ob))] else [])\<rparr>)"

definition evicted_record :: "unicode_db \<Rightarrow> (time \<Rightarrow> string) \<Rightarrow> string \<Rightarrow> candidate \<Rightarrow> string \<Rightarrow> log_record" where
  "evicted_record db stamp source c evicted =
     (let safe = terminalSafeInline db in
      \<lparr>lrLevel = LevelInfo, lrMessage = ''unreviewed SSH host candidate evicted at inbox capacity'',
       lrAttrs = [(''event'', ''candidate.evicted''), (''candidate_id'', safe evicted),
           (''replacement_candidate_id'', safe (cdID c)), (''source'', safe source),
           (''observed_at'', safe (stamp (cdLastSeen c)))]\<rparr>)"

definition observed_record :: "unicode_db \<Rightarrow> (time \<Rightarrow> string) \<Rightarrow> string \<Rightarrow> bool \<Rightarrow> candidate \<Rightarrow> log_record" where
  "observed_record db stamp source isNew c =
     (let safe = terminalSafeInline db;
          attrs = [(''candidate_id'', safe (cdID c)), (''candidate_state'', safe (Candidates.state_text (cdState c))),
              (''source'', safe source), (''observed_at'', safe (stamp (cdLastSeen c)))]
            @ (case cdEndpoints c of [] \<Rightarrow> [] | p # _ \<Rightarrow> [(''endpoint'', safe (JoinHostPort (epAddress p) (epPort p)))])
            @ (case cdHostnames c of [] \<Rightarrow> [] | h # _ \<Rightarrow> [(''hostname'', safe h)]) in
      if isNew then \<lparr>lrLevel = LevelInfo, lrMessage = ''SSH host candidate detected'', lrAttrs = (''event'', ''candidate.discovered'') # attrs\<rparr>
      else \<lparr>lrLevel = LevelDebug, lrMessage = ''SSH host candidate observed'', lrAttrs = (''event'', ''candidate.updated'') # attrs\<rparr>)"

text \<open>A result without a candidate is that of a dropped observation.\<close>

definition logCandidateResults :: "unicode_db \<Rightarrow> (time \<Rightarrow> string) \<Rightarrow> string \<Rightarrow> ingest_result list \<Rightarrow> log_record list" where
  "logCandidateResults db stamp source results =
     concat (map (\<lambda>r. case (irDropped r, irCandidate r) of
         (Some ob, _) \<Rightarrow> [dropped_record db stamp source ob]
       | (None, Some c) \<Rightarrow> map (evicted_record db stamp source c) (irEvictedIDs r) @ [observed_record db stamp source (irCreated r) c]
       | (None, None) \<Rightarrow> []) results)"

text \<open>
  What one round of discovery writes; \<open>ended\<close> is whether its context has ended. The failure of a round
  that was cancelled is not a warning.
\<close>

definition discovery_round :: "unicode_db \<Rightarrow> (time \<Rightarrow> string) \<Rightarrow> string \<Rightarrow> string \<Rightarrow> bool \<Rightarrow> goerr + ingest_result list \<Rightarrow> log_record list" where
  "discovery_round db stamp source failure ended outcome =
     (case outcome of
        Inl err \<Rightarrow>
          if \<not> ended then
            [\<lparr>lrLevel = LevelWarn, lrMessage = failure,
              lrAttrs = [(''event'', ''discovery.failed''), (''source'', source), (''error'', terminalSafeError db (Some err))]\<rparr>]
          else
            [\<lparr>lrLevel = LevelDebug, lrMessage = ''candidate discovery round completed'',
              lrAttrs = [(''event'', ''discovery.round''), (''source'', source), (''observations'', decimal 0)]\<rparr>]
      | Inr results \<Rightarrow>
          logCandidateResults db stamp source results @
          [\<lparr>lrLevel = LevelDebug, lrMessage = ''candidate discovery round completed'',
            lrAttrs = [(''event'', ''discovery.round''), (''source'', source), (''observations'', decimal (length results))]\<rparr>])"

definition expiration_round :: "unicode_db \<Rightarrow> cand_saver \<Rightarrow> time \<Rightarrow> bool \<Rightarrow> inbox \<Rightarrow> inbox \<times> log_record list" where
  "expiration_round db sv now ended b =
     (if ended then (b, [])
      else case Expire sv now b of
        (b1, Inl err) \<Rightarrow>
          (b1, [\<lparr>lrLevel = LevelWarn, lrMessage = ''candidate expiration failed'',
             lrAttrs = [(''event'', ''candidate.expiration_failed''), (''error'', terminalSafeError db (Some err))]\<rparr>])
      | (b1, Inr ids) \<Rightarrow>
          (b1, map (\<lambda>cid. \<lparr>lrLevel = LevelInfo, lrMessage = ''candidate expired'',
             lrAttrs = [(''event'', ''candidate.expired''), (''candidate_id'', terminalSafeInline db cid)]\<rparr>) ids))"

text \<open>The loop: a round at once, one for every tick until the context ends; \<open>operation i\<close> is the round of turn \<open>i\<close>.\<close>

datatype periodic_event = PeriodicTick | PeriodicDone

fun periodic_loop :: "(nat \<Rightarrow> 's \<Rightarrow> 's) \<Rightarrow> nat \<Rightarrow> periodic_event list \<Rightarrow> 's \<Rightarrow> 's \<times> bool" where
  "periodic_loop operation i [] s = (s, False)"
| "periodic_loop operation i (PeriodicDone # evs) s = (s, True)"
| "periodic_loop operation i (PeriodicTick # evs) s = periodic_loop operation (Suc i) evs (operation i s)"

definition runPeriodic :: "(nat \<Rightarrow> 's \<Rightarrow> 's) \<Rightarrow> periodic_event list \<Rightarrow> 's \<Rightarrow> 's \<times> bool" where
  "runPeriodic operation evs s = periodic_loop operation 1 evs (operation 0 s)"

text \<open>The rounds that \<open>runCandidateDiscovery\<close> starts, with their intervals.\<close>

datatype round_kind = BonjourRounds | ScanRounds | ExpirationRounds

definition candidate_rounds :: "daemon_options \<Rightarrow> (round_kind \<times> duration) list" where
  "candidate_rounds o1 =
     (if doDiscoverInterval o1 > 0 then [(BonjourRounds, doDiscoverInterval o1)] else [])
     @ (if doScanCIDRs o1 \<noteq> [] then [(ScanRounds, doScanInterval o1)] else [])
     @ [(ExpirationRounds, hour)]"

section \<open>Serving and stopping\<close>

datatype component = EngineRun | CandidateRounds | ApiServer

text \<open>
  Where the main goroutine is: in the first \<open>select\<close>; behind it, shutting the server down and waiting for
  the handlers; collecting reports, with their number and the error so far; or returned, with the error and
  whether every component had been joined.
\<close>

datatype daemon_phase = Serving | Draining nat "goerr option" | Joining nat "goerr option" "goerr option" | Returned "goerr option" bool

record daemon_state =
  dsAlive :: "component list"
  dsReports :: "goerr option list"
  dsHandler :: tracked_handler
  dsCtx :: "goerr option"
  dsStopped :: bool
  dsPhase :: daemon_phase

definition started :: daemon_state where
  "started = \<lparr>dsAlive = [EngineRun, CandidateRounds, ApiServer], dsReports = [], dsHandler = newTrackedHandler, dsCtx = None,
     dsStopped = False, dsPhase = Serving\<rparr>"

definition component_count :: nat where
  "component_count = 3"

text \<open>\<open>errors.Join\<close>.\<close>

definition errors_join :: "goerr \<Rightarrow> goerr \<Rightarrow> goerr" where
  "errors_join a b = Wrapped (err_msg a @ [CHR 0x0A] @ err_msg b) [a, b]"

definition timed_out :: "goerr option \<Rightarrow> goerr" where
  "timed_out componentErr =
     (let t = errorf ''daemon shutdown timed out before all components stopped'' (Sentinel DeadlineExceeded) in
      case componentErr of Some err \<Rightarrow> errors_join err t | None \<Rightarrow> t)"

definition begin_stop :: "nat \<Rightarrow> goerr option \<Rightarrow> daemon_state \<Rightarrow> daemon_state" where
  "begin_stop n err s = s\<lparr>dsStopped := True, dsHandler := StopAccepting (dsHandler s), dsPhase := Draining n err\<rparr>"

definition first_report :: "goerr option \<Rightarrow> goerr option \<Rightarrow> goerr option" where
  "first_report ctx report =
     (case report of
        Some err \<Rightarrow> Some err
      | None \<Rightarrow> if ctx = None then Some (ErrText ''daemon component stopped unexpectedly'') else None)"

definition keep_first :: "goerr option \<Rightarrow> goerr option \<Rightarrow> goerr option" where
  "keep_first componentErr report = (if report \<noteq> None \<and> componentErr = None then report else componentErr)"

text \<open>
  The steps. The rounds of the candidates end without an error, and only when the context has ended. The
  server is shut down while the main goroutine drains, with an error \<open>shut\<close> when that takes too long.
\<close>

inductive daemon_step :: "daemon_state \<Rightarrow> daemon_state \<Rightarrow> bool" where
  component_ends: "c \<in> set (dsAlive s) \<Longrightarrow> c \<noteq> CandidateRounds \<Longrightarrow>
    daemon_step s (s\<lparr>dsAlive := remove1 c (dsAlive s), dsReports := dsReports s @ [report]\<rparr>)"
| rounds_end: "CandidateRounds \<in> set (dsAlive s) \<Longrightarrow> dsStopped s \<or> dsCtx s \<noteq> None \<Longrightarrow>
    daemon_step s (s\<lparr>dsAlive := remove1 CandidateRounds (dsAlive s), dsReports := dsReports s @ [None]\<rparr>)"
| request_begins: "daemon_step s (s\<lparr>dsHandler := fst (serve_begin (dsHandler s))\<rparr>)"
| request_ends: "active (dsHandler s) > 0 \<Longrightarrow> daemon_step s (s\<lparr>dsHandler := serve_end (dsHandler s)\<rparr>)"
| context_ends: "dsCtx s = None \<Longrightarrow> daemon_step s (s\<lparr>dsCtx := Some err\<rparr>)"
| main_cancelled: "dsPhase s = Serving \<Longrightarrow> dsCtx s \<noteq> None \<Longrightarrow> daemon_step s (begin_stop 0 None s)"
| main_report: "dsPhase s = Serving \<Longrightarrow> dsReports s = report # rest \<Longrightarrow>
    daemon_step s (begin_stop 1 (first_report (dsCtx s) report) (s\<lparr>dsReports := rest\<rparr>))"
| main_drained: "dsPhase s = Draining n err \<Longrightarrow> wait_returns (dsHandler s) \<Longrightarrow>
    daemon_step s (s\<lparr>dsPhase := Joining n err shut\<rparr>)"
| main_joins: "dsPhase s = Joining n err shut \<Longrightarrow> n < component_count \<Longrightarrow> dsReports s = report # rest \<Longrightarrow>
    daemon_step s (s\<lparr>dsReports := rest, dsPhase := Joining (Suc n) (keep_first err report) shut\<rparr>)"
| main_times_out: "dsPhase s = Joining n err shut \<Longrightarrow> n < component_count \<Longrightarrow>
    daemon_step s (s\<lparr>dsPhase := Returned (Some (timed_out err)) False\<rparr>)"
| main_returns: "dsPhase s = Joining n err shut \<Longrightarrow> \<not> n < component_count \<Longrightarrow>
    daemon_step s (s\<lparr>dsPhase := Returned (if err \<noteq> None then err else shut) True\<rparr>)"

inductive_cases daemon_stepE: "daemon_step s s'"

end
