(* ===== verification/Daemon_Run_Facts.thy ===== *)
theory Daemon_Run_Facts
  imports Daemon_Run
begin

text \<open>
  What holds at the start and at the end of the daemon: every device that may be unlocked without an
  operator passed the preflight, and a daemon that has returned left nothing running behind its back.
\<close>

section \<open>Starting\<close>

lemma preflight_None: "preflight db cenv ds = None \<longleftrightarrow> (\<forall>d \<in> set ds. assessDaemonDevice db cenv d = None)"
  by (induction ds) (auto split: option.splits)

text \<open>
  A daemon that starts holds the lock of its data directory, knows every configured device, and none that
  it may unlock by itself relies on a credential that needs a person.
\<close>

lemma daemon_open_ready:
  assumes "runDaemon_open db env o1 = Inr parts"
  shows "(\<exists>l. dn_lock env = Inr l) \<and> Store_Load db (dn_config env) = Inr (dpConfigured parts)
    \<and> adDevices (dpAdapter parts) = by_name (dpConfigured parts)
    \<and> (\<forall>d \<in> set (dpConfigured parts). assessDaemonDevice db (dn_cred env) d = None
         \<and> (cAutoUnlock d \<longrightarrow> effective_source d \<noteq> ProviderRuntime))"
  using assms
  by (auto simp: runDaemon_open_def open_parts_def acquireDaemonLock_def newDaemonAdapter_def preflight_None Let_def
      assessDaemonDevice_def split: sum.splits option.splits prod.splits if_splits)

section \<open>Rounds\<close>

lemma periodic_loop_ticks:
  "periodic_loop operation i (replicate n PeriodicTick @ PeriodicDone # rest) s = (fold operation [i..<i + n] s, True)"
proof (induction n arbitrary: i s)
  case (Suc n)
  have "[i..<i + Suc n] = i # [Suc i..<Suc i + n]" by (simp add: upt_rec)
  with Suc show ?case by simp
qed simp

text \<open>A round runs at once and at every tick, and none behind the end of the context.\<close>

lemma runPeriodic_rounds:
  "runPeriodic operation (replicate n PeriodicTick @ PeriodicDone # rest) s = (fold operation [0..<Suc n] s, True)"
proof -
  have "[0..<Suc n] = 0 # [1..<1 + n]" by (simp add: upt_rec)
  then show ?thesis by (simp add: runPeriodic_def periodic_loop_ticks)
qed

text \<open>Candidates expire even if nothing is discovered.\<close>

lemma expiration_always: "ExpirationRounds \<in> fst ` set (candidate_rounds o1)"
  by (simp add: candidate_rounds_def)

section \<open>Stopping\<close>

text \<open>The reports that the main goroutine has taken, and the error it would return.\<close>

fun taken :: "daemon_phase \<Rightarrow> nat" where
  "taken Serving = 0"
| "taken (Draining n _) = n"
| "taken (Joining n _ _) = n"
| "taken (Returned _ _) = component_count"

fun quiet :: "daemon_phase \<Rightarrow> bool" where
  "quiet (Draining _ err) = (err = None)"
| "quiet (Joining _ err _) = (err = None)"
| "quiet (Returned err _) = (err = None)"
| "quiet Serving = False"

fun drained :: "daemon_phase \<Rightarrow> bool" where
  "drained (Joining _ _ _) = True"
| "drained (Returned _ _) = True"
| "drained _ = False"

fun unjoined :: "daemon_phase \<Rightarrow> bool" where
  "unjoined (Returned _ joined) = (\<not> joined)"
| "unjoined _ = False"

text \<open>
  The invariant: every component is running, has a report in the channel, or was joined; behind the first
  wait nothing is accepted; once the handlers were waited for none is active; and without an error the
  caller's context has ended.
\<close>

definition daemon_inv :: "daemon_state \<Rightarrow> bool" where
  "daemon_inv s \<longleftrightarrow>
     (unjoined (dsPhase s) \<or> length (dsReports s) + length (dsAlive s) + taken (dsPhase s) = component_count)
     \<and> (dsPhase s \<noteq> Serving \<longrightarrow> dsStopped s \<and> \<not> accepting (dsHandler s))
     \<and> (drained (dsPhase s) \<longrightarrow> active (dsHandler s) = 0)
     \<and> (quiet (dsPhase s) \<longrightarrow> dsCtx s \<noteq> None)
     \<and> (\<forall>err. dsPhase s = Returned err False \<longrightarrow> (\<exists>e. err = Some e \<and> err_is e DeadlineExceeded))"

lemmas stop_defs = begin_stop_def first_report_def keep_first_def timed_out_def errors_join_def component_count_def
  serve_begin_def serve_end_def StopAccepting_def wait_returns_def newTrackedHandler_def

lemma timed_out_deadline: "err_is (timed_out err) DeadlineExceeded"
  by (cases err) (simp_all add: timed_out_def errors_join_def errorf_def Let_def)

lemma remove1_length: "x \<in> set xs \<Longrightarrow> length xs = Suc (length (remove1 x xs))"
  by (induction xs) auto

lemma daemon_inv_started: "daemon_inv started"
  by (simp add: daemon_inv_def started_def component_count_def)

lemma daemon_inv_step: "daemon_step s s' \<Longrightarrow> daemon_inv s \<Longrightarrow> daemon_inv s'"
proof (induction rule: daemon_step.induct)
  case (component_ends c s report)
  then show ?case by (auto simp: daemon_inv_def remove1_length)
next
  case (rounds_end s)
  then show ?case by (auto simp: daemon_inv_def remove1_length)
next
  case (main_times_out s n err shut)
  then show ?case by (auto simp: daemon_inv_def timed_out_deadline)
next
  case (main_returns s n err shut)
  then have "length (dsReports s) + length (dsAlive s) + n = component_count" by (simp add: daemon_inv_def)
  then have "length (dsReports s) = 0 \<and> length (dsAlive s) = 0" using main_returns(2) by linarith
  with main_returns show ?case by (auto simp: daemon_inv_def stop_defs)
qed (auto simp: daemon_inv_def stop_defs split: if_splits option.splits)

lemma daemon_reachable_inv:
  assumes "daemon_step\<^sup>*\<^sup>* started s" shows "daemon_inv s"
  using assms by (induction rule: rtranclp_induct) (auto simp: daemon_inv_started daemon_inv_step)

text \<open>C13. The daemon does not return behind the back of its parts. In every interleaving of components, requests and the end of the caller's context, when it has returned then all work was told to stop, no request is accepted any more and none is being handled, so no enrollment or rollback is cut off; either every component has ended, or it reports that the shutdown timed out; and it returns without an error only because the caller ended it: a component that stops by itself never looks like success.\<close>

theorem daemon_stops_clean:
  assumes "daemon_step\<^sup>*\<^sup>* started s" "dsPhase s = Returned err joined"
  shows "dsStopped s \<and> \<not> accepting (dsHandler s) \<and> active (dsHandler s) = 0
    \<and> (if joined then dsAlive s = [] \<and> dsReports s = [] else (\<exists>e. err = Some e \<and> err_is e DeadlineExceeded))
    \<and> (err = None \<longrightarrow> joined \<and> dsCtx s \<noteq> None)"
  using daemon_reachable_inv [OF assms(1)] assms(2) by (cases joined) (auto simp: daemon_inv_def)

text \<open>A component fails; the others are stopped and joined, and its error is returned.\<close>

definition demo_returned :: daemon_state where
  "demo_returned = \<lparr>dsAlive = [], dsReports = [], dsHandler = StopAccepting newTrackedHandler, dsCtx = None, dsStopped = True,
     dsPhase = Returned (Some (ErrText ''accept'')) True\<rparr>"

lemma demo_returned_reachable: "daemon_step\<^sup>*\<^sup>* started demo_returned"
proof -
  define h where "h = StopAccepting newTrackedHandler"
  define st where "st = (\<lambda>alive reports phase. \<lparr>dsAlive = alive, dsReports = reports, dsHandler = h, dsCtx = None,
     dsStopped = True, dsPhase = phase\<rparr>)"
  let ?e = "Some (ErrText ''accept'')"
  have s1: "daemon_step started (started\<lparr>dsAlive := [EngineRun, CandidateRounds], dsReports := [?e]\<rparr>)" (is "daemon_step _ ?s1")
    using component_ends [of ApiServer started ?e] by (simp add: started_def)
  have s2: "daemon_step ?s1 (st [EngineRun, CandidateRounds] [] (Draining 1 ?e))"
    using main_report [of ?s1 ?e "[]"] by (simp add: started_def begin_stop_def first_report_def st_def h_def)
  have s3: "daemon_step (st [EngineRun, CandidateRounds] [] p) (st [CandidateRounds] [None] p)" for p
    using component_ends [of EngineRun "st [EngineRun, CandidateRounds] [] p" None] by (simp add: st_def)
  have s4: "daemon_step (st [CandidateRounds] [None] p) (st [] [None, None] p)" for p
    using rounds_end [of "st [CandidateRounds] [None] p"] by (simp add: st_def)
  have s5: "daemon_step (st a r (Draining 1 ?e)) (st a r (Joining 1 ?e None))" for a r
    using main_drained [of "st a r (Draining 1 ?e)" 1 ?e None]
    by (simp add: st_def h_def wait_returns_def StopAccepting_def newTrackedHandler_def)
  have s6: "daemon_step (st [] [None, None] (Joining 1 ?e None)) (st [] [None] (Joining 2 ?e None))"
    using main_joins [of "st [] [None, None] (Joining 1 ?e None)" 1 ?e None None "[None]"]
    by (simp add: st_def keep_first_def component_count_def numeral_2_eq_2)
  have s7: "daemon_step (st [] [None] (Joining 2 ?e None)) (st [] [] (Joining 3 ?e None))"
    using main_joins [of "st [] [None] (Joining 2 ?e None)" 2 ?e None None "[]"]
    by (simp add: st_def keep_first_def component_count_def)
  have s8: "daemon_step (st [] [] (Joining 3 ?e None)) demo_returned"
    using main_returns [of "st [] [] (Joining 3 ?e None)" 3 ?e None] by (simp add: st_def component_count_def demo_returned_def h_def)
  note step = converse_rtranclp_into_rtranclp [of daemon_step]
  show ?thesis by (rule step, rule s1, rule step, rule s2, rule step, rule s3, rule step, rule s4, rule step, rule s5, rule step, rule s6,
        rule step, rule s7, rule r_into_rtranclp, rule s8)
qed

theorem daemon_stops_clean_witness:
  "dsStopped demo_returned \<and> active (dsHandler demo_returned) = 0 \<and> dsAlive demo_returned = []"
  using daemon_stops_clean [OF demo_returned_reachable, of "Some (ErrText ''accept'')" True] by (simp add: demo_returned_def)

text \<open>The join cannot wait for a report that never comes: when all components have ended, theirs are in the channel.\<close>

lemma join_never_misses:
  assumes "daemon_step\<^sup>*\<^sup>* started s" "dsPhase s = Joining n err shut" "dsAlive s = []"
  shows "length (dsReports s) = component_count - n"
  using daemon_reachable_inv [OF assms(1)] assms(2,3) by (auto simp: daemon_inv_def)

end
