(* ===== verification/Mock_Server.thy ===== *)
theory Mock_Server
  imports Fvcore Securefs Go_Net
begin

text \<open>
  The mock of the FileVault pre-boot server (\<open>tools/mock-fv-ssh-server/main.go\<close>), against which the client
  is tested: its flags and start-up checks, the files it reads and the host key it makes, and the callbacks
  that decide every authentication. The SSH library calls the callbacks; a \<open>challenge\<close> is a function on
  the state of the other side. Permissions are those of Unix.
\<close>

section \<open>Flags\<close>

definition maxSecretFileSize :: nat where
  "maxSecretFileSize = 65536"

definition defaultLockedBanner :: string where
  "defaultLockedBanner =
     ''This system is locked. To unlock it, use a local'' @ [CHR 0x0D, CHR 0x0A] @
     ''account name and password. Once successfully'' @ [CHR 0x0D, CHR 0x0A] @
     ''unlocked, you will be able to connect normally.''"

definition defaultSuccessBanner :: string where
  "defaultSuccessBanner =
     ''System successfully unlocked.'' @ [CHR 0x0D, CHR 0x0A] @
     ''You may now use SSH to authenticate normally.'' @ [CHR 0x0D, CHR 0x0A, CHR 0x0D, CHR 0x0A]"

text \<open>\<open>mfPasswordSet\<close> is the answer of \<open>flagWasSet\<close> for the flag \<open>--password\<close>.\<close>

record mock_flags =
  mfPort :: int
  mfBind :: string
  mfState :: string
  mfPassword :: string
  mfPasswordSet :: bool
  mfPasswordFile :: string
  mfUsername :: string
  mfHostKeyPath :: string
  mfBanner :: string
  mfPromptOnly :: bool
  mfTransition :: bool
  mfAuthorizedKey :: string
  mfSuccess :: string

definition mock_defaults :: mock_flags where
  "mock_defaults =
     \<lparr>mfPort = 8080, mfBind = ''127.0.0.1'', mfState = ''locked'', mfPassword = ''password'', mfPasswordSet = False,
      mfPasswordFile = [], mfUsername = [], mfHostKeyPath = ''mock_host_key'', mfBanner = defaultLockedBanner,
      mfPromptOnly = False, mfTransition = False, mfAuthorizedKey = [], mfSuccess = defaultSuccessBanner\<rparr>"

section \<open>Files\<close>

text \<open>What \<open>Lstat\<close>, \<open>Open\<close> and reading to the end give; the path may name another file by then.\<close>

record secret_env =
  se_lstat :: "goerr + inode"
  se_open :: "goerr option"
  se_read :: "goerr + string"

definition too_large :: goerr where
  "too_large = ErrText (''file exceeds '' @ decimal maxSecretFileSize @ '' bytes'')"

definition readSecretFile :: "secret_env \<Rightarrow> string \<Rightarrow> goerr + string" where
  "readSecretFile env path =
     (case se_lstat env of
        Inl err \<Rightarrow> Inl err
      | Inr n \<Rightarrow>
        if ikind n \<noteq> RegularFile then Inl (ErrText (''not a regular file: '' @ path))
        else if maxSecretFileSize < length (idata n) then Inl too_large
        else if iperm n mod 64 \<noteq> 0 then Inl (ErrText ''permissions are too open; use mode 0600'')
        else (case se_open env of
            Some err \<Rightarrow> Inl err
          | None \<Rightarrow>
            (case se_read env of
               Inl err \<Rightarrow> Inl err
             | Inr content \<Rightarrow>
               let data = take (maxSecretFileSize + 1) content in
               if maxSecretFileSize < length data then Inl too_large else Inr data)))"

definition resolvePassword :: "(string \<Rightarrow> string) \<Rightarrow> secret_env \<Rightarrow> mock_flags \<Rightarrow> goerr + string" where
  "resolvePassword getenv env flags =
     (let chosen =
        (if mfPasswordFile flags \<noteq> [] then
           (if mfPasswordSet flags \<or> getenv ''MOCK_FV_PASSWORD'' \<noteq> [] then
              Inl (ErrText ''use only one of --password, --password-file, or MOCK_FV_PASSWORD'')
            else case readSecretFile env (mfPasswordFile flags) of
              Inl err \<Rightarrow> Inl (errorf ''read password file'' err)
            | Inr data \<Rightarrow> Inr (TrimRight data [CHR 0x0D, CHR 0x0A]))
         else if getenv ''MOCK_FV_PASSWORD'' \<noteq> [] then
           (if mfPasswordSet flags then Inl (ErrText ''use only one of --password or MOCK_FV_PASSWORD'')
            else Inr (getenv ''MOCK_FV_PASSWORD''))
         else Inr (mfPassword flags)) in
      case chosen of
        Inl err \<Rightarrow> Inl err
      | Inr password \<Rightarrow> if password = [] then Inl (ErrText ''password must not be empty'') else Inr password)"

definition passwordWasConfigured :: "(string \<Rightarrow> string) \<Rightarrow> mock_flags \<Rightarrow> bool" where
  "passwordWasConfigured getenv flags \<longleftrightarrow>
     mfPasswordSet flags \<or> mfPasswordFile flags \<noteq> [] \<or> getenv ''MOCK_FV_PASSWORD'' \<noteq> []"

text \<open>\<open>loopback host\<close> is \<open>net.ParseIP\<close>, with the answer of \<open>IsLoopback\<close> for an address.\<close>

definition isLoopbackBind :: "unicode_db \<Rightarrow> (string \<Rightarrow> bool option) \<Rightarrow> string \<Rightarrow> bool" where
  "isLoopbackBind db loopback host \<longleftrightarrow> EqualFold db host ''localhost'' \<or> loopback host = Some True"

text \<open>The opened file and the path are compared by inode; a key is its \<open>Marshal\<close>.\<close>

record key_file_env =
  kf_open :: "goerr option"
  kf_stat :: "goerr + (nat \<times> inode)"
  kf_lstat :: "goerr + (nat \<times> inode)"
  kf_read :: "goerr + string"
  kf_close :: "goerr option"
  kf_parse :: "string \<Rightarrow> goerr + string"

definition loadAuthorizedPublicKey :: "key_file_env \<Rightarrow> string \<Rightarrow> goerr + string" where
  "loadAuthorizedPublicKey env path =
     (case kf_open env of
        Some err \<Rightarrow> Inl err
      | None \<Rightarrow>
        (case kf_stat env of
           Inl err \<Rightarrow> Inl err
         | Inr (i, opened) \<Rightarrow>
           (case kf_lstat env of
              Inl err \<Rightarrow> Inl err
            | Inr (j, linked) \<Rightarrow>
              if ikind opened \<noteq> RegularFile \<or> ikind linked \<noteq> RegularFile \<or> i \<noteq> j then
                Inl (ErrText (''not a stable regular file: '' @ path))
              else if maxSecretFileSize < length (idata opened) then Inl too_large
              else (case kf_read env of
                  Inl err \<Rightarrow> Inl err
                | Inr content \<Rightarrow>
                  let data = take (maxSecretFileSize + 1) content in
                  (case kf_close env of
                     Some err \<Rightarrow> Inl err
                   | None \<Rightarrow>
                     if maxSecretFileSize < length data then Inl too_large
                     else (case kf_parse env data of
                         Inl err \<Rightarrow> Inl (errorf ''parse public key'' err)
                       | Inr key \<Rightarrow> Inr key))))))"

section \<open>The host key\<close>

text \<open>
  Loading calls generating when the file is missing, and generating calls loading when another process
  was faster; a turn holds the answers of one of each. The actions tell what was done to the file.
\<close>

datatype created = CreatedFile | CreateExists | CreateFailed goerr

record 'signer host_key_turn =
  hk_lstat :: "goerr + inode"
  hk_chmod :: "goerr option"
  hk_secret :: secret_env
  hk_parse :: "string \<Rightarrow> goerr + 'signer"
  hk_generate :: "goerr option"
  hk_marshal :: "goerr + string"
  hk_create :: created
  hk_write :: "goerr option"
  hk_sync :: "goerr option"
  hk_close :: "goerr option"
  hk_signer :: "goerr + 'signer"

datatype file_action = Secured | Created | Wrote string | Removed

text \<open>\<open>fmt.Errorf\<close> with the verb \<open>%v\<close>, which does not wrap.\<close>

definition errorf_text :: "string \<Rightarrow> goerr \<Rightarrow> goerr" where
  "errorf_text label err = ErrText (label @ '': '' @ err_msg err)"

definition load_existing :: "'signer host_key_turn \<Rightarrow> string \<Rightarrow> inode \<Rightarrow> file_action list \<times> (goerr + 'signer)" where
  "load_existing turn path n =
     (if ikind n \<noteq> RegularFile then ([], Inl (ErrText (''host key is not a regular file: '' @ path)))
      else if maxSecretFileSize < length (idata n) then
        ([], Inl (ErrText (''host key exceeds '' @ decimal maxSecretFileSize @ '' bytes'')))
      else case hk_chmod turn of
        Some err \<Rightarrow> ([], Inl (errorf ''secure host key'' err))
      | None \<Rightarrow>
        ([Secured], case readSecretFile (hk_secret turn) path of
           Inl err \<Rightarrow> Inl (errorf_text ''read host key'' err)
         | Inr bytes \<Rightarrow> hk_parse turn bytes))"

definition write_host_key :: "'signer host_key_turn \<Rightarrow> string \<Rightarrow> file_action list \<times> (goerr + 'signer)" where
  "write_host_key turn pem =
     (case hk_write turn of
        Some err \<Rightarrow> ([Created, Removed], Inl (errorf ''write host key'' err))
      | None \<Rightarrow>
        (case hk_sync turn of
           Some err \<Rightarrow> ([Created, Wrote pem, Removed], Inl (errorf ''sync host key'' err))
         | None \<Rightarrow>
           (case hk_close turn of
              Some err \<Rightarrow> ([Created, Wrote pem, Removed], Inl (errorf ''close host key'' err))
            | None \<Rightarrow> ([Created, Wrote pem], hk_signer turn))))"

text \<open>The second definition has both functions: what follows a missing file is \<open>generateAndSaveHostKey\<close>.\<close>

fun loadOrGenerateHostKey :: "'signer host_key_turn list \<Rightarrow> string \<Rightarrow> (file_action list \<times> (goerr + 'signer)) option" where
  "loadOrGenerateHostKey [] path = None"
| "loadOrGenerateHostKey (turn # turns) path =
     (case hk_lstat turn of
        Inr n \<Rightarrow> Some (load_existing turn path n)
      | Inl lerr \<Rightarrow>
        if lerr \<noteq> Sentinel NotExist then Some ([], Inl (errorf ''inspect host key'' lerr))
        else (case hk_generate turn of
            Some err \<Rightarrow> Some ([], Inl (errorf_text ''generate ed25519 key'' err))
          | None \<Rightarrow>
            (case hk_marshal turn of
               Inl err \<Rightarrow> Some ([], Inl (errorf_text ''marshal ed25519 key'' err))
             | Inr pem \<Rightarrow>
               (case hk_create turn of
                  CreateExists \<Rightarrow> loadOrGenerateHostKey turns path
                | CreateFailed err \<Rightarrow> Some ([], Inl (errorf ''create host key'' err))
                | CreatedFile \<Rightarrow> Some (write_host_key turn pem)))))"

section \<open>The callbacks\<close>

record mock_config =
  mcUsername :: string
  mcPassword :: string
  mcLockedBanner :: string
  mcSuccessBanner :: string
  mcTransition :: bool
  mcKey :: "string option"

definition lockedExplanation :: "mock_flags \<Rightarrow> string" where
  "lockedExplanation flags = (if mfPromptOnly flags then [] else mfBanner flags)"

text \<open>The configuration and the initial \<open>protocolState\<close>, whether the machine is unlocked.\<close>

definition serverConfig :: "mock_flags \<Rightarrow> string \<Rightarrow> string option \<Rightarrow> mock_config \<times> bool" where
  "serverConfig flags password key =
     (\<lparr>mcUsername = mfUsername flags, mcPassword = password, mcLockedBanner = lockedExplanation flags,
       mcSuccessBanner = mfSuccess flags, mcTransition = mfTransition flags, mcKey = key\<rparr>, mfState flags = ''unlocked'')"

definition wrong_user :: "mock_config \<Rightarrow> string \<Rightarrow> bool" where
  "wrong_user cfg user \<longleftrightarrow> mcUsername cfg \<noteq> [] \<and> user \<noteq> mcUsername cfg"

text \<open>\<open>None\<close> accepts.\<close>

definition PublicKeyCallback :: "mock_config \<Rightarrow> bool \<Rightarrow> string \<Rightarrow> string \<Rightarrow> goerr option" where
  "PublicKeyCallback cfg unlocked user key =
     (if wrong_user cfg user then Some (ErrText ''invalid username'')
      else if \<not> unlocked then Some (ErrText ''publickey not accepted while locked'')
      else if mcKey cfg \<noteq> None \<and> mcKey cfg \<noteq> Some key then Some (ErrText ''publickey not authorized'')
      else None)"

definition PasswordCallback :: "mock_config \<Rightarrow> bool \<Rightarrow> string \<Rightarrow> string \<Rightarrow> goerr option" where
  "PasswordCallback cfg unlocked user supplied =
     (if wrong_user cfg user then Some (ErrText ''invalid username'')
      else if unlocked \<and> supplied = mcPassword cfg then None
      else Some (ErrText ''password not accepted''))"

definition errUnlocked :: goerr where
  "errUnlocked = ErrText ''unlocked; closing connection''"

definition KeyboardInteractiveCallback ::
    "mock_config \<Rightarrow> string \<Rightarrow> (string \<Rightarrow> string list \<Rightarrow> bool list \<Rightarrow> 's \<Rightarrow> 's \<times> (goerr + string list))
      \<Rightarrow> bool \<Rightarrow> 's \<Rightarrow> bool \<times> 's \<times> goerr option" where
  "KeyboardInteractiveCallback cfg user challenge unlocked s =
     (if wrong_user cfg user then (unlocked, s, Some (ErrText ''invalid username''))
      else if unlocked then
        (case challenge [] [''Password: ''] [False] s of
           (s1, Inl err) \<Rightarrow> (unlocked, s1, Some err)
         | (s1, Inr answers) \<Rightarrow>
           (unlocked, s1, if answers = [mcPassword cfg] then None else Some (ErrText ''permission denied'')))
      else
        (case challenge (mcLockedBanner cfg) [''Password: ''] [False] s of
           (s1, Inl err) \<Rightarrow> (unlocked, s1, Some err)
         | (s1, Inr answers) \<Rightarrow>
           if answers = [mcPassword cfg] then
             (case challenge (mcSuccessBanner cfg) [] [] s1 of (s2, _) \<Rightarrow> (mcTransition cfg, s2, Some errUnlocked))
           else (unlocked, s1, Some (ErrText ''permission denied''))))"

section \<open>Starting\<close>

text \<open>\<open>Inl\<close> is a fatal error; \<open>Inr\<close> is the server that accepts connections, with its address.\<close>

definition mock_main ::
    "unicode_db \<Rightarrow> (string \<Rightarrow> bool option) \<Rightarrow> (string \<Rightarrow> string) \<Rightarrow> secret_env \<Rightarrow> key_file_env \<Rightarrow> (goerr + 'signer)
      \<Rightarrow> goerr option \<Rightarrow> mock_flags \<Rightarrow> goerr + (string \<times> mock_config \<times> bool)" where
  "mock_main db loopback getenv secret keyfile hostKey listen flags =
     (if mfState flags \<noteq> ''locked'' \<and> mfState flags \<noteq> ''unlocked'' then
        Inl (ErrText (''invalid state '' @ Quote db (mfState flags) @ '': must be '' @ [CHR 0x27] @ ''locked'' @ [CHR 0x27] @
          '' or '' @ [CHR 0x27] @ ''unlocked'' @ [CHR 0x27]))
      else if mfPort flags < 1 \<or> 65535 < mfPort flags then Inl (ErrText (''invalid port '' @ decimal_int (mfPort flags)))
      else case resolvePassword getenv secret flags of
        Inl err \<Rightarrow> Inl (errorf_text ''password'' err)
      | Inr password \<Rightarrow>
        if \<not> isLoopbackBind db loopback (mfBind flags) \<and> \<not> passwordWasConfigured getenv flags then
          Inl (ErrText (''refusing non-loopback bind with the default password; set MOCK_FV_PASSWORD, '' @
            ''--password-file, or --password''))
        else (case (if mfAuthorizedKey flags = [] then Inr None
                    else map_sum id Some (loadAuthorizedPublicKey keyfile (mfAuthorizedKey flags))) of
            Inl err \<Rightarrow> Inl (errorf_text ''authorized key'' err)
          | Inr key \<Rightarrow>
            (case hostKey of
               Inl err \<Rightarrow> Inl (errorf_text ''host key'' err)
             | Inr _ \<Rightarrow>
               let addr = JoinHostPort (mfBind flags) (mfPort flags) in
               (case listen of
                  Some err \<Rightarrow> Inl (errorf_text (''listen on '' @ addr) err)
                | None \<Rightarrow> Inr (addr, serverConfig flags password key)))))"

end
