(* ===== verification/Mock_Facts.thy ===== *)
theory Mock_Facts
  imports Mock_Server Fvcore_Facts
begin

text \<open>
  The mock server and the client against each other: what a test with the mock observes. And what the
  mock does with its own files and addresses.
\<close>

section \<open>The texts\<close>

lemma normalizeBanner_ascii:
  "ascii_db db \<Longrightarrow> ascii s \<Longrightarrow> normalizeBanner db s = Join (char_fields [] (map lower_char s)) '' ''"
proof -
  assume a: "ascii_db db" "ascii s"
  then have "ascii (map lower_char s)" by (auto simp: ascii_def lower_char_def ascii_lower_def)
  with a show ?thesis by (simp add: normalizeBanner_def ToLower_ascii Fields_ascii)
qed

lemma lower_capitals:
  "lower_char (CHR ''T'') = CHR ''t''" "lower_char (CHR ''O'') = CHR ''o''" "lower_char (CHR ''S'') = CHR ''s''"
  "lower_char (CHR ''Y'') = CHR ''y''" "lower_char (CHR ''H'') = CHR ''h''" "lower_char (CHR ''P'') = CHR ''p''"
  by code_simp+

lemmas normalize_literal = normalizeBanner_ascii lower_capitals lower_char_id is_space_def

lemma normalized_success:
  "ascii_db db \<Longrightarrow> normalizeBanner db (defaultSuccessBanner @ [CHR 0x0A])
     = ''system successfully unlocked. you may now use ssh to authenticate normally.''"
  by (simp add: normalize_literal defaultSuccessBanner_def)

lemma default_success_seen:
  assumes "ascii_db db" shows "successSeen db (defaultSuccessBanner @ [CHR 0x0A]) successMsg"
proof -
  have "Contains ''system successfully unlocked. you may now use ssh to authenticate normally.'' successPhrase" by code_simp
  with normalized_success [OF assms] show ?thesis unfolding successSeen_def Let_def by simp
qed

definition prompt_text :: "string \<Rightarrow> string" where
  "prompt_text explanation = (if explanation = [] then [] else explanation @ [CHR 0x0A]) @ ''Password: '' @ [CHR 0x0A]"

lemma normalized_prompt:
  assumes "ascii_db db"
  shows "normalizeBanner db (prompt_text []) = ''password:''"
    and "normalizeBanner db (prompt_text defaultLockedBanner) = lockedBannerText @ '' password:''"
  using assms by (simp_all add: normalize_literal prompt_text_def defaultLockedBanner_def lockedBannerText_def)

lemma default_locked_seen:
  assumes "ascii_db db"
  shows "lockedSeen db (prompt_text defaultLockedBanner)" "\<not> lockedSeen db (prompt_text [])"
proof -
  have "Contains (lockedBannerText @ '' password:'') lockedPhrase" "\<not> Contains ''password:'' lockedPhrase" by code_simp+
  with normalized_prompt [OF assms] show "lockedSeen db (prompt_text defaultLockedBanner)" "\<not> lockedSeen db (prompt_text [])"
    by (simp_all only: lockedSeen_def not_False_eq_True)
qed

lemma mock_prompt: "isPasswordPrompt db ''Password: ''"
  by (simp add: isPasswordPrompt_def EqualFold_def TrimSpace_def is_space_def runes_def)

section \<open>A session\<close>

text \<open>
  The SSH library between the two: the keys are offered first, then keyboard-interactive authentication is
  tried once; a challenge goes to the callback of the client, and if that aborts the connection is lost.
  The state of the other side is the list of challenges so far. \<open>failed\<close> is the error of the client's
  handshake when no method succeeds.
\<close>

definition client_answers ::
    "(server_event \<Rightarrow> auth_trace \<Rightarrow> auth_trace \<times> reply) \<Rightarrow> auth_trace \<Rightarrow> string \<Rightarrow> string list \<Rightarrow> bool list \<Rightarrow> server_event list
      \<Rightarrow> server_event list \<times> (goerr + string list)" where
  "client_answers client t0 instruction questions echos evs =
     (let ev = Challenge instruction questions echos in
      (evs @ [ev], case snd (client ev (fst (run_callbacks client evs t0))) of
         Answer answers \<Rightarrow> Inr answers | Proceed \<Rightarrow> Inr [] | Abort _ \<Rightarrow> Inl (ErrText ''EOF'')))"

definition mock_session ::
    "mock_config \<Rightarrow> string \<Rightarrow> string list \<Rightarrow> goerr \<Rightarrow> (server_event \<Rightarrow> auth_trace \<Rightarrow> auth_trace \<times> reply) \<Rightarrow> auth_trace \<Rightarrow> bool
      \<Rightarrow> bool \<times> handshake_env" where
  "mock_session cfg user keys failed client t0 unlocked =
     (if list_ex (\<lambda>key. PublicKeyCallback cfg unlocked user key = None) keys then
        (unlocked, \<lparr>hs_dial = None, hs_events = [], hs_conn = None, hs_ctx = None\<rparr>)
      else case KeyboardInteractiveCallback cfg user (client_answers client t0) unlocked [] of
        (unlocked', evs, result) \<Rightarrow>
          (unlocked', \<lparr>hs_dial = None, hs_events = evs, hs_conn = (if result = None then None else Some failed), hs_ctx = None\<rparr>))"

definition mock_unlock :: "unicode_db \<Rightarrow> mock_config \<Rightarrow> string \<Rightarrow> string list \<Rightarrow> goerr \<Rightarrow> bool \<Rightarrow> string \<Rightarrow> string \<Rightarrow> bool \<times> handshake_env" where
  "mock_unlock db cfg user keys failed unlocked password successMsg =
     mock_session cfg user keys failed (clientConfig db password successMsg True) (new_trace (Some False)) unlocked"

definition mock_probe :: "unicode_db \<Rightarrow> mock_config \<Rightarrow> string \<Rightarrow> string list \<Rightarrow> goerr \<Rightarrow> bool \<Rightarrow> bool \<times> handshake_env" where
  "mock_probe db cfg user keys failed unlocked =
     mock_session cfg user keys failed (clientConfig db [] [] False) (new_trace None) unlocked"

lemma locked_refuses_keys: "\<not> list_ex (\<lambda>key. PublicKeyCallback cfg False user key = None) keys"
  by (induction keys) (simp_all add: PublicKeyCallback_def)

lemmas session_defs = mock_session_def mock_unlock_def mock_probe_def KeyboardInteractiveCallback_def client_answers_def
  locked_refuses_keys clientConfig_def kbd_callback_def recordPasswordPrompt_def recordResponseText_def addText_def new_trace_def
  mock_prompt prompt_text_def Let_def

lemma mock_unlock_locked:
  assumes "\<not> wrong_user cfg user" "mcSuccessBanner cfg = defaultSuccessBanner" "ascii_db db"
    "\<not> isHostKeyError failed" "dialError failed = None"
  shows "AnalyzePrompt db (snd (mock_unlock db cfg user keys failed False password successMsg)) host password successMsg
      = ((if password = mcPassword cfg then StatusUnlocked else StatusLocked,
          prompt_text (mcLockedBanner cfg) @ (if password = mcPassword cfg then defaultSuccessBanner @ [CHR 0x0A] else []),
          if password = mcPassword cfg then None else Some (Sentinel ErrAuthFailed)),
         Answer [password] # (if password = mcPassword cfg then [Abort (Sentinel ErrUnlockSucceeded)] else []))"
    and "fst (mock_unlock db cfg user keys failed False password successMsg) = (mcTransition cfg \<and> password = mcPassword cfg)"
proof -
  have s: "defaultSuccessBanner \<noteq> []" by (simp add: defaultSuccessBanner_def)
  note d = default_success_seen [OF assms(3), of successMsg]
  show "AnalyzePrompt db (snd (mock_unlock db cfg user keys failed False password successMsg)) host password successMsg
      = ((if password = mcPassword cfg then StatusUnlocked else StatusLocked,
          prompt_text (mcLockedBanner cfg) @ (if password = mcPassword cfg then defaultSuccessBanner @ [CHR 0x0A] else []),
          if password = mcPassword cfg then None else Some (Sentinel ErrAuthFailed)),
         Answer [password] # (if password = mcPassword cfg then [Abort (Sentinel ErrUnlockSucceeded)] else []))"
    using assms s d by (auto simp: session_defs AnalyzePrompt_def handshake_def classifyHandshakeErr_def)
  show "fst (mock_unlock db cfg user keys failed False password successMsg) = (mcTransition cfg \<and> password = mcPassword cfg)"
    using assms s d by (auto simp: session_defs)
qed

lemma mock_probe_no_key:
  assumes "\<not> wrong_user cfg user" "\<not> isHostKeyError failed" "dialError failed = None"
    "\<not> list_ex (\<lambda>key. PublicKeyCallback cfg unlocked user key = None) keys"
  shows "ProbeStatus db (snd (mock_probe db cfg user keys failed unlocked)) host
      = (let text = prompt_text (if unlocked then [] else mcLockedBanner cfg) in
         (if lockedSeen db text then (StatusLocked, text, None) else (StatusUnknown, text, Some (Sentinel ErrIndeterminate)),
          [Abort (Sentinel ErrStatusProbe)]))"
    and "fst (mock_probe db cfg user keys failed unlocked) = unlocked"
  using assms by (auto simp: session_defs ProbeStatus_def handshake_def)


definition demo_mock :: mock_config where
  "demo_mock = fst (serverConfig (mock_defaults\<lparr>mfTransition := True\<rparr>) ''secret'' (Some ''key''))"


section \<open>Starting\<close>

text \<open>
  The mock serves others than this machine only with a password that somebody chose, never with an empty
  one, and starts in the state that was asked for.
\<close>

lemma mock_main_guarded:
  assumes "mock_main db loopback getenv secret keyfile hostKey listen flags = Inr (addr, cfg, unlocked)"
  shows "(isLoopbackBind db loopback (mfBind flags) \<or> passwordWasConfigured getenv flags) \<and> mcPassword cfg \<noteq> []
    \<and> unlocked = (mfState flags = ''unlocked'') \<and> mfState flags \<in> {''locked'', ''unlocked''}"
  using assms
  by (auto simp: mock_main_def serverConfig_def resolvePassword_def Let_def split: if_splits sum.splits option.splits)

text \<open>A secret that is returned came from a file that was regular, private and small when it was looked at.\<close>

lemma readSecretFile_private:
  assumes "readSecretFile env path = Inr data"
  shows "\<exists>n. se_lstat env = Inr n \<and> ikind n = RegularFile \<and> iperm n mod 64 = 0 \<and> length data \<le> maxSecretFileSize"
  using assms by (auto simp: readSecretFile_def Let_def split: sum.splits option.splits if_splits)

text \<open>
  A host key file that this process created is gone again if the key was not stored completely; a key that
  is returned after creating the file is the one that was stored.
\<close>

lemma host_key_created:
  assumes "loadOrGenerateHostKey turns path = Some (actions, result)" "Created \<in> set actions"
  shows "(\<exists>pem. actions = [Created, Wrote pem]) \<or> last actions = Removed \<and> (\<exists>err. result = Inl err)"
  using assms
proof (induction turns)
  case (Cons turn turns)
  then show ?case
    by (auto simp: load_existing_def write_host_key_def split: sum.splits if_splits option.splits created.splits)
qed simp

end
