(* ===== verification/Reports.thy ===== *)
theory Reports
  imports Commands Dashboard Daemon_Run
begin

text \<open>
  What the program shows and how requests reach their handlers: the routes of the control API with its
  read-only handlers (\<open>daemon.go\<close>), the commands \<open>config list\<close> and \<open>config show\<close> (\<open>main.go\<close>), \<open>tui\<close> (\<open>tui.go\<close>),
  \<open>credentials providers\<close> (\<open>credentials.go\<close>), \<open>discover\<close>, the rows of \<open>scan\<close>, the sponsor footer and the logger. A
  table is the list of its rows; the width of columns is not represented.
\<close>

section \<open>The control API\<close>

datatype api_route =
    RouteHealth | RouteDevices | RouteCandidates
  | RoutePoll string | RouteClearLatch string
  | RouteIgnore string | RouteRestore string | RouteEnroll string

text \<open>
  \<open>http.ServeMux\<close>: a path that is not clean is answered with a redirect, which is \<open>None\<close> here like a path
  that no pattern matches; the elements of a path are unescaped one by one, and a wildcard of one element
  does not match the element that unescapes to a slash, which the router takes for a trailing one. A pattern
  for \<open>GET\<close> also takes \<open>HEAD\<close>.
\<close>

definition cleanPath :: "string \<Rightarrow> string" where
  "cleanPath p =
     (let p1 = (if p = [] \<or> hd p \<noteq> slash then slash # p else p); np = Clean p1 in
      if last p1 = slash \<and> np \<noteq> ''/'' then np @ ''/'' else np)"

definition routes :: "string \<Rightarrow> string \<Rightarrow> api_route option" where
  "routes verb path =
     (if cleanPath path \<noteq> path then None
      else case map path_unescape (Split1 path slash) of
        [_, v, a] \<Rightarrow>
          if v \<noteq> ''v1'' \<or> verb \<notin> {''GET'', ''HEAD''} then None
          else if a = ''health'' then Some RouteHealth
          else if a = ''devices'' then Some RouteDevices
          else if a = ''candidates'' then Some RouteCandidates
          else None
      | [_, v, a, x, b] \<Rightarrow>
          if v \<noteq> ''v1'' \<or> verb \<noteq> ''POST'' \<or> x = ''/'' then None
          else if a = ''devices'' \<and> b = ''poll'' then Some (RoutePoll x)
          else if a = ''devices'' \<and> b = ''clear-latch'' then Some (RouteClearLatch x)
          else if a = ''candidates'' \<and> b = ''ignore'' then Some (RouteIgnore x)
          else if a = ''candidates'' \<and> b = ''restore'' then Some (RouteRestore x)
          else if a = ''candidates'' \<and> b = ''enroll'' then Some (RouteEnroll x)
          else None
      | _ \<Rightarrow> None)"

definition handleHealth :: health_response where
  "handleHealth = \<lparr>heSchema = controlAPISchemaVersion, heOK = True\<rparr>"

definition handleDevices :: "engine \<Rightarrow> int \<times> snapshot" where
  "handleDevices e = (controlAPISchemaVersion, fst (Snapshot_engine e))"

definition handleCandidates :: "time \<Rightarrow> inbox \<Rightarrow> int \<times> cand_snapshot" where
  "handleCandidates now b = (controlAPISchemaVersion, Snapshot_inbox now b)"

section \<open>Commands\<close>

definition list_row :: "unicode_db \<Rightarrow> cdevice \<Rightarrow> string list" where
  "list_row db d =
     [terminalSafeInline db (cName d), terminalSafeInline db (deviceEndpoint d), terminalSafeInline db (cUser d),
      credentialSourceLabel db d, if cAutoUnlock d then ''automatic'' else ''manual'']"

text \<open>\<open>dir\<close> is the error of the configuration path.\<close>

definition config_list :: "unicode_db \<Rightarrow> goerr option \<Rightarrow> config_env \<Rightarrow> goerr + string list list" where
  "config_list db dir load =
     (case dir of
        Some err \<Rightarrow> Inl err
      | None \<Rightarrow> (case Store_Load db load of Inl err \<Rightarrow> Inl err | Inr devs \<Rightarrow> Inr (map (list_row db) devs)))"

definition config_show :: "unicode_db \<Rightarrow> goerr option \<Rightarrow> config_env \<Rightarrow> string \<Rightarrow> goerr + string list" where
  "config_show db dir load name =
     (case dir of
        Some err \<Rightarrow> Inl err
      | None \<Rightarrow>
        (case Store_Load db load of
           Inl err \<Rightarrow> Inl err
         | Inr devs \<Rightarrow>
           (case List.find (\<lambda>d. cName d = name) devs of
              None \<Rightarrow> Inl (ErrText (''device not found: '' @ name))
            | Some d \<Rightarrow>
              Inr [terminalSafeInline db (cName d), terminalSafeInline db (deviceEndpoint d), terminalSafeInline db (cUser d),
                credentialSourceLabel db d, if cAutoUnlock d then ''true'' else ''false''])))"

record tui_flags =
  tfSocket :: string
  tfRefresh :: duration
  tfOnce :: bool
  tfJSON :: bool

datatype tui_start = TuiSnapshot dashboard | TuiInteractive string

text \<open>\<open>fetch socket\<close> is the dashboard that the daemon behind the socket gives.\<close>

definition tui_command ::
    "(string \<Rightarrow> string) \<Rightarrow> goerr + string \<Rightarrow> (string \<Rightarrow> goerr + dashboard) \<Rightarrow> tui_flags \<Rightarrow> goerr + tui_start" where
  "tui_command getenv dataDir fetch flags =
     (case socket_flag getenv dataDir (tfSocket flags) of
        Inl err \<Rightarrow> Inl err
      | Inr socket \<Rightarrow>
        if tfRefresh flags \<le> 0 then Inl (ErrText ''--refresh must be greater than zero'')
        else if tfOnce flags \<or> tfJSON flags then map_sum id TuiSnapshot (fetch socket)
        else Inr (TuiInteractive socket))"

definition yesNo :: "bool \<Rightarrow> string" where
  "yesNo b = (if b then ''yes'' else ''no'')"

fun security_text :: "security_class \<Rightarrow> string" where
  "security_text SecuritySecure = ''secure''"
| "security_text SecurityConditional = ''conditional''"
| "security_text SecurityRuntimeOnly = ''runtime-only''"
| "security_text SecurityUnavailable = ''unavailable''"

definition writeProviderReports :: "unicode_db \<Rightarrow> provider_report list \<Rightarrow> string list list" where
  "writeProviderReports db reports =
     map (\<lambda>r. [rpName r, yesNo (rpBuilt r), yesNo (rpAvailable r), yesNo (rpPersistent r), security_text (rpSecurity r),
        terminalSafeInline db (rpDetails r)]) reports"

definition providers_command :: "unicode_db \<Rightarrow> cred_env \<Rightarrow> bool \<Rightarrow> string list list \<times> goerr option" where
  "providers_command db env requireSecure =
     (let registry = NewRegistry False in
      (writeProviderReports db (Reports env registry),
       if requireSecure \<and> \<not> HasSecureStorage env registry then
         Some (ErrText ''no verified secure persistent credential provider or delivery mechanism is available'')
       else None))"

text \<open>\<open>rounds\<close> are the browse rounds within the timeout, which the command makes sure is positive.\<close>

definition discoverDevices ::
    "unicode_db \<Rightarrow> goerr + net_iface list \<Rightarrow> browse_round list \<Rightarrow> string \<Rightarrow> goerr + (string \<times> string \<times> string \<times> string) list" where
  "discoverDevices db ifaces rounds iface =
     (if iface \<noteq> [] \<and> lanInterfaces ifaces iface = [] then Inl (ErrText (''interface '' @ Quote db iface @ '' not found''))
      else case collectBonjourDevices db rounds of
        Inl err \<Rightarrow> Inl err
      | Inr (found, _) \<Rightarrow> Inr (printDevices db found))"

definition discover_command ::
    "unicode_db \<Rightarrow> goerr + net_iface list \<Rightarrow> browse_round list \<Rightarrow> duration \<Rightarrow> string
      \<Rightarrow> goerr + (string \<times> string \<times> string \<times> string) list" where
  "discover_command db ifaces rounds timeout iface =
     (if timeout \<le> 0 then Inl (ErrText ''--timeout must be greater than zero'')
      else discoverDevices db ifaces rounds iface)"

definition finding_rows :: "unicode_db \<Rightarrow> bool \<Rightarrow> scan_finding \<Rightarrow> string list list" where
  "finding_rows db verbose f =
     [[ip4_text (sfAddress f), terminalSafeInline db (if sfVersion f = [] then ''-'' else sfVersion f),
       terminalSafeInline db (sfMatch f), sfEvidence f]]
     @ (if sfFingerprint f \<noteq> [] then [[''host key'', terminalSafeInline db (sfKeyType f), terminalSafeInline db (sfFingerprint f)]] else [])
     @ (if verbose \<and> sfDetail f \<noteq> [] then [[''handshake'', terminalSafeInline db (sfDetail f)]] else [])"

definition printScanFindings :: "unicode_db \<Rightarrow> bool \<Rightarrow> scan_finding list \<Rightarrow> string list list" where
  "printScanFindings db verbose findings = concat (map (finding_rows db verbose) findings)"

text \<open>\<open>net\<close> is what answers at the addresses to a probe with the user of the command.\<close>

definition scan_command ::
    "unicode_db \<Rightarrow> (string \<Rightarrow> goerr) \<Rightarrow> (nat \<Rightarrow> scan_server option) \<Rightarrow> goerr + string list gomap \<Rightarrow> goerr option
      \<Rightarrow> string list \<Rightarrow> int \<Rightarrow> duration \<Rightarrow> int \<Rightarrow> string \<Rightarrow> bool \<Rightarrow> goerr + string list list" where
  "scan_command db perr net pinned ctxErr cidrs port timeout concurrency user verbose =
     (case scan_options_err cidrs port timeout concurrency user of
        Some err \<Rightarrow> Inl err
      | None \<Rightarrow>
        (case expandScanCIDRs db perr cidrs of
           Inl err \<Rightarrow> Inl err
         | Inr addresses \<Rightarrow>
           (case pinned of
              Inl err \<Rightarrow> Inl (errorf ''load pinned target fingerprints'' err)
            | Inr names \<Rightarrow>
              map_sum id (printScanFindings db verbose) (collectActiveScan db net port names ctxErr addresses))))"

section \<open>Footer and logger\<close>

text \<open>
  A command for the footer: its annotation, the flag \<open>json\<close> (\<open>None\<close> if it has none) and the flag \<open>once\<close>, each with
  the error of reading it as a \<open>bool\<close>.
\<close>

record footer_command =
  fcMode :: string
  fcJSON :: "(goerr + bool) option"
  fcOnce :: "goerr + bool"

definition shouldPrintSponsorFooter :: "footer_command option \<Rightarrow> bool \<Rightarrow> bool" where
  "shouldPrintSponsorFooter cmd outputIsTerminal =
     (case cmd of
        None \<Rightarrow> False
      | Some c \<Rightarrow>
        outputIsTerminal \<and> fcMode c \<noteq> []
        \<and> (fcJSON c = None \<or> fcJSON c = Some (Inr False))
        \<and> (if fcMode c = ''interactive-tui'' then fcOnce c = Inr False else fcMode c = ''human''))"

text \<open>The logger cleans every text and every error once more; numbers are left.\<close>

datatype log_value = LogText string | LogError goerr | LogOther string

definition replace_attr :: "unicode_db \<Rightarrow> log_value \<Rightarrow> log_value" where
  "replace_attr db v =
     (case v of
        LogText s \<Rightarrow> LogText (terminalSafeInline db s)
      | LogError err \<Rightarrow> LogText (terminalSafeError db (Some err))
      | LogOther s \<Rightarrow> LogOther s)"

end
