(* ===== verification/Reports_Facts.thy ===== *)
theory Reports_Facts
  imports Reports Dashboard_Facts
begin

text \<open>
  The dashboard and the daemon fit together: a request reaches the handler it is meant for, the snapshots of
  the daemon are understood, and what is printed carries no control characters.
\<close>

section \<open>Routes\<close>

text \<open>The device or candidate of a request, its action, and the handler it is meant for.\<close>

fun request_target :: "tui_request \<Rightarrow> string" where
  "request_target (ReqEnroll cid _) = cid"
| "request_target (ReqCandidate cid _) = cid"
| "request_target (ReqDevice name _) = name"

fun intended_route :: "tui_request \<Rightarrow> api_route option" where
  "intended_route (ReqEnroll cid _) = Some (RouteEnroll cid)"
| "intended_route (ReqCandidate cid action) =
     (if action = ''ignore'' then Some (RouteIgnore cid) else if action = ''restore'' then Some (RouteRestore cid) else None)"
| "intended_route (ReqDevice name action) =
     (if action = ''poll'' then Some (RoutePoll name) else if action = ''clear-latch'' then Some (RouteClearLatch name) else None)"

abbreviation four :: "string \<Rightarrow> string \<Rightarrow> string \<Rightarrow> string \<Rightarrow> string" where
  "four v a x b \<equiv> slash # v @ slash # a @ slash # x @ slash # b"

lemma Split1_four: "slash \<notin> set v \<union> set a \<union> set x \<union> set b \<Longrightarrow> Split1 (four v a x b) slash = [[], v, a, x, b]"
  by (simp add: Split1_append Split1_single)

lemma Clean_four:
  assumes "\<forall>e \<in> {v, a, b}. plain_elem e \<and> e \<noteq> ''..''" "slash \<notin> set x"
  shows "Clean (four v a x b) = (if x = [] \<or> x = ''.'' then slash # v @ slash # a @ slash # b
     else if x = ''..'' then slash # v @ slash # b else four v a x b)"
proof -
  have "Split1 (four v a x b) slash = [[], v, a, x, b]" using assms by (intro Split1_four) (auto simp: plain_elem_def)
  moreover have "IsAbs (four v a x b)" by (simp add: IsAbs_def HasPrefix_def)
  ultimately have c: "Clean (four v a x b) = slash # Join (clean_parts True [] [[], v, a, x, b]) ''/''"
    unfolding Clean_def Let_def by simp
  show ?thesis using assms(1) unfolding c plain_elem_def by simp
qed

lemma cleanPath_four: "b \<noteq> [] \<Longrightarrow> slash \<notin> set b \<Longrightarrow> cleanPath (four v a x b) = Clean (four v a x b)"
proof -
  assume b: "b \<noteq> []" "slash \<notin> set b"
  then have "last b \<noteq> slash" using last_in_set by metis
  moreover have "last (four v a x b) = last b" using b(1) by simp
  ultimately show ?thesis unfolding cleanPath_def Let_def by simp
qed

lemma PathEscape_plain:
  assumes "name \<notin> {[], ''.'', ''..''}"
  shows "plain_elem (PathEscape name)" "PathEscape name \<noteq> ''..''"
proof -
  have u: "PathEscape name = s \<Longrightarrow> name = path_unescape s" for s by (metis path_unescape_escape)
  have "path_unescape [] = []" "path_unescape ''.'' = ''.''" "path_unescape ''..'' = ''..''" by simp_all
  with u assms show "plain_elem (PathEscape name)" "PathEscape name \<noteq> ''..''"
    using PathEscape_no_slash by (auto simp: plain_elem_def)
qed

definition route_words :: "string list" where
  "route_words = [''v1'', ''devices'', ''candidates'', ''poll'', ''clear-latch'', ''ignore'', ''restore'', ''enroll'']"

lemma route_words_plain: "w \<in> set route_words \<Longrightarrow> plain_elem w \<and> w \<noteq> ''..'' \<and> path_unescape w = w"
proof -
  have "list_all (\<lambda>w. plain_elem w \<and> w \<noteq> ''..'' \<and> path_unescape w = w) route_words"
    by (simp add: route_words_def plain_elem_def)
  then show "w \<in> set route_words \<Longrightarrow> plain_elem w \<and> w \<noteq> ''..'' \<and> path_unescape w = w" by (auto simp: list_all_iff)
qed

text \<open>What the router sees of an endpoint for \<open>name\<close>.\<close>

lemma routes_four:
  assumes "name \<noteq> []" "a \<in> set route_words" "b \<in> set route_words"
  shows "cleanPath (four ''v1'' a (PathEscape name) b) = four ''v1'' a (PathEscape name) b \<longleftrightarrow> name \<notin> {''.'', ''..''}"
    and "map path_unescape (Split1 (four ''v1'' a (PathEscape name) b) slash) = [[], ''v1'', a, name, b]"
proof -
  have v: "''v1'' \<in> set route_words" by (simp add: route_words_def)
  note w = route_words_plain [OF v] route_words_plain [OF assms(2)] route_words_plain [OF assms(3)]
  have ns: "slash \<notin> set (PathEscape name)" by (rule PathEscape_no_slash)
  have "Split1 (four ''v1'' a (PathEscape name) b) slash = [[], ''v1'', a, PathEscape name, b]"
    using w ns by (intro Split1_four) (auto simp only: plain_elem_def Un_iff)
  then show "map path_unescape (Split1 (four ''v1'' a (PathEscape name) b) slash) = [[], ''v1'', a, name, b]"
    using w by (simp only: list.map path_unescape_escape path_unescape.simps(1))
  have "cleanPath (four ''v1'' a (PathEscape name) b) = Clean (four ''v1'' a (PathEscape name) b)"
    using w(3) by (intro cleanPath_four) (simp_all only: plain_elem_def not_False_eq_True)
  moreover have "PathEscape ''.'' = ''.''" "PathEscape ''..'' = ''..''" by code_simp+
  moreover have "Clean (four ''v1'' a (PathEscape name) b) = (if PathEscape name = [] \<or> PathEscape name = ''.'' then slash # ''v1'' @ slash # a @ slash # b
     else if PathEscape name = ''..'' then slash # ''v1'' @ slash # b else four ''v1'' a (PathEscape name) b)"
    using w ns by (intro Clean_four) (simp_all only: ball_simps simp_thms)
  moreover note PathEscape_plain [of name]
  ultimately show "cleanPath (four ''v1'' a (PathEscape name) b) = four ''v1'' a (PathEscape name) b \<longleftrightarrow> name \<notin> {''.'', ''..''}"
    using assms(1) by (cases "name \<in> {''.'', ''..''}") (auto simp: plain_elem_def)
qed

lemma routes_target:
  assumes "name \<noteq> []" "a \<in> set route_words" "b \<in> set route_words"
  shows "routes ''POST'' (four ''v1'' a (PathEscape name) b) =
    (if name \<in> {''.'', ''..'', ''/''} then None
     else if a = ''devices'' \<and> b = ''poll'' then Some (RoutePoll name)
     else if a = ''devices'' \<and> b = ''clear-latch'' then Some (RouteClearLatch name)
     else if a = ''candidates'' \<and> b = ''ignore'' then Some (RouteIgnore name)
     else if a = ''candidates'' \<and> b = ''restore'' then Some (RouteRestore name)
     else if a = ''candidates'' \<and> b = ''enroll'' then Some (RouteEnroll name)
     else None)"
  using routes_four(1) [OF assms] unfolding routes_def routes_four(2) [OF assms] by simp



text \<open>Both are valid names.\<close>

lemma dots_name_valid: "ascii_db db \<Longrightarrow> name \<in> {''..'', ''/''} \<Longrightarrow> validatePlain db ''name'' name 128 = None"
  by (auto simp: validatePlain_def TrimSpace_def is_space_def runes_ascii ascii_db_def is_control_def runes_def)

section \<open>Snapshots\<close>

text \<open>The daemon and the clients of this version speak the same schema.\<close>

lemma dashboard_of_daemon:
  "fetchDashboard (Inr (handleDevices e)) (Inr (handleCandidates now b))
     = Inr \<lparr>dbDevices = fst (Snapshot_engine e), dbCandidates = Snapshot_inbox now b\<rparr>"
  by (simp add: fetchDashboard_def handleDevices_def handleCandidates_def checkControlSchema_def)

lemma health_of_daemon:
  "socket_flag getenv dataDir flag = Inr socket \<Longrightarrow> 0 < timeout \<Longrightarrow>
     healthcheck getenv dataDir (\<lambda>_. Inr handleHealth) flag timeout = None"
  by (simp add: healthcheck_def handleHealth_def checkControlSchema_def)

section \<open>What is printed\<close>

lemma list_row_safe:
  assumes "ascii_db db"
  shows "list_all (safe_text db False) (list_row db d)"
proof -
  note inline = inline_safe [OF assms]
  have word: "safe_text db False s" if "list_all (\<lambda>c. 32 \<le> byte c \<and> byte c < 127) s" for s
    using literal_safe [OF assms that] .
  have "safe_text db False ''external file (''" "safe_text db False '')''" by (rule word, simp)+
  then have "safe_text db False (''external file ('' @ terminalSafeInline db s @ '')'')" for s
    by (intro safe_text_append inline)
  moreover have "safe_text db False ''OS keyring''" "safe_text db False ''runtime (environment or hidden prompt)''"
    "safe_text db False ''legacy runtime (environment or hidden prompt)''" "safe_text db False ''legacy OS keyring''"
    "safe_text db False ''automatic''" "safe_text db False ''manual''"
    by (rule word, simp)+
  ultimately show ?thesis by (simp only: list_row_def credentialSourceLabel_def list.pred_inject inline simp_thms split: if_split)
qed

text \<open>No text that reaches the log has a control character, whoever wrote the record.\<close>

lemma replace_attr_safe:
  "ascii_db db \<Longrightarrow> replace_attr db v = LogText s \<Longrightarrow> safe_text db False s"
  by (auto simp: replace_attr_def terminalSafeError_def inline_safe split: log_value.splits)

end
